(* ===== verification/Prelude.thy ===== *)
theory Prelude
  imports Main "HOL-Library.Monad_Syntax" "HOL-Library.Word"
begin

text \<open>
  Shared vocabulary of the development.

  The program is C++: a handler either completes, or it has undefined behaviour (it
  dereferences a freed object, a null message or an end iterator), or one of its loops never
  ends. A handler of the model is therefore a function into an \<open>option\<close>; \<open>None\<close> stands for
  undefined behaviour or divergence, \<open>Some\<close> for a normal return with the value and the new
  state. \<open>runs_to m Q\<close> is total correctness: \<open>m\<close> completes and its result satisfies \<open>Q\<close>.
\<close>

section \<open>Collections of facts\<close>

named_theorems wp
named_theorems ext_laws
named_theorems upd_simps

section \<open>Total correctness of computations that may be undefined\<close>

definition runs_to :: "'a option \<Rightarrow> ('a \<Rightarrow> bool) \<Rightarrow> bool" where
  "runs_to m Q \<longleftrightarrow> (\<exists>x. m = Some x \<and> Q x)"

lemma runs_to_Some [simp, wp]: "runs_to (Some x) Q \<longleftrightarrow> Q x"
  by (simp add: runs_to_def)

lemma runs_to_None [simp, wp]: "\<not> runs_to None Q"
  by (simp add: runs_to_def)

lemma runs_to_bind [simp, wp]: "runs_to (Option.bind m f) Q \<longleftrightarrow> runs_to m (\<lambda>x. runs_to (f x) Q)"
  by (cases m) (simp_all add: runs_to_def)

lemma runs_to_weaken: "runs_to m P \<Longrightarrow> (\<And>x. P x \<Longrightarrow> Q x) \<Longrightarrow> runs_to m Q"
  by (auto simp: runs_to_def)

lemma runs_toD: "runs_to m Q \<Longrightarrow> m = Some x \<Longrightarrow> Q x"
  by (simp add: runs_to_def)

lemma runs_toE: "runs_to m Q \<Longrightarrow> (\<And>x. m = Some x \<Longrightarrow> Q x \<Longrightarrow> P) \<Longrightarrow> P"
  by (auto simp: runs_to_def)

lemma runs_toI: "m = Some x \<Longrightarrow> Q x \<Longrightarrow> runs_to m Q"
  by (simp add: runs_to_def)

lemma runs_to_not_None: "runs_to m Q \<Longrightarrow> m \<noteq> None"
  by (auto simp: runs_to_def)

section \<open>Association lists\<close>

lemma map_of_Some_distinct:
  "distinct (map fst xs) \<Longrightarrow> (k, v) \<in> set xs \<Longrightarrow> map_of xs k = Some v"
  by simp

lemma map_of_filter_key: "map_of (filter (\<lambda>p. fst p \<noteq> k) xs) = (map_of xs)(k := None)"
  by (induction xs) (auto simp: fun_eq_iff)

lemma distinct_fst_filter: "distinct (map fst xs) \<Longrightarrow> distinct (map fst (filter P xs))"
  by (induction xs) auto

lemma distinct_snd_filter: "distinct (map snd xs) \<Longrightarrow> distinct (map snd (filter P xs))"
  by (induction xs) auto

section \<open>Stores of objects, an interface\<close>

locale object_store =
  fixes get :: "'s \<Rightarrow> nat \<Rightarrow> 'o option"
    and modify :: "nat \<Rightarrow> ('o \<Rightarrow> 'o) \<Rightarrow> 's \<Rightarrow> 's option"
    and alloc :: "'o \<Rightarrow> 's \<Rightarrow> nat \<times> 's"
    and free :: "nat \<Rightarrow> 's \<Rightarrow> 's"
    and fresh :: "'s \<Rightarrow> nat"
  assumes modify_live: "get s p = Some x \<Longrightarrow> \<exists>s'. modify p f s = Some s' \<and> get s' = (get s)(p \<mapsto> f x)"
    and modify_dead: "get s p = None \<Longrightarrow> modify p f s = None"
    and alloc_get: "alloc x s = (p, s') \<Longrightarrow> p = fresh s \<and> get s' = (get s)(p \<mapsto> x) \<and> fresh s' = Suc (fresh s)"
    and free_get: "get (free p s) = (get s)(p := None)"
begin

text \<open>A modification succeeds exactly on a live object, and touches no other object.\<close>

lemma modify_SomeD: "modify p f s = Some s' \<Longrightarrow> \<exists>x. get s p = Some x \<and> get s' = (get s)(p \<mapsto> f x)"
proof (cases "get s p")
  case None
  then show "modify p f s = Some s' \<Longrightarrow> ?thesis" by (simp add: modify_dead)
next
  case (Some x)
  then show "modify p f s = Some s' \<Longrightarrow> ?thesis" using modify_live[of s p x f] by auto
qed

lemma modify_iff: "(\<exists>s'. modify p f s = Some s') \<longleftrightarrow> get s p \<noteq> None"
  using modify_SomeD[of p f s] modify_live[of s p _ f] by blast

lemma modify_frame: "modify p f s = Some s' \<Longrightarrow> q \<noteq> p \<Longrightarrow> get s' q = get s q"
  using modify_SomeD by fastforce

lemma modify_result: "modify p f s = Some s' \<Longrightarrow> get s' p = map_option f (get s p)"
  using modify_SomeD by fastforce

text \<open>Use after free is undefined, and stays so whatever is allocated later.\<close>

lemma use_after_free: "modify p f (free p s) = None"
  by (rule modify_dead) (simp add: free_get)

lemma alloc_not_stale:
  assumes "p < fresh s" "alloc x (free p s) = (q, s')" "fresh (free p s) = fresh s"
  shows "get s' p = None"
  using alloc_get[OF assms(2)] assms(1,3) by (auto simp: free_get)

end

section \<open>Numbers as a stream writes them\<close>

fun decimal :: "nat \<Rightarrow> string" where
  "decimal n = (if n < 10 then [] else decimal (n div 10)) @ [char_of (48 + n mod 10)]"

declare decimal.simps [simp del]

end
