(* ===== verification/Cluster.thy ===== *)
theory Cluster
  imports Prelude
begin

unbundle bit_operations_syntax

text \<open>
  The wire vocabulary of the cluster, liblhcluster/include/lhcluster/lhcluster/cluster.h:
  request types and identifiers at their widths, the enumerations with the values that
  \<open>static_cast\<close> puts on the wire, the protocol version with its comparison operators, and
  the message flags with \<open>hasAny\<close> and \<open>hasAll\<close>.
\<close>

section \<open>Scalars\<close>

type_synonym RequestType = "32 word"
type_synonym RequestId = "64 word"
type_synonym MessageFlags = "64 word"

text \<open>\<open>time_t\<close> and \<open>std::chrono::seconds\<close> are 64-bit counts of seconds.\<close>

type_synonym time_t = int
type_synonym Delay = int

section \<open>Enumerations\<close>

datatype RequestStatus =
    RS_None | RS_New | RS_InProgress | RS_Succeeded | RS_Failed | RS_FatalError
  | RS_Rejected | RS_WorkerDeath | RS_Redirected

fun RequestStatus_value :: "RequestStatus \<Rightarrow> 32 word" where
  "RequestStatus_value RS_None = 0"
| "RequestStatus_value RS_New = 1"
| "RequestStatus_value RS_InProgress = 2"
| "RequestStatus_value RS_Succeeded = 3"
| "RequestStatus_value RS_Failed = 4"
| "RequestStatus_value RS_FatalError = 5"
| "RequestStatus_value RS_Rejected = 6"
| "RequestStatus_value RS_WorkerDeath = 7"
| "RequestStatus_value RS_Redirected = 8"

datatype ClusterMessage =
    CM_None | WorkerHeartbeat | WorkerReady | WorkerFinished | WorkerReceipt
  | BrokerHeartbeat | BrokerNewRequest | BrokerResponse | BrokerSentReceipt
  | BrokerReceivedReceipt | BrokerShuttingDown | ClientHeartbeat | ClientNewRequest

fun ClusterMessage_value :: "ClusterMessage \<Rightarrow> 32 word" where
  "ClusterMessage_value CM_None = 0"
| "ClusterMessage_value WorkerHeartbeat = 1"
| "ClusterMessage_value WorkerReady = 2"
| "ClusterMessage_value WorkerFinished = 3"
| "ClusterMessage_value WorkerReceipt = 4"
| "ClusterMessage_value BrokerHeartbeat = 5"
| "ClusterMessage_value BrokerNewRequest = 6"
| "ClusterMessage_value BrokerResponse = 7"
| "ClusterMessage_value BrokerSentReceipt = 8"
| "ClusterMessage_value BrokerReceivedReceipt = 9"
| "ClusterMessage_value BrokerShuttingDown = 10"
| "ClusterMessage_value ClientHeartbeat = 11"
| "ClusterMessage_value ClientNewRequest = 12"

lemma RequestStatus_value_inj: "RequestStatus_value a = RequestStatus_value b \<Longrightarrow> a = b"
  by (cases a; cases b) simp_all

lemma ClusterMessage_value_inj: "ClusterMessage_value a = ClusterMessage_value b \<Longrightarrow> a = b"
  by (cases a; cases b) simp_all

lemma ClusterMessage_value_eq [simp]: "ClusterMessage_value a = ClusterMessage_value b \<longleftrightarrow> a = b"
  using ClusterMessage_value_inj by blast

section \<open>Protocol version\<close>

datatype LHCVersion = LHCVersion (lhcmajor: "16 word") (lhcminor: "16 word")

definition LHCVersion_default :: LHCVersion where
  "LHCVersion_default = LHCVersion 0 1"

definition LHCVersion_lt :: "LHCVersion \<Rightarrow> LHCVersion \<Rightarrow> bool" where
  "LHCVersion_lt a b \<longleftrightarrow> lhcmajor a < lhcmajor b \<or> (lhcmajor a = lhcmajor b \<and> lhcminor a < lhcminor b)"

definition LHCVersion_le :: "LHCVersion \<Rightarrow> LHCVersion \<Rightarrow> bool" where
  "LHCVersion_le a b \<longleftrightarrow> lhcmajor a < lhcmajor b \<or>
     (lhcmajor a = lhcmajor b \<and> (lhcminor a = lhcminor b \<or> lhcminor a < lhcminor b))"

text \<open>With \<open>operator<\<close> and \<open>operator<=\<close> as its relations the type is linearly ordered.\<close>

instantiation LHCVersion :: linorder
begin

definition less_LHCVersion :: "LHCVersion \<Rightarrow> LHCVersion \<Rightarrow> bool" where
  "a < b \<longleftrightarrow> LHCVersion_lt a b"

definition less_eq_LHCVersion :: "LHCVersion \<Rightarrow> LHCVersion \<Rightarrow> bool" where
  "a \<le> b \<longleftrightarrow> LHCVersion_le a b"

instance
  by standard (auto simp: less_LHCVersion_def less_eq_LHCVersion_def LHCVersion_lt_def LHCVersion_le_def
      intro: LHCVersion.expand)

end

lemmas LHCVersion_order = less_LHCVersion_def LHCVersion_lt_def less_eq_LHCVersion_def LHCVersion_le_def

text \<open>\<open>operator>\<close> and \<open>operator>=\<close>, which the header spells out on their own.\<close>

definition LHCVersion_gt :: "LHCVersion \<Rightarrow> LHCVersion \<Rightarrow> bool" where
  "LHCVersion_gt a b \<longleftrightarrow> lhcmajor a > lhcmajor b \<or> (lhcmajor a = lhcmajor b \<and> lhcminor a > lhcminor b)"

definition LHCVersion_ge :: "LHCVersion \<Rightarrow> LHCVersion \<Rightarrow> bool" where
  "LHCVersion_ge a b \<longleftrightarrow> lhcmajor a > lhcmajor b \<or>
     (lhcmajor a = lhcmajor b \<and> (lhcminor a = lhcminor b \<or> lhcminor a > lhcminor b))"

section \<open>Message flags\<close>

definition MF_None :: MessageFlags where "MF_None = 0x0000000000000000"
definition MF_Broker :: MessageFlags where "MF_Broker = 0x8000000000000000"
definition Asynchronous :: MessageFlags where "Asynchronous = 0x0000000000000001"
definition ReceiptOnReceive :: MessageFlags where "ReceiptOnReceive = 0x0000000000000002"
definition ReceiptOnSend :: MessageFlags where "ReceiptOnSend = 0x0000000000000004"
definition NotifyOnDeath :: MessageFlags where "NotifyOnDeath = 0x0000000000000008"
definition RetryOnDeath :: MessageFlags where "RetryOnDeath = 0x0000000000000010"
definition AllowRedirect :: MessageFlags where "AllowRedirect = 0x0000000000000020"
definition NotifyOnRedirect :: MessageFlags where "NotifyOnRedirect = 0x0000000000000040"

lemmas flag_defs = MF_None_def MF_Broker_def Asynchronous_def ReceiptOnReceive_def
  ReceiptOnSend_def NotifyOnDeath_def RetryOnDeath_def AllowRedirect_def NotifyOnRedirect_def

datatype LHCVersionFlags = LHCVersionFlags (version: LHCVersion) (flags: MessageFlags)

definition LHCVersionFlags_default :: LHCVersionFlags where
  "LHCVersionFlags_default = LHCVersionFlags LHCVersion_default MF_None"

definition hasAny :: "LHCVersionFlags \<Rightarrow> MessageFlags \<Rightarrow> bool" where
  "hasAny v fs \<longleftrightarrow> flags v AND fs \<noteq> MF_None"

definition hasAll :: "LHCVersionFlags \<Rightarrow> MessageFlags \<Rightarrow> bool" where
  "hasAll v fs \<longleftrightarrow> flags v AND fs = fs"

lemma hasAny_or: "hasAny v (a OR b) \<longleftrightarrow> hasAny v a \<or> hasAny v b"
  by (auto simp: hasAny_def MF_None_def bit.conj_disj_distrib or_eq_0_iff)

text \<open>
  \<open>vfs.flags & ~ReceiptOnSend\<close>, the flags a request keeps once its sent receipt is out.
\<close>

definition minusReceiptOnSend :: "LHCVersionFlags \<Rightarrow> LHCVersionFlags" where
  "minusReceiptOnSend v = LHCVersionFlags (version v) (flags v AND NOT ReceiptOnSend)"

lemma minusReceiptOnSend_keeps:
  assumes "f \<in> {MF_Broker, Asynchronous, ReceiptOnReceive, NotifyOnDeath, RetryOnDeath,
    AllowRedirect, NotifyOnRedirect}"
  shows "hasAny (minusReceiptOnSend v) f \<longleftrightarrow> hasAny v f"
  using assms by (auto simp: hasAny_def minusReceiptOnSend_def flag_defs and.assoc)

lemma minusReceiptOnSend_clears: "\<not> hasAny (minusReceiptOnSend v) ReceiptOnSend"
  by (simp add: hasAny_def minusReceiptOnSend_def flag_defs and.assoc)

lemma minusReceiptOnSend_simps [simp]:
  "hasAny (minusReceiptOnSend v) NotifyOnDeath \<longleftrightarrow> hasAny v NotifyOnDeath"
  "hasAny (minusReceiptOnSend v) RetryOnDeath \<longleftrightarrow> hasAny v RetryOnDeath"
  "hasAny (minusReceiptOnSend v) AllowRedirect \<longleftrightarrow> hasAny v AllowRedirect"
  "hasAny (minusReceiptOnSend v) NotifyOnRedirect \<longleftrightarrow> hasAny v NotifyOnRedirect"
  by (simp_all add: minusReceiptOnSend_keeps)

end
