(* ===== verification/External.thy ===== *)
theory External
  imports Cluster
begin

text \<open>
  The code outside the repository, as one record of functions that every definition using it
  takes as an argument: CZMQ's multi-part messages (\<open>zmsg_t\<close>), sending on a socket, and the
  protobuf classes generated from liblhcluster/proto/zmqframetype.proto. Nothing here is
  defined; \<open>czmq_ok\<close>, \<open>send_ok\<close>, \<open>router_ok\<close> and \<open>protobuf_ok\<close> name the documented
  behaviour a theorem relies on, and \<open>ref_env\<close> is a concrete instance for the witnesses.

  A frame is its bytes and a message its frames in order. \<open>zmsg_frames\<close> is the sequence of
  frames that \<open>zmsg_first\<close> and repeated \<open>zmsg_next\<close> return until they return \<open>NULL\<close>.
\<close>

section \<open>The interface\<close>

type_synonym byte = "8 word"
type_synonym frame = "byte list"
type_synonym zmsg = "frame list"

datatype sock = Frontend | Backend | Processor

text \<open>One send: the socket, the message and the result code; a history lists the latest last.\<close>

type_synonym send_record = "sock \<times> zmsg \<times> int"

text \<open>The protobuf messages of zmqframetype.proto: the \<open>keep\<close> field and the values.\<close>

type_synonym pb_uint32 = "bool \<times> 32 word"
type_synonym pb_uint64 = "bool \<times> 64 word"
type_synonym pb_time = "bool \<times> time_t"
type_synonym pb_string = "bool \<times> byte list"
type_synonym pb_versionflags = "bool \<times> 32 word \<times> 32 word \<times> 64 word"

record env =
  zmsg_new :: zmsg
  zmsg_dup :: "zmsg \<Rightarrow> zmsg"
  zmsg_frames :: "zmsg \<Rightarrow> frame list"
  zmsg_size :: "zmsg \<Rightarrow> nat"
  zmsg_pop :: "zmsg \<Rightarrow> frame option \<times> zmsg"
  zmsg_append :: "zmsg \<Rightarrow> frame \<Rightarrow> zmsg"     \<comment> \<open>\<open>zmsg_append\<close>, \<open>zmsg_addmem\<close>\<close>
  zmsg_prepend :: "zmsg \<Rightarrow> frame \<Rightarrow> zmsg"    \<comment> \<open>\<open>zmsg_prepend\<close>, \<open>zmsg_pushmem\<close>\<close>
  zmsg_remove :: "zmsg \<Rightarrow> nat \<Rightarrow> zmsg"        \<comment> \<open>the frame the cursor is on, by its position\<close>
  zmsg_send :: "send_record list \<Rightarrow> sock \<Rightarrow> zmsg \<Rightarrow> int \<times> zmsg option"
  pb_parse_uint32 :: "frame \<Rightarrow> pb_uint32 option"
  pb_ser_uint32 :: "pb_uint32 \<Rightarrow> frame option"
  pb_parse_int32 :: "frame \<Rightarrow> pb_uint32 option"
  pb_ser_int32 :: "pb_uint32 \<Rightarrow> frame option"
  pb_parse_uint64 :: "frame \<Rightarrow> pb_uint64 option"
  pb_ser_uint64 :: "pb_uint64 \<Rightarrow> frame option"
  pb_parse_time :: "frame \<Rightarrow> pb_time option"
  pb_ser_time :: "pb_time \<Rightarrow> frame option"
  pb_parse_string :: "frame \<Rightarrow> pb_string option"
  pb_ser_string :: "pb_string \<Rightarrow> frame option"
  pb_parse_versionflags :: "frame \<Rightarrow> pb_versionflags option"
  pb_ser_versionflags :: "pb_versionflags \<Rightarrow> frame option"

section \<open>Documented behaviour\<close>

text \<open>CZMQ: a message is the list of its frames.\<close>

definition czmq_ok :: "env \<Rightarrow> bool" where
  "czmq_ok E \<longleftrightarrow>
     zmsg_new E = [] \<and>
     (\<forall>m. zmsg_dup E m = m) \<and>
     (\<forall>m. zmsg_frames E m = m) \<and>
     (\<forall>m. zmsg_size E m = length m) \<and>
     zmsg_pop E [] = (None, []) \<and>
     (\<forall>f m. zmsg_pop E (f # m) = (Some f, m)) \<and>
     (\<forall>m f. zmsg_append E m f = m @ [f]) \<and>
     (\<forall>m f. zmsg_prepend E m f = f # m) \<and>
     (\<forall>m n. zmsg_remove E m n = take n m @ drop (Suc n) m)"

lemma czmq_laws [ext_laws]:
  assumes "czmq_ok E"
  shows "zmsg_new E = []" "zmsg_dup E m = m" "zmsg_frames E m = m" "zmsg_size E m = length m"
    "zmsg_pop E [] = (None, [])" "zmsg_pop E (f # m) = (Some f, m)"
    "zmsg_append E m f = m @ [f]" "zmsg_prepend E m f = f # m"
    "zmsg_remove E m n = take n m @ drop (Suc n) m"
  using assms unfolding czmq_ok_def by blast+

text \<open>
  \<open>zmsg_send\<close>: on success it returns 0, destroys the message and nulls the caller's pointer; on
  failure it returns a non-zero code and leaves the message with the caller.
\<close>

definition send_ok :: "env \<Rightarrow> bool" where
  "send_ok E \<longleftrightarrow> (\<forall>h s m. snd (zmsg_send E h s m) = (if fst (zmsg_send E h s m) = 0 then None else Some m))"

text \<open>
  A ROUTER socket without \<open>ZMQ_ROUTER_MANDATORY\<close> (which the code never sets) drops a message it
  cannot route: sending on it does not fail. Only the frontend's sends are assumed to succeed
  where a theorem says so; those on the backend may always fail.
\<close>

definition router_ok :: "env \<Rightarrow> bool" where
  "router_ok E \<longleftrightarrow> (\<forall>h m. fst (zmsg_send E h Frontend m) = 0)"

definition backend_ok :: "env \<Rightarrow> bool" where
  "backend_ok E \<longleftrightarrow> (\<forall>h m. fst (zmsg_send E h Backend m) = 0)"

text \<open>The pair of sockets between a worker and its request processor.\<close>

definition processor_ok :: "env \<Rightarrow> bool" where
  "processor_ok E \<longleftrightarrow> (\<forall>h m. fst (zmsg_send E h Processor m) = 0)"

text \<open>
  proto3: what a message serialises to parses back to the same fields, and a message with a
  field that is not the default (here \<open>keep\<close>) serialises to at least one byte. A \<open>string\<close> field
  holds UTF-8; only text of 7-bit characters, which always is, is said to come back.
\<close>

definition codec_ok :: "('x \<Rightarrow> frame option) \<Rightarrow> (frame \<Rightarrow> 'x option) \<Rightarrow> ('x \<Rightarrow> bool) \<Rightarrow> bool" where
  "codec_ok ser parse keep \<longleftrightarrow> (\<forall>x. \<exists>f. ser x = Some f \<and> parse f = Some x \<and> (keep x \<longrightarrow> f \<noteq> []))"

definition protobuf_ok :: "env \<Rightarrow> bool" where
  "protobuf_ok E \<longleftrightarrow>
     codec_ok (pb_ser_uint32 E) (pb_parse_uint32 E) fst \<and>
     codec_ok (pb_ser_int32 E) (pb_parse_int32 E) fst \<and>
     codec_ok (pb_ser_uint64 E) (pb_parse_uint64 E) fst \<and>
     codec_ok (pb_ser_time E) (pb_parse_time E) fst \<and>
     (\<forall>keep s. (\<forall>b \<in> set s. b < 128) \<longrightarrow>
        (\<exists>f. pb_ser_string E (keep, s) = Some f \<and> pb_parse_string E f = Some (keep, s) \<and> (keep \<longrightarrow> f \<noteq> []))) \<and>
     codec_ok (pb_ser_versionflags E) (pb_parse_versionflags E) fst"

text \<open>
  A frame written as one type and read as another, where field 2 is a varint (\<open>uint32\<close>, \<open>int32\<close>) or
  an embedded \<open>Timestamp\<close>: varint types are compatible, and a field with another wire type than
  expected is unknown, is skipped, and leaves the default.
\<close>

definition wire_types_ok :: "env \<Rightarrow> bool" where
  "wire_types_ok E \<longleftrightarrow>
     (\<forall>x f. pb_ser_uint32 E x = Some f \<longrightarrow> pb_parse_int32 E f = Some x) \<and>
     (\<forall>x f. pb_ser_time E x = Some f \<longrightarrow> pb_parse_int32 E f = Some (fst x, 0))"

lemma codec_okE:
  assumes "codec_ok ser parse keep"
  obtains f where "ser x = Some f" "parse f = Some x" "keep x \<Longrightarrow> f \<noteq> []"
  using assms unfolding codec_ok_def by blast

lemma send_ok_cases:
  assumes "send_ok E"
  obtains (sent) "zmsg_send E h s m = (0, None)"
    | (kept) r where "r \<noteq> 0" "zmsg_send E h s m = (r, Some m)"
proof -
  have "snd (zmsg_send E h s m) = (if fst (zmsg_send E h s m) = 0 then None else Some m)"
    using assms by (simp add: send_ok_def)
  then show ?thesis using that by (cases "zmsg_send E h s m") (auto split: if_splits)
qed

lemma router_send:
  "send_ok E \<Longrightarrow> router_ok E \<Longrightarrow> zmsg_send E h Frontend m = (0, None)"
  by (simp add: prod_eq_iff send_ok_def router_ok_def)

lemma backend_send:
  "send_ok E \<Longrightarrow> backend_ok E \<Longrightarrow> zmsg_send E h Backend m = (0, None)"
  by (simp add: prod_eq_iff send_ok_def backend_ok_def)

section \<open>A concrete instance\<close>

text \<open>
  The instance the witnesses run on: messages are lists, a send on a socket but the frontend fails exactly
  when \<open>fails h m\<close> says so, and a value is encoded in unary after a byte for \<open>keep\<close>.
\<close>

definition ref_keep :: "bool \<Rightarrow> byte" where
  "ref_keep k = (if k then 1 else 0)"

definition ref_ser :: "bool \<times> nat \<Rightarrow> frame" where
  "ref_ser x = ref_keep (fst x) # replicate (snd x) 0"

definition ref_parse :: "frame \<Rightarrow> (bool \<times> nat) option" where
  "ref_parse f = (case f of [] \<Rightarrow> None | k # bs \<Rightarrow>
     if (k = 0 \<or> k = 1) \<and> (\<forall>b \<in> set bs. b = 0) then Some (k = 1, length bs) else None)"

lemma ref_parse_ser [simp]: "ref_parse (ref_ser x) = Some x"
  by (cases x) (auto simp: ref_parse_def ref_ser_def ref_keep_def)

definition ref_ser_time :: "pb_time \<Rightarrow> frame" where
  "ref_ser_time x = (if snd x < 0 then 1 else 0) # ref_ser (fst x, nat \<bar>snd x\<bar>)"

definition ref_parse_time :: "frame \<Rightarrow> pb_time option" where
  "ref_parse_time f = (case f of [] \<Rightarrow> None | s # g \<Rightarrow> (case ref_parse g of None \<Rightarrow> None
     | Some (k, n) \<Rightarrow> Some (k, if s = 1 then - int n else int n)))"

lemma ref_parse_ser_time [simp]: "ref_parse_time (ref_ser_time x) = Some x"
  by (cases x) (auto simp: ref_parse_time_def ref_ser_time_def)

definition ref_ser_vf :: "pb_versionflags \<Rightarrow> frame" where
  "ref_ser_vf x = (case x of (k, a, b, c) \<Rightarrow>
     ref_keep k # replicate (unat a) 0 @ 1 # replicate (unat b) 0 @ 1 # replicate (unat c) 0)"

definition ref_parse_vf :: "frame \<Rightarrow> pb_versionflags option" where
  "ref_parse_vf f = (case f of [] \<Rightarrow> None | k # bs \<Rightarrow>
     (let a = takeWhile (\<lambda>x. x = 0) bs; r = drop (Suc (length a)) bs;
          b = takeWhile (\<lambda>x. x = 0) r; c = drop (Suc (length b)) r
      in if count_list bs 1 = 2 \<and> (k = 0 \<or> k = 1) then
        Some (k = 1, of_nat (length a), of_nat (length b), of_nat (length c)) else None))"

lemma ref_parse_ser_vf [simp]: "ref_parse_vf (ref_ser_vf x) = Some x"
  by (cases x) (auto simp: ref_parse_vf_def ref_ser_vf_def ref_keep_def Let_def
      takeWhile_append count_list_append count_list_0_iff)

lemma ref_ser_nonempty [simp]: "ref_ser x \<noteq> []" "ref_ser_time y \<noteq> []" "ref_ser_vf z \<noteq> []"
  by (simp_all add: ref_ser_def ref_ser_time_def ref_ser_vf_def split: prod.splits)

definition ref_env :: "(send_record list \<Rightarrow> zmsg \<Rightarrow> bool) \<Rightarrow> env" where
  "ref_env fails = \<lparr>
     zmsg_new = [], zmsg_dup = (\<lambda>m. m), zmsg_frames = (\<lambda>m. m), zmsg_size = length,
     zmsg_pop = (\<lambda>m. case m of [] \<Rightarrow> (None, []) | f # r \<Rightarrow> (Some f, r)),
     zmsg_append = (\<lambda>m f. m @ [f]), zmsg_prepend = (\<lambda>m f. f # m),
     zmsg_remove = (\<lambda>m n. take n m @ drop (Suc n) m),
     zmsg_send = (\<lambda>h s m. if s \<noteq> Frontend \<and> fails h m then (-1, Some m) else (0, None)),
     pb_parse_uint32 = (\<lambda>f. map_option (map_prod id of_nat) (ref_parse f)),
     pb_ser_uint32 = (\<lambda>x. Some (ref_ser (map_prod id unat x))),
     pb_parse_int32 = (\<lambda>f. map_option (map_prod id of_nat) (ref_parse f)),
     pb_ser_int32 = (\<lambda>x. Some (ref_ser (map_prod id unat x))),
     pb_parse_uint64 = (\<lambda>f. map_option (map_prod id of_nat) (ref_parse f)),
     pb_ser_uint64 = (\<lambda>x. Some (ref_ser (map_prod id unat x))),
     pb_parse_time = ref_parse_time, pb_ser_time = (\<lambda>x. Some (ref_ser_time x)),
     pb_parse_string = (\<lambda>f. case f of [] \<Rightarrow> None | k # s \<Rightarrow> if k = 0 \<or> k = 1 then Some (k = 1, s) else None),
     pb_ser_string = (\<lambda>x. Some (ref_keep (fst x) # snd x)),
     pb_parse_versionflags = ref_parse_vf, pb_ser_versionflags = (\<lambda>x. Some (ref_ser_vf x)) \<rparr>"

lemma ref_env_czmq_ok [simp]: "czmq_ok (ref_env fails)"
  by (simp add: czmq_ok_def ref_env_def)

lemma ref_env_send_ok [simp]: "send_ok (ref_env fails)"
  by (simp add: send_ok_def ref_env_def)

lemma ref_env_router_ok [simp]: "router_ok (ref_env fails)"
  by (simp add: router_ok_def ref_env_def)

lemma ref_env_backend_ok [simp]: "backend_ok (ref_env (\<lambda>_ _. False))"
  by (simp add: backend_ok_def ref_env_def)

lemma ref_env_processor_ok [simp]: "processor_ok (ref_env (\<lambda>_ _. False))"
  by (simp add: processor_ok_def ref_env_def)

lemma ref_env_protobuf_ok [simp]: "protobuf_ok (ref_env fails)"
  by (auto simp: protobuf_ok_def codec_ok_def ref_env_def ref_keep_def)

text \<open>The same with frames of a \<open>time_t\<close> told apart from the others by their first byte.\<close>

definition typed_ser_time :: "pb_time \<Rightarrow> frame" where
  "typed_ser_time x = 3 # ref_keep (fst x) # ref_ser_time x"

definition typed_parse_time :: "frame \<Rightarrow> pb_time option" where
  "typed_parse_time f = ref_parse_time (drop 2 f)"

definition typed_parse_int32 :: "frame \<Rightarrow> pb_uint32 option" where
  "typed_parse_int32 f = (case f of [] \<Rightarrow> None | tag # g \<Rightarrow>
     if tag = 3 then Some (hd g = 1, 0) else map_option (map_prod id of_nat) (ref_parse f))"

definition typed_env :: "(send_record list \<Rightarrow> zmsg \<Rightarrow> bool) \<Rightarrow> env" where
  "typed_env fails = (ref_env fails)\<lparr>pb_parse_int32 := typed_parse_int32,
     pb_parse_time := typed_parse_time, pb_ser_time := (\<lambda>x. Some (typed_ser_time x))\<rparr>"

lemma typed_codecs [simp]: "typed_parse_time (typed_ser_time x) = Some x" "typed_ser_time x \<noteq> []"
  "typed_parse_int32 (typed_ser_time x) = Some (fst x, 0)"
  "typed_parse_int32 (ref_ser y) = Some (map_prod id of_nat y)"
proof -
  have "ref_ser y = ref_keep (fst y) # replicate (snd y) 0" by (simp add: ref_ser_def)
  moreover have "ref_keep (fst y) \<noteq> 3" by (simp add: ref_keep_def)
  ultimately show "typed_parse_int32 (ref_ser y) = Some (map_prod id of_nat y)"
    using ref_parse_ser[of y] by (simp add: typed_parse_int32_def del: ref_parse_ser)
qed (simp_all add: typed_parse_time_def typed_ser_time_def typed_parse_int32_def, simp add: ref_keep_def)

lemma typed_env_ok [simp]: "czmq_ok (typed_env fails)" "send_ok (typed_env fails)" "router_ok (typed_env fails)"
  "backend_ok (typed_env (\<lambda>_ _. False))" "processor_ok (typed_env (\<lambda>_ _. False))"
  using ref_env_czmq_ok[of fails] ref_env_send_ok[of fails] ref_env_router_ok[of fails] ref_env_backend_ok ref_env_processor_ok
  by (simp_all add: typed_env_def czmq_ok_def send_ok_def router_ok_def backend_ok_def processor_ok_def)

lemma typed_env_fields:
  "pb_ser_uint32 (typed_env fails) = pb_ser_uint32 (ref_env fails)" "pb_parse_uint32 (typed_env fails) = pb_parse_uint32 (ref_env fails)"
  "pb_ser_uint64 (typed_env fails) = pb_ser_uint64 (ref_env fails)" "pb_parse_uint64 (typed_env fails) = pb_parse_uint64 (ref_env fails)"
  "pb_ser_string (typed_env fails) = pb_ser_string (ref_env fails)" "pb_parse_string (typed_env fails) = pb_parse_string (ref_env fails)"
  "pb_ser_versionflags (typed_env fails) = pb_ser_versionflags (ref_env fails)"
  "pb_parse_versionflags (typed_env fails) = pb_parse_versionflags (ref_env fails)"
  "pb_ser_int32 (typed_env fails) = (\<lambda>x. Some (ref_ser (map_prod id unat x)))" "pb_parse_int32 (typed_env fails) = typed_parse_int32"
  "pb_ser_time (typed_env fails) = (\<lambda>x. Some (typed_ser_time x))" "pb_parse_time (typed_env fails) = typed_parse_time"
  by (simp_all add: typed_env_def) (simp add: ref_env_def)

lemma typed_env_protobuf_ok [simp]: "protobuf_ok (typed_env fails)"
proof -
  have "codec_ok (\<lambda>x. Some (ref_ser (map_prod id unat x))) typed_parse_int32 fst" by (auto simp: codec_ok_def)
  moreover have "codec_ok (\<lambda>x. Some (typed_ser_time x)) typed_parse_time fst" by (simp add: codec_ok_def)
  ultimately show ?thesis
    using ref_env_protobuf_ok[of fails] unfolding protobuf_ok_def typed_env_fields by blast
qed

lemma typed_env_wire_types_ok [simp]: "wire_types_ok (typed_env fails)"
  unfolding wire_types_ok_def typed_env_fields by (auto simp: ref_env_def)

end
