(* ===== verification/FrameHandler.thy ===== *)
theory FrameHandler
  imports External
begin

text \<open>
  \<open>ZMQFrameHandler\<close> (zmqframehandler.h, zmqframehandler.cxx): the buffers that turn values into
  frames and back. Each buffer is a protobuf message with a \<open>keep\<close> field, set by the constructor
  so that no value serialises to an empty frame (an empty frame is the envelope delimiter);
  \<open>get_frame_value\<close> clears the buffer and refills it from the frame it parses. A parse that fails
  throws \<open>std::runtime_error\<close>: \<open>None\<close> in the first component. The macro of the source generates
  one specialisation per type; so are they listed here. Enumerations go through the 32-bit
  buffer with a \<open>static_cast\<close>.
\<close>

section \<open>State and constructor\<close>

record ZMQFrameHandler =
  frameTime :: pb_time
  frameInt32 :: pb_uint32
  frameUInt32 :: pb_uint32
  frameUInt64 :: pb_uint64
  frameString :: pb_string
  frameVersionFlags :: pb_versionflags

definition ZMQFrameHandler_new :: ZMQFrameHandler where
  "ZMQFrameHandler_new = \<lparr> frameTime = (True, 0), frameInt32 = (True, 0), frameUInt32 = (True, 0),
     frameUInt64 = (True, 0), frameString = (True, []), frameVersionFlags = (True, 0, 0, 0) \<rparr>"

section \<open>Reading a frame\<close>

definition parseFrameIntoMessage :: "(frame \<Rightarrow> 'p option) \<Rightarrow> 'p \<Rightarrow> frame \<Rightarrow> 'p option \<times> 'p" where
  "parseFrameIntoMessage parse cleared frame =
     (case parse frame of None \<Rightarrow> (None, cleared) | Some p \<Rightarrow> (Some p, p))"

definition get_frame_value_time :: "env \<Rightarrow> ZMQFrameHandler \<Rightarrow> frame \<Rightarrow> time_t option \<times> ZMQFrameHandler" where
  "get_frame_value_time E h frame =
     (case parseFrameIntoMessage (pb_parse_time E) (False, 0) frame of
        (r, b) \<Rightarrow> (map_option snd r, h\<lparr>frameTime := b\<rparr>))"

definition get_frame_value_uint32 :: "env \<Rightarrow> ZMQFrameHandler \<Rightarrow> frame \<Rightarrow> 32 word option \<times> ZMQFrameHandler" where
  "get_frame_value_uint32 E h frame =
     (case parseFrameIntoMessage (pb_parse_uint32 E) (False, 0) frame of
        (r, b) \<Rightarrow> (map_option snd r, h\<lparr>frameUInt32 := b\<rparr>))"

definition get_frame_value_int32 :: "env \<Rightarrow> ZMQFrameHandler \<Rightarrow> frame \<Rightarrow> int option \<times> ZMQFrameHandler" where
  "get_frame_value_int32 E h frame =
     (case parseFrameIntoMessage (pb_parse_int32 E) (False, 0) frame of
        (r, b) \<Rightarrow> (map_option (sint \<circ> snd) r, h\<lparr>frameInt32 := b\<rparr>))"

definition get_frame_value_uint64 :: "env \<Rightarrow> ZMQFrameHandler \<Rightarrow> frame \<Rightarrow> 64 word option \<times> ZMQFrameHandler" where
  "get_frame_value_uint64 E h frame =
     (case parseFrameIntoMessage (pb_parse_uint64 E) (False, 0) frame of
        (r, b) \<Rightarrow> (map_option snd r, h\<lparr>frameUInt64 := b\<rparr>))"

definition get_frame_value_string :: "env \<Rightarrow> ZMQFrameHandler \<Rightarrow> frame \<Rightarrow> byte list option \<times> ZMQFrameHandler" where
  "get_frame_value_string E h frame =
     (case parseFrameIntoMessage (pb_parse_string E) (False, []) frame of
        (r, b) \<Rightarrow> (map_option snd r, h\<lparr>frameString := b\<rparr>))"

text \<open>The version numbers are 32 bits wide on the wire and narrowed to 16 by the constructor.\<close>

definition get_frame_value_LHCVersionFlags ::
    "env \<Rightarrow> ZMQFrameHandler \<Rightarrow> frame \<Rightarrow> LHCVersionFlags option \<times> ZMQFrameHandler" where
  "get_frame_value_LHCVersionFlags E h frame =
     (case parseFrameIntoMessage (pb_parse_versionflags E) (False, 0, 0, 0) frame of
        (r, b) \<Rightarrow> (map_option (\<lambda>(k, vmajor, vminor, vflags).
                      LHCVersionFlags (LHCVersion (ucast vmajor) (ucast vminor)) vflags) r,
                   h\<lparr>frameVersionFlags := b\<rparr>))"

section \<open>Writing a frame\<close>

definition append_message_value_MessageLite :: "env \<Rightarrow> zmsg \<Rightarrow> frame option \<Rightarrow> int \<times> zmsg" where
  "append_message_value_MessageLite E msg ser =
     (case ser of Some bytes \<Rightarrow> (0, zmsg_append E msg bytes) | None \<Rightarrow> (1, msg))"

definition prepend_message_value_MessageLite :: "env \<Rightarrow> zmsg \<Rightarrow> frame option \<Rightarrow> int \<times> zmsg" where
  "prepend_message_value_MessageLite E msg ser =
     (case ser of Some bytes \<Rightarrow> (0, zmsg_prepend E msg bytes) | None \<Rightarrow> (1, msg))"

definition set_time :: "ZMQFrameHandler \<Rightarrow> time_t \<Rightarrow> ZMQFrameHandler" where
  "set_time h v = h\<lparr>frameTime := (fst (frameTime h), v)\<rparr>"

definition set_uint32 :: "ZMQFrameHandler \<Rightarrow> 32 word \<Rightarrow> ZMQFrameHandler" where
  "set_uint32 h v = h\<lparr>frameUInt32 := (fst (frameUInt32 h), v)\<rparr>"

definition set_int32 :: "ZMQFrameHandler \<Rightarrow> int \<Rightarrow> ZMQFrameHandler" where
  "set_int32 h v = h\<lparr>frameInt32 := (fst (frameInt32 h), word_of_int v)\<rparr>"

definition set_uint64 :: "ZMQFrameHandler \<Rightarrow> 64 word \<Rightarrow> ZMQFrameHandler" where
  "set_uint64 h v = h\<lparr>frameUInt64 := (fst (frameUInt64 h), v)\<rparr>"

definition set_versionflags :: "ZMQFrameHandler \<Rightarrow> LHCVersionFlags \<Rightarrow> ZMQFrameHandler" where
  "set_versionflags h v = h\<lparr>frameVersionFlags := (fst (frameVersionFlags h),
     ucast (lhcmajor (version v)), ucast (lhcminor (version v)), flags v)\<rparr>"

definition append_message_value_time :: "env \<Rightarrow> ZMQFrameHandler \<Rightarrow> zmsg \<Rightarrow> time_t \<Rightarrow> (int \<times> zmsg) \<times> ZMQFrameHandler" where
  "append_message_value_time E h msg v = (let h = set_time h v in
     (append_message_value_MessageLite E msg (pb_ser_time E (frameTime h)), h))"

definition append_message_value_uint32 :: "env \<Rightarrow> ZMQFrameHandler \<Rightarrow> zmsg \<Rightarrow> 32 word \<Rightarrow> (int \<times> zmsg) \<times> ZMQFrameHandler" where
  "append_message_value_uint32 E h msg v = (let h = set_uint32 h v in
     (append_message_value_MessageLite E msg (pb_ser_uint32 E (frameUInt32 h)), h))"

definition append_message_value_int32 :: "env \<Rightarrow> ZMQFrameHandler \<Rightarrow> zmsg \<Rightarrow> int \<Rightarrow> (int \<times> zmsg) \<times> ZMQFrameHandler" where
  "append_message_value_int32 E h msg v = (let h = set_int32 h v in
     (append_message_value_MessageLite E msg (pb_ser_int32 E (frameInt32 h)), h))"

definition append_message_value_uint64 :: "env \<Rightarrow> ZMQFrameHandler \<Rightarrow> zmsg \<Rightarrow> 64 word \<Rightarrow> (int \<times> zmsg) \<times> ZMQFrameHandler" where
  "append_message_value_uint64 E h msg v = (let h = set_uint64 h v in
     (append_message_value_MessageLite E msg (pb_ser_uint64 E (frameUInt64 h)), h))"

definition append_message_value_LHCVersionFlags ::
    "env \<Rightarrow> ZMQFrameHandler \<Rightarrow> zmsg \<Rightarrow> LHCVersionFlags \<Rightarrow> (int \<times> zmsg) \<times> ZMQFrameHandler" where
  "append_message_value_LHCVersionFlags E h msg v = (let h = set_versionflags h v in
     (append_message_value_MessageLite E msg (pb_ser_versionflags E (frameVersionFlags h)), h))"

definition prepend_message_value_uint32 :: "env \<Rightarrow> ZMQFrameHandler \<Rightarrow> zmsg \<Rightarrow> 32 word \<Rightarrow> (int \<times> zmsg) \<times> ZMQFrameHandler" where
  "prepend_message_value_uint32 E h msg v = (let h = set_uint32 h v in
     (prepend_message_value_MessageLite E msg (pb_ser_uint32 E (frameUInt32 h)), h))"

definition prepend_message_value_uint64 :: "env \<Rightarrow> ZMQFrameHandler \<Rightarrow> zmsg \<Rightarrow> 64 word \<Rightarrow> (int \<times> zmsg) \<times> ZMQFrameHandler" where
  "prepend_message_value_uint64 E h msg v = (let h = set_uint64 h v in
     (prepend_message_value_MessageLite E msg (pb_ser_uint64 E (frameUInt64 h)), h))"

definition prepend_message_value_LHCVersionFlags ::
    "env \<Rightarrow> ZMQFrameHandler \<Rightarrow> zmsg \<Rightarrow> LHCVersionFlags \<Rightarrow> (int \<times> zmsg) \<times> ZMQFrameHandler" where
  "prepend_message_value_LHCVersionFlags E h msg v = (let h = set_versionflags h v in
     (prepend_message_value_MessageLite E msg (pb_ser_versionflags E (frameVersionFlags h)), h))"

section \<open>Values as text\<close>

text \<open>
  \<open>zmsg_addstr\<close> and \<open>zmsg_pushstr\<close> take a C string: the bytes up to the first NUL. Reading goes
  through \<open>istringstream >> string\<close>, which skips white space, stops at the next, and throws (its
  \<open>failbit\<close> is an exception) when there is no character to read. The stream insertion of a string
  writes its bytes, so \<open>oss.good()\<close> holds; a protobuf message writes its serialisation.
\<close>

definition c_str :: "byte list \<Rightarrow> byte list" where
  "c_str bs = takeWhile (\<lambda>b. b \<noteq> 0) bs"

definition is_space :: "byte \<Rightarrow> bool" where
  "is_space b \<longleftrightarrow> b = 32 \<or> (9 \<le> b \<and> b \<le> 13)"

definition get_frame_value_as_str_string :: "frame \<Rightarrow> byte list option" where
  "get_frame_value_as_str_string frame =
     (let token = takeWhile (\<lambda>b. \<not> is_space b) (dropWhile is_space frame)
      in if token = [] then None else Some token)"

definition append_message_value_as_str_string :: "env \<Rightarrow> zmsg \<Rightarrow> byte list \<Rightarrow> int \<times> zmsg" where
  "append_message_value_as_str_string E msg v = (0, zmsg_append E msg (c_str v))"

definition prepend_message_value_as_str_string :: "env \<Rightarrow> zmsg \<Rightarrow> byte list \<Rightarrow> int \<times> zmsg" where
  "prepend_message_value_as_str_string E msg v = (0, zmsg_prepend E msg (c_str v))"

definition append_message_value_as_str_MessageLite :: "env \<Rightarrow> zmsg \<Rightarrow> frame option \<Rightarrow> int \<times> zmsg" where
  "append_message_value_as_str_MessageLite E msg ser =
     (case ser of Some bytes \<Rightarrow> (0, zmsg_append E msg (c_str bytes)) | None \<Rightarrow> (1, msg))"

definition prepend_message_value_as_str_MessageLite :: "env \<Rightarrow> zmsg \<Rightarrow> frame option \<Rightarrow> int \<times> zmsg" where
  "prepend_message_value_as_str_MessageLite E msg ser =
     (case ser of Some bytes \<Rightarrow> (0, zmsg_prepend E msg (c_str bytes)) | None \<Rightarrow> (1, msg))"

definition append_message_value_as_str_LHCVersionFlags ::
    "env \<Rightarrow> ZMQFrameHandler \<Rightarrow> zmsg \<Rightarrow> LHCVersionFlags \<Rightarrow> (int \<times> zmsg) \<times> ZMQFrameHandler" where
  "append_message_value_as_str_LHCVersionFlags E h msg v = (let h = set_versionflags h v in
     (append_message_value_as_str_MessageLite E msg (pb_ser_versionflags E (frameVersionFlags h)), h))"

definition prepend_message_value_as_str_LHCVersionFlags ::
    "env \<Rightarrow> ZMQFrameHandler \<Rightarrow> zmsg \<Rightarrow> LHCVersionFlags \<Rightarrow> (int \<times> zmsg) \<times> ZMQFrameHandler" where
  "prepend_message_value_as_str_LHCVersionFlags E h msg v = (let h = set_versionflags h v in
     (prepend_message_value_as_str_MessageLite E msg (pb_ser_versionflags E (frameVersionFlags h)), h))"

definition append_message_value_as_str_time :: "env \<Rightarrow> ZMQFrameHandler \<Rightarrow> zmsg \<Rightarrow> time_t \<Rightarrow> (int \<times> zmsg) \<times> ZMQFrameHandler" where
  "append_message_value_as_str_time E h msg v = (let h = set_time h v in
     (append_message_value_as_str_MessageLite E msg (pb_ser_time E (frameTime h)), h))"

definition prepend_message_value_as_str_time :: "env \<Rightarrow> ZMQFrameHandler \<Rightarrow> zmsg \<Rightarrow> time_t \<Rightarrow> (int \<times> zmsg) \<times> ZMQFrameHandler" where
  "prepend_message_value_as_str_time E h msg v = (let h = set_time h v in
     (prepend_message_value_as_str_MessageLite E msg (pb_ser_time E (frameTime h)), h))"

definition prepend_message_value_time :: "env \<Rightarrow> ZMQFrameHandler \<Rightarrow> zmsg \<Rightarrow> time_t \<Rightarrow> (int \<times> zmsg) \<times> ZMQFrameHandler" where
  "prepend_message_value_time E h msg v = (let h = set_time h v in
     (prepend_message_value_MessageLite E msg (pb_ser_time E (frameTime h)), h))"

lemma c_str_id: "0 \<notin> set v \<Longrightarrow> c_str v = v"
  by (simp add: c_str_def takeWhile_eq_all_conv) metis

section \<open>Fresh handlers\<close>

text \<open>
  A handler that the source declares locally starts with every \<open>keep\<close> set. The broker's functions
  ignore the return codes, so what they do to a message is the second component.
\<close>

abbreviation add_u32 :: "env \<Rightarrow> 32 word \<Rightarrow> zmsg \<Rightarrow> zmsg" where
  "add_u32 E v msg \<equiv> snd (fst (append_message_value_uint32 E ZMQFrameHandler_new msg v))"

abbreviation add_u64 :: "env \<Rightarrow> 64 word \<Rightarrow> zmsg \<Rightarrow> zmsg" where
  "add_u64 E v msg \<equiv> snd (fst (append_message_value_uint64 E ZMQFrameHandler_new msg v))"

abbreviation add_time :: "env \<Rightarrow> time_t \<Rightarrow> zmsg \<Rightarrow> zmsg" where
  "add_time E v msg \<equiv> snd (fst (append_message_value_time E ZMQFrameHandler_new msg v))"

abbreviation add_vfs :: "env \<Rightarrow> LHCVersionFlags \<Rightarrow> zmsg \<Rightarrow> zmsg" where
  "add_vfs E v msg \<equiv> snd (fst (append_message_value_LHCVersionFlags E ZMQFrameHandler_new msg v))"

abbreviation push_u32 :: "env \<Rightarrow> 32 word \<Rightarrow> zmsg \<Rightarrow> zmsg" where
  "push_u32 E v msg \<equiv> snd (fst (prepend_message_value_uint32 E ZMQFrameHandler_new msg v))"

abbreviation get_u32 :: "env \<Rightarrow> frame \<Rightarrow> 32 word option" where
  "get_u32 E frame \<equiv> fst (get_frame_value_uint32 E ZMQFrameHandler_new frame)"

abbreviation get_u64 :: "env \<Rightarrow> frame \<Rightarrow> 64 word option" where
  "get_u64 E frame \<equiv> fst (get_frame_value_uint64 E ZMQFrameHandler_new frame)"

abbreviation get_i32 :: "env \<Rightarrow> frame \<Rightarrow> int option" where
  "get_i32 E frame \<equiv> fst (get_frame_value_int32 E ZMQFrameHandler_new frame)"

abbreviation get_time :: "env \<Rightarrow> frame \<Rightarrow> time_t option" where
  "get_time E frame \<equiv> fst (get_frame_value_time E ZMQFrameHandler_new frame)"

abbreviation get_vfs :: "env \<Rightarrow> frame \<Rightarrow> LHCVersionFlags option" where
  "get_vfs E frame \<equiv> fst (get_frame_value_LHCVersionFlags E ZMQFrameHandler_new frame)"

section \<open>The frames a fresh handler writes\<close>

definition enc_u32 :: "env \<Rightarrow> 32 word \<Rightarrow> frame" where
  "enc_u32 E v = the (pb_ser_uint32 E (True, v))"

definition enc_u64 :: "env \<Rightarrow> 64 word \<Rightarrow> frame" where
  "enc_u64 E v = the (pb_ser_uint64 E (True, v))"

definition enc_time :: "env \<Rightarrow> time_t \<Rightarrow> frame" where
  "enc_time E v = the (pb_ser_time E (True, v))"

definition enc_i32 :: "env \<Rightarrow> int \<Rightarrow> frame" where
  "enc_i32 E v = the (pb_ser_int32 E (True, word_of_int v))"

definition enc_vfs :: "env \<Rightarrow> LHCVersionFlags \<Rightarrow> frame" where
  "enc_vfs E v = the (pb_ser_versionflags E (True, ucast (lhcmajor (version v)),
     ucast (lhcminor (version v)), flags v))"

lemma pb_ser_Some:
  assumes "protobuf_ok E"
  shows "pb_ser_uint32 E (True, a) = Some (enc_u32 E a)"
    "pb_ser_uint64 E (True, b) = Some (enc_u64 E b)"
    "pb_ser_time E (True, t) = Some (enc_time E t)"
    "pb_ser_versionflags E (True, ucast (lhcmajor (version v)), ucast (lhcminor (version v)), flags v)
       = Some (enc_vfs E v)"
  using assms unfolding protobuf_ok_def codec_ok_def enc_u32_def enc_u64_def enc_time_def enc_vfs_def
  by (metis option.sel)+

lemma pb_parse_enc:
  assumes "protobuf_ok E"
  shows "pb_parse_uint32 E (enc_u32 E a) = Some (True, a)"
    "pb_parse_uint64 E (enc_u64 E b) = Some (True, b)"
    "pb_parse_time E (enc_time E t) = Some (True, t)"
    "pb_parse_versionflags E (enc_vfs E v)
       = Some (True, ucast (lhcmajor (version v)), ucast (lhcminor (version v)), flags v)"
  using assms unfolding protobuf_ok_def codec_ok_def enc_u32_def enc_u64_def enc_time_def enc_vfs_def
  by (metis option.sel)+

lemma enc_nonempty:
  assumes "protobuf_ok E"
  shows "enc_u32 E a \<noteq> []" "enc_u64 E b \<noteq> []" "enc_time E t \<noteq> []" "enc_vfs E v \<noteq> []"
  using assms unfolding protobuf_ok_def codec_ok_def enc_u32_def enc_u64_def enc_time_def enc_vfs_def
  by (metis fst_conv option.sel)+

lemmas write_defs = append_message_value_uint32_def append_message_value_uint64_def
  append_message_value_time_def append_message_value_LHCVersionFlags_def
  prepend_message_value_uint32_def prepend_message_value_uint64_def
  prepend_message_value_LHCVersionFlags_def
  append_message_value_MessageLite_def prepend_message_value_MessageLite_def
  set_uint32_def set_uint64_def set_time_def set_versionflags_def set_int32_def

lemmas read_defs = get_frame_value_uint32_def get_frame_value_uint64_def get_frame_value_int32_def
  get_frame_value_time_def get_frame_value_LHCVersionFlags_def get_frame_value_string_def
  parseFrameIntoMessage_def

lemma add_fresh [ext_laws]:
  assumes "czmq_ok E" "protobuf_ok E"
  shows "add_u32 E a m = m @ [enc_u32 E a]" "add_u64 E b m = m @ [enc_u64 E b]"
    "add_time E t m = m @ [enc_time E t]" "add_vfs E v m = m @ [enc_vfs E v]"
    "push_u32 E a m = enc_u32 E a # m"
  using assms by (simp_all add: write_defs ZMQFrameHandler_new_def pb_ser_Some czmq_laws)

lemma ucast_16_32 [simp]: "ucast (ucast (a :: 16 word) :: 32 word) = a"
  by (rule bit_word_eqI) (auto simp: bit_simps dest: bit_imp_le_length)

lemma get_enc [ext_laws]:
  assumes "protobuf_ok E"
  shows "get_u32 E (enc_u32 E a) = Some a" "get_u64 E (enc_u64 E b) = Some b"
    "get_time E (enc_time E t) = Some t" "get_vfs E (enc_vfs E v) = Some v"
  using assms by (simp_all add: read_defs pb_parse_enc)

lemma get_enc_i32:
  assumes "protobuf_ok E" "- (2 ^ 31) \<le> n" "n < 2 ^ 31"
  shows "get_i32 E (enc_i32 E n) = Some n" "enc_i32 E n \<noteq> []"
proof -
  obtain f where f: "pb_ser_int32 E (True, word_of_int n) = Some f" "pb_parse_int32 E f = Some (True, word_of_int n)"
      "f \<noteq> []"
    using assms(1) by (auto simp: protobuf_ok_def elim!: codec_okE[where x = "(True, word_of_int n)" and keep = fst])
  have "sint (word_of_int n :: 32 word) = n"
    using assms(2,3) by (simp add: signed_of_int signed_take_bit_int_eq_self)
  with f show "get_i32 E (enc_i32 E n) = Some n" "enc_i32 E n \<noteq> []"
    by (simp_all add: read_defs enc_i32_def)
qed

end
