(* ===== verification/Messages.thy ===== *)
theory Messages
  imports FrameHandler
begin

text \<open>
  liblhcluster/src/utils.cxx: sending through \<open>IZMQSocketSenderReceiver\<close>, the heartbeat message,
  and copying or moving a client envelope (the frames before the first empty one). The history
  of sends is threaded through; the result code of a send comes from the environment.
\<close>

section \<open>Sending\<close>

definition Send :: "env \<Rightarrow> send_record list \<Rightarrow> sock \<Rightarrow> zmsg \<Rightarrow> int \<times> zmsg option \<times> send_record list" where
  "Send E h socket msg = (case zmsg_send E h socket msg of (ret, msg') \<Rightarrow> (ret, msg', h @ [(socket, msg, ret)]))"

definition SendHeartbeat ::
    "env \<Rightarrow> send_record list \<Rightarrow> sock \<Rightarrow> time_t \<Rightarrow> Delay \<Rightarrow> 32 word \<Rightarrow> zmsg
      \<Rightarrow> int \<times> zmsg option \<times> send_record list" where
  "SendHeartbeat E h socket sentAsOfTime heartbeatDelay headerValue heartbeat_msg =
     (let m = zmsg_append E heartbeat_msg [];
          m = add_u32 E headerValue m;
          m = add_time E sentAsOfTime m;
          m = add_time E heartbeatDelay m
      in Send E h socket m)"

section \<open>Envelopes\<close>

fun ZMQMessageEnvCopy_loop :: "env \<Rightarrow> zmsg \<Rightarrow> frame list \<Rightarrow> zmsg" where
  "ZMQMessageEnvCopy_loop E to [] = to"
| "ZMQMessageEnvCopy_loop E to (frame # rest) =
     (if frame \<noteq> [] then ZMQMessageEnvCopy_loop E (zmsg_append E to frame) rest else to)"

definition ZMQMessageEnvCopy :: "env \<Rightarrow> zmsg \<Rightarrow> zmsg \<Rightarrow> zmsg" where
  "ZMQMessageEnvCopy E to from = ZMQMessageEnvCopy_loop E to (zmsg_frames E from)"

partial_function (option) ZMQMessageEnvMove_loop ::
    "env \<Rightarrow> zmsg \<Rightarrow> frame option \<times> zmsg \<Rightarrow> (zmsg \<times> zmsg) option" where
  "ZMQMessageEnvMove_loop E to popped =
     (case popped of
        (Some frame, from) \<Rightarrow>
          (if frame \<noteq> [] then ZMQMessageEnvMove_loop E (zmsg_append E to frame) (zmsg_pop E from)
           else Some (to, from))
      | (None, from) \<Rightarrow> Some (to, from))"

definition ZMQMessageEnvMove :: "env \<Rightarrow> zmsg \<Rightarrow> zmsg \<Rightarrow> (zmsg \<times> zmsg) option" where
  "ZMQMessageEnvMove E to from = ZMQMessageEnvMove_loop E to (zmsg_pop E from)"

text \<open>The envelope of a message, and what follows its delimiter.\<close>

definition envelope :: "zmsg \<Rightarrow> zmsg" where
  "envelope m = takeWhile (\<lambda>f. f \<noteq> []) m"

definition after_envelope :: "zmsg \<Rightarrow> zmsg" where
  "after_envelope m = tl (dropWhile (\<lambda>f. f \<noteq> []) m)"

definition delimited :: "zmsg \<Rightarrow> bool" where
  "delimited m \<longleftrightarrow> [] \<in> set m"

lemma delimited_split: "delimited m \<Longrightarrow> m = envelope m @ [] # after_envelope m"
  unfolding delimited_def envelope_def after_envelope_def by (induction m) auto

lemma envelope_append_delim [simp]: "\<forall>f \<in> set e. f \<noteq> [] \<Longrightarrow> envelope (e @ [] # r) = e"
  by (simp add: envelope_def takeWhile_append2)

lemma after_envelope_append_delim [simp]: "\<forall>f \<in> set e. f \<noteq> [] \<Longrightarrow> after_envelope (e @ [] # r) = r"
  by (simp add: after_envelope_def dropWhile_append2)

lemma envelope_nonempty: "f \<in> set (envelope m) \<Longrightarrow> f \<noteq> []"
  unfolding envelope_def by (induction m) (auto split: if_splits)

lemma ZMQMessageEnvCopy_loop_eq:
  "czmq_ok E \<Longrightarrow> ZMQMessageEnvCopy_loop E to fs = to @ envelope fs"
  by (induction fs arbitrary: to) (simp_all add: envelope_def czmq_laws)

lemma ZMQMessageEnvCopy_eq [ext_laws]:
  "czmq_ok E \<Longrightarrow> ZMQMessageEnvCopy E to from = to @ envelope from"
  by (simp add: ZMQMessageEnvCopy_def ZMQMessageEnvCopy_loop_eq czmq_laws)

lemma ZMQMessageEnvMove_loop_eq:
  assumes "czmq_ok E"
  shows "ZMQMessageEnvMove_loop E to (zmsg_pop E from) = Some (to @ envelope from, after_envelope from)"
proof (induction "from" arbitrary: to)
  case Nil
  then show ?case
    by (subst ZMQMessageEnvMove_loop.simps) (simp add: czmq_laws[OF assms] envelope_def after_envelope_def)
next
  case (Cons f fs)
  then show ?case
    by (subst ZMQMessageEnvMove_loop.simps) (simp add: czmq_laws[OF assms] envelope_def after_envelope_def)
qed

lemma SendHeartbeat_eq:
  assumes "czmq_ok E" "protobuf_ok E"
  shows "SendHeartbeat E h s t d hv m = Send E h s (m @ [[], enc_u32 E hv, enc_time E t, enc_time E d])"
  using assms by (simp add: SendHeartbeat_def ext_laws)

lemma Send_sent: "zmsg_send E h s m = (0, None) \<Longrightarrow> Send E h s m = (0, None, h @ [(s, m, 0)])"
  by (simp add: Send_def)

lemma Send_frontend: "send_ok E \<Longrightarrow> router_ok E \<Longrightarrow> Send E h Frontend m = (0, None, h @ [(Frontend, m, 0)])"
  by (simp add: Send_def router_send)

lemma Send_backend: "send_ok E \<Longrightarrow> backend_ok E \<Longrightarrow> Send E h Backend m = (0, None, h @ [(Backend, m, 0)])"
  by (simp add: Send_def backend_send)

lemma Send_cases:
  assumes "send_ok E"
  obtains (sent) "Send E h s m = (0, None, h @ [(s, m, 0)])"
    | (kept) r where "r \<noteq> 0" "Send E h s m = (r, Some m, h @ [(s, m, r)])"
  using assms by (cases rule: send_ok_cases[where E = E and h = h and s = s and m = m])
    (auto simp: Send_def)

end
