(* ===== verification/RequestState.thy ===== *)
theory RequestState
  imports Messages
begin

text \<open>
  \<open>RequestState\<close> (requeststate.h, requeststate.cxx): what the broker keeps of one request. The
  anonymous union of the source is a datatype with one constructor per member; reading the
  member that was not written last is undefined, so the getters return an \<open>option\<close>. Pointers to
  requests and workers and nodes of a \<open>std::list\<close> are addresses.
\<close>

section \<open>State\<close>

type_synonym rptr = nat
type_synonym wptr = nat
type_synonym list_node = nat

datatype RequestStateFlag = RSF_None | Pending | InProgress

datatype rs_union = Unset | ListIt list_node | AssignedWorker wptr

record RequestState =
  rs_requestId :: RequestId
  rs_flag :: RequestStateFlag
  rs_vfs :: LHCVersionFlags
  rs_msg :: "zmsg option"
  rs_tryCount :: "16 word"
  rs_state :: rs_union

section \<open>Constructors\<close>

definition RequestState_pending :: "RequestId \<Rightarrow> LHCVersionFlags \<Rightarrow> zmsg option \<Rightarrow> RequestState" where
  "RequestState_pending requestId vfs msg = \<lparr> rs_requestId = requestId, rs_flag = Pending,
     rs_vfs = vfs, rs_msg = msg, rs_tryCount = 0, rs_state = Unset \<rparr>"

definition RequestState_inProgress :: "RequestId \<Rightarrow> LHCVersionFlags \<Rightarrow> wptr \<Rightarrow> RequestState" where
  "RequestState_inProgress requestId vfs wi = \<lparr> rs_requestId = requestId, rs_flag = InProgress,
     rs_vfs = vfs, rs_msg = None, rs_tryCount = 1, rs_state = AssignedWorker wi \<rparr>"

section \<open>Getters\<close>

definition IsPending :: "RequestState \<Rightarrow> bool" where
  "IsPending rs \<longleftrightarrow> rs_flag rs = Pending"

definition IsInProgress :: "RequestState \<Rightarrow> bool" where
  "IsInProgress rs \<longleftrightarrow> rs_flag rs = InProgress"

definition GetTryCount :: "RequestState \<Rightarrow> int" where
  "GetTryCount rs = sint (rs_tryCount rs)"

definition GetAssignedWorker :: "RequestState \<Rightarrow> wptr option" where
  "GetAssignedWorker rs = (case rs_state rs of AssignedWorker w \<Rightarrow> Some w | _ \<Rightarrow> None)"

definition GetQueueCursor :: "RequestState \<Rightarrow> list_node option" where
  "GetQueueCursor rs = (case rs_state rs of ListIt n \<Rightarrow> Some n | _ \<Rightarrow> None)"

section \<open>Updates\<close>

definition Assign :: "wptr \<Rightarrow> RequestState \<Rightarrow> RequestState" where
  "Assign w rs = rs\<lparr>rs_flag := InProgress, rs_state := AssignedWorker w, rs_tryCount := rs_tryCount rs + 1\<rparr>"

definition UpdateRequest_msg :: "zmsg option \<Rightarrow> RequestState \<Rightarrow> RequestState" where
  "UpdateRequest_msg m rs = rs\<lparr>rs_msg := m\<rparr>"

definition UpdateRequest_vfs :: "LHCVersionFlags \<Rightarrow> RequestState \<Rightarrow> RequestState" where
  "UpdateRequest_vfs vfs rs = rs\<lparr>rs_vfs := vfs\<rparr>"

definition UpdateRequest :: "zmsg option \<Rightarrow> LHCVersionFlags \<Rightarrow> RequestState \<Rightarrow> RequestState" where
  "UpdateRequest m vfs rs = rs\<lparr>rs_msg := m, rs_vfs := vfs\<rparr>"

text \<open>
  \<open>SetRequest\<close> stores the same fields as \<open>UpdateRequest\<close>, but does not destroy the message that
  was there: its comment relies on there being none.
\<close>

definition SetRequest :: "zmsg option \<Rightarrow> LHCVersionFlags \<Rightarrow> RequestState \<Rightarrow> RequestState" where
  "SetRequest m vfs rs = rs\<lparr>rs_msg := m, rs_vfs := vfs\<rparr>"

definition SetQueueCursor :: "list_node \<Rightarrow> RequestState \<Rightarrow> RequestState" where
  "SetQueueCursor n rs = rs\<lparr>rs_flag := Pending, rs_state := ListIt n\<rparr>"

lemmas rs_defs = RequestState_pending_def RequestState_inProgress_def IsPending_def IsInProgress_def
  GetTryCount_def GetAssignedWorker_def GetQueueCursor_def Assign_def UpdateRequest_msg_def
  UpdateRequest_vfs_def UpdateRequest_def SetRequest_def SetQueueCursor_def

lemma rs_requestId_simps [simp]:
  "rs_requestId (RequestState_pending i v m) = i" "rs_requestId (RequestState_inProgress i v w) = i"
  "rs_requestId (Assign w rs) = rs_requestId rs" "rs_requestId (UpdateRequest_msg m rs) = rs_requestId rs"
  "rs_requestId (UpdateRequest_vfs v rs) = rs_requestId rs" "rs_requestId (UpdateRequest m v rs) = rs_requestId rs"
  "rs_requestId (SetRequest m v rs) = rs_requestId rs" "rs_requestId (SetQueueCursor n rs) = rs_requestId rs"
  by (simp_all add: rs_defs)

end
