(* ===== verification/WorkerInfo.thy ===== *)
theory WorkerInfo
  imports RequestState
begin

text \<open>
  \<open>WorkerInfo\<close> (workerinfo.h, workerinfo.cxx) and \<open>WorkerInfoLookup\<close> (workerinfolookup.cxx): what
  the broker keeps of one worker, and the map from identity frames (compared by content, zmqaddin.h)
  to workers. \<open>freeCapacity\<close> is an \<open>unsigned int\<close> that \<open>FreeCapacity()\<close> reads back as \<open>int\<close>. The
  inner maps of \<open>inProgressRequests\<close> are iterated over, so they are association lists: every
  statement holds for any order of them.
\<close>

section \<open>State\<close>

record WorkerInfo =
  wi_freeCapacity :: "32 word"
  wi_supportedRequestTypes :: "RequestType list"
  wi_identity :: frame
  wi_brokerLastActive :: time_t
  wi_workerLastActive :: time_t
  wi_heartbeatSendDelay :: Delay
  wi_inProgressRequests :: "RequestType \<rightharpoonup> (RequestId \<times> rptr) list"
  wi_vfs :: LHCVersionFlags

definition WorkerInfo_new ::
    "frame \<Rightarrow> time_t \<Rightarrow> 32 word \<Rightarrow> RequestType list \<Rightarrow> Delay \<Rightarrow> LHCVersionFlags \<Rightarrow> WorkerInfo" where
  "WorkerInfo_new ident receivedAtTime capacity types delay vfs = \<lparr>
     wi_freeCapacity = capacity, wi_supportedRequestTypes = types, wi_identity = ident,
     wi_brokerLastActive = receivedAtTime, wi_workerLastActive = receivedAtTime,
     wi_heartbeatSendDelay = delay, wi_inProgressRequests = Map.empty, wi_vfs = vfs \<rparr>"

definition FreeCapacity :: "WorkerInfo \<Rightarrow> int" where
  "FreeCapacity wi = sint (wi_freeCapacity wi)"

definition IsOtherBroker :: "WorkerInfo \<Rightarrow> bool" where
  "IsOtherBroker wi \<longleftrightarrow> hasAll (wi_vfs wi) MF_Broker"

section \<open>Time\<close>

text \<open>
  \<open>localtime_r\<close>, \<open>tm_sec += delay\<close>, \<open>mktime\<close>: the seconds within the minute are an \<open>int\<close>, to
  which the 64-bit delay is added and narrowed; \<open>mktime\<close> normalises the sum.
\<close>

definition tm_sec_plus :: "time_t \<Rightarrow> Delay \<Rightarrow> time_t" where
  "tm_sec_plus t d = (t - t mod 60) + sint (word_of_int (t mod 60 + d) :: 32 word)"

definition IsAliveAsOf :: "WorkerInfo \<Rightarrow> time_t \<Rightarrow> Delay \<Rightarrow> bool" where
  "IsAliveAsOf wi asOfTime deathDelay \<longleftrightarrow> tm_sec_plus (wi_workerLastActive wi) deathDelay > asOfTime"

definition IsHeartbeatNeededAsOf :: "WorkerInfo \<Rightarrow> time_t \<Rightarrow> bool" where
  "IsHeartbeatNeededAsOf wi asOfTime \<longleftrightarrow>
     tm_sec_plus (wi_brokerLastActive wi) (wi_heartbeatSendDelay wi) \<le> asOfTime"

lemma sint_small: "- (2 ^ 31) \<le> n \<Longrightarrow> n < 2 ^ 31 \<Longrightarrow> sint (word_of_int n :: 32 word) = n"
  by (simp add: signed_of_int signed_take_bit_int_eq_self)

lemma tm_sec_plus_eq:
  assumes "0 \<le> d" "d < 2 ^ 31 - 60"
  shows "tm_sec_plus t d = t + d"
proof -
  have m: "0 \<le> t mod 60" "t mod 60 < 60" by simp_all
  have "sint (word_of_int (t mod 60 + d) :: 32 word) = t mod 60 + d"
    by (rule sint_small) (use m assms in linarith)+
  then show ?thesis by (simp only: tm_sec_plus_def)
qed

section \<open>Updates\<close>

definition UpdateBrokerLastActive :: "time_t \<Rightarrow> WorkerInfo \<Rightarrow> WorkerInfo" where
  "UpdateBrokerLastActive asOfTime wi = wi\<lparr>wi_brokerLastActive := asOfTime\<rparr>"

definition UpdateWorkerLastActive :: "time_t \<Rightarrow> WorkerInfo \<Rightarrow> WorkerInfo" where
  "UpdateWorkerLastActive asOfTime wi = wi\<lparr>wi_workerLastActive := asOfTime\<rparr>"

definition UpdateWithHeartbeat :: "time_t \<Rightarrow> time_t \<Rightarrow> Delay \<Rightarrow> WorkerInfo \<Rightarrow> WorkerInfo" where
  "UpdateWithHeartbeat receivedAtTime sentAt newHeartbeatSendDelay wi =
     (UpdateWorkerLastActive receivedAtTime wi)\<lparr>wi_heartbeatSendDelay := newHeartbeatSendDelay\<rparr>"

text \<open>\<open>emplace\<close> leaves an entry that exists as it is.\<close>

definition emplace :: "'k \<Rightarrow> 'v \<Rightarrow> ('k \<times> 'v) list \<Rightarrow> ('k \<times> 'v) list" where
  "emplace k v xs = (if k \<in> set (map fst xs) then xs else xs @ [(k, v)])"

definition erase_key :: "'k \<Rightarrow> ('k \<times> 'v) list \<Rightarrow> ('k \<times> 'v) list" where
  "erase_key k xs = filter (\<lambda>p. fst p \<noteq> k) xs"

definition in_progress :: "WorkerInfo \<Rightarrow> RequestType \<Rightarrow> (RequestId \<times> rptr) list" where
  "in_progress wi t = (case wi_inProgressRequests wi t of None \<Rightarrow> [] | Some rs \<Rightarrow> rs)"

definition WorkerInfo_AddInProgressRequest :: "RequestType \<Rightarrow> RequestId \<Rightarrow> rptr \<Rightarrow> WorkerInfo \<Rightarrow> WorkerInfo" where
  "WorkerInfo_AddInProgressRequest requestType requestId requestState wi =
     wi\<lparr>wi_inProgressRequests := (wi_inProgressRequests wi)(requestType \<mapsto>
          emplace requestId requestState (in_progress wi requestType)),
        wi_freeCapacity := wi_freeCapacity wi - 1\<rparr>"

definition WorkerInfo_RemoveInProgressRequest :: "RequestType \<Rightarrow> RequestId \<Rightarrow> WorkerInfo \<Rightarrow> WorkerInfo" where
  "WorkerInfo_RemoveInProgressRequest requestType requestId wi =
     wi\<lparr>wi_inProgressRequests := (case wi_inProgressRequests wi requestType of
            None \<Rightarrow> wi_inProgressRequests wi
          | Some rs \<Rightarrow> (wi_inProgressRequests wi)(requestType \<mapsto> erase_key requestId rs)),
        wi_freeCapacity := wi_freeCapacity wi + 1\<rparr>"

lemmas wi_upd_defs = UpdateBrokerLastActive_def UpdateWorkerLastActive_def UpdateWithHeartbeat_def
  WorkerInfo_AddInProgressRequest_def WorkerInfo_RemoveInProgressRequest_def

lemma wi_frame_simps [simp]:
  "wi_identity (UpdateBrokerLastActive t wi) = wi_identity wi"
  "wi_identity (UpdateWorkerLastActive t wi) = wi_identity wi"
  "wi_identity (UpdateWithHeartbeat t s d wi) = wi_identity wi"
  "wi_identity (WorkerInfo_AddInProgressRequest ty i r wi) = wi_identity wi"
  "wi_identity (WorkerInfo_RemoveInProgressRequest ty i wi) = wi_identity wi"
  "wi_supportedRequestTypes (UpdateBrokerLastActive t wi) = wi_supportedRequestTypes wi"
  "wi_supportedRequestTypes (UpdateWorkerLastActive t wi) = wi_supportedRequestTypes wi"
  "wi_supportedRequestTypes (UpdateWithHeartbeat t s d wi) = wi_supportedRequestTypes wi"
  "wi_supportedRequestTypes (WorkerInfo_AddInProgressRequest ty i r wi) = wi_supportedRequestTypes wi"
  "wi_supportedRequestTypes (WorkerInfo_RemoveInProgressRequest ty i wi) = wi_supportedRequestTypes wi"
  "in_progress (UpdateBrokerLastActive t wi) = in_progress wi"
  "in_progress (UpdateWorkerLastActive t wi) = in_progress wi"
  "in_progress (UpdateWithHeartbeat t s d wi) = in_progress wi"
  "wi_freeCapacity (UpdateBrokerLastActive t wi) = wi_freeCapacity wi"
  "wi_freeCapacity (UpdateWorkerLastActive t wi) = wi_freeCapacity wi"
  "wi_freeCapacity (UpdateWithHeartbeat t s d wi) = wi_freeCapacity wi"
  by (simp_all add: wi_upd_defs in_progress_def fun_eq_iff)

lemma emplace_alt: "emplace k v xs = (if map_of xs k = None then xs @ [(k, v)] else xs)"
  by (simp add: emplace_def map_of_eq_None_iff)

lemma set_emplace: "k \<notin> fst ` set xs \<Longrightarrow> set (emplace k v xs) = insert (k, v) (set xs)"
  by (simp add: emplace_def)

lemma distinct_emplace: "distinct (map fst xs) \<Longrightarrow> distinct (map fst (emplace k v xs))"
  by (auto simp: emplace_def)

lemma set_erase_key: "set (erase_key k xs) = {p \<in> set xs. fst p \<noteq> k}"
  by (auto simp: erase_key_def)

lemma distinct_erase_key: "distinct (map fst xs) \<Longrightarrow> distinct (map fst (erase_key k xs))"
  by (simp add: erase_key_def distinct_fst_filter)

lemma in_progress_Add [simp]:
  "in_progress (WorkerInfo_AddInProgressRequest ty i r wi) t =
     (if t = ty then emplace i r (in_progress wi ty) else in_progress wi t)"
  by (simp add: WorkerInfo_AddInProgressRequest_def in_progress_def)

lemma in_progress_Remove [simp]:
  "in_progress (WorkerInfo_RemoveInProgressRequest ty i wi) t =
     (if t = ty then erase_key i (in_progress wi ty) else in_progress wi t)"
  by (simp add: WorkerInfo_RemoveInProgressRequest_def in_progress_def erase_key_def split: option.splits)

lemma in_progress_new [simp]: "in_progress (WorkerInfo_new i t c ts d v) ty = []"
  by (simp add: in_progress_def WorkerInfo_new_def)

lemma erase_key_emplace: "k \<notin> fst ` set xs \<Longrightarrow> erase_key k (emplace k v xs) = xs"
  by (auto simp: erase_key_def emplace_def filter_id_conv)

section \<open>WorkerInfoLookup\<close>

type_synonym WorkerInfoLookup = "(frame \<times> wptr) list"

definition LookupWorkerInfo :: "WorkerInfoLookup \<Rightarrow> frame \<Rightarrow> wptr option" where
  "LookupWorkerInfo m ident = map_of m ident"

definition InsertWorkerInfo :: "frame \<Rightarrow> wptr \<Rightarrow> WorkerInfoLookup \<Rightarrow> WorkerInfoLookup" where
  "InsertWorkerInfo ident w m = emplace ident w m"

definition RemoveWorkerInfo :: "frame \<Rightarrow> WorkerInfoLookup \<Rightarrow> WorkerInfoLookup" where
  "RemoveWorkerInfo ident m = erase_key ident m"

lemma LookupWorkerInfo_Insert:
  "LookupWorkerInfo (InsertWorkerInfo i w m) j =
     (if j = i \<and> LookupWorkerInfo m i = None then Some w else LookupWorkerInfo m j)"
  by (auto simp: LookupWorkerInfo_def InsertWorkerInfo_def emplace_alt map_add_def split: option.splits)

lemma LookupWorkerInfo_Remove:
  "LookupWorkerInfo (RemoveWorkerInfo i m) j = (if j = i then None else LookupWorkerInfo m j)"
  by (simp add: LookupWorkerInfo_def RemoveWorkerInfo_def erase_key_def map_of_filter_key)

end
