(* ===== verification/RequestTypeContext.thy ===== *)
theory RequestTypeContext
  imports WorkerInfo
begin

text \<open>
  \<open>BrokerRequestTypeContext\<close> (brokerrequesttypecontext.h, .cxx): per request type, the workers that
  can take a request, the queue of pending requests and the map that owns the request states.
  A \<open>std::list\<close> iterator is the address of a list node, drawn from \<open>ctx_nextNode\<close>; erasing
  through an iterator whose node is not in the list is undefined (\<open>None\<close>). \<open>availableWorkers\<close> is an
  \<open>unordered_set\<close>, whose \<open>begin()\<close> is the head of a list in any order. The operations that also
  write a \<open>RequestState\<close> are in theory BrokerState, where the states live.
\<close>

section \<open>State\<close>

record BrokerRequestTypeContext =
  ctx_totalWorkers :: int
  ctx_requestType :: RequestType
  ctx_availableWorkers :: "wptr list"
  ctx_pending :: "(list_node \<times> rptr) list"
  ctx_requests :: "RequestId \<rightharpoonup> rptr"
  ctx_nextNode :: list_node

definition BrokerRequestTypeContext_new :: "RequestType \<Rightarrow> BrokerRequestTypeContext" where
  "BrokerRequestTypeContext_new t = \<lparr> ctx_totalWorkers = 0, ctx_requestType = t,
     ctx_availableWorkers = [], ctx_pending = [], ctx_requests = Map.empty, ctx_nextNode = 0 \<rparr>"

section \<open>Operations\<close>

definition RemoveInProgressRequest :: "RequestId \<Rightarrow> BrokerRequestTypeContext \<Rightarrow> BrokerRequestTypeContext" where
  "RemoveInProgressRequest i c = c\<lparr>ctx_requests := (ctx_requests c)(i := None)\<rparr>"

definition AddAvailableWorker :: "wptr \<Rightarrow> BrokerRequestTypeContext \<Rightarrow> BrokerRequestTypeContext" where
  "AddAvailableWorker w c = (if w \<in> set (ctx_availableWorkers c) then c
     else c\<lparr>ctx_availableWorkers := ctx_availableWorkers c @ [w]\<rparr>)"

definition RemoveAvailableWorker :: "wptr \<Rightarrow> BrokerRequestTypeContext \<Rightarrow> BrokerRequestTypeContext" where
  "RemoveAvailableWorker w c = c\<lparr>ctx_availableWorkers := removeAll w (ctx_availableWorkers c)\<rparr>"

definition GetNextPendingRequest :: "BrokerRequestTypeContext \<Rightarrow> rptr option" where
  "GetNextPendingRequest c = (case ctx_pending c of [] \<Rightarrow> None | p # _ \<Rightarrow> Some (snd p))"

definition GetNextAvailableWorker :: "BrokerRequestTypeContext \<Rightarrow> wptr option" where
  "GetNextAvailableWorker c = (case ctx_availableWorkers c of [] \<Rightarrow> None | w # _ \<Rightarrow> Some w)"

definition NumWorkersAvailable :: "BrokerRequestTypeContext \<Rightarrow> nat" where
  "NumWorkersAvailable c = length (ctx_availableWorkers c)"

definition NumRequestsPending :: "BrokerRequestTypeContext \<Rightarrow> nat" where
  "NumRequestsPending c = length (ctx_pending c)"

definition IncrementNumWorkers :: "BrokerRequestTypeContext \<Rightarrow> BrokerRequestTypeContext" where
  "IncrementNumWorkers c = c\<lparr>ctx_totalWorkers := ctx_totalWorkers c + 1\<rparr>"

definition DecrementNumWorkers :: "BrokerRequestTypeContext \<Rightarrow> BrokerRequestTypeContext" where
  "DecrementNumWorkers c = c\<lparr>ctx_totalWorkers := ctx_totalWorkers c - 1\<rparr>"

definition GetRequestState :: "RequestId \<Rightarrow> BrokerRequestTypeContext \<Rightarrow> rptr option" where
  "GetRequestState i c = ctx_requests c i"

text \<open>\<open>pendingClientRequests.insert( end(), r )\<close> and \<open>pendingClientRequests.erase( it )\<close>.\<close>

definition pending_push :: "rptr \<Rightarrow> BrokerRequestTypeContext \<Rightarrow> BrokerRequestTypeContext" where
  "pending_push r c = c\<lparr>ctx_pending := ctx_pending c @ [(ctx_nextNode c, r)], ctx_nextNode := Suc (ctx_nextNode c)\<rparr>"

definition pending_erase :: "list_node \<Rightarrow> BrokerRequestTypeContext \<Rightarrow> BrokerRequestTypeContext option" where
  "pending_erase n c = (if n \<in> fst ` set (ctx_pending c)
     then Some (c\<lparr>ctx_pending := filter (\<lambda>p. fst p \<noteq> n) (ctx_pending c)\<rparr>) else None)"

section \<open>Field lemmas\<close>

lemmas ctx_defs = BrokerRequestTypeContext_new_def RemoveInProgressRequest_def AddAvailableWorker_def
  RemoveAvailableWorker_def IncrementNumWorkers_def DecrementNumWorkers_def pending_push_def

lemma ctx_fields [simp]:
  "ctx_requestType (RemoveInProgressRequest i c) = ctx_requestType c"
  "ctx_requestType (AddAvailableWorker w c) = ctx_requestType c"
  "ctx_requestType (RemoveAvailableWorker w c) = ctx_requestType c"
  "ctx_requestType (IncrementNumWorkers c) = ctx_requestType c"
  "ctx_requestType (DecrementNumWorkers c) = ctx_requestType c"
  "ctx_requestType (pending_push r c) = ctx_requestType c"
  "ctx_requestType (BrokerRequestTypeContext_new t) = t"
  "ctx_pending (RemoveInProgressRequest i c) = ctx_pending c"
  "ctx_pending (AddAvailableWorker w c) = ctx_pending c"
  "ctx_pending (RemoveAvailableWorker w c) = ctx_pending c"
  "ctx_pending (IncrementNumWorkers c) = ctx_pending c"
  "ctx_pending (DecrementNumWorkers c) = ctx_pending c"
  "ctx_pending (BrokerRequestTypeContext_new t) = []"
  "ctx_requests (AddAvailableWorker w c) = ctx_requests c"
  "ctx_requests (RemoveAvailableWorker w c) = ctx_requests c"
  "ctx_requests (IncrementNumWorkers c) = ctx_requests c"
  "ctx_requests (DecrementNumWorkers c) = ctx_requests c"
  "ctx_requests (pending_push r c) = ctx_requests c"
  "ctx_requests (RemoveInProgressRequest i c) = (ctx_requests c)(i := None)"
  "ctx_requests (BrokerRequestTypeContext_new t) = Map.empty"
  "ctx_nextNode (AddAvailableWorker w c) = ctx_nextNode c"
  "ctx_nextNode (RemoveAvailableWorker w c) = ctx_nextNode c"
  "ctx_nextNode (IncrementNumWorkers c) = ctx_nextNode c"
  "ctx_nextNode (DecrementNumWorkers c) = ctx_nextNode c"
  "ctx_nextNode (RemoveInProgressRequest i c) = ctx_nextNode c"
  "ctx_availableWorkers (IncrementNumWorkers c) = ctx_availableWorkers c"
  "ctx_availableWorkers (DecrementNumWorkers c) = ctx_availableWorkers c"
  "ctx_availableWorkers (RemoveInProgressRequest i c) = ctx_availableWorkers c"
  "ctx_availableWorkers (pending_push r c) = ctx_availableWorkers c"
  "ctx_availableWorkers (BrokerRequestTypeContext_new t) = []"
  "ctx_availableWorkers (RemoveAvailableWorker w c) = removeAll w (ctx_availableWorkers c)"
  "ctx_totalWorkers (BrokerRequestTypeContext_new t) = 0"
  by (simp_all add: ctx_defs)

lemma set_AddAvailableWorker [simp]:
  "set (ctx_availableWorkers (AddAvailableWorker w c)) = insert w (set (ctx_availableWorkers c))"
  by (auto simp: AddAvailableWorker_def)

lemma distinct_AddAvailableWorker:
  "distinct (ctx_availableWorkers c) \<Longrightarrow> distinct (ctx_availableWorkers (AddAvailableWorker w c))"
  by (simp add: AddAvailableWorker_def)

section \<open>The pending queue is first in, first out\<close>

locale fifo_queue =
  fixes push :: "'r \<Rightarrow> 'q \<Rightarrow> 'q"
    and front :: "'q \<Rightarrow> 'r option"
    and pop :: "'q \<Rightarrow> 'q option"
    and elems :: "'q \<Rightarrow> 'r list"
    and invar :: "'q \<Rightarrow> bool"
  assumes elems_push: "invar q \<Longrightarrow> elems (push r q) = elems q @ [r]"
    and invar_push: "invar q \<Longrightarrow> invar (push r q)"
    and front_elems: "invar q \<Longrightarrow> front q = (case elems q of [] \<Rightarrow> None | r # _ \<Rightarrow> Some r)"
    and pop_elems: "invar q \<Longrightarrow> elems q = r # rs \<Longrightarrow> \<exists>q'. pop q = Some q' \<and> elems q' = rs \<and> invar q'"
begin

primrec serve :: "nat \<Rightarrow> 'q \<Rightarrow> 'r list" where
  "serve 0 q = []"
| "serve (Suc n) q = (case front q of None \<Rightarrow> []
     | Some r \<Rightarrow> r # (case pop q of None \<Rightarrow> [] | Some q' \<Rightarrow> serve n q'))"

lemma push_all: "invar q \<Longrightarrow> invar (fold push rs q) \<and> elems (fold push rs q) = elems q @ rs"
  by (induction rs arbitrary: q) (simp_all add: elems_push invar_push)

lemma serve_take: "invar q \<Longrightarrow> serve n q = take n (elems q)"
proof (induction n arbitrary: q)
  case 0
  then show ?case by simp
next
  case (Suc n)
  show ?case
  proof (cases "elems q")
    case Nil
    with Suc.prems show ?thesis by (simp add: front_elems)
  next
    case (Cons r rs)
    with Suc.prems obtain q' where "pop q = Some q'" "elems q' = rs" "invar q'"
      using pop_elems by blast
    with Cons Suc show ?thesis by (simp add: front_elems)
  qed
qed

lemma serve_in_order: "invar q \<Longrightarrow> serve n (fold push rs q) = take n (elems q @ rs)"
  using push_all[of q rs] serve_take by simp

end

definition pending_inv :: "BrokerRequestTypeContext \<Rightarrow> bool" where
  "pending_inv c \<longleftrightarrow> distinct (map fst (ctx_pending c)) \<and> (\<forall>n \<in> fst ` set (ctx_pending c). n < ctx_nextNode c)"

definition pending_requests :: "BrokerRequestTypeContext \<Rightarrow> rptr list" where
  "pending_requests c = map snd (ctx_pending c)"

text \<open>What \<open>AssignWorkerFromPending\<close> does to the queue for its first request.\<close>

definition pending_pop :: "BrokerRequestTypeContext \<Rightarrow> BrokerRequestTypeContext option" where
  "pending_pop c = (case ctx_pending c of [] \<Rightarrow> None | p # _ \<Rightarrow> pending_erase (fst p) c)"

lemma pending_inv_push: "pending_inv c \<Longrightarrow> pending_inv (pending_push r c)"
  by (force simp: pending_inv_def pending_push_def)

lemma pending_erase_inv: "pending_inv c \<Longrightarrow> pending_erase n c = Some c' \<Longrightarrow> pending_inv c'"
  by (auto simp: pending_inv_def pending_erase_def distinct_fst_filter split: if_splits) force+

lemma pending_pop_inv:
  assumes "pending_inv c" "pending_requests c = r # rs"
  shows "\<exists>c'. pending_pop c = Some c' \<and> pending_requests c' = rs \<and> pending_inv c'"
proof -
  from assms(2) obtain n ps where c: "ctx_pending c = (n, r) # ps" and rs: "map snd ps = rs"
    by (auto simp: pending_requests_def map_eq_Cons_conv)
  from assms(1) c have "n \<notin> fst ` set ps" by (simp add: pending_inv_def)
  then have "filter (\<lambda>p. fst p \<noteq> n) ps = ps" by (force simp: filter_id_conv)
  with assms(1) c rs show ?thesis
    by (simp add: pending_pop_def pending_erase_def pending_requests_def pending_inv_def)
qed

interpretation pend: fifo_queue pending_push GetNextPendingRequest pending_pop pending_requests pending_inv
proof unfold_locales
  fix c r rs
  show "pending_inv c \<Longrightarrow> pending_requests (pending_push r c) = pending_requests c @ [r]"
    by (simp add: pending_requests_def pending_push_def)
  show "pending_inv c \<Longrightarrow> pending_inv (pending_push r c)"
    by (rule pending_inv_push)
  show "pending_inv c \<Longrightarrow> GetNextPendingRequest c = (case pending_requests c of [] \<Rightarrow> None | r # _ \<Rightarrow> Some r)"
    by (simp add: GetNextPendingRequest_def pending_requests_def split: list.splits)
  show "pending_inv c \<Longrightarrow> pending_requests c = r # rs \<Longrightarrow>
      \<exists>c'. pending_pop c = Some c' \<and> pending_requests c' = rs \<and> pending_inv c'"
    by (rule pending_pop_inv)
qed

end
