(* ===== verification/BrokerState.thy ===== *)
theory BrokerState
  imports RequestTypeContext
begin

text \<open>
  The state of \<open>Broker\<close> (broker.h) with the objects it reaches through pointers. The contexts and
  the worker lookup own their \<open>RequestState\<close> and \<open>WorkerInfo\<close> objects through \<open>unique_ptr\<close> while
  queues and other objects hold raw pointers to them, so both kinds live in an explicit store:
  \<open>requestHeap\<close> and \<open>workerHeap\<close> map an address to the object, and to \<open>None\<close> once it is freed.
  Dereferencing a freed address is undefined. Addresses are not reused.

  \<open>inbox\<close> is the \<open>ZMQMessage*\<close> local to the reactor callback, whose address the handlers pass down
  as \<open>ZMQMessage**\<close>; \<open>MsgOf r\<close> is the other message whose address is passed, the one a request
  state holds (\<open>RequestState::GetMessage\<close>).
\<close>

section \<open>State\<close>

record Broker =
  requestHeap :: "rptr \<rightharpoonup> RequestState"
  workerHeap :: "wptr \<rightharpoonup> WorkerInfo"
  nextAddr :: nat
  workerInfoLookup :: WorkerInfoLookup
  requestTypeContextLookup :: "RequestType \<rightharpoonup> BrokerRequestTypeContext"
  currentTime :: time_t
  selfHeartbeatDelay :: Delay
  workerDeathDelay :: Delay
  minimumWorkerHeartbeatDelay :: Delay
  workerPulseDelay :: Delay
  sends :: "send_record list"
  inbox :: "zmsg option"

definition Broker_new :: "Delay \<Rightarrow> Delay \<Rightarrow> Delay \<Rightarrow> Broker" where
  "Broker_new heartbeatDelay minimumDelay pulseDelay = \<lparr>
     requestHeap = Map.empty, workerHeap = Map.empty, nextAddr = 0,
     workerInfoLookup = [], requestTypeContextLookup = Map.empty, currentTime = 0,
     selfHeartbeatDelay = heartbeatDelay, workerDeathDelay = 2 * heartbeatDelay,
     minimumWorkerHeartbeatDelay = minimumDelay, workerPulseDelay = pulseDelay,
     sends = [], inbox = None \<rparr>"

section \<open>Reading and writing through pointers\<close>

definition modRequest :: "rptr \<Rightarrow> (RequestState \<Rightarrow> RequestState) \<Rightarrow> Broker \<Rightarrow> Broker option" where
  "modRequest r f b = (case requestHeap b r of None \<Rightarrow> None
     | Some rs \<Rightarrow> Some (b\<lparr>requestHeap := (requestHeap b)(r \<mapsto> f rs)\<rparr>))"

definition modWorker :: "wptr \<Rightarrow> (WorkerInfo \<Rightarrow> WorkerInfo) \<Rightarrow> Broker \<Rightarrow> Broker option" where
  "modWorker w f b = (case workerHeap b w of None \<Rightarrow> None
     | Some wi \<Rightarrow> Some (b\<lparr>workerHeap := (workerHeap b)(w \<mapsto> f wi)\<rparr>))"

text \<open>Dereferencing \<open>requestTypeContextLookup.find( t )\<close> is undefined when it is the end iterator.\<close>

definition modContext :: "RequestType \<Rightarrow> (BrokerRequestTypeContext \<Rightarrow> BrokerRequestTypeContext) \<Rightarrow> Broker \<Rightarrow> Broker option" where
  "modContext t f b = (case requestTypeContextLookup b t of None \<Rightarrow> None
     | Some c \<Rightarrow> Some (b\<lparr>requestTypeContextLookup := (requestTypeContextLookup b)(t \<mapsto> f c)\<rparr>))"

definition newContext :: "RequestType \<Rightarrow> Broker \<Rightarrow> Broker" where
  "newContext t b = b\<lparr>requestTypeContextLookup := (requestTypeContextLookup b)(t \<mapsto> BrokerRequestTypeContext_new t)\<rparr>"

definition allocRequest :: "RequestState \<Rightarrow> Broker \<Rightarrow> rptr \<times> Broker" where
  "allocRequest rs b = (nextAddr b, b\<lparr>requestHeap := (requestHeap b)(nextAddr b \<mapsto> rs), nextAddr := Suc (nextAddr b)\<rparr>)"

definition allocWorker :: "WorkerInfo \<Rightarrow> Broker \<Rightarrow> wptr \<times> Broker" where
  "allocWorker wi b = (nextAddr b, b\<lparr>workerHeap := (workerHeap b)(nextAddr b \<mapsto> wi), nextAddr := Suc (nextAddr b)\<rparr>)"

definition freeRequest :: "rptr \<Rightarrow> Broker \<Rightarrow> Broker" where
  "freeRequest r b = b\<lparr>requestHeap := (requestHeap b)(r := None)\<rparr>"

definition freeWorker :: "wptr \<Rightarrow> Broker \<Rightarrow> Broker" where
  "freeWorker w b = b\<lparr>workerHeap := (workerHeap b)(w := None)\<rparr>"

datatype msgref = Inbox | MsgOf rptr

fun loadMsg :: "msgref \<Rightarrow> Broker \<Rightarrow> zmsg option option" where
  "loadMsg Inbox b = Some (inbox b)"
| "loadMsg (MsgOf r) b = map_option rs_msg (requestHeap b r)"

fun storeMsg :: "msgref \<Rightarrow> zmsg option \<Rightarrow> Broker \<Rightarrow> Broker option" where
  "storeMsg Inbox m b = Some (b\<lparr>inbox := m\<rparr>)"
| "storeMsg (MsgOf r) m b = modRequest r (UpdateRequest_msg m) b"

section \<open>The stores as instances of one interface\<close>

interpretation reqs: object_store requestHeap modRequest allocRequest freeRequest nextAddr
  by unfold_locales (auto simp: modRequest_def allocRequest_def freeRequest_def)

interpretation wrks: object_store workerHeap modWorker allocWorker freeWorker nextAddr
  by unfold_locales (auto simp: modWorker_def allocWorker_def freeWorker_def)

section \<open>Operations of a context that reach its request states\<close>

text \<open>\<open>BrokerRequestTypeContext::AddPendingRequest\<close>: \<open>insert\<close> keeps an existing state, and drops the new one.\<close>

definition AddPendingRequest ::
    "RequestType \<Rightarrow> RequestId \<Rightarrow> LHCVersionFlags \<Rightarrow> msgref \<Rightarrow> Broker \<Rightarrow> Broker option" where
  "AddPendingRequest t i vfs lp b = do {
     m \<leftarrow> loadMsg lp b;
     b \<leftarrow> storeMsg lp None b;
     c \<leftarrow> requestTypeContextLookup b t;
     let (r, b) = (case ctx_requests c i of
         Some r \<Rightarrow> (r, b)
       | None \<Rightarrow> allocRequest (RequestState_pending i vfs m) b);
     b \<leftarrow> modContext t (\<lambda>c. pending_push r (c\<lparr>ctx_requests := (ctx_requests c)(i \<mapsto> r)\<rparr>)) b;
     modRequest r (SetQueueCursor (ctx_nextNode c)) b
   }"

definition BackToPending :: "RequestType \<Rightarrow> rptr \<Rightarrow> Broker \<Rightarrow> Broker option" where
  "BackToPending t r b = do {
     c \<leftarrow> requestTypeContextLookup b t;
     b \<leftarrow> modContext t (pending_push r) b;
     modRequest r (SetQueueCursor (ctx_nextNode c)) b
   }"

text \<open>\<open>emplace\<close> also keeps an existing state and drops the new one.\<close>

definition AddInProgressRequest ::
    "RequestType \<Rightarrow> RequestId \<Rightarrow> LHCVersionFlags \<Rightarrow> wptr \<Rightarrow> Broker \<Rightarrow> (rptr \<times> Broker) option" where
  "AddInProgressRequest t i vfs w b = do {
     c \<leftarrow> requestTypeContextLookup b t;
     case ctx_requests c i of
       Some r \<Rightarrow> Some (r, b)
     | None \<Rightarrow> do {
         let (r, b) = allocRequest (RequestState_inProgress i vfs w) b;
         b \<leftarrow> modContext t (\<lambda>c. c\<lparr>ctx_requests := (ctx_requests c)(i \<mapsto> r)\<rparr>) b;
         Some (r, b)
       }
   }"

text \<open>\<open>requests.erase( id )\<close> destroys the state the context owns.\<close>

definition EraseInProgressRequest :: "RequestType \<Rightarrow> RequestId \<Rightarrow> Broker \<Rightarrow> Broker option" where
  "EraseInProgressRequest t i b = do {
     c \<leftarrow> requestTypeContextLookup b t;
     let b = (case ctx_requests c i of None \<Rightarrow> b | Some r \<Rightarrow> freeRequest r b);
     modContext t (RemoveInProgressRequest i) b
   }"

definition AssignWorkerFromPending :: "RequestType \<Rightarrow> rptr \<Rightarrow> wptr \<Rightarrow> Broker \<Rightarrow> Broker option" where
  "AssignWorkerFromPending t r w b = do {
     rs \<leftarrow> requestHeap b r;
     n \<leftarrow> GetQueueCursor rs;
     c \<leftarrow> requestTypeContextLookup b t;
     c \<leftarrow> pending_erase n c;
     b \<leftarrow> modContext t (\<lambda>_. c) b;
     modRequest r (Assign w) b
   }"

definition AssignToOtherWorker :: "rptr \<Rightarrow> wptr \<Rightarrow> Broker \<Rightarrow> Broker option" where
  "AssignToOtherWorker r w b = modRequest r (Assign w) b"

section \<open>The worker lookup\<close>

definition registerWorker :: "WorkerInfo \<Rightarrow> Broker \<Rightarrow> wptr \<times> Broker" where
  "registerWorker wi b = (case allocWorker wi b of
     (w, b) \<Rightarrow> (w, b\<lparr>workerInfoLookup := InsertWorkerInfo (wi_identity wi) w (workerInfoLookup b)\<rparr>))"

text \<open>\<open>workerInfoLookup.RemoveWorkerInfo( it )\<close> destroys the worker it owns.\<close>

definition unregisterWorker :: "frame \<Rightarrow> wptr \<Rightarrow> Broker \<Rightarrow> Broker" where
  "unregisterWorker ident w b = freeWorker w (b\<lparr>workerInfoLookup := RemoveWorkerInfo ident (workerInfoLookup b)\<rparr>)"

definition WorkerInfoLookup_Clear :: "Broker \<Rightarrow> Broker" where
  "WorkerInfoLookup_Clear b = (fold freeWorker (map snd (workerInfoLookup b)) b)\<lparr>workerInfoLookup := []\<rparr>"

section \<open>Sending from the broker\<close>

definition SendMsg :: "env \<Rightarrow> sock \<Rightarrow> msgref \<Rightarrow> Broker \<Rightarrow> (int \<times> Broker) option" where
  "SendMsg E socket lp b = do {
     m \<leftarrow> loadMsg lp b;
     msg \<leftarrow> m;
     let (ret, m', h) = Send E (sends b) socket msg;
     b \<leftarrow> storeMsg lp m' b;
     Some (ret, b\<lparr>sends := h\<rparr>)
   }"

text \<open>A message in a local variable of the handler.\<close>

definition SendLocal :: "env \<Rightarrow> sock \<Rightarrow> zmsg \<Rightarrow> Broker \<Rightarrow> int \<times> zmsg option \<times> Broker" where
  "SendLocal E socket msg b = (case Send E (sends b) socket msg of (ret, m', h) \<Rightarrow> (ret, m', b\<lparr>sends := h\<rparr>))"

end
