(* ===== verification/BrokerForward.thy ===== *)
theory BrokerForward
  imports BrokerState
begin

text \<open>
  The part of broker.cxx that moves one request: copying it for its flags, receipts, redirect
  notifications, rejections, and the two overloads of \<open>forwardWorkerParsedClientRequest\<close> (the log
  tags of the source number them 1 and 2). Built without \<open>STATS\<close> and \<open>DEBUG\<close>, as the build files do.
\<close>

definition copyRequestForFlags :: "env \<Rightarrow> LHCVersionFlags \<Rightarrow> zmsg \<Rightarrow> zmsg option" where
  "copyRequestForFlags E vfs newRequest =
     (if hasAny vfs RetryOnDeath then Some (zmsg_dup E newRequest)
      else if hasAny vfs (NotifyOnRedirect OR NotifyOnDeath OR ReceiptOnSend)
      then Some (ZMQMessageEnvCopy E (zmsg_new E) newRequest)
      else None)"

section \<open>Messages to the client\<close>

definition sendReceipt :: "env \<Rightarrow> zmsg \<Rightarrow> RequestType \<Rightarrow> RequestId \<Rightarrow> Broker \<Rightarrow> int \<times> zmsg option \<times> Broker" where
  "sendReceipt E sendReceiptMsg requestType requestId b =
     (let m = zmsg_append E sendReceiptMsg [];
          m = add_u32 E (ClusterMessage_value BrokerSentReceipt) m;
          m = add_u32 E requestType m;
          m = add_u64 E requestId m
      in SendLocal E Frontend m b)"

text \<open>
  The copied request ends up in the request state; the flags lose \<open>ReceiptOnSend\<close> once the
  receipt has been tried.
\<close>

definition handleCopiedRequest ::
    "env \<Rightarrow> rptr \<Rightarrow> LHCVersionFlags \<Rightarrow> RequestType \<Rightarrow> RequestId \<Rightarrow> zmsg \<Rightarrow> Broker \<Rightarrow> (int \<times> Broker) option" where
  "handleCopiedRequest E requestState vfs requestType requestId copied b =
     (if hasAny vfs ReceiptOnSend then
        (if hasAny vfs RetryOnDeath then do {
           let copiedForReceipt = ZMQMessageEnvCopy E (zmsg_new E) copied;
           let (ret, _, b) = sendReceipt E copiedForReceipt requestType requestId b;
           b \<leftarrow> modRequest requestState (UpdateRequest (Some copied) (minusReceiptOnSend vfs)) b;
           Some (ret, b)
         } else if hasAny vfs (NotifyOnRedirect OR NotifyOnDeath) then do {
           let copiedForReceipt = zmsg_dup E copied;
           let (ret, _, b) = sendReceipt E copiedForReceipt requestType requestId b;
           b \<leftarrow> modRequest requestState (UpdateRequest (Some copied) (minusReceiptOnSend vfs)) b;
           Some (ret, b)
         } else do {
           let (ret, _, b) = sendReceipt E copied requestType requestId b;
           b \<leftarrow> modRequest requestState (UpdateRequest_vfs (minusReceiptOnSend vfs)) b;
           Some (ret, b)
         })
      else do {
        b \<leftarrow> modRequest requestState (UpdateRequest_msg (Some copied)) b;
        Some (0, b)
      })"

definition notifyOnRedirect :: "env \<Rightarrow> RequestType \<Rightarrow> rptr \<Rightarrow> Broker \<Rightarrow> (int \<times> Broker) option" where
  "notifyOnRedirect E requestType requestState b = do {
     rs \<leftarrow> requestHeap b requestState;
     case rs_msg rs of
       None \<Rightarrow> Some (1, b)
     | Some requestMessage \<Rightarrow> do {
         let m = ZMQMessageEnvCopy E (zmsg_new E) requestMessage;
         let m = zmsg_append E m [];
         let m = add_u32 E (ClusterMessage_value BrokerResponse) m;
         let m = add_vfs E (rs_vfs rs) m;
         let m = add_u32 E requestType m;
         let m = add_u64 E (rs_requestId rs) m;
         let m = add_u32 E (RequestStatus_value RS_Redirected) m;
         let (ret, _, b) = SendLocal E Frontend m b;
         Some (ret, b)
       }
   }"

text \<open>
  \<open>ret = Send( lp, frontend ); if ( ret && *lp ) zmsg_destroy( lp )\<close>: the common end of the two
  overloads of \<open>rejectRequest\<close>.
\<close>

definition sendOrDestroy :: "env \<Rightarrow> sock \<Rightarrow> msgref \<Rightarrow> Broker \<Rightarrow> (int \<times> Broker) option" where
  "sendOrDestroy E socket lp b = do {
     (ret, b) \<leftarrow> SendMsg E socket lp b;
     b \<leftarrow> (if ret \<noteq> 0 then storeMsg lp None b else Some b);
     Some (ret, b)
   }"

definition rejectRequest1 ::
    "env \<Rightarrow> LHCVersionFlags \<Rightarrow> RequestType \<Rightarrow> RequestId \<Rightarrow> msgref \<Rightarrow> RequestStatus \<Rightarrow> Broker \<Rightarrow> (int \<times> Broker) option" where
  "rejectRequest1 E vfs requestType requestId lpNewRequest requestStatus b = do {
     p \<leftarrow> loadMsg lpNewRequest b;
     m \<leftarrow> p;
     let m = add_vfs E vfs m;
     let m = add_u32 E requestType m;
     let m = add_u64 E requestId m;
     let m = add_u32 E (RequestStatus_value requestStatus) m;
     b \<leftarrow> storeMsg lpNewRequest (Some m) b;
     sendOrDestroy E Frontend lpNewRequest b
   }"

text \<open>
  \<open>rejectRequest2\<close> walks over envelope, delimiter, flags, type and id, which it assumes to be there
  (on a shorter message \<open>zframe_size\<close> or \<open>zmsg_next\<close> runs past the end), and removes each frame it
  still finds: after a removal the cursor is before the frame that took its place.
\<close>

definition remove_data :: "env \<Rightarrow> nat \<Rightarrow> zmsg \<Rightarrow> zmsg" where
  "remove_data E n m = ((\<lambda>m. zmsg_remove E m n) ^^ (zmsg_size E m - n)) m"

definition rejectRequest2 :: "env \<Rightarrow> msgref \<Rightarrow> RequestStatus \<Rightarrow> Broker \<Rightarrow> (int \<times> Broker) option" where
  "rejectRequest2 E lpNewRequest requestStatus b = do {
     p \<leftarrow> loadMsg lpNewRequest b;
     m \<leftarrow> p;
     let n = length (takeWhile (\<lambda>f. f \<noteq> []) (zmsg_frames E m));
     _ \<leftarrow> (if n + 4 \<le> length (zmsg_frames E m) then Some () else None);
     let m = remove_data E (n + 4) m;
     let m = add_u32 E (RequestStatus_value requestStatus) m;
     b \<leftarrow> storeMsg lpNewRequest (Some m) b;
     sendOrDestroy E Frontend lpNewRequest b
   }"

section \<open>Forwarding to a worker\<close>

text \<open>\<open>identity | null | BrokerNewRequest | request\<close>.\<close>

definition addWorkerHeader :: "env \<Rightarrow> frame \<Rightarrow> zmsg \<Rightarrow> zmsg" where
  "addWorkerHeader E ident m =
     (let m = push_u32 E (ClusterMessage_value BrokerNewRequest) m;
          m = zmsg_prepend E m []
      in zmsg_prepend E m ident)"

definition popWorkerHeader :: "env \<Rightarrow> zmsg \<Rightarrow> zmsg" where
  "popWorkerHeader E m = snd (zmsg_pop E (snd (zmsg_pop E (snd (zmsg_pop E m)))))"

definition undoWorkerHeader :: "env \<Rightarrow> msgref \<Rightarrow> Broker \<Rightarrow> Broker option" where
  "undoWorkerHeader E lp b = do {
     p \<leftarrow> loadMsg lp b;
     m \<leftarrow> p;
     storeMsg lp (Some (popWorkerHeader E m)) b
   }"

definition forwardWorkerParsedClientRequest1 ::
    "env \<Rightarrow> wptr \<Rightarrow> RequestType \<Rightarrow> rptr \<Rightarrow> Broker \<Rightarrow> (int \<times> Broker) option" where
  "forwardWorkerParsedClientRequest1 E workerInfo requestType requestState b = do {
     rs \<leftarrow> requestHeap b requestState;
     m \<leftarrow> rs_msg rs;
     wi \<leftarrow> workerHeap b workerInfo;
     let requestId = rs_requestId rs;
     let copiedRequest = copyRequestForFlags E (rs_vfs rs) m;
     b \<leftarrow> storeMsg (MsgOf requestState) (Some (addWorkerHeader E (wi_identity wi) m)) b;
     (ret, b) \<leftarrow> SendMsg E Backend (MsgOf requestState) b;
     if ret = 0 then do {
       b \<leftarrow> modWorker workerInfo (WorkerInfo_AddInProgressRequest requestType requestId requestState) b;
       b \<leftarrow> AssignWorkerFromPending requestType requestState workerInfo b;
       b \<leftarrow> modWorker workerInfo (UpdateBrokerLastActive (currentTime b)) b;
       case copiedRequest of
         None \<Rightarrow> Some (ret, b)
       | Some copied \<Rightarrow> do {
           rs \<leftarrow> requestHeap b requestState;
           handleCopiedRequest E requestState (rs_vfs rs) requestType requestId copied b
         }
     } else do {
       b \<leftarrow> undoWorkerHeader E (MsgOf requestState) b;
       Some (ret, b)
     }
   }"

definition forwardWorkerParsedClientRequest2 ::
    "env \<Rightarrow> wptr \<Rightarrow> RequestId \<Rightarrow> LHCVersionFlags \<Rightarrow> msgref \<Rightarrow> RequestType \<Rightarrow> Broker \<Rightarrow> (int \<times> Broker) option" where
  "forwardWorkerParsedClientRequest2 E workerInfo requestId vfs lpNewRequest requestType b = do {
     p \<leftarrow> loadMsg lpNewRequest b;
     m \<leftarrow> p;
     wi \<leftarrow> workerHeap b workerInfo;
     let copiedNewRequest = copyRequestForFlags E vfs m;
     b \<leftarrow> storeMsg lpNewRequest (Some (addWorkerHeader E (wi_identity wi) m)) b;
     (ret, b) \<leftarrow> SendMsg E Backend lpNewRequest b;
     if ret = 0 then do {
       (requestState, b) \<leftarrow> AddInProgressRequest requestType requestId vfs workerInfo b;
       rs \<leftarrow> requestHeap b requestState;
       b \<leftarrow> modWorker workerInfo (WorkerInfo_AddInProgressRequest requestType (rs_requestId rs) requestState) b;
       b \<leftarrow> modWorker workerInfo (UpdateWorkerLastActive (currentTime b)) b;
       case copiedNewRequest of
         None \<Rightarrow> Some (ret, b)
       | Some copied \<Rightarrow> handleCopiedRequest E requestState vfs requestType requestId copied b
     } else do {
       b \<leftarrow> undoWorkerHeader E lpNewRequest b;
       Some (ret, b)
     }
   }"

section \<open>Availability across contexts\<close>

text \<open>
  \<open>FreeCapacity()\<close> of a worker that a pointer reaches, and the loops that take a worker out of
  the contexts of a range of its request types: with a test of the iterator, and without.
\<close>

definition workerCapacity :: "wptr \<Rightarrow> Broker \<Rightarrow> int option" where
  "workerCapacity w b = map_option FreeCapacity (workerHeap b w)"

fun removeAvailableChecked :: "RequestType list \<Rightarrow> wptr \<Rightarrow> Broker \<Rightarrow> Broker" where
  "removeAvailableChecked [] w b = b"
| "removeAvailableChecked (t # ts) w b = removeAvailableChecked ts w
     (case modContext t (RemoveAvailableWorker w) b of None \<Rightarrow> b | Some b' \<Rightarrow> b')"

fun removeAvailableUnchecked :: "RequestType list \<Rightarrow> wptr \<Rightarrow> Broker \<Rightarrow> Broker option" where
  "removeAvailableUnchecked [] w b = Some b"
| "removeAvailableUnchecked (t # ts) w b = do {
     b \<leftarrow> modContext t (RemoveAvailableWorker w) b;
     removeAvailableUnchecked ts w b
   }"

end
