(* ===== verification/Handlers.thy ===== *)
theory Handlers
  imports Messages
begin

text \<open>
  What the message handlers of broker, client proxy and worker share. Parsing a header is separated
  from acting on it: \<open>Malformed n\<close> is an early return with code \<open>n\<close>, \<open>Throws\<close> the
  \<open>std::runtime_error\<close> of \<open>get_frame_value\<close>. An outcome is a return code or that exception, and a
  reactor callback turns the exception into \<open>-1\<close>. \<open>env_ok\<close> collects what the theorems assume of the
  code outside the repository.
\<close>

section \<open>Parsing a header\<close>

datatype 'a parsed = Malformed int | Throws | Parsed 'a

datatype outcome = Returns int | Thrown

fun and_then :: "'a parsed \<Rightarrow> ('a \<Rightarrow> 'b parsed) \<Rightarrow> 'b parsed" where
  "and_then (Malformed n) k = Malformed n"
| "and_then Throws k = Throws"
| "and_then (Parsed a) k = k a"

text \<open>The frame after the delimiter, \<open>NULL\<close> before it: the walk over the envelope.\<close>

definition skip_envelope :: "int \<Rightarrow> frame list \<Rightarrow> frame list parsed" where
  "skip_envelope code fs = (case dropWhile (\<lambda>f. f \<noteq> []) fs of [] \<Rightarrow> Malformed code | _ # rest \<Rightarrow> Parsed rest)"

text \<open>\<open>zmsg_next\<close>, the test for a missing or empty frame, and \<open>get_frame_value\<close>.\<close>

fun next_value :: "int \<Rightarrow> (frame \<Rightarrow> 'v option) \<Rightarrow> frame list \<Rightarrow> ('v \<times> frame list) parsed" where
  "next_value code get [] = Malformed code"
| "next_value code get (f # fs) = (if f = [] then Malformed code
     else (case get f of None \<Rightarrow> Throws | Some v \<Rightarrow> Parsed (v, fs)))"

text \<open>A handler that is read with and then written with keeps the buffer it parsed into.\<close>

definition read_with :: "(ZMQFrameHandler \<Rightarrow> frame \<Rightarrow> 'v option \<times> ZMQFrameHandler) \<Rightarrow> ZMQFrameHandler \<Rightarrow> frame \<Rightarrow>
    ('v \<times> ZMQFrameHandler) option" where
  "read_with get h frame = (case get h frame of (r, h) \<Rightarrow> map_option (\<lambda>v. (v, h)) r)"

section \<open>Outcomes\<close>

definition returning :: "(int \<times> 's) option \<Rightarrow> (outcome \<times> 's) option" where
  "returning m = map_option (map_prod Returns id) m"

text \<open>\<open>try { return ...; } catch ( ... ) { ...; return -1; }\<close>\<close>

definition catching :: "(outcome \<times> 's) option \<Rightarrow> (int \<times> 's) option" where
  "catching m = map_option (\<lambda>(res, b). (case res of Returns ret \<Rightarrow> ret | Thrown \<Rightarrow> -1, b)) m"

text \<open>\<open>ret = ret < 0 ? ret : 0\<close>\<close>

definition only_negative :: "outcome \<Rightarrow> outcome" where
  "only_negative res = (case res of Returns ret \<Rightarrow> Returns (if ret < 0 then ret else 0) | Thrown \<Rightarrow> Thrown)"

section \<open>The environment\<close>

definition env_ok :: "env \<Rightarrow> bool" where
  "env_ok E \<longleftrightarrow> czmq_ok E \<and> protobuf_ok E \<and> send_ok E \<and> router_ok E"

lemma env_okD:
  assumes "env_ok E"
  shows "czmq_ok E" "protobuf_ok E" "send_ok E" "router_ok E"
  using assms by (simp_all add: env_ok_def)

lemma ref_env_ok [simp]: "env_ok (ref_env fails)" "env_ok (typed_env fails)"
  by (simp_all add: env_ok_def)

lemmas env_laws = czmq_laws[OF env_okD(1)] add_fresh[OF env_okD(1,2)] get_enc[OF env_okD(2)]
  ZMQMessageEnvCopy_eq[OF env_okD(1)]

lemma Send_front: "env_ok E \<Longrightarrow> Send E h Frontend m = (0, None, h @ [(Frontend, m, 0)])"
  by (simp add: Send_frontend env_okD)

section \<open>Parsing lemmas\<close>

lemma skip_envelope_eq:
  "skip_envelope n m = (if delimited m then Parsed (after_envelope m) else Malformed n)"
  unfolding skip_envelope_def delimited_def after_envelope_def by (induction m) auto

lemma and_then_Parsed: "and_then p k = Parsed x \<longleftrightarrow> (\<exists>a. p = Parsed a \<and> k a = Parsed x)"
  by (cases p) auto

lemma next_value_Parsed:
  "next_value n get fs = Parsed (v, rest) \<longleftrightarrow> (\<exists>f. fs = f # rest \<and> f \<noteq> [] \<and> get f = Some v)"
  by (cases fs) (auto split: option.splits)

lemma read_with_enc:
  assumes "protobuf_ok E"
  shows "read_with (get_frame_value_uint32 E) h (enc_u32 E a) = Some (a, h\<lparr>frameUInt32 := (True, a)\<rparr>)"
    "read_with (get_frame_value_uint64 E) h (enc_u64 E i) = Some (i, h\<lparr>frameUInt64 := (True, i)\<rparr>)"
    "read_with (get_frame_value_LHCVersionFlags E) h (enc_vfs E v) =
      Some (v, h\<lparr>frameVersionFlags := (True, ucast (lhcmajor (version v)), ucast (lhcminor (version v)), flags v)\<rparr>)"
  using assms by (simp_all add: read_with_def read_defs pb_parse_enc)

lemma prepend_kept:
  assumes "czmq_ok E" "protobuf_ok E" "fst (frameUInt32 h)"
  shows "prepend_message_value_uint32 E h m v = ((0, enc_u32 E v # m), h\<lparr>frameUInt32 := (True, v)\<rparr>)"
  using assms by (simp add: write_defs pb_ser_Some czmq_laws)

end
