(* ===== verification/BrokerClient.thy ===== *)
theory BrokerClient
  imports BrokerForward Handlers
begin

text \<open>
  The frontend half of broker.cxx: what the broker does with a message from a client. The
  functions that are only reached from a reactor callback work on the callback's message, the
  \<open>inbox\<close>.
\<close>

section \<open>A parsed request\<close>

text \<open>The request is with a worker, which gets the new copy of it.\<close>

definition redirectInProgress ::
    "env \<Rightarrow> LHCVersionFlags \<Rightarrow> RequestType \<Rightarrow> RequestId \<Rightarrow> rptr \<Rightarrow> Broker \<Rightarrow> (int \<times> Broker) option" where
  "redirectInProgress E vfs type rid requestState b = do {
     rs \<leftarrow> requestHeap b requestState;
     workerInfo \<leftarrow> GetAssignedWorker rs;
     m \<leftarrow> inbox b;
     let copiedNewRequest = copyRequestForFlags E vfs m;
     wi \<leftarrow> workerHeap b workerInfo;
     b \<leftarrow> storeMsg Inbox (Some (addWorkerHeader E (wi_identity wi) m)) b;
     (ret, b) \<leftarrow> SendMsg E Backend Inbox b;
     if ret = 0 then do {
       (ret, b) \<leftarrow> (if hasAny (rs_vfs rs) NotifyOnRedirect then notifyOnRedirect E type requestState b
                     else Some (ret, b));
       (ret, b) \<leftarrow> (case copiedNewRequest of
           Some copied \<Rightarrow> handleCopiedRequest E requestState vfs type rid copied b
         | None \<Rightarrow> do {
             b \<leftarrow> modRequest requestState (UpdateRequest_msg None) b;
             Some (ret, b)
           });
       b \<leftarrow> modRequest requestState (UpdateRequest_vfs vfs) b;
       Some (ret, b)
     } else do {
       b \<leftarrow> storeMsg Inbox None b;
       Some (0, b)
     }
   }"

text \<open>The request is queued: the new copy takes its place.\<close>

definition redirectPending ::
    "env \<Rightarrow> LHCVersionFlags \<Rightarrow> RequestType \<Rightarrow> rptr \<Rightarrow> Broker \<Rightarrow> (int \<times> Broker) option" where
  "redirectPending E vfs type requestState b = do {
     rs \<leftarrow> requestHeap b requestState;
     if hasAny (rs_vfs rs) NotifyOnRedirect then do {
       (ret, b) \<leftarrow> notifyOnRedirect E type requestState b;
       let m = inbox b;
       b \<leftarrow> storeMsg Inbox None b;
       b \<leftarrow> modRequest requestState (SetRequest m vfs) b;
       Some (ret, b)
     } else do {
       let m = inbox b;
       b \<leftarrow> storeMsg Inbox None b;
       b \<leftarrow> modRequest requestState (UpdateRequest m vfs) b;
       Some (0, b)
     }
   }"

text \<open>The request is new: it goes to the next available worker, or into the queue.\<close>

definition dispatchNewRequest ::
    "env \<Rightarrow> LHCVersionFlags \<Rightarrow> RequestType \<Rightarrow> RequestId \<Rightarrow> Broker \<Rightarrow> (int \<times> Broker) option" where
  "dispatchNewRequest E vfs type rid b = do {
     c \<leftarrow> requestTypeContextLookup b type;
     case GetNextAvailableWorker c of
       Some workerInfo \<Rightarrow> do {
         (ret, b) \<leftarrow> forwardWorkerParsedClientRequest2 E workerInfo rid vfs Inbox type b;
         if ret \<noteq> 0 then do {
           b \<leftarrow> AddPendingRequest type rid vfs Inbox b;
           Some (0, b)
         } else do {
           wi \<leftarrow> workerHeap b workerInfo;
           let b = (if FreeCapacity wi \<le> 0
                    then removeAvailableChecked (wi_supportedRequestTypes wi) workerInfo b else b);
           Some (0, b)
         }
       }
     | None \<Rightarrow> do {
         b \<leftarrow> AddPendingRequest type rid vfs Inbox b;
         Some (0, b)
       }
   }"

definition forwardParsedClientRequest ::
    "env \<Rightarrow> LHCVersionFlags \<Rightarrow> RequestType \<Rightarrow> RequestId \<Rightarrow> Broker \<Rightarrow> (int \<times> Broker) option" where
  "forwardParsedClientRequest E vfs type rid b =
     (case requestTypeContextLookup b type of
        Some requestTypeContext \<Rightarrow>
          (case GetRequestState rid requestTypeContext of
             Some requestState \<Rightarrow> do {
               rs \<leftarrow> requestHeap b requestState;
               if hasAny (rs_vfs rs) AllowRedirect then
                 (if IsInProgress rs then redirectInProgress E vfs type rid requestState b
                  else redirectPending E vfs type requestState b)
               else rejectRequest2 E Inbox RS_Rejected b
             }
           | None \<Rightarrow> dispatchNewRequest E vfs type rid b)
      | None \<Rightarrow> do {
          b \<leftarrow> AddPendingRequest type rid vfs Inbox (newContext type b);
          Some (0, b)
        })"

section \<open>Client messages\<close>

definition parseClientRequest :: "env \<Rightarrow> zmsg \<Rightarrow> (LHCVersionFlags \<times> RequestType \<times> RequestId) parsed" where
  "parseClientRequest E newRequest =
     and_then (skip_envelope 1 (zmsg_frames E newRequest)) (\<lambda>fs.
     and_then (next_value 3 (get_vfs E) fs) (\<lambda>(vfs, fs).
     and_then (next_value 3 (get_u32 E) fs) (\<lambda>(requestType, fs).
     and_then (next_value 4 (get_u64 E) fs) (\<lambda>(requestId, fs).
     Parsed (vfs, requestType, requestId)))))"

definition handleClientRequest :: "env \<Rightarrow> Broker \<Rightarrow> (outcome \<times> Broker) option" where
  "handleClientRequest E b = do {
     newRequest \<leftarrow> inbox b;
     case parseClientRequest E newRequest of
       Malformed n \<Rightarrow> do {
         b \<leftarrow> storeMsg Inbox None b;
         Some (Returns n, b)
       }
     | Throws \<Rightarrow> Some (Thrown, b)
     | Parsed (vfs, requestType, requestId) \<Rightarrow>
         returning (forwardParsedClientRequest E vfs requestType requestId b)
   }"

text \<open>\<open>while ( ( frame = zmsg_pop( msg ) ) != nullptr ) zframe_destroy( &frame )\<close>\<close>

partial_function (option) pop_all :: "env \<Rightarrow> zmsg \<Rightarrow> zmsg option" where
  "pop_all E m = (case zmsg_pop E m of (Some _, m') \<Rightarrow> pop_all E m' | (None, m') \<Rightarrow> Some m')"

definition handleClientHeartbeat :: "env \<Rightarrow> Broker \<Rightarrow> (int \<times> Broker) option" where
  "handleClientHeartbeat E b = do {
     heartbeatMsg \<leftarrow> inbox b;
     let (ident, m) = zmsg_pop E heartbeatMsg;
     m \<leftarrow> pop_all E m;
     ident \<leftarrow> ident;
     let m = zmsg_prepend E m ident;
     let (ret, m', h) = SendHeartbeat E (sends b) Frontend (currentTime b) (selfHeartbeatDelay b)
       (ClusterMessage_value BrokerHeartbeat) m;
     let b = b\<lparr>sends := h, inbox := m'\<rparr>;
     b \<leftarrow> (if ret \<noteq> 0 then storeMsg Inbox None b else Some b);
     Some (ret, b)
   }"

text \<open>
  The message type is removed from the message once it is known to be there, before it is
  parsed; the return code of \<open>handleClientRequest\<close> is dropped.
\<close>

definition handleFrontendMessage_msg :: "env \<Rightarrow> Broker \<Rightarrow> (outcome \<times> Broker) option" where
  "handleFrontendMessage_msg E b = do {
     frontendMessage \<leftarrow> inbox b;
     let fs = zmsg_frames E frontendMessage;
     case skip_envelope 0 fs of
       Parsed (f # rest) \<Rightarrow>
         (if f = [] then do {
            b \<leftarrow> storeMsg Inbox None b;
            Some (Returns 0, b)
          } else do {
            b \<leftarrow> storeMsg Inbox (Some (zmsg_remove E frontendMessage (length fs - length rest - 1))) b;
            case get_u32 E f of
              None \<Rightarrow> Some (Thrown, b)
            | Some messageType \<Rightarrow>
                (if messageType = ClusterMessage_value ClientNewRequest then do {
                   (res, b) \<leftarrow> handleClientRequest E b;
                   Some (case res of Returns _ \<Rightarrow> Returns 0 | Thrown \<Rightarrow> Thrown, b)
                 } else if messageType = ClusterMessage_value ClientHeartbeat then
                   returning (handleClientHeartbeat E b)
                 else do {
                   b \<leftarrow> storeMsg Inbox None b;
                   Some (Returns 0, b)
                 })
          })
     | _ \<Rightarrow> do {
         b \<leftarrow> storeMsg Inbox None b;
         Some (Returns 0, b)
       }
   }"

text \<open>\<open>now\<close> is what \<open>time( nullptr )\<close> returns, \<open>received\<close> what \<open>Receive\<close> returns.\<close>

definition updateCurrentTime :: "time_t \<Rightarrow> Broker \<Rightarrow> Broker" where
  "updateCurrentTime now b = b\<lparr>currentTime := now\<rparr>"

definition handleFrontendMessage :: "env \<Rightarrow> time_t \<Rightarrow> zmsg option \<Rightarrow> Broker \<Rightarrow> (outcome \<times> Broker) option" where
  "handleFrontendMessage E now received b = (let b = updateCurrentTime now b in
     case received of
       None \<Rightarrow> Some (Returns 0, b)
     | Some _ \<Rightarrow> do {
         (res, b) \<leftarrow> handleFrontendMessage_msg E (b\<lparr>inbox := received\<rparr>);
         Some (only_negative res, b)
       })"

end
