(* ===== verification/BrokerWorker.thy ===== *)
theory BrokerWorker
  imports BrokerClient
begin

text \<open>
  The backend half of broker.cxx: workers that register, beat, finish requests and die. The loops
  over a worker's request types are recursions on the list of types, with the earlier ones at
  hand for the inner loops that take the worker out of their contexts; \<open>while\<close> loops are
  \<open>partial_function\<close>s, so that not ending is \<open>None\<close>.
\<close>

section \<open>Heartbeats and receipts\<close>

definition sendWorkerHeartbeat :: "env \<Rightarrow> wptr \<Rightarrow> Broker \<Rightarrow> (int \<times> Broker) option" where
  "sendWorkerHeartbeat E workerInfo b = do {
     wi \<leftarrow> workerHeap b workerInfo;
     let heartbeatMsg = zmsg_prepend E (zmsg_new E) (wi_identity wi);
     let (ret, _, h) = SendHeartbeat E (sends b) Backend (currentTime b) (selfHeartbeatDelay b)
       (ClusterMessage_value BrokerHeartbeat) heartbeatMsg;
     let b = b\<lparr>sends := h\<rparr>;
     if ret \<noteq> 0 then Some (0, b)
     else do {
       b \<leftarrow> modWorker workerInfo (UpdateBrokerLastActive (currentTime b)) b;
       Some (ret, b)
     }
   }"

fun sendWorkerHeartbeats_loop :: "env \<Rightarrow> wptr list \<Rightarrow> int \<Rightarrow> Broker \<Rightarrow> (int \<times> Broker) option" where
  "sendWorkerHeartbeats_loop E [] ret b = Some (ret, b)"
| "sendWorkerHeartbeats_loop E (w # ws) ret b = do {
     wi \<leftarrow> workerHeap b w;
     (ret, b) \<leftarrow> (if IsHeartbeatNeededAsOf wi (currentTime b) then sendWorkerHeartbeat E w b else Some (ret, b));
     sendWorkerHeartbeats_loop E ws ret b
   }"

definition sendWorkerHeartbeats :: "env \<Rightarrow> Broker \<Rightarrow> (int \<times> Broker) option" where
  "sendWorkerHeartbeats E b = sendWorkerHeartbeats_loop E (map snd (workerInfoLookup b)) 0 b"

text \<open>A worker that is not known leaves the message alone: it is not destroyed.\<close>

definition parseWorkerHeartbeat :: "env \<Rightarrow> time_t \<Rightarrow> Delay \<Rightarrow> zmsg \<Rightarrow> (time_t \<times> Delay) parsed" where
  "parseWorkerHeartbeat E now minimumDelay heartbeatMsg =
     and_then (next_value 2 (get_time E) (zmsg_frames E heartbeatMsg)) (\<lambda>(sentAt, fs).
     if sentAt \<le> 0 \<or> sentAt > now then Malformed 2 else
     and_then (next_value 3 (get_time E) fs) (\<lambda>(newHeartbeatSendDelay, fs).
     if newHeartbeatSendDelay < minimumDelay then Malformed 3 else
     Parsed (sentAt, newHeartbeatSendDelay)))"

definition handleWorkerHeartbeat :: "env \<Rightarrow> frame \<Rightarrow> Broker \<Rightarrow> (outcome \<times> Broker) option" where
  "handleWorkerHeartbeat E ident b = do {
     heartbeatMsg \<leftarrow> inbox b;
     case LookupWorkerInfo (workerInfoLookup b) ident of
       None \<Rightarrow> Some (Returns 1, b)
     | Some workerInfo \<Rightarrow>
         (case parseWorkerHeartbeat E (currentTime b) (minimumWorkerHeartbeatDelay b) heartbeatMsg of
            Throws \<Rightarrow> Some (Thrown, b)
          | Malformed n \<Rightarrow> Some (Returns n, b\<lparr>inbox := None\<rparr>)
          | Parsed (sentAt, newHeartbeatSendDelay) \<Rightarrow> do {
              b \<leftarrow> modWorker workerInfo (UpdateWithHeartbeat (currentTime b) sentAt newHeartbeatSendDelay) b;
              Some (Returns 0, b\<lparr>inbox := None\<rparr>)
            })
   }"

definition handleWorkerReceipt :: "env \<Rightarrow> frame \<Rightarrow> Broker \<Rightarrow> (int \<times> Broker) option" where
  "handleWorkerReceipt E ident b = do {
     b \<leftarrow> (case LookupWorkerInfo (workerInfoLookup b) ident of
             None \<Rightarrow> Some b
           | Some workerInfo \<Rightarrow> modWorker workerInfo (UpdateWorkerLastActive (currentTime b)) b);
     sendOrDestroy E Frontend Inbox b
   }"

section \<open>Giving pending requests to a worker\<close>

text \<open>
  The second sweep, the same code for a new worker and for one that finished: round robin over
  the request types while the worker has capacity and there was something left in the round.
\<close>

fun sweepTypes :: "env \<Rightarrow> wptr \<Rightarrow> RequestType list \<Rightarrow> RequestType list \<Rightarrow> bool \<Rightarrow> Broker \<Rightarrow> (bool \<times> Broker) option" where
  "sweepTypes E workerInfo earlier [] again b = Some (again, b)"
| "sweepTypes E workerInfo earlier (t # ts) again b = do {
     requestTypeContext \<leftarrow> requestTypeContextLookup b t;
     case GetNextPendingRequest requestTypeContext of
       None \<Rightarrow> sweepTypes E workerInfo (earlier @ [t]) ts again b
     | Some nextPendingRequest \<Rightarrow> do {
         (ret, b) \<leftarrow> forwardWorkerParsedClientRequest1 E workerInfo t nextPendingRequest b;
         if ret = 0 then do {
           capacity \<leftarrow> workerCapacity workerInfo b;
           if capacity \<le> 0 then Some (again, removeAvailableChecked (earlier @ [t]) workerInfo b)
           else do {
             c \<leftarrow> requestTypeContextLookup b t;
             sweepTypes E workerInfo (earlier @ [t]) ts (again \<or> GetNextPendingRequest c \<noteq> None) b
           }
         } else sweepTypes E workerInfo (earlier @ [t]) ts again b
       }
   }"

partial_function (option) sweepPendingRequests :: "env \<Rightarrow> wptr \<Rightarrow> bool \<Rightarrow> Broker \<Rightarrow> Broker option" where
  "sweepPendingRequests E workerInfo thereAreMoreRequests b = do {
     wi \<leftarrow> workerHeap b workerInfo;
     if FreeCapacity wi > 0 \<and> thereAreMoreRequests then do {
       (again, b) \<leftarrow> sweepTypes E workerInfo [] (wi_supportedRequestTypes wi) False b;
       sweepPendingRequests E workerInfo again b
     } else Some b
   }"

section \<open>A new worker\<close>

definition newWorkerVisit ::
    "env \<Rightarrow> wptr \<Rightarrow> RequestType list \<Rightarrow> RequestType \<Rightarrow> bool \<Rightarrow> Broker \<Rightarrow> (bool \<times> Broker) option" where
  "newWorkerVisit E workerInfo earlier t again b = do {
     capacity \<leftarrow> workerCapacity workerInfo b;
     case requestTypeContextLookup b t of
       Some requestTypeContext \<Rightarrow> do {
         b \<leftarrow> modContext t IncrementNumWorkers b;
         if capacity > 0 then
           (case GetNextPendingRequest requestTypeContext of
              Some nextPendingRequest \<Rightarrow> do {
                (ret, b) \<leftarrow> forwardWorkerParsedClientRequest1 E workerInfo t nextPendingRequest b;
                if ret = 0 then do {
                  capacity \<leftarrow> workerCapacity workerInfo b;
                  if capacity \<le> 0 then do {
                    b \<leftarrow> removeAvailableUnchecked earlier workerInfo b;
                    Some (again, b)
                  } else do {
                    b \<leftarrow> modContext t (AddAvailableWorker workerInfo) b;
                    c \<leftarrow> requestTypeContextLookup b t;
                    Some (again \<or> GetNextPendingRequest c \<noteq> None, b)
                  }
                } else do {
                  b \<leftarrow> modContext t (AddAvailableWorker workerInfo) b;
                  Some (True, b)
                }
              }
            | None \<Rightarrow> do {
                b \<leftarrow> modContext t (AddAvailableWorker workerInfo) b;
                Some (again, b)
              })
         else Some (again, b)
       }
     | None \<Rightarrow> do {
         b \<leftarrow> modContext t IncrementNumWorkers (newContext t b);
         b \<leftarrow> (if capacity > 0 then modContext t (AddAvailableWorker workerInfo) b else Some b);
         Some (again, b)
       }
   }"

fun newWorkerFirstSweep ::
    "env \<Rightarrow> wptr \<Rightarrow> RequestType list \<Rightarrow> RequestType list \<Rightarrow> bool \<Rightarrow> Broker \<Rightarrow> (bool \<times> Broker) option" where
  "newWorkerFirstSweep E workerInfo earlier [] again b = Some (again, b)"
| "newWorkerFirstSweep E workerInfo earlier (t # ts) again b = do {
     (again, b) \<leftarrow> newWorkerVisit E workerInfo earlier t again b;
     newWorkerFirstSweep E workerInfo (earlier @ [t]) ts again b
   }"

text \<open>The return code is 0 whatever happens, and not looked at.\<close>

definition updateContextsForNewWorker :: "env \<Rightarrow> wptr \<Rightarrow> Broker \<Rightarrow> Broker option" where
  "updateContextsForNewWorker E workerInfo b = do {
     wi \<leftarrow> workerHeap b workerInfo;
     (again, b) \<leftarrow> newWorkerFirstSweep E workerInfo [] (wi_supportedRequestTypes wi) False b;
     sweepPendingRequests E workerInfo again b
   }"

fun parseRequestTypes :: "env \<Rightarrow> frame list \<Rightarrow> RequestType list parsed" where
  "parseRequestTypes E [] = Parsed []"
| "parseRequestTypes E (f # fs) = (if f = [] then Malformed 1
     else (case get_u32 E f of None \<Rightarrow> Throws
       | Some t \<Rightarrow> and_then (parseRequestTypes E fs) (\<lambda>ts. Parsed (t # ts))))"

definition parseWorkerReady :: "env \<Rightarrow> zmsg \<Rightarrow> (LHCVersionFlags \<times> int \<times> Delay \<times> RequestType list) parsed" where
  "parseWorkerReady E workerReadyMsg =
     (if zmsg_size E workerReadyMsg < 4 then Malformed 1 else
      and_then (next_value 1 (get_vfs E) (zmsg_frames E workerReadyMsg)) (\<lambda>(wvfs, fs).
      and_then (next_value 1 (get_i32 E) fs) (\<lambda>(freeCapacity, fs).
      if freeCapacity < 0 then Malformed 1 else
      and_then (next_value 1 (get_i32 E) fs) (\<lambda>(heartbeatSendDelay, fs).
      and_then (parseRequestTypes E fs) (\<lambda>supportedRequestTypes.
      Parsed (wvfs, freeCapacity, heartbeatSendDelay, supportedRequestTypes))))))"

definition handleWorkerReady :: "env \<Rightarrow> frame \<Rightarrow> Broker \<Rightarrow> (outcome \<times> Broker) option" where
  "handleWorkerReady E ident b = do {
     workerReadyMsg \<leftarrow> inbox b;
     case LookupWorkerInfo (workerInfoLookup b) ident of
       Some _ \<Rightarrow> Some (Returns 0, b\<lparr>inbox := None\<rparr>)
     | None \<Rightarrow>
         (case parseWorkerReady E workerReadyMsg of
            Throws \<Rightarrow> Some (Thrown, b)
          | Malformed n \<Rightarrow> Some (Returns n, b\<lparr>inbox := None\<rparr>)
          | Parsed (wvfs, freeCapacity, heartbeatSendDelay, supportedRequestTypes) \<Rightarrow> do {
              let (workerInfo, b) = registerWorker (WorkerInfo_new ident (currentTime b)
                (word_of_int freeCapacity) supportedRequestTypes heartbeatSendDelay wvfs) b;
              b \<leftarrow> updateContextsForNewWorker E workerInfo b;
              Some (Returns 0, b\<lparr>inbox := None\<rparr>)
            })
   }"

section \<open>A dead worker\<close>

definition MAX_TRY_COUNT :: int where
  "MAX_TRY_COUNT = 2"

definition retryOnOtherWorker :: "env \<Rightarrow> RequestType \<Rightarrow> RequestId \<Rightarrow> rptr \<Rightarrow> int \<Rightarrow> Broker \<Rightarrow> (int \<times> Broker) option" where
  "retryOnOtherWorker E type rid requestState ret b = do {
     rs \<leftarrow> requestHeap b requestState;
     requestTypeContext \<leftarrow> requestTypeContextLookup b type;
     case GetNextAvailableWorker requestTypeContext of
       Some otherWorkerInfo \<Rightarrow> do {
         (ret, b) \<leftarrow> forwardWorkerParsedClientRequest2 E otherWorkerInfo rid (rs_vfs rs) (MsgOf requestState) type b;
         if ret \<noteq> 0 then do {
           b \<leftarrow> BackToPending type requestState b;
           Some (0, b)
         } else do {
           wi \<leftarrow> workerHeap b otherWorkerInfo;
           let b = (if FreeCapacity wi \<le> 0
                    then removeAvailableChecked (wi_supportedRequestTypes wi) otherWorkerInfo b else b);
           Some (ret, b)
         }
       }
     | None \<Rightarrow> do {
         b \<leftarrow> BackToPending type requestState b;
         Some (ret, b)
       }
   }"

definition deadWorkerRequest :: "env \<Rightarrow> RequestType \<Rightarrow> RequestId \<Rightarrow> rptr \<Rightarrow> int \<Rightarrow> Broker \<Rightarrow> (int \<times> Broker) option" where
  "deadWorkerRequest E type rid requestState ret b = do {
     rs \<leftarrow> requestHeap b requestState;
     let vfs = rs_vfs rs;
     if hasAny vfs (RetryOnDeath OR NotifyOnDeath) then
       (if hasAny vfs RetryOnDeath \<and> GetTryCount rs < MAX_TRY_COUNT then
          retryOnOtherWorker E type rid requestState ret b
        else if hasAny vfs NotifyOnDeath then do {
          (ret, b) \<leftarrow> (if hasAny vfs RetryOnDeath then rejectRequest2 E (MsgOf requestState) RS_WorkerDeath b
                        else rejectRequest1 E vfs type rid (MsgOf requestState) RS_WorkerDeath b);
          b \<leftarrow> EraseInProgressRequest type rid b;
          Some (ret, b)
        } else Some (ret, b))
     else do {
       b \<leftarrow> EraseInProgressRequest type rid b;
       Some (ret, b)
     }
   }"

fun deadWorkerRequests :: "env \<Rightarrow> RequestType \<Rightarrow> (RequestId \<times> rptr) list \<Rightarrow> int \<Rightarrow> Broker \<Rightarrow> (int \<times> Broker) option" where
  "deadWorkerRequests E type [] ret b = Some (ret, b)"
| "deadWorkerRequests E type ((rid, requestState) # rest) ret b = do {
     (ret, b) \<leftarrow> deadWorkerRequest E type rid requestState ret b;
     deadWorkerRequests E type rest ret b
   }"

fun deadWorkerTypes :: "env \<Rightarrow> wptr \<Rightarrow> RequestType list \<Rightarrow> int \<Rightarrow> Broker \<Rightarrow> (int \<times> Broker) option" where
  "deadWorkerTypes E workerInfo [] ret b = Some (ret, b)"
| "deadWorkerTypes E workerInfo (t # ts) ret b =
     (case requestTypeContextLookup b t of
        None \<Rightarrow> deadWorkerTypes E workerInfo ts ret b
      | Some _ \<Rightarrow> do {
          wi \<leftarrow> workerHeap b workerInfo;
          b \<leftarrow> modContext t DecrementNumWorkers b;
          b \<leftarrow> modContext t (RemoveAvailableWorker workerInfo) b;
          (ret, b) \<leftarrow> deadWorkerRequests E t (in_progress wi t) ret b;
          deadWorkerTypes E workerInfo ts ret b
        })"

definition updateContextsForDeadWorker :: "env \<Rightarrow> wptr \<Rightarrow> Broker \<Rightarrow> (int \<times> Broker) option" where
  "updateContextsForDeadWorker E workerInfo b = do {
     wi \<leftarrow> workerHeap b workerInfo;
     deadWorkerTypes E workerInfo (wi_supportedRequestTypes wi) 0 b
   }"

definition handleWorkerDeath :: "env \<Rightarrow> wptr \<Rightarrow> Broker \<Rightarrow> (int \<times> Broker) option" where
  "handleWorkerDeath E workerInfo b = updateContextsForDeadWorker E workerInfo b"

fun checkWorkersPulse_loop :: "env \<Rightarrow> WorkerInfoLookup \<Rightarrow> int \<Rightarrow> Broker \<Rightarrow> (int \<times> Broker) option" where
  "checkWorkersPulse_loop E [] ret b = Some (ret, b)"
| "checkWorkersPulse_loop E ((ident, w) # rest) ret b = do {
     wi \<leftarrow> workerHeap b w;
     if IsAliveAsOf wi (currentTime b) (workerDeathDelay b) then checkWorkersPulse_loop E rest ret b
     else do {
       (ret, b) \<leftarrow> handleWorkerDeath E w b;
       checkWorkersPulse_loop E rest ret (unregisterWorker ident w b)
     }
   }"

definition checkWorkersPulse :: "env \<Rightarrow> Broker \<Rightarrow> (int \<times> Broker) option" where
  "checkWorkersPulse E b = checkWorkersPulse_loop E (workerInfoLookup b) 0 b"

section \<open>A worker that finished a request\<close>

text \<open>
  One turn of the first sweep: the next pending request is looked up before the finished one is
  erased. The first component tells whether the loop goes on.
\<close>

definition finishedVisit ::
    "env \<Rightarrow> wptr \<Rightarrow> RequestType \<Rightarrow> RequestId \<Rightarrow> RequestType list \<Rightarrow> RequestType \<Rightarrow> bool \<Rightarrow> bool \<Rightarrow> Broker
      \<Rightarrow> (bool \<times> bool \<times> bool \<times> Broker) option" where
  "finishedVisit E workerInfo type rid earlier t removed again b =
     (case requestTypeContextLookup b t of
        None \<Rightarrow> Some (True, removed, again, b)
      | Some requestTypeContext \<Rightarrow> do {
          b \<leftarrow> (if \<not> removed \<and> t = type then EraseInProgressRequest t rid b else Some b);
          let removed = (removed \<or> t = type);
          case GetNextPendingRequest requestTypeContext of
            Some nextPendingRequest \<Rightarrow> do {
              (ret, b) \<leftarrow> forwardWorkerParsedClientRequest1 E workerInfo t nextPendingRequest b;
              if ret = 0 then do {
                capacity \<leftarrow> workerCapacity workerInfo b;
                if capacity \<le> 0 then do {
                  b \<leftarrow> removeAvailableUnchecked (earlier @ [t]) workerInfo b;
                  Some (False, removed, again, b)
                } else do {
                  b \<leftarrow> modContext t (AddAvailableWorker workerInfo) b;
                  c \<leftarrow> requestTypeContextLookup b t;
                  Some (True, removed, again \<or> GetNextPendingRequest c \<noteq> None, b)
                }
              } else do {
                b \<leftarrow> modContext t (AddAvailableWorker workerInfo) b;
                Some (True, removed, True, b)
              }
            }
          | None \<Rightarrow> do {
              b \<leftarrow> modContext t (AddAvailableWorker workerInfo) b;
              Some (True, removed, again, b)
            }
        })"

fun finishedFirstSweep ::
    "env \<Rightarrow> wptr \<Rightarrow> RequestType \<Rightarrow> RequestId \<Rightarrow> RequestType list \<Rightarrow> RequestType list \<Rightarrow> bool \<Rightarrow> bool \<Rightarrow> Broker
      \<Rightarrow> (bool \<times> bool \<times> Broker) option" where
  "finishedFirstSweep E workerInfo type rid earlier [] removed again b = Some (removed, again, b)"
| "finishedFirstSweep E workerInfo type rid earlier (t # ts) removed again b = do {
     (goes_on, removed, again, b) \<leftarrow> finishedVisit E workerInfo type rid earlier t removed again b;
     if goes_on then finishedFirstSweep E workerInfo type rid (earlier @ [t]) ts removed again b
     else Some (removed, again, b)
   }"

definition updateContextsForFinishedWorker ::
    "env \<Rightarrow> wptr \<Rightarrow> RequestType \<Rightarrow> RequestId \<Rightarrow> Broker \<Rightarrow> Broker option" where
  "updateContextsForFinishedWorker E workerInfo type rid b = do {
     wi \<leftarrow> workerHeap b workerInfo;
     (removed, again, b) \<leftarrow> (if FreeCapacity wi > 0
       then finishedFirstSweep E workerInfo type rid [] (wi_supportedRequestTypes wi) False False b
       else Some (False, False, b));
     b \<leftarrow> (if removed \<or> requestTypeContextLookup b type = None then Some b
            else EraseInProgressRequest type rid b);
     sweepPendingRequests E workerInfo again b
   }"

text \<open>The envelope must hold a frame; the broker's message type after it is skipped unread.\<close>

definition parseWorkerFinished :: "env \<Rightarrow> zmsg \<Rightarrow> (LHCVersionFlags \<times> RequestType \<times> RequestId) parsed" where
  "parseWorkerFinished E finishedMsg = (let fs = zmsg_frames E finishedMsg in
     if fs = [] \<or> hd fs = [] then Malformed 1 else
     and_then (skip_envelope 1 fs) (\<lambda>fs.
     and_then (next_value 2 Some fs) (\<lambda>(_, fs).
     and_then (next_value 1 (get_vfs E) fs) (\<lambda>(vfs, fs).
     and_then (next_value 3 (get_u32 E) fs) (\<lambda>(requestType, fs).
     and_then (next_value 4 (get_u64 E) fs) (\<lambda>(requestId, fs).
     Parsed (vfs, requestType, requestId)))))))"

definition workerFinished :: "env \<Rightarrow> frame \<Rightarrow> RequestType \<Rightarrow> RequestId \<Rightarrow> Broker \<Rightarrow> Broker option" where
  "workerFinished E ident requestType requestId b =
     (case LookupWorkerInfo (workerInfoLookup b) ident of
        None \<Rightarrow> Some b
      | Some workerInfo \<Rightarrow> do {
          b \<leftarrow> modWorker workerInfo (UpdateWorkerLastActive (currentTime b)) b;
          b \<leftarrow> modWorker workerInfo (WorkerInfo_RemoveInProgressRequest requestType requestId) b;
          updateContextsForFinishedWorker E workerInfo requestType requestId b
        })"

definition handleWorkerFinished :: "env \<Rightarrow> frame \<Rightarrow> Broker \<Rightarrow> (outcome \<times> Broker) option" where
  "handleWorkerFinished E ident b = do {
     finishedMsg \<leftarrow> inbox b;
     case parseWorkerFinished E finishedMsg of
       Throws \<Rightarrow> Some (Thrown, b)
     | Malformed n \<Rightarrow> Some (Returns n, b\<lparr>inbox := None\<rparr>)
     | Parsed (vfs, requestType, requestId) \<Rightarrow> do {
         (ret, b) \<leftarrow> (if hasAny vfs Asynchronous then Some (0, b\<lparr>inbox := None\<rparr>)
                       else sendOrDestroy E Frontend Inbox b);
         b \<leftarrow> workerFinished E ident requestType requestId b;
         Some (Returns ret, b)
       }
   }"

section \<open>Backend messages\<close>

definition dispatchBackendMessage :: "env \<Rightarrow> frame \<Rightarrow> 32 word \<Rightarrow> Broker \<Rightarrow> (outcome \<times> Broker) option" where
  "dispatchBackendMessage E ident messageType b =
     (if messageType = ClusterMessage_value WorkerReceipt then returning (handleWorkerReceipt E ident b)
      else if messageType = ClusterMessage_value WorkerHeartbeat then handleWorkerHeartbeat E ident b
      else if messageType = ClusterMessage_value WorkerReady then handleWorkerReady E ident b
      else if messageType = ClusterMessage_value WorkerFinished then handleWorkerFinished E ident b
      else Some (Returns 0, b\<lparr>inbox := None\<rparr>))"

definition handleBackendMessage_msg :: "env \<Rightarrow> Broker \<Rightarrow> (outcome \<times> Broker) option" where
  "handleBackendMessage_msg E b = do {
     m \<leftarrow> inbox b;
     let (identityFrame, m) = zmsg_pop E m;
     if identityFrame = None \<or> identityFrame = Some [] then Some (Returns 0, b\<lparr>inbox := None\<rparr>)
     else do {
       let (frame, m) = zmsg_pop E m;
       if frame \<noteq> Some [] then Some (Returns 0, b\<lparr>inbox := None\<rparr>)
       else do {
         let (frame, m) = zmsg_pop E m;
         if frame = None \<or> frame = Some [] then Some (Returns 0, b\<lparr>inbox := None\<rparr>)
         else (case get_u32 E (the frame) of
             None \<Rightarrow> Some (Thrown, b\<lparr>inbox := Some m\<rparr>)
           | Some messageType \<Rightarrow> dispatchBackendMessage E (the identityFrame) messageType (b\<lparr>inbox := Some m\<rparr>))
       }
     }
   }"

definition handleBackendMessage :: "env \<Rightarrow> time_t \<Rightarrow> zmsg option \<Rightarrow> Broker \<Rightarrow> (outcome \<times> Broker) option" where
  "handleBackendMessage E now received b = (let b = updateCurrentTime now b in
     case received of
       None \<Rightarrow> Some (Returns 0, b)
     | Some _ \<Rightarrow> do {
         (res, b) \<leftarrow> handleBackendMessage_msg E (b\<lparr>inbox := received\<rparr>);
         Some (only_negative res, b)
       })"

end
