(* ===== verification/BrokerLoop.thy ===== *)
theory BrokerLoop
  imports BrokerWorker
begin

text \<open>
  The reactor of the broker: the callbacks that broker.cxx registers with \<open>zloop\<close>, and the loop
  that runs them. \<open>zloop_start\<close> calls one callback at a time, for whichever socket is readable or
  timer is due, until one returns \<open>-1\<close>; the order is not the code's choice, so a run is given by the
  list of events. An event carries what the callback reads from outside: the clock, and the
  message that \<open>Receive\<close> returns.
\<close>

section \<open>Callbacks\<close>

definition heartbeatWorkersReactor :: "env \<Rightarrow> time_t \<Rightarrow> Broker \<Rightarrow> (int \<times> Broker) option" where
  "heartbeatWorkersReactor E now b = catching (returning (sendWorkerHeartbeats E (updateCurrentTime now b)))"

definition frontendMessagingReactor :: "env \<Rightarrow> time_t \<Rightarrow> zmsg option \<Rightarrow> Broker \<Rightarrow> (int \<times> Broker) option" where
  "frontendMessagingReactor E now received b = catching (handleFrontendMessage E now received b)"

definition backendMessagingReactor :: "env \<Rightarrow> time_t \<Rightarrow> zmsg option \<Rightarrow> Broker \<Rightarrow> (int \<times> Broker) option" where
  "backendMessagingReactor E now received b = catching (handleBackendMessage E now received b)"

definition brokerPrimaryControllerReactor :: "Broker \<Rightarrow> (int \<times> Broker) option" where
  "brokerPrimaryControllerReactor b = Some (-1, b)"

definition checkWorkersPulseReactor :: "env \<Rightarrow> time_t \<Rightarrow> Broker \<Rightarrow> (int \<times> Broker) option" where
  "checkWorkersPulseReactor E now b = catching (returning (checkWorkersPulse E (updateCurrentTime now b)))"

text \<open>The counters that \<open>dumpStats\<close> writes to the log and resets are not part of the state; the clock is.\<close>

definition dumpStatsBrokerReactor :: "time_t \<Rightarrow> Broker \<Rightarrow> (int \<times> Broker) option" where
  "dumpStatsBrokerReactor now b = Some (0, updateCurrentTime now b)"

section \<open>The loop\<close>

datatype event =
    FrontendReadable time_t "zmsg option"
  | BackendReadable time_t "zmsg option"
  | HeartbeatTimer time_t
  | PulseTimer time_t
  | DumpStatsTimer time_t
  | ControllerReadable

fun reactor_step :: "env \<Rightarrow> event \<Rightarrow> Broker \<Rightarrow> (int \<times> Broker) option" where
  "reactor_step E (FrontendReadable now m) b = frontendMessagingReactor E now m b"
| "reactor_step E (BackendReadable now m) b = backendMessagingReactor E now m b"
| "reactor_step E (HeartbeatTimer now) b = heartbeatWorkersReactor E now b"
| "reactor_step E (PulseTimer now) b = checkWorkersPulseReactor E now b"
| "reactor_step E (DumpStatsTimer now) b = dumpStatsBrokerReactor now b"
| "reactor_step E ControllerReadable b = brokerPrimaryControllerReactor b"

text \<open>The first component tells whether a callback ended the loop.\<close>

fun zloop_run :: "env \<Rightarrow> event list \<Rightarrow> Broker \<Rightarrow> (bool \<times> Broker) option" where
  "zloop_run E [] b = Some (False, b)"
| "zloop_run E (e # es) b = do {
     (ret, b) \<leftarrow> reactor_step E e b;
     if ret = -1 then Some (True, b) else zloop_run E es b
   }"

text \<open>
  \<open>StartAsPrimary\<close> on a broker whose sockets are bound and whose callbacks are set up: the loop, and
  what follows when it ended. The contexts stay as they are.
\<close>

definition StartAsPrimary :: "env \<Rightarrow> event list \<Rightarrow> Broker \<Rightarrow> (bool \<times> Broker) option" where
  "StartAsPrimary E es b = do {
     (ended, b) \<leftarrow> zloop_run E es b;
     Some (ended, if ended then WorkerInfoLookup_Clear b else b)
   }"

end
