(* ===== verification/BrokerSpec.thy ===== *)
theory BrokerSpec
  imports BrokerLoop
begin

text \<open>
  What the operations that move a request do, in closed form: the message that is sent, what the
  broker keeps of the request and the state that results. The handlers are long sequences of
  reads and writes through pointers; every proof above this theory works on the closed forms.
\<close>

section \<open>What is kept of a forwarded request\<close>

definition keeps_whole :: "LHCVersionFlags \<Rightarrow> bool" where
  "keeps_whole vfs \<longleftrightarrow> hasAny vfs RetryOnDeath"

definition keeps_envelope :: "LHCVersionFlags \<Rightarrow> bool" where
  "keeps_envelope vfs \<longleftrightarrow> hasAny vfs NotifyOnRedirect \<or> hasAny vfs NotifyOnDeath"

definition kept_copy :: "LHCVersionFlags \<Rightarrow> zmsg \<Rightarrow> zmsg option" where
  "kept_copy vfs m = (if keeps_whole vfs then Some m
     else if keeps_envelope vfs \<or> hasAny vfs ReceiptOnSend then Some (envelope m) else None)"

lemma copyRequestForFlags_eq: "env_ok E \<Longrightarrow> copyRequestForFlags E vfs m = kept_copy vfs m"
  by (simp add: copyRequestForFlags_def kept_copy_def keeps_whole_def keeps_envelope_def env_laws hasAny_or)

definition settle :: "LHCVersionFlags \<Rightarrow> zmsg \<Rightarrow> RequestState \<Rightarrow> RequestState" where
  "settle vfs m rs = (case kept_copy vfs m of None \<Rightarrow> rs | Some copied \<Rightarrow>
     (if hasAny vfs ReceiptOnSend then
        (if keeps_whole vfs \<or> keeps_envelope vfs then UpdateRequest (Some copied) (minusReceiptOnSend vfs) rs
         else UpdateRequest_vfs (minusReceiptOnSend vfs) rs)
      else UpdateRequest_msg (Some copied) rs))"

definition receipt :: "env \<Rightarrow> zmsg \<Rightarrow> RequestType \<Rightarrow> RequestId \<Rightarrow> zmsg" where
  "receipt E m t i = envelope m @ [[], enc_u32 E (ClusterMessage_value BrokerSentReceipt), enc_u32 E t, enc_u64 E i]"

definition receipts :: "env \<Rightarrow> LHCVersionFlags \<Rightarrow> zmsg \<Rightarrow> RequestType \<Rightarrow> RequestId \<Rightarrow> send_record list" where
  "receipts E vfs m t i = (if hasAny vfs ReceiptOnSend then [(Frontend, receipt E m t i, 0)] else [])"

lemma sendReceipt_eq:
  assumes "env_ok E"
  shows "sendReceipt E env t i b = (0, None, b\<lparr>sends := sends b @
     [(Frontend, env @ [[], enc_u32 E (ClusterMessage_value BrokerSentReceipt), enc_u32 E t, enc_u64 E i], 0)]\<rparr>)"
  using assms by (simp add: sendReceipt_def SendLocal_def Send_front env_laws)

lemma envelope_idem [simp]: "envelope (envelope m) = envelope m"
  by (simp add: envelope_def)

lemma modRequest_Some: "requestHeap b r = Some rs \<Longrightarrow>
    modRequest r f b = Some (b\<lparr>requestHeap := (requestHeap b)(r \<mapsto> f rs)\<rparr>)"
  by (simp add: modRequest_def)

lemma modWorker_Some: "workerHeap b w = Some wi \<Longrightarrow>
    modWorker w f b = Some (b\<lparr>workerHeap := (workerHeap b)(w \<mapsto> f wi)\<rparr>)"
  by (simp add: modWorker_def)

lemma modContext_Some: "requestTypeContextLookup b t = Some c \<Longrightarrow>
    modContext t f b = Some (b\<lparr>requestTypeContextLookup := (requestTypeContextLookup b)(t \<mapsto> f c)\<rparr>)"
  by (simp add: modContext_def)

lemmas mod_Some = modRequest_Some modWorker_Some modContext_Some

text \<open>
  \<open>handleCopiedRequest\<close> on the copy that \<open>copyRequestForFlags\<close> made.
\<close>

lemma handleCopiedRequest_eq:
  assumes E: "env_ok E" and r: "requestHeap b r = Some rs" and k: "kept_copy vfs m = Some copied"
  shows "handleCopiedRequest E r vfs t i copied b =
    Some (0, b\<lparr>requestHeap := (requestHeap b)(r \<mapsto> settle vfs m rs), sends := sends b @ receipts E vfs m t i\<rparr>)"
proof -
  have "hasAny vfs (NotifyOnRedirect OR NotifyOnDeath) \<longleftrightarrow> keeps_envelope vfs"
    by (simp add: keeps_envelope_def hasAny_or)
  moreover have "copied = (if hasAny vfs RetryOnDeath then m else envelope m)"
    using k by (auto simp: kept_copy_def keeps_whole_def split: if_splits)
  ultimately show ?thesis
    using E r k
    by (cases "hasAny vfs ReceiptOnSend"; cases "hasAny vfs RetryOnDeath"; cases "keeps_envelope vfs")
      (simp_all add: handleCopiedRequest_def settle_def receipts_def keeps_whole_def receipt_def
        sendReceipt_eq env_laws modRequest_Some Let_def)
qed

lemma settle_none: "kept_copy vfs m = None \<Longrightarrow> settle vfs m rs = rs"
  by (simp add: settle_def)

lemma receipts_none: "kept_copy vfs m = None \<Longrightarrow> receipts E vfs m t i = []"
  by (auto simp: kept_copy_def receipts_def split: if_splits)

section \<open>Forwarding\<close>

definition toWorker :: "env \<Rightarrow> WorkerInfo \<Rightarrow> zmsg \<Rightarrow> zmsg" where
  "toWorker E wi m = wi_identity wi # [] # enc_u32 E (ClusterMessage_value BrokerNewRequest) # m"

lemma addWorkerHeader_eq: "env_ok E \<Longrightarrow> addWorkerHeader E (wi_identity wi) m = toWorker E wi m"
  by (simp add: addWorkerHeader_def toWorker_def env_laws)

lemma popWorkerHeader_eq: "env_ok E \<Longrightarrow> popWorkerHeader E (toWorker E wi m) = m"
  by (simp add: popWorkerHeader_def toWorker_def env_laws)

definition send_ret :: "env \<Rightarrow> WorkerInfo \<Rightarrow> zmsg \<Rightarrow> Broker \<Rightarrow> int" where
  "send_ret E wi m b = fst (zmsg_send E (sends b) Backend (toWorker E wi m))"

lemma Send_worker:
  assumes "env_ok E"
  shows "Send E (sends b) Backend (toWorker E wi m) =
    (send_ret E wi m b, if send_ret E wi m b = 0 then None else Some (toWorker E wi m),
     sends b @ [(Backend, toWorker E wi m, send_ret E wi m b)])"
proof -
  have "snd (zmsg_send E (sends b) Backend (toWorker E wi m)) =
      (if fst (zmsg_send E (sends b) Backend (toWorker E wi m)) = 0 then None else Some (toWorker E wi m))"
    using env_okD(3)[OF assms] by (simp add: send_ok_def)
  then show ?thesis
    by (cases "zmsg_send E (sends b) Backend (toWorker E wi m)") (simp add: Send_def send_ret_def)
qed

text \<open>A request that was pending.\<close>

definition forwarded_rs :: "wptr \<Rightarrow> zmsg \<Rightarrow> RequestState \<Rightarrow> RequestState" where
  "forwarded_rs w m rs = settle (rs_vfs rs) m (Assign w (UpdateRequest_msg None rs))"

lemma forward1_fails:
  assumes E: "env_ok E" and r: "requestHeap b r = Some rs" and m: "rs_msg rs = Some m"
    and w: "workerHeap b w = Some wi" and s: "send_ret E wi m b \<noteq> 0"
  shows "forwardWorkerParsedClientRequest1 E w t r b =
    Some (send_ret E wi m b, b\<lparr>sends := sends b @ [(Backend, toWorker E wi m, send_ret E wi m b)]\<rparr>)"
proof -
  have eq: "rs\<lparr>rs_msg := Some m\<rparr> = rs" using m by (cases rs) simp
  have eq': "(requestHeap b)(r \<mapsto> rs) = requestHeap b" using r by auto
  show ?thesis
    using E r m w s
    by (simp add: forwardWorkerParsedClientRequest1_def SendMsg_def Let_def undoWorkerHeader_def modRequest_def
        UpdateRequest_msg_def addWorkerHeader_eq Send_worker popWorkerHeader_eq eq eq')
qed

lemma forward1_sends:
  assumes E: "env_ok E" and r: "requestHeap b r = Some rs" and m: "rs_msg rs = Some m"
    and w: "workerHeap b w = Some wi" and s: "send_ret E wi m b = 0"
    and c: "requestTypeContextLookup b t = Some c"
    and n: "rs_state rs = ListIt n" "n \<in> fst ` set (ctx_pending c)"
  shows "forwardWorkerParsedClientRequest1 E w t r b =
    Some (0, b\<lparr>requestHeap := (requestHeap b)(r \<mapsto> forwarded_rs w m rs),
      workerHeap := (workerHeap b)(w \<mapsto> UpdateBrokerLastActive (currentTime b)
        (WorkerInfo_AddInProgressRequest t (rs_requestId rs) r wi)),
      requestTypeContextLookup := (requestTypeContextLookup b)(t \<mapsto>
        c\<lparr>ctx_pending := filter (\<lambda>p. fst p \<noteq> n) (ctx_pending c)\<rparr>),
      sends := sends b @ (Backend, toWorker E wi m, 0) # receipts E (rs_vfs rs) m t (rs_requestId rs)\<rparr>)"
proof -
  show ?thesis
  proof (cases "kept_copy (rs_vfs rs) m")
    case None
    then show ?thesis
      using E r m w s c n
      by (simp add: forwardWorkerParsedClientRequest1_def SendMsg_def Let_def modRequest_def modWorker_def
          modContext_def AssignWorkerFromPending_def GetQueueCursor_def pending_erase_def
          UpdateRequest_msg_def addWorkerHeader_eq Send_worker copyRequestForFlags_eq
          settle_none receipts_none forwarded_rs_def)
  next
    case (Some copied)
    then show ?thesis
      using E r m w s c n
      by (simp add: forwardWorkerParsedClientRequest1_def SendMsg_def Let_def modRequest_def modWorker_def
          modContext_def AssignWorkerFromPending_def GetQueueCursor_def pending_erase_def
          UpdateRequest_msg_def addWorkerHeader_eq Send_worker copyRequestForFlags_eq
          handleCopiedRequest_eq forwarded_rs_def Assign_def)
  qed
qed

text \<open>A request that the client just sent, and that no context knows.\<close>

definition new_rs :: "RequestId \<Rightarrow> LHCVersionFlags \<Rightarrow> wptr \<Rightarrow> zmsg \<Rightarrow> RequestState" where
  "new_rs i vfs w m = settle vfs m (RequestState_inProgress i vfs w)"

lemma forward2_new_fails:
  assumes E: "env_ok E" and m: "inbox b = Some m" and w: "workerHeap b w = Some wi"
    and s: "send_ret E wi m b \<noteq> 0"
  shows "forwardWorkerParsedClientRequest2 E w i vfs Inbox t b =
    Some (send_ret E wi m b, b\<lparr>sends := sends b @ [(Backend, toWorker E wi m, send_ret E wi m b)]\<rparr>)"
proof -
  have eq: "b\<lparr>inbox := Some m, sends := x\<rparr> = b\<lparr>sends := x\<rparr>" for x using m by (cases b) simp
  then show ?thesis
    using E m w s
    by (simp add: forwardWorkerParsedClientRequest2_def SendMsg_def undoWorkerHeader_def
        addWorkerHeader_eq popWorkerHeader_eq Let_def Send_worker)
qed

lemma forward2_new_sends:
  assumes E: "env_ok E" and m: "inbox b = Some m" and w: "workerHeap b w = Some wi"
    and s: "send_ret E wi m b = 0"
    and c: "requestTypeContextLookup b t = Some c" "ctx_requests c i = None"
  shows "forwardWorkerParsedClientRequest2 E w i vfs Inbox t b =
    Some (0, b\<lparr>inbox := None, nextAddr := Suc (nextAddr b),
      requestHeap := (requestHeap b)(nextAddr b \<mapsto> new_rs i vfs w m),
      workerHeap := (workerHeap b)(w \<mapsto> UpdateWorkerLastActive (currentTime b)
        (WorkerInfo_AddInProgressRequest t i (nextAddr b) wi)),
      requestTypeContextLookup := (requestTypeContextLookup b)(t \<mapsto>
        c\<lparr>ctx_requests := (ctx_requests c)(i \<mapsto> nextAddr b)\<rparr>),
      sends := sends b @ (Backend, toWorker E wi m, 0) # receipts E vfs m t i\<rparr>)"
  using assms
  by (cases "kept_copy vfs m")
    (simp_all add: forwardWorkerParsedClientRequest2_def SendMsg_def modWorker_def modContext_def
      AddInProgressRequest_def allocRequest_def addWorkerHeader_eq Send_worker copyRequestForFlags_eq
      handleCopiedRequest_eq settle_none receipts_none new_rs_def Let_def)

text \<open>A request of a dead worker, which goes to another one with its own message.\<close>

definition retried_rs :: "zmsg \<Rightarrow> RequestState \<Rightarrow> RequestState" where
  "retried_rs m rs = settle (rs_vfs rs) m (UpdateRequest_msg None rs)"

lemma forward2_retry_fails:
  assumes E: "env_ok E" and r: "requestHeap b r = Some rs" and m: "rs_msg rs = Some m"
    and w: "workerHeap b w = Some wi" and s: "send_ret E wi m b \<noteq> 0"
  shows "forwardWorkerParsedClientRequest2 E w i vfs (MsgOf r) t b =
    Some (send_ret E wi m b, b\<lparr>sends := sends b @ [(Backend, toWorker E wi m, send_ret E wi m b)]\<rparr>)"
proof -
  have eq: "rs\<lparr>rs_msg := Some m\<rparr> = rs" using m by (cases rs) simp
  have eq': "(requestHeap b)(r \<mapsto> rs) = requestHeap b" using r by auto
  show ?thesis
    using E r m w s
    by (simp add: forwardWorkerParsedClientRequest2_def SendMsg_def undoWorkerHeader_def modRequest_def
        UpdateRequest_msg_def addWorkerHeader_eq Send_worker popWorkerHeader_eq eq eq' Let_def)
qed

lemma forward2_retry_sends:
  assumes E: "env_ok E" and r: "requestHeap b r = Some rs" "rs_requestId rs = i" and m: "rs_msg rs = Some m"
    and w: "workerHeap b w = Some wi" and s: "send_ret E wi m b = 0"
    and c: "requestTypeContextLookup b t = Some c" "ctx_requests c i = Some r"
  shows "forwardWorkerParsedClientRequest2 E w i (rs_vfs rs) (MsgOf r) t b =
    Some (0, b\<lparr>requestHeap := (requestHeap b)(r \<mapsto> retried_rs m rs),
      workerHeap := (workerHeap b)(w \<mapsto> UpdateWorkerLastActive (currentTime b)
        (WorkerInfo_AddInProgressRequest t i r wi)),
      sends := sends b @ (Backend, toWorker E wi m, 0) # receipts E (rs_vfs rs) m t i\<rparr>)"
  using assms
  by (cases "kept_copy (rs_vfs rs) m")
    (simp_all add: forwardWorkerParsedClientRequest2_def SendMsg_def modWorker_def modRequest_def
      AddInProgressRequest_def addWorkerHeader_eq Send_worker copyRequestForFlags_eq
      UpdateRequest_msg_def handleCopiedRequest_eq settle_none receipts_none retried_rs_def Let_def)

section \<open>Queueing\<close>

lemma AddPendingRequest_new:
  assumes "inbox b = Some m" and c: "requestTypeContextLookup b t = Some c" "ctx_requests c i = None"
  shows "AddPendingRequest t i vfs Inbox b = Some (b\<lparr>inbox := None, nextAddr := Suc (nextAddr b),
    requestHeap := (requestHeap b)(nextAddr b \<mapsto> SetQueueCursor (ctx_nextNode c) (RequestState_pending i vfs (Some m))),
    requestTypeContextLookup := (requestTypeContextLookup b)(t \<mapsto>
      pending_push (nextAddr b) (c\<lparr>ctx_requests := (ctx_requests c)(i \<mapsto> nextAddr b)\<rparr>))\<rparr>)"
  using assms by (simp add: AddPendingRequest_def allocRequest_def modContext_def modRequest_def Let_def)

lemma BackToPending_eq:
  assumes "requestTypeContextLookup b t = Some c" "requestHeap b r = Some rs"
  shows "BackToPending t r b = Some (b\<lparr>
    requestHeap := (requestHeap b)(r \<mapsto> SetQueueCursor (ctx_nextNode c) rs),
    requestTypeContextLookup := (requestTypeContextLookup b)(t \<mapsto> pending_push r c)\<rparr>)"
  using assms by (simp add: BackToPending_def modContext_def modRequest_def)

lemma EraseInProgressRequest_eq:
  assumes "requestTypeContextLookup b t = Some c" "ctx_requests c i = Some r"
  shows "EraseInProgressRequest t i b = Some (b\<lparr>requestHeap := (requestHeap b)(r := None),
    requestTypeContextLookup := (requestTypeContextLookup b)(t \<mapsto> RemoveInProgressRequest i c)\<rparr>)"
  using assms by (simp add: EraseInProgressRequest_def modContext_def freeRequest_def Let_def)

lemma EraseInProgressRequest_none:
  assumes "requestTypeContextLookup b t = Some c" "ctx_requests c i = None"
  shows "EraseInProgressRequest t i b = Some b"
proof -
  have "RemoveInProgressRequest i c = c"
    using assms(2) by (cases c) (simp add: RemoveInProgressRequest_def fun_upd_idem)
  with assms show ?thesis
    by (cases b) (simp add: EraseInProgressRequest_def modContext_def Let_def map_upd_triv)
qed

section \<open>Messages to the client\<close>

definition redirectNotice :: "env \<Rightarrow> zmsg \<Rightarrow> LHCVersionFlags \<Rightarrow> RequestType \<Rightarrow> RequestId \<Rightarrow> zmsg" where
  "redirectNotice E m vfs t i = envelope m @ [[], enc_u32 E (ClusterMessage_value BrokerResponse), enc_vfs E vfs,
     enc_u32 E t, enc_u64 E i, enc_u32 E (RequestStatus_value RS_Redirected)]"

lemma notifyOnRedirect_some:
  assumes "env_ok E" "requestHeap b r = Some rs" "rs_msg rs = Some m"
  shows "notifyOnRedirect E t r b =
    Some (0, b\<lparr>sends := sends b @ [(Frontend, redirectNotice E m (rs_vfs rs) t (rs_requestId rs), 0)]\<rparr>)"
  using assms by (simp add: notifyOnRedirect_def SendLocal_def Send_front redirectNotice_def env_laws)

lemma notifyOnRedirect_none:
  "requestHeap b r = Some rs \<Longrightarrow> rs_msg rs = None \<Longrightarrow> notifyOnRedirect E t r b = Some (1, b)"
  by (simp add: notifyOnRedirect_def)

text \<open>Taking away frames behind a position that stays put removes everything behind it.\<close>

lemma remove_tail:
  "czmq_ok E \<Longrightarrow> ((\<lambda>m. zmsg_remove E m n) ^^ k) m = take n m @ drop (n + k) m" if "n \<le> length m"
proof (induction k)
  case 0
  then show ?case by simp
next
  case (Suc k)
  then show ?case using that by (simp add: czmq_laws)
qed

lemma remove_data_eq: "env_ok E \<Longrightarrow> n \<le> length m \<Longrightarrow> remove_data E n m = take n m"
  by (simp add: remove_data_def remove_tail env_okD czmq_laws(4)[OF env_okD(1)])

definition whole_header :: "zmsg \<Rightarrow> bool" where
  "whole_header m \<longleftrightarrow> delimited m \<and> 3 \<le> length (after_envelope m)"

lemma whole_header_length: "whole_header m \<Longrightarrow> length (envelope m) + 4 \<le> length m"
  using arg_cong[OF delimited_split, of m length] by (simp add: whole_header_def)

definition rejection :: "env \<Rightarrow> zmsg \<Rightarrow> RequestStatus \<Rightarrow> zmsg" where
  "rejection E m st = envelope m @ [] # take 3 (after_envelope m) @ [enc_u32 E (RequestStatus_value st)]"

lemma take_header:
  assumes "whole_header m"
  shows "take (length (envelope m) + 4) m = envelope m @ [] # take 3 (after_envelope m)"
proof -
  have "take (length (envelope m) + 4) (envelope m @ [] # after_envelope m) = envelope m @ [] # take 3 (after_envelope m)"
    by (simp add: numeral_eq_Suc)
  moreover have "m = envelope m @ [] # after_envelope m"
    using assms by (simp add: whole_header_def delimited_split)
  ultimately show ?thesis by metis
qed

lemma rejectRequest2_inbox:
  assumes "env_ok E" "inbox b = Some m" "whole_header m"
  shows "rejectRequest2 E Inbox st b = Some (0, b\<lparr>inbox := None, sends := sends b @ [(Frontend, rejection E m st, 0)]\<rparr>)"
  using assms whole_header_length[OF assms(3)]
  by (simp add: rejectRequest2_def sendOrDestroy_def SendMsg_def Send_front rejection_def remove_data_eq
      env_laws envelope_def[symmetric] take_header)

lemma rejectRequest2_request:
  assumes "env_ok E" "requestHeap b r = Some rs" "rs_msg rs = Some m" "whole_header m"
  shows "rejectRequest2 E (MsgOf r) st b = Some (0, b\<lparr>requestHeap := (requestHeap b)(r \<mapsto> UpdateRequest_msg None rs),
    sends := sends b @ [(Frontend, rejection E m st, 0)]\<rparr>)"
  using assms whole_header_length[OF assms(4)]
  by (simp add: rejectRequest2_def sendOrDestroy_def SendMsg_def Send_front rejection_def remove_data_eq
      env_laws envelope_def[symmetric] take_header modRequest_def UpdateRequest_msg_def)

lemma rejectRequest1_request:
  assumes "env_ok E" "requestHeap b r = Some rs" "rs_msg rs = Some m"
  shows "rejectRequest1 E vfs t i (MsgOf r) st b = Some (0, b\<lparr>requestHeap := (requestHeap b)(r \<mapsto> UpdateRequest_msg None rs),
    sends := sends b @ [(Frontend, m @ [enc_vfs E vfs, enc_u32 E t, enc_u64 E i, enc_u32 E (RequestStatus_value st)], 0)]\<rparr>)"
  using assms
  by (simp add: rejectRequest1_def sendOrDestroy_def SendMsg_def Send_front env_laws modRequest_def UpdateRequest_msg_def)

section \<open>Parsing\<close>

lemma parseClientRequest_Parsed:
  assumes "env_ok E" "parseClientRequest E m = Parsed (vfs, t, i)"
  obtains fv ft fi body where "m = envelope m @ [] # fv # ft # fi # body"
    "get_vfs E fv = Some vfs" "get_u32 E ft = Some t" "get_u64 E fi = Some i" "whole_header m"
proof -
  from assms obtain fv ft fi body where d: "delimited m" "after_envelope m = fv # ft # fi # body"
      and g: "get_vfs E fv = Some vfs" "get_u32 E ft = Some t" "get_u64 E fi = Some i"
    by (auto simp: parseClientRequest_def and_then_Parsed next_value_Parsed skip_envelope_eq env_laws
        split: if_splits)
  moreover have "whole_header m" using d by (simp add: whole_header_def)
  ultimately show thesis using that delimited_split[OF d(1)] by metis
qed

end
