(* ===== verification/BrokerInv.thy ===== *)
theory BrokerInv
  imports BrokerSpec
begin

text \<open>
  The well-formedness invariant of the broker. \<open>ctx_ok\<close> is the part of one context, over the
  workers \<open>S\<close> that serve its type, the store of request states and the holdings \<open>H\<close> of its
  requests: which worker is to answer for which request. \<open>broker_inv G b\<close> puts the contexts together,
  for holdings \<open>G\<close> of all types; \<open>held b\<close> are the holdings the \<open>WorkerInfo\<close> objects record. They
  coincide between callbacks; within the handling of a dead worker, or of a finished request,
  they differ by what is being handled.
\<close>

section \<open>Request states\<close>

definition flags_ok :: "LHCVersionFlags \<Rightarrow> bool" where
  "flags_ok vfs \<longleftrightarrow> \<not> (hasAny vfs AllowRedirect \<and> hasAny vfs RetryOnDeath)"

definition rs_ok :: "RequestState \<Rightarrow> bool" where
  "rs_ok rs \<longleftrightarrow> (IsPending rs \<or> IsInProgress rs) \<and> flags_ok (rs_vfs rs) \<and>
     (IsPending rs \<or> hasAny (rs_vfs rs) RetryOnDeath \<longrightarrow> (\<exists>m. rs_msg rs = Some m \<and> whole_header m)) \<and>
     (hasAny (rs_vfs rs) NotifyOnDeath \<longrightarrow> rs_msg rs \<noteq> None)"

lemma pending_not_in_progress: "IsPending rs \<Longrightarrow> \<not> IsInProgress rs"
  by (simp add: IsPending_def IsInProgress_def)

section \<open>Contexts\<close>

type_synonym holdings = "(wptr \<times> RequestId \<times> rptr) set"

definition registered_ok :: "(rptr \<rightharpoonup> RequestState) \<Rightarrow> holdings \<Rightarrow> BrokerRequestTypeContext \<Rightarrow> RequestId \<Rightarrow> rptr \<Rightarrow> bool" where
  "registered_ok h H c i r \<longleftrightarrow> (\<exists>rs. h r = Some rs \<and> rs_requestId rs = i \<and> rs_ok rs \<and>
     (IsPending rs \<longrightarrow> (\<exists>n. rs_state rs = ListIt n \<and> (n, r) \<in> set (ctx_pending c))) \<and>
     (IsInProgress rs \<and> hasAny (rs_vfs rs) AllowRedirect \<longrightarrow>
        (\<exists>w. rs_state rs = AssignedWorker w \<and> (w, i, r) \<in> H)))"

definition queued_ok :: "(rptr \<rightharpoonup> RequestState) \<Rightarrow> BrokerRequestTypeContext \<Rightarrow> list_node \<Rightarrow> rptr \<Rightarrow> bool" where
  "queued_ok h c n r \<longleftrightarrow> (\<exists>rs. h r = Some rs \<and> IsPending rs \<and> rs_state rs = ListIt n \<and>
     ctx_requests c (rs_requestId rs) = Some r)"

definition holding_ok :: "wptr set \<Rightarrow> (rptr \<rightharpoonup> RequestState) \<Rightarrow> holdings \<Rightarrow> BrokerRequestTypeContext \<Rightarrow>
    wptr \<Rightarrow> RequestId \<Rightarrow> rptr \<Rightarrow> bool" where
  "holding_ok S h H c w i r \<longleftrightarrow> w \<in> S \<and> ctx_requests c i = Some r \<and>
     (\<exists>rs. h r = Some rs \<and> IsInProgress rs) \<and> (\<forall>w' r'. (w', i, r') \<in> H \<longrightarrow> w' = w)"

definition ctx_ok :: "wptr set \<Rightarrow> (rptr \<rightharpoonup> RequestState) \<Rightarrow> holdings \<Rightarrow> RequestType \<Rightarrow> BrokerRequestTypeContext \<Rightarrow> bool" where
  "ctx_ok S h H t c \<longleftrightarrow> ctx_requestType c = t \<and>
     distinct (ctx_availableWorkers c) \<and> set (ctx_availableWorkers c) \<subseteq> S \<and>
     pending_inv c \<and> distinct (map snd (ctx_pending c)) \<and>
     (\<forall>i r. ctx_requests c i = Some r \<longrightarrow> registered_ok h H c i r) \<and>
     (\<forall>(n, r) \<in> set (ctx_pending c). queued_ok h c n r) \<and>
     (\<forall>(w, i, r) \<in> H. holding_ok S h H c w i r)"

lemma ctx_okD:
  assumes "ctx_ok S h H t c"
  shows "ctx_requestType c = t" "distinct (ctx_availableWorkers c)" "set (ctx_availableWorkers c) \<subseteq> S"
    "pending_inv c" "distinct (map snd (ctx_pending c))"
    "ctx_requests c i = Some r \<Longrightarrow> registered_ok h H c i r"
    "(n, r) \<in> set (ctx_pending c) \<Longrightarrow> queued_ok h c n r"
    "(w, i, r) \<in> H \<Longrightarrow> holding_ok S h H c w i r"
  using assms unfolding ctx_ok_def by blast+

lemma ctx_okI:
  assumes "ctx_requestType c = t" "distinct (ctx_availableWorkers c)" "set (ctx_availableWorkers c) \<subseteq> S"
    "pending_inv c" "distinct (map snd (ctx_pending c))"
    "\<And>i r. ctx_requests c i = Some r \<Longrightarrow> registered_ok h H c i r"
    "\<And>n r. (n, r) \<in> set (ctx_pending c) \<Longrightarrow> queued_ok h c n r"
    "\<And>w i r. (w, i, r) \<in> H \<Longrightarrow> holding_ok S h H c w i r"
  shows "ctx_ok S h H t c"
  using assms unfolding ctx_ok_def by blast

text \<open>Only the states the context registers, the workers it names and its holdings matter.\<close>

lemma ctx_ok_cong:
  assumes c: "ctx_ok S h H t c" and h: "\<And>i r. ctx_requests c i = Some r \<Longrightarrow> h' r = h r"
    and S: "\<And>w. w \<in> set (ctx_availableWorkers c) \<or> (\<exists>i r. (w, i, r) \<in> H) \<Longrightarrow> w \<in> S'"
  shows "ctx_ok S' h' H t c"
proof (rule ctx_okI)
  fix i r assume "ctx_requests c i = Some r"
  then show "registered_ok h' H c i r" using ctx_okD(6)[OF c] h by (simp add: registered_ok_def)
next
  fix n r assume "(n, r) \<in> set (ctx_pending c)"
  then show "queued_ok h' c n r" using ctx_okD(7)[OF c] h by (fastforce simp: queued_ok_def)
next
  fix w i r assume H: "(w, i, r) \<in> H"
  then have "w \<in> S'" using S by blast
  then show "holding_ok S' h' H c w i r" using ctx_okD(8)[OF c H] h by (auto simp: holding_ok_def)
qed (use ctx_okD[OF c] S in auto)

text \<open>Requests of one context are told apart by their ids.\<close>

lemma registered_unique:
  assumes "ctx_ok S h H t c" "ctx_requests c i = Some r" "ctx_requests c j = Some r"
  shows "i = j"
  using ctx_okD(6)[OF assms(1,2)] ctx_okD(6)[OF assms(1,3)] by (auto simp: registered_ok_def)

lemma pending_of:
  assumes "ctx_ok S h H t c" "(n, r) \<in> set (ctx_pending c)" "(n', r) \<in> set (ctx_pending c)"
  shows "n = n'"
  using ctx_okD(7)[OF assms(1,2)] ctx_okD(7)[OF assms(1,3)] by (auto simp: queued_ok_def)

lemma next_node_free: "pending_inv c \<Longrightarrow> (n, r) \<in> set (ctx_pending c) \<Longrightarrow> n \<noteq> ctx_nextNode c"
  by (force simp: pending_inv_def)

section \<open>What operations do to one context\<close>

text \<open>Availability and counts.\<close>

definition same_requests :: "BrokerRequestTypeContext \<Rightarrow> BrokerRequestTypeContext \<Rightarrow> bool" where
  "same_requests c c' \<longleftrightarrow> ctx_requestType c' = ctx_requestType c \<and> ctx_pending c' = ctx_pending c \<and>
     ctx_requests c' = ctx_requests c \<and> ctx_nextNode c' = ctx_nextNode c"

lemma ctx_ok_available:
  assumes "ctx_ok S h H t c" "same_requests c c'" "distinct (ctx_availableWorkers c')" "set (ctx_availableWorkers c') \<subseteq> S"
  shows "ctx_ok S h H t c'"
  using assms unfolding ctx_ok_def same_requests_def registered_ok_def queued_ok_def holding_ok_def pending_inv_def
  by simp

lemma ctx_ok_new: "ctx_ok S h {} t (BrokerRequestTypeContext_new t)"
  by (simp add: ctx_ok_def pending_inv_def)

text \<open>A pending request is assigned.\<close>

lemma ctx_ok_assign:
  assumes c: "ctx_ok S h H t c" and q: "(n, r) \<in> set (ctx_pending c)" and rs: "h r = Some rs"
    and w: "w \<in> S" and rs': "rs_requestId rs' = rs_requestId rs" "rs_ok rs'" "IsInProgress rs'"
    "rs_state rs' = AssignedWorker w"
  shows "ctx_ok S (h(r \<mapsto> rs')) (insert (w, rs_requestId rs, r) H) t
    (c\<lparr>ctx_pending := filter (\<lambda>p. fst p \<noteq> n) (ctx_pending c)\<rparr>)"
proof -
  let ?i = "rs_requestId rs"
  from ctx_okD(7)[OF c q] rs have reg: "ctx_requests c ?i = Some r" and pend: "IsPending rs" "rs_state rs = ListIt n"
    by (auto simp: queued_ok_def)
  have noH: "i \<noteq> ?i" if "(w', i, r') \<in> H" for w' i r'
    using ctx_okD(8)[OF c that] reg rs pend(1) by (auto simp: holding_ok_def pending_not_in_progress)
  have ne: "r' \<noteq> r" if "ctx_requests c i = Some r'" "i \<noteq> ?i" for i r'
    using registered_unique[OF c] reg that by blast
  have "distinct (map fst (ctx_pending c))" using ctx_okD(4)[OF c] by (simp add: pending_inv_def)
  then have node: "r' = r \<longleftrightarrow> n' = n" if "(n', r') \<in> set (ctx_pending c)" for n' r'
    using pending_of[OF c q] q that by (metis eq_key_imp_eq_value)
  show ?thesis
  proof (rule ctx_okI)
    show "distinct (map snd (ctx_pending (c\<lparr>ctx_pending := filter (\<lambda>p. fst p \<noteq> n) (ctx_pending c)\<rparr>)))"
      using ctx_okD(5)[OF c] by (simp add: distinct_snd_filter)
    show "pending_inv (c\<lparr>ctx_pending := filter (\<lambda>p. fst p \<noteq> n) (ctx_pending c)\<rparr>)"
      using ctx_okD(4)[OF c] by (auto simp: pending_inv_def distinct_fst_filter)
  next
    fix i r' assume a: "ctx_requests (c\<lparr>ctx_pending := filter (\<lambda>p. fst p \<noteq> n) (ctx_pending c)\<rparr>) i = Some r'"
    show "registered_ok (h(r \<mapsto> rs')) (insert (w, ?i, r) H)
        (c\<lparr>ctx_pending := filter (\<lambda>p. fst p \<noteq> n) (ctx_pending c)\<rparr>) i r'"
    proof (cases "i = ?i")
      case True
      with a reg rs' show ?thesis by (auto simp: registered_ok_def dest: pending_not_in_progress)
    next
      case False
      with a ne have "r' \<noteq> r" by simp
      moreover have "(n', r') \<in> set (ctx_pending c) \<longrightarrow> n' \<noteq> n" for n' using node \<open>r' \<noteq> r\<close> by blast
      ultimately show ?thesis using ctx_okD(6)[OF c, of i r'] a
        by (auto simp: registered_ok_def)
    qed
  next
    fix n' r' assume "(n', r') \<in> set (ctx_pending (c\<lparr>ctx_pending := filter (\<lambda>p. fst p \<noteq> n) (ctx_pending c)\<rparr>))"
    then have a: "(n', r') \<in> set (ctx_pending c)" "n' \<noteq> n" by auto
    with node have "r' \<noteq> r" by blast
    with ctx_okD(7)[OF c a(1)] show "queued_ok (h(r \<mapsto> rs')) (c\<lparr>ctx_pending := filter (\<lambda>p. fst p \<noteq> n) (ctx_pending c)\<rparr>) n' r'"
      by (simp add: queued_ok_def)
  next
    fix w' i r' assume a: "(w', i, r') \<in> insert (w, ?i, r) H"
    show "holding_ok S (h(r \<mapsto> rs')) (insert (w, ?i, r) H)
        (c\<lparr>ctx_pending := filter (\<lambda>p. fst p \<noteq> n) (ctx_pending c)\<rparr>) w' i r'"
    proof (cases "(w', i, r') \<in> H")
      case True
      with noH have "i \<noteq> ?i" by blast
      moreover from this ctx_okD(8)[OF c True] ne have "r' \<noteq> r" by (auto simp: holding_ok_def)
      ultimately show ?thesis using ctx_okD(8)[OF c True] by (auto simp: holding_ok_def)
    next
      case False
      with a noH reg rs'(3) w show ?thesis by (auto simp: holding_ok_def)
    qed
  qed (use ctx_okD[OF c] in auto)
qed

text \<open>
  A request \<open>r\<close> with id \<open>i\<close> is or becomes registered. \<open>may_hold\<close> is what the next two lemmas need of
  it before: its id is free or its own, and no other id has it.
\<close>

definition may_hold :: "BrokerRequestTypeContext \<Rightarrow> RequestId \<Rightarrow> rptr \<Rightarrow> bool" where
  "may_hold c i r \<longleftrightarrow> (ctx_requests c i = None \<or> ctx_requests c i = Some r) \<and>
     (\<forall>j. ctx_requests c j = Some r \<longrightarrow> j = i) \<and> r \<notin> snd ` set (ctx_pending c)"

lemma may_hold_other: "may_hold c i r \<Longrightarrow> ctx_requests c j = Some r' \<Longrightarrow> r' \<noteq> r \<Longrightarrow> j \<noteq> i"
  unfolding may_hold_def by (metis option.distinct(1) option.sel)

lemma may_hold_in_progress:
  assumes "ctx_ok S h H t c" "ctx_requests c i = Some r" "h r = Some rs" "IsInProgress rs"
  shows "may_hold c i r"
  unfolding may_hold_def
proof (intro conjI allI impI)
  show "r \<notin> snd ` set (ctx_pending c)"
    using ctx_okD(7)[OF assms(1)] assms(3,4) by (force simp: queued_ok_def dest: pending_not_in_progress)
  show "j = i" if "ctx_requests c j = Some r" for j
    using registered_unique[OF assms(1)] assms(2) that by blast
qed (use assms(2) in simp)

lemma may_hold_fresh:
  assumes c: "ctx_ok S h H t c" and "ctx_requests c i = None" and fresh: "h r = None"
  shows "may_hold c i r"
  unfolding may_hold_def
proof (intro conjI allI impI)
  show "r \<notin> snd ` set (ctx_pending c)"
    using ctx_okD(7)[OF c] fresh by (force simp: queued_ok_def)
  show "j = i" if "ctx_requests c j = Some r" for j
    using ctx_okD(6)[OF c that] fresh by (simp add: registered_ok_def)
qed (use assms(2) in simp)

text \<open>It is with a worker: started, started again elsewhere, or only rewritten.\<close>

lemma ctx_ok_hold:
  assumes c: "ctx_ok S h H t c" and m: "may_hold c i r"
    and rs': "rs_requestId rs' = i" "rs_ok rs'" "IsInProgress rs'"
    and redirect: "hasAny (rs_vfs rs') AllowRedirect \<Longrightarrow> rs_state rs' = AssignedWorker w \<and> (w, i, r) \<in> H'"
    and off: "\<And>w' j r'. j \<noteq> i \<Longrightarrow> (w', j, r') \<in> H' \<longleftrightarrow> (w', j, r') \<in> H"
    and at: "\<And>w' r'. (w', i, r') \<in> H' \<Longrightarrow> w' = w \<and> r' = r \<and> w \<in> S"
  shows "ctx_ok S (h(r \<mapsto> rs')) H' t (c\<lparr>ctx_requests := (ctx_requests c)(i \<mapsto> r)\<rparr>)"
proof -
  have np: "(n', r) \<notin> set (ctx_pending c)" for n' using m by (force simp: may_hold_def)
  have ne: "r' \<noteq> r" if "ctx_requests c j = Some r'" "j \<noteq> i" for j r'
    using m that by (auto simp: may_hold_def)
  show ?thesis
  proof (rule ctx_okI)
    fix j r' assume a: "ctx_requests (c\<lparr>ctx_requests := (ctx_requests c)(i \<mapsto> r)\<rparr>) j = Some r'"
    show "registered_ok (h(r \<mapsto> rs')) H' (c\<lparr>ctx_requests := (ctx_requests c)(i \<mapsto> r)\<rparr>) j r'"
    proof (cases "j = i")
      case True
      with a rs' redirect show ?thesis by (auto simp: registered_ok_def dest: pending_not_in_progress)
    next
      case False
      with a ne have "r' \<noteq> r" by simp
      with ctx_okD(6)[OF c, of j r'] a False off show ?thesis by (auto simp: registered_ok_def)
    qed
  next
    fix n' r' assume "(n', r') \<in> set (ctx_pending (c\<lparr>ctx_requests := (ctx_requests c)(i \<mapsto> r)\<rparr>))"
    then have a: "(n', r') \<in> set (ctx_pending c)" by simp
    with np have "r' \<noteq> r" by blast
    moreover obtain rs where q: "h r' = Some rs" "IsPending rs" "rs_state rs = ListIt n'" "ctx_requests c (rs_requestId rs) = Some r'"
      using ctx_okD(7)[OF c a] by (auto simp: queued_ok_def)
    moreover have "rs_requestId rs \<noteq> i" by (rule may_hold_other[OF m q(4) \<open>r' \<noteq> r\<close>])
    ultimately show "queued_ok (h(r \<mapsto> rs')) (c\<lparr>ctx_requests := (ctx_requests c)(i \<mapsto> r)\<rparr>) n' r'"
      by (simp add: queued_ok_def)
  next
    fix w' j r' assume a: "(w', j, r') \<in> H'"
    show "holding_ok S (h(r \<mapsto> rs')) H' (c\<lparr>ctx_requests := (ctx_requests c)(i \<mapsto> r)\<rparr>) w' j r'"
    proof (cases "j = i")
      case True
      with a at rs'(3) show ?thesis by (auto simp: holding_ok_def)
    next
      case False
      with a off have "(w', j, r') \<in> H" by blast
      from ctx_okD(8)[OF c this] False ne off show ?thesis by (auto simp: holding_ok_def)
    qed
  qed (use ctx_okD[OF c] in \<open>auto simp: pending_inv_def\<close>)
qed

text \<open>It goes to the end of the queue: a new one, or back from a worker.\<close>

lemma ctx_ok_push:
  assumes c: "ctx_ok S h H t c" and m: "may_hold c i r"
    and rs': "rs_requestId rs' = i" "rs_ok rs'" "IsPending rs'" "rs_state rs' = ListIt (ctx_nextNode c)"
  shows "ctx_ok S (h(r \<mapsto> rs')) {(w, j, r') \<in> H. j \<noteq> i} t (pending_push r (c\<lparr>ctx_requests := (ctx_requests c)(i \<mapsto> r)\<rparr>))"
    (is "ctx_ok S ?h ?H t ?c")
proof -
  have np: "(n', r) \<notin> set (ctx_pending c)" for n' using m by (force simp: may_hold_def)
  have ne: "r' \<noteq> r" if "ctx_requests c j = Some r'" "j \<noteq> i" for j r'
    using m that by (auto simp: may_hold_def)
  show ?thesis
  proof (rule ctx_okI)
    show "pending_inv ?c" using ctx_okD(4)[OF c] by (intro pending_inv_push) (simp add: pending_inv_def)
    show "distinct (map snd (ctx_pending ?c))"
      using ctx_okD(5)[OF c] np by (auto simp: pending_push_def)
  next
    fix j r' assume a: "ctx_requests ?c j = Some r'"
    show "registered_ok ?h ?H ?c j r'"
    proof (cases "j = i")
      case True
      with a rs' show ?thesis by (auto simp: registered_ok_def pending_push_def dest: pending_not_in_progress)
    next
      case False
      with a ne have "r' \<noteq> r" by simp
      with ctx_okD(6)[OF c, of j r'] a False show ?thesis by (auto simp: registered_ok_def pending_push_def)
    qed
  next
    fix n' r' assume "(n', r') \<in> set (ctx_pending ?c)"
    then consider "(n', r') \<in> set (ctx_pending c)" | "n' = ctx_nextNode c" "r' = r"
      by (auto simp: pending_push_def)
    then show "queued_ok ?h ?c n' r'"
    proof cases
      case 1
      with np have "r' \<noteq> r" by blast
      moreover obtain rs where q: "h r' = Some rs" "IsPending rs" "rs_state rs = ListIt n'" "ctx_requests c (rs_requestId rs) = Some r'"
        using ctx_okD(7)[OF c 1] by (auto simp: queued_ok_def)
      moreover have "rs_requestId rs \<noteq> i" by (rule may_hold_other[OF m q(4) \<open>r' \<noteq> r\<close>])
      ultimately show ?thesis by (simp add: queued_ok_def)
    next
      case 2
      with rs' show ?thesis by (simp add: queued_ok_def)
    qed
  next
    fix w' j r' assume "(w', j, r') \<in> ?H"
    then have "(w', j, r') \<in> H" "j \<noteq> i" by auto
    from ctx_okD(8)[OF c this(1)] this(2) ne show "holding_ok S ?h ?H ?c w' j r'"
      by (auto simp: holding_ok_def)
  qed (use ctx_okD[OF c] in auto)
qed

text \<open>A pending request is rewritten in place.\<close>

lemma ctx_ok_rewrite:
  assumes c: "ctx_ok S h H t c" and r: "ctx_requests c i = Some r" "h r = Some rs" "IsPending rs"
    and rs': "rs_requestId rs' = i" "rs_ok rs'" "IsPending rs'" "rs_state rs' = rs_state rs"
  shows "ctx_ok S (h(r \<mapsto> rs')) H t c"
proof (rule ctx_okI)
  have ne: "r' \<noteq> r" if "ctx_requests c j = Some r'" "j \<noteq> i" for j r'
    using registered_unique[OF c] r(1) that by blast
  {
    fix j r' assume a: "ctx_requests c j = Some r'"
    show "registered_ok (h(r \<mapsto> rs')) H c j r'"
    proof (cases "j = i")
      case True
      with ctx_okD(6)[OF c a] a r rs' show ?thesis by (auto simp: registered_ok_def dest: pending_not_in_progress)
    next
      case False
      with ctx_okD(6)[OF c a] ne[OF a] show ?thesis by (simp add: registered_ok_def)
    qed
  }
  {
    fix n' r' assume "(n', r') \<in> set (ctx_pending c)"
    from ctx_okD(7)[OF c this] r rs' ctx_okD(6)[OF c r(1)] show "queued_ok (h(r \<mapsto> rs')) c n' r'"
      by (auto simp: queued_ok_def registered_ok_def)
  }
  {
    fix w' j r' assume "(w', j, r') \<in> H"
    from ctx_okD(8)[OF c this] r(2,3) show "holding_ok S (h(r \<mapsto> rs')) H c w' j r'"
      by (auto simp: holding_ok_def dest: pending_not_in_progress)
  }
qed (use ctx_okD[OF c] in auto)

text \<open>A request that is with a worker is erased.\<close>

lemma ctx_ok_erase:
  assumes c: "ctx_ok S h H t c" and r: "ctx_requests c i = Some r" "h r = Some rs" "IsInProgress rs"
  shows "ctx_ok S (h(r := None)) {(w, j, r') \<in> H. j \<noteq> i} t (RemoveInProgressRequest i c)"
proof -
  note m = may_hold_in_progress[OF c r]
  have np: "(n', r) \<notin> set (ctx_pending c)" for n' using m by (force simp: may_hold_def)
  have ne: "r' \<noteq> r" if "ctx_requests c j = Some r'" "j \<noteq> i" for j r'
    using m that by (auto simp: may_hold_def)
  show ?thesis
  proof (rule ctx_okI)
    fix j r' assume "ctx_requests (RemoveInProgressRequest i c) j = Some r'"
    then have a: "ctx_requests c j = Some r'" "j \<noteq> i" by (auto split: if_splits)
    from ctx_okD(6)[OF c a(1)] ne[OF a] a(2)
    show "registered_ok (h(r := None)) {(w, j, r') \<in> H. j \<noteq> i} (RemoveInProgressRequest i c) j r'"
      by (auto simp: registered_ok_def)
  next
    fix n' r' assume "(n', r') \<in> set (ctx_pending (RemoveInProgressRequest i c))"
    then have a: "(n', r') \<in> set (ctx_pending c)" by simp
    with np have "r' \<noteq> r" by blast
    moreover from this ctx_okD(7)[OF c a] r(1) have "\<exists>rs. h r' = Some rs \<and> IsPending rs \<and> rs_state rs = ListIt n' \<and>
        ctx_requests c (rs_requestId rs) = Some r' \<and> rs_requestId rs \<noteq> i"
      by (auto simp: queued_ok_def)
    ultimately show "queued_ok (h(r := None)) (RemoveInProgressRequest i c) n' r'"
      by (auto simp: queued_ok_def)
  next
    fix w' j r' assume "(w', j, r') \<in> {(w, j, r') \<in> H. j \<noteq> i}"
    then have "(w', j, r') \<in> H" "j \<noteq> i" by auto
    from ctx_okD(8)[OF c this(1)] this(2) ne
    show "holding_ok S (h(r := None)) {(w, j, r') \<in> H. j \<noteq> i} (RemoveInProgressRequest i c) w' j r'"
      by (auto simp: holding_ok_def)
  qed (use ctx_okD[OF c] in \<open>auto simp: pending_inv_def\<close>)
qed

section \<open>The whole broker\<close>

type_synonym all_holdings = "(wptr \<times> RequestType \<times> RequestId \<times> rptr) set"

definition of_type :: "all_holdings \<Rightarrow> RequestType \<Rightarrow> holdings" where
  "of_type G t = {(w, i, r). (w, t, i, r) \<in> G}"

definition serving :: "Broker \<Rightarrow> RequestType \<Rightarrow> wptr set" where
  "serving b t = {w. \<exists>wi. workerHeap b w = Some wi \<and> t \<in> set (wi_supportedRequestTypes wi)}"

definition held :: "Broker \<Rightarrow> all_holdings" where
  "held b = {(w, t, i, r). \<exists>wi. workerHeap b w = Some wi \<and> (i, r) \<in> set (in_progress wi t)}"

definition worker_ok :: "WorkerInfo \<Rightarrow> bool" where
  "worker_ok wi \<longleftrightarrow> distinct (wi_supportedRequestTypes wi) \<and> (\<forall>t. distinct (map fst (in_progress wi t)))"

definition workers_ok :: "Broker \<Rightarrow> bool" where
  "workers_ok b \<longleftrightarrow> distinct (map fst (workerInfoLookup b)) \<and> distinct (map snd (workerInfoLookup b)) \<and>
     dom (workerHeap b) = snd ` set (workerInfoLookup b) \<and>
     (\<forall>(ident, w) \<in> set (workerInfoLookup b). \<exists>wi. workerHeap b w = Some wi \<and> wi_identity wi = ident) \<and>
     (\<forall>w wi. workerHeap b w = Some wi \<longrightarrow> worker_ok wi \<and> w < nextAddr b)"

definition contexts_apart :: "Broker \<Rightarrow> bool" where
  "contexts_apart b \<longleftrightarrow> (\<forall>t c t' c' i i' r. requestTypeContextLookup b t = Some c \<longrightarrow>
     requestTypeContextLookup b t' = Some c' \<longrightarrow> ctx_requests c i = Some r \<longrightarrow> ctx_requests c' i' = Some r \<longrightarrow> t = t')"

definition broker_inv :: "all_holdings \<Rightarrow> Broker \<Rightarrow> bool" where
  "broker_inv G b \<longleftrightarrow> workers_ok b \<and> (\<forall>r \<in> dom (requestHeap b). r < nextAddr b) \<and> contexts_apart b \<and>
     (\<forall>t c. requestTypeContextLookup b t = Some c \<longrightarrow>
        ctx_ok (serving b t) (requestHeap b) (of_type G t) t c) \<and>
     (\<forall>(w, t, i, r) \<in> G. requestTypeContextLookup b t \<noteq> None)"

lemma invD:
  assumes "broker_inv G b"
  shows "workers_ok b" "contexts_apart b"
    "requestHeap b r = Some rs \<Longrightarrow> r < nextAddr b"
    "requestTypeContextLookup b t = Some c \<Longrightarrow> ctx_ok (serving b t) (requestHeap b) (of_type G t) t c"
    "(w, t, i, r) \<in> G \<Longrightarrow> \<exists>c. requestTypeContextLookup b t = Some c"
  using assms unfolding broker_inv_def by (blast, blast, blast, blast, fast)

lemma workers_okD:
  assumes "workers_ok b"
  shows "distinct (map fst (workerInfoLookup b))" "distinct (map snd (workerInfoLookup b))"
    "dom (workerHeap b) = snd ` set (workerInfoLookup b)"
    "(ident, w) \<in> set (workerInfoLookup b) \<Longrightarrow> \<exists>wi. workerHeap b w = Some wi \<and> wi_identity wi = ident"
    "workerHeap b w = Some wi \<Longrightarrow> worker_ok wi" "workerHeap b w = Some wi \<Longrightarrow> w < nextAddr b"
  using assms unfolding workers_ok_def by (blast, blast, blast, blast, blast, blast)

text \<open>The registered workers, their identities and types stay; contexts only come.\<close>

definition worker_view :: "Broker \<Rightarrow> wptr \<rightharpoonup> frame \<times> RequestType list" where
  "worker_view b w = map_option (\<lambda>wi. (wi_identity wi, wi_supportedRequestTypes wi)) (workerHeap b w)"

definition keeps :: "Broker \<Rightarrow> Broker \<Rightarrow> bool" where
  "keeps b b' \<longleftrightarrow> workerInfoLookup b' = workerInfoLookup b \<and> worker_view b' = worker_view b \<and>
     dom (requestTypeContextLookup b) \<subseteq> dom (requestTypeContextLookup b')"

lemma keeps_refl [simp]: "keeps b b"
  by (simp add: keeps_def)

lemma keeps_trans: "keeps a b \<Longrightarrow> keeps b c \<Longrightarrow> keeps a c"
  unfolding keeps_def by (metis subset_trans)

lemma worker_view_Some: "worker_view b w = Some d \<longleftrightarrow>
    (\<exists>wi. workerHeap b w = Some wi \<and> d = (wi_identity wi, wi_supportedRequestTypes wi))"
  by (auto simp: worker_view_def)

lemma keeps_worker:
  assumes "keeps b b'" "workerHeap b w = Some wi"
  obtains wi' where "workerHeap b' w = Some wi'" "wi_identity wi' = wi_identity wi"
    "wi_supportedRequestTypes wi' = wi_supportedRequestTypes wi"
proof -
  have "worker_view b' w = Some (wi_identity wi, wi_supportedRequestTypes wi)"
    using assms by (simp add: keeps_def worker_view_def)
  then show ?thesis using that by (auto simp: worker_view_Some)
qed

lemma keeps_sym_worker:
  assumes "keeps b b'" "workerHeap b' w = Some wi"
  obtains wi' where "workerHeap b w = Some wi'" "wi_identity wi = wi_identity wi'"
    "wi_supportedRequestTypes wi = wi_supportedRequestTypes wi'"
proof -
  have "worker_view b w = worker_view b' w" using assms(1) by (simp add: keeps_def)
  then have "worker_view b w = Some (wi_identity wi, wi_supportedRequestTypes wi)"
    using assms(2) by (simp add: worker_view_def)
  then show ?thesis using that by (auto simp: worker_view_Some)
qed

lemma serving_view: "serving b t = {w. \<exists>d. worker_view b w = Some d \<and> t \<in> set (snd d)}"
  by (auto simp: serving_def worker_view_Some)

lemma keeps_serving: "keeps b b' \<Longrightarrow> serving b' t = serving b t"
  by (simp add: serving_view keeps_def)

lemma keeps_dom: "keeps b b' \<Longrightarrow> dom (workerHeap b') = dom (workerHeap b)"
proof -
  have "dom (workerHeap b) = dom (worker_view b)" for b
    by (auto simp: worker_view_def dom_def)
  then show "keeps b b' \<Longrightarrow> ?thesis" by (simp add: keeps_def)
qed

text \<open>An update of one worker that keeps its identity and its types.\<close>

lemma worker_view_update:
  assumes "workerHeap b w = Some wi" "workerHeap b' = (workerHeap b)(w \<mapsto> wi')"
    "wi_identity wi' = wi_identity wi" "wi_supportedRequestTypes wi' = wi_supportedRequestTypes wi"
  shows "worker_view b' = worker_view b"
  using assms by (auto simp: worker_view_def fun_eq_iff)

lemma keeps_context: "keeps b b' \<Longrightarrow> requestTypeContextLookup b t = Some c \<Longrightarrow> \<exists>c'. requestTypeContextLookup b' t = Some c'"
  unfolding keeps_def by blast

lemma workers_ok_keeps:
  assumes w: "workers_ok b" and k: "keeps b b'" and "nextAddr b \<le> nextAddr b'"
    and ok: "\<And>w wi. workerHeap b' w = Some wi \<Longrightarrow> worker_ok wi"
  shows "workers_ok b'"
proof -
  have L: "workerInfoLookup b' = workerInfoLookup b" using k by (simp add: keeps_def)
  have "\<exists>wi. workerHeap b' w = Some wi \<and> wi_identity wi = ident" if "(ident, w) \<in> set (workerInfoLookup b)" for ident w
    using workers_okD(4)[OF w that] k by (metis keeps_worker)
  moreover have "w' < nextAddr b'" if "workerHeap b' w' = Some wi" for w' wi
    using keeps_sym_worker[OF k that] workers_okD(6)[OF w] assms(3) by (metis order_less_le_trans)
  ultimately show ?thesis
    using w ok L keeps_dom[OF k] unfolding workers_ok_def by auto
qed

text \<open>\<open>r\<close> is not the request of another context.\<close>

definition only_in :: "Broker \<Rightarrow> RequestType \<Rightarrow> rptr \<Rightarrow> bool" where
  "only_in b t r \<longleftrightarrow> (\<forall>t' c i. t' \<noteq> t \<longrightarrow> requestTypeContextLookup b t' = Some c \<longrightarrow> ctx_requests c i \<noteq> Some r)"

lemma only_in_registered:
  "broker_inv G b \<Longrightarrow> requestTypeContextLookup b t = Some c \<Longrightarrow> ctx_requests c i = Some r \<Longrightarrow> only_in b t r"
  using invD(2) unfolding only_in_def contexts_apart_def by blast

lemma fresh_dead: "broker_inv G b \<Longrightarrow> requestHeap b (nextAddr b) = None"
  using invD(3) by (metis less_irrefl option.exhaust)

lemma only_in_fresh:
  assumes "broker_inv G b" "requestHeap b r = None"
  shows "only_in b t r"
  unfolding only_in_def
proof (intro allI impI)
  fix t' c i assume "requestTypeContextLookup b t' = Some c"
  note k = invD(4)[OF assms(1) this]
  show "ctx_requests c i \<noteq> Some r"
    using ctx_okD(6)[OF k, of i r] assms(2) by (auto simp: registered_ok_def)
qed

text \<open>One request and the context it belongs to change; the rest of the broker follows.\<close>

lemma inv_update:
  assumes I: "broker_inv G b" and k: "keeps b b'" and n: "nextAddr b \<le> nextAddr b'"
    and wok: "\<And>w wi. workerHeap b' w = Some wi \<Longrightarrow> worker_ok wi"
    and L: "requestTypeContextLookup b' = (requestTypeContextLookup b)(t \<mapsto> c')"
    and o: "only_in b t r" and h: "\<And>r'. r' \<noteq> r \<Longrightarrow> requestHeap b' r' = requestHeap b r'"
    and reg: "\<And>i r'. ctx_requests c' i = Some r' \<Longrightarrow> r' = r \<or> (\<exists>c. requestTypeContextLookup b t = Some c \<and> ctx_requests c i = Some r')"
    and fresh: "r \<in> dom (requestHeap b') \<Longrightarrow> r < nextAddr b'"
    and off: "\<And>w t' i r'. t' \<noteq> t \<Longrightarrow> (w, t', i, r') \<in> G' \<longleftrightarrow> (w, t', i, r') \<in> G"
    and ok: "ctx_ok (serving b t) (requestHeap b') (of_type G' t) t c'"
  shows "broker_inv G' b'"
  unfolding broker_inv_def
proof (intro conjI allI impI ballI)
  show "workers_ok b'" using invD(1)[OF I] k n wok by (rule workers_ok_keeps)
  fix r' assume "r' \<in> dom (requestHeap b')"
  then show "r' < nextAddr b'"
    using fresh h[of r'] invD(3)[OF I, of r'] n by (cases "r' = r") fastforce+
next
  have apart: "t1 = t2" if "requestTypeContextLookup b t1 = Some c1" "requestTypeContextLookup b t2 = Some c2"
      "ctx_requests c1 i1 = Some r'" "ctx_requests c2 i2 = Some r'" for t1 t2 c1 c2 i1 i2 r'
    using invD(2)[OF I] that unfolding contexts_apart_def by blast
  have one: "t' = t" if "requestTypeContextLookup b' t' = Some c2" "ctx_requests c2 i2 = Some r'"
      "ctx_requests c' i1 = Some r'" for t' c2 i1 i2 r'
  proof (rule ccontr)
    assume d: "t' \<noteq> t"
    with that(1) L have c2: "requestTypeContextLookup b t' = Some c2" by simp
    with d o that(2) have "r' \<noteq> r" unfolding only_in_def by blast
    with reg[OF that(3)] obtain c where "requestTypeContextLookup b t = Some c" "ctx_requests c i1 = Some r'" by blast
    with apart c2 that(2) d show False by blast
  qed
  show "contexts_apart b'"
    unfolding contexts_apart_def
  proof (intro allI impI)
    fix t1 c1 t2 c2 i1 i2 r'
    assume a: "requestTypeContextLookup b' t1 = Some c1" "requestTypeContextLookup b' t2 = Some c2"
      "ctx_requests c1 i1 = Some r'" "ctx_requests c2 i2 = Some r'"
    consider "t1 = t" "c1 = c'" | "t2 = t" "c2 = c'" | "t1 \<noteq> t" "t2 \<noteq> t" using a L by fastforce
    then show "t1 = t2"
      using one[OF a(2) a(4)] one[OF a(1) a(3)] a L apart[of t1 c1 t2 c2] by cases auto
  qed
next
  fix t' c2 assume a: "requestTypeContextLookup b' t' = Some c2"
  show "ctx_ok (serving b' t') (requestHeap b') (of_type G' t') t' c2"
  proof (cases "t' = t")
    case True
    with a L ok keeps_serving[OF k] show ?thesis by simp
  next
    case False
    with a L have c2: "requestTypeContextLookup b t' = Some c2" by simp
    have "of_type G' t' = of_type G t'" using off[OF False] by (simp add: of_type_def)
    moreover have "ctx_ok (serving b' t') (requestHeap b') (of_type G t') t' c2"
    proof (rule ctx_ok_cong[OF invD(4)[OF I c2]])
      fix i r' assume "ctx_requests c2 i = Some r'"
      with o c2 False have "r' \<noteq> r" unfolding only_in_def by blast
      then show "requestHeap b' r' = requestHeap b r'" by (rule h)
    next
      fix w assume "w \<in> set (ctx_availableWorkers c2) \<or> (\<exists>i r. (w, i, r) \<in> of_type G t')"
      then show "w \<in> serving b' t'"
        using ctx_okD(3)[OF invD(4)[OF I c2]] ctx_okD(8)[OF invD(4)[OF I c2]] keeps_serving[OF k]
        by (auto simp: holding_ok_def)
    qed
    ultimately show ?thesis by simp
  qed
next
  fix x assume x: "x \<in> G'"
  obtain w t' i r' where x': "x = (w, t', i, r')" by (cases x)
  show "case x of (w, t, i, r) \<Rightarrow> requestTypeContextLookup b' t \<noteq> None"
    using x x' off[of t' w i r'] invD(5)[OF I, of w t' i r'] L by (cases "t' = t") auto
qed

text \<open>Neither a request nor the queues change: messages, the clock, data of the workers.\<close>

lemma inv_same:
  assumes I: "broker_inv G b" and k: "keeps b b'" and wok: "\<And>w wi. workerHeap b' w = Some wi \<Longrightarrow> worker_ok wi"
    and s: "requestHeap b' = requestHeap b" "requestTypeContextLookup b' = requestTypeContextLookup b" "nextAddr b' = nextAddr b"
  shows "broker_inv G b'"
proof -
  have "workers_ok b'" by (rule workers_ok_keeps[OF invD(1)[OF I] k]) (auto simp: s wok)
  then show ?thesis
    using I keeps_serving[OF k] by (simp add: broker_inv_def s contexts_apart_def)
qed

lemma inv_worker_ok: "broker_inv G b \<Longrightarrow> workerHeap b w = Some wi \<Longrightarrow> worker_ok wi"
  using invD(1) workers_okD(5) by blast

section \<open>Holdings\<close>

lemma held_iff: "(w, t, i, r) \<in> held b \<longleftrightarrow> (\<exists>wi. workerHeap b w = Some wi \<and> (i, r) \<in> set (in_progress wi t))"
  by (simp add: held_def)

lemma held_cong: "workerHeap b' = workerHeap b \<Longrightarrow> held b' = held b"
  by (simp add: held_def)

lemma held_scalar:
  assumes "workerHeap b w = Some wi" "workerHeap b' = (workerHeap b)(w \<mapsto> wi')" "in_progress wi' = in_progress wi"
  shows "held b' = held b"
  using assms unfolding held_def by (fastforce split: if_splits)

lemma held_add:
  assumes "workerHeap b w = Some wi" "workerHeap b' = (workerHeap b)(w \<mapsto> wi')"
    "\<And>t'. in_progress wi' t' = (if t' = t then emplace i r (in_progress wi t) else in_progress wi t')"
    "\<And>r'. (w, t, i, r') \<notin> held b"
  shows "held b' = insert (w, t, i, r) (held b)"
proof -
  have "i \<notin> fst ` set (in_progress wi t)" using assms(1,4) by (auto simp: held_iff)
  then have "set (emplace i r (in_progress wi t)) = insert (i, r) (set (in_progress wi t))" by (rule set_emplace)
  with assms(1-3) show ?thesis by (auto simp: held_def split: if_splits)
qed

lemma held_remove:
  assumes "workerHeap b w = Some wi" "workerHeap b' = (workerHeap b)(w \<mapsto> wi')"
    "\<And>t'. in_progress wi' t' = (if t' = t then erase_key i (in_progress wi t) else in_progress wi t')"
  shows "held b' = held b - {(w', t', i', r'). w' = w \<and> t' = t \<and> i' = i}"
  using assms by (auto simp: held_def set_erase_key split: if_splits)

lemma worker_ok_update:
  assumes "worker_ok wi"
  shows "worker_ok (UpdateBrokerLastActive now wi)" "worker_ok (UpdateWorkerLastActive now wi)"
    "worker_ok (UpdateWithHeartbeat now s d wi)" "worker_ok (WorkerInfo_AddInProgressRequest t i r wi)"
    "worker_ok (WorkerInfo_RemoveInProgressRequest t i wi)"
  using assms by (auto simp: worker_ok_def distinct_emplace distinct_erase_key)

section \<open>Every registered worker has its contexts\<close>

definition covered :: "Broker \<Rightarrow> bool" where
  "covered b \<longleftrightarrow> (\<forall>w wi t. workerHeap b w = Some wi \<longrightarrow> t \<in> set (wi_supportedRequestTypes wi) \<longrightarrow>
     requestTypeContextLookup b t \<noteq> None)"

lemma coveredD: "covered b \<Longrightarrow> workerHeap b w = Some wi \<Longrightarrow> t \<in> set (wi_supportedRequestTypes wi) \<Longrightarrow>
    \<exists>c. requestTypeContextLookup b t = Some c"
  by (auto simp: covered_def)

lemma covered_keeps: "keeps b b' \<Longrightarrow> covered b \<Longrightarrow> covered b'"
  unfolding covered_def
proof (intro allI impI)
  fix w wi t
  assume k: "keeps b b'" and c: "\<forall>w wi t. workerHeap b w = Some wi \<longrightarrow> t \<in> set (wi_supportedRequestTypes wi) \<longrightarrow>
      requestTypeContextLookup b t \<noteq> None"
    and w: "workerHeap b' w = Some wi" "t \<in> set (wi_supportedRequestTypes wi)"
  from keeps_sym_worker[OF k w(1)] w(2) c have "requestTypeContextLookup b t \<noteq> None" by metis
  then show "requestTypeContextLookup b' t \<noteq> None" using keeps_context[OF k] by fastforce
qed

end
