(* ===== verification/BrokerSafe.thy ===== *)
theory BrokerSafe
  imports BrokerInv
begin

text \<open>
  The operations that move one request keep the invariant: forwarding a pending, a new or a dead
  worker's request, queueing, erasing, redirecting.
\<close>

section \<open>What is kept of a request is enough\<close>

lemma settle_simps [simp]:
  "rs_requestId (settle vfs m rs) = rs_requestId rs" "rs_flag (settle vfs m rs) = rs_flag rs"
  "rs_state (settle vfs m rs) = rs_state rs" "rs_tryCount (settle vfs m rs) = rs_tryCount rs"
  by (auto simp: settle_def rs_defs split: option.splits)

lemma settle_vfs: "rs_vfs rs = vfs \<Longrightarrow> rs_vfs (settle vfs m rs) = vfs \<or> rs_vfs (settle vfs m rs) = minusReceiptOnSend vfs"
  by (auto simp: settle_def rs_defs split: option.splits)

lemma settle_flags:
  assumes "rs_vfs rs = vfs" "f \<in> {NotifyOnDeath, RetryOnDeath, AllowRedirect, NotifyOnRedirect}"
  shows "hasAny (rs_vfs (settle vfs m rs)) f \<longleftrightarrow> hasAny vfs f"
  using settle_vfs[OF assms(1), of m] assms(2) by (auto simp: minusReceiptOnSend_keeps)

lemma flags_ok_minus [simp]: "flags_ok (minusReceiptOnSend v) \<longleftrightarrow> flags_ok v"
  by (simp add: flags_ok_def)

lemma settle_msg:
  "hasAny vfs RetryOnDeath \<Longrightarrow> rs_msg (settle vfs m rs) = Some m"
  "\<not> hasAny vfs RetryOnDeath \<Longrightarrow> keeps_envelope vfs \<Longrightarrow> rs_msg (settle vfs m rs) = Some (envelope m)"
  "\<not> hasAny vfs RetryOnDeath \<Longrightarrow> \<not> keeps_envelope vfs \<Longrightarrow> rs_msg (settle vfs m rs) = rs_msg rs"
  by (auto simp: settle_def kept_copy_def keeps_whole_def keeps_envelope_def rs_defs)

lemma settle_ok:
  assumes "IsInProgress rs" "rs_vfs rs = vfs" "flags_ok vfs" "whole_header m"
  shows "rs_ok (settle vfs m rs)"
proof -
  have "IsInProgress (settle vfs m rs)" "\<not> IsPending (settle vfs m rs)"
    using assms(1) by (simp_all add: IsInProgress_def IsPending_def)
  moreover have "flags_ok (rs_vfs (settle vfs m rs))"
    using assms(3) settle_flags[OF assms(2)] by (simp add: flags_ok_def)
  moreover have "hasAny vfs NotifyOnDeath \<Longrightarrow> rs_msg (settle vfs m rs) \<noteq> None"
    by (cases "hasAny vfs RetryOnDeath") (simp_all add: settle_msg keeps_envelope_def)
  ultimately show ?thesis
    using assms(4) settle_flags[OF assms(2)] by (auto simp: rs_ok_def settle_msg)
qed

lemma forwarded_rs_ok:
  assumes "rs_ok rs" "whole_header m"
  shows "rs_requestId (forwarded_rs w m rs) = rs_requestId rs" "rs_ok (forwarded_rs w m rs)"
    "IsInProgress (forwarded_rs w m rs)" "rs_state (forwarded_rs w m rs) = AssignedWorker w"
proof -
  show "rs_ok (forwarded_rs w m rs)"
    unfolding forwarded_rs_def
    by (rule settle_ok) (use assms in \<open>simp_all add: rs_ok_def IsInProgress_def Assign_def UpdateRequest_msg_def\<close>)
qed (simp_all add: forwarded_rs_def IsInProgress_def Assign_def UpdateRequest_msg_def)

section \<open>Forwarding a pending request\<close>

definition sent_only :: "Broker \<Rightarrow> Broker \<Rightarrow> bool" where
  "sent_only b b' \<longleftrightarrow> (\<exists>h. b' = b\<lparr>sends := h\<rparr>)"

lemma inv_sends [simp]: "broker_inv G (b\<lparr>sends := h\<rparr>) \<longleftrightarrow> broker_inv G b"
  and held_sends [simp]: "held (b\<lparr>sends := h\<rparr>) = held b"
  and keeps_sends [simp]: "keeps b (b\<lparr>sends := h\<rparr>)"
  by (simp_all add: broker_inv_def held_def keeps_def worker_view_def[abs_def] workers_ok_def contexts_apart_def serving_def)

lemma inv_inbox [simp]: "broker_inv G (b\<lparr>inbox := m\<rparr>) \<longleftrightarrow> broker_inv G b"
  and held_inbox [simp]: "held (b\<lparr>inbox := m\<rparr>) = held b"
  and keeps_inbox [simp]: "keeps b (b\<lparr>inbox := m\<rparr>)"
  by (simp_all add: broker_inv_def held_def keeps_def worker_view_def[abs_def] workers_ok_def contexts_apart_def serving_def)

lemma inv_now [simp]: "broker_inv G (updateCurrentTime n b) \<longleftrightarrow> broker_inv G b"
  and held_now [simp]: "held (updateCurrentTime n b) = held b"
  and keeps_now [simp]: "keeps b (updateCurrentTime n b)"
  by (simp_all add: updateCurrentTime_def broker_inv_def held_def keeps_def worker_view_def[abs_def] workers_ok_def
      contexts_apart_def serving_def)

text \<open>What there is to know about a request at hand.\<close>

lemma queuedE:
  assumes "broker_inv G b" "requestTypeContextLookup b t = Some c" "(n, r) \<in> set (ctx_pending c)"
  obtains rs m where "requestHeap b r = Some rs" "IsPending rs" "rs_state rs = ListIt n"
    "ctx_requests c (rs_requestId rs) = Some r" "rs_ok rs" "rs_msg rs = Some m" "whole_header m"
    "n \<in> fst ` set (ctx_pending c)"
proof -
  note c = invD(4)[OF assms(1,2)]
  from ctx_okD(7)[OF c assms(3)] obtain rs where rs: "requestHeap b r = Some rs" "IsPending rs"
      "rs_state rs = ListIt n" "ctx_requests c (rs_requestId rs) = Some r"
    by (auto simp: queued_ok_def)
  moreover from ctx_okD(6)[OF c rs(4)] rs(1) have ok: "rs_ok rs" by (auto simp: registered_ok_def)
  moreover from ok rs(2) obtain m where "rs_msg rs = Some m" "whole_header m" by (auto simp: rs_ok_def)
  moreover have "n \<in> fst ` set (ctx_pending c)" using assms(3) by force
  ultimately show thesis using that by blast
qed

lemma no_holding_pending:
  assumes "broker_inv G b" "requestTypeContextLookup b t = Some c" "ctx_requests c i = Some r"
    "requestHeap b r = Some rs" "IsPending rs"
  shows "(w, t, i, r') \<notin> G"
proof
  assume "(w, t, i, r') \<in> G"
  then have "(w, i, r') \<in> of_type G t" by (simp add: of_type_def)
  from ctx_okD(8)[OF invD(4)[OF assms(1,2)] this] assms(3-5) show False
    by (auto simp: holding_ok_def dest: pending_not_in_progress)
qed

lemma no_holding_unregistered:
  assumes "broker_inv G b" "requestTypeContextLookup b t = Some c" "ctx_requests c i = None"
  shows "(w, t, i, r') \<notin> G"
proof
  assume "(w, t, i, r') \<in> G"
  then have "(w, i, r') \<in> of_type G t" by (simp add: of_type_def)
  from ctx_okD(8)[OF invD(4)[OF assms(1,2)] this] assms(3) show False
    by (simp add: holding_ok_def)
qed

lemma of_type_insert: "of_type (insert (w, t, i, r) G) t = insert (w, i, r) (of_type G t)"
  by (auto simp: of_type_def)

definition others_same :: "wptr \<Rightarrow> Broker \<Rightarrow> Broker \<Rightarrow> bool" where
  "others_same w b b' \<longleftrightarrow> (\<forall>w'. w' \<noteq> w \<longrightarrow> workerHeap b' w' = workerHeap b w') \<and>
     inbox b' = inbox b \<and> currentTime b' = currentTime b \<and> workerDeathDelay b' = workerDeathDelay b"

definition pops :: "RequestType \<Rightarrow> list_node \<Rightarrow> Broker \<Rightarrow> Broker \<Rightarrow> bool" where
  "pops t n b b' \<longleftrightarrow> (\<exists>c. requestTypeContextLookup b t = Some c \<and> requestTypeContextLookup b' =
     (requestTypeContextLookup b)(t \<mapsto> c\<lparr>ctx_pending := filter (\<lambda>p. fst p \<noteq> n) (ctx_pending c)\<rparr>))"

lemma forward1_safe:
  assumes E: "env_ok E" and I: "broker_inv G b" and c: "requestTypeContextLookup b t = Some c"
    and q: "(n, r) \<in> set (ctx_pending c)" and w: "workerHeap b w = Some wi" "t \<in> set (wi_supportedRequestTypes wi)"
    and G: "\<And>i r. (w, t, i, r) \<in> held b \<Longrightarrow> (w, t, i, r) \<in> G"
  shows "runs_to (forwardWorkerParsedClientRequest1 E w t r b) (\<lambda>(ret, b').
    ret \<noteq> 0 \<and> sent_only b b' \<or>
    ret = 0 \<and> (\<exists>i wi'. broker_inv (insert (w, t, i, r) G) b' \<and> (w, t, i, r) \<notin> G \<and> held b' = insert (w, t, i, r) (held b) \<and>
      keeps b b' \<and> others_same w b b' \<and> pops t n b b' \<and>
      workerHeap b' w = Some wi' \<and> wi_freeCapacity wi' = wi_freeCapacity wi - 1))"
proof -
  from queuedE[OF I c q] obtain rs m where rs: "requestHeap b r = Some rs" "IsPending rs" "rs_state rs = ListIt n"
      "ctx_requests c (rs_requestId rs) = Some r" "rs_ok rs" and m: "rs_msg rs = Some m" "whole_header m"
      and n: "n \<in> fst ` set (ctx_pending c)" .
  show ?thesis
  proof (cases "send_ret E wi m b = 0")
    case False
    then show ?thesis
      using forward1_fails[OF E rs(1) m(1) w(1) False] by (auto simp: sent_only_def)
  next
    case True
    let ?i = "rs_requestId rs"
    let ?wi = "UpdateBrokerLastActive (currentTime b) (WorkerInfo_AddInProgressRequest t ?i r wi)"
    define b' where "b' = b\<lparr>requestHeap := (requestHeap b)(r \<mapsto> forwarded_rs w m rs),
      workerHeap := (workerHeap b)(w \<mapsto> ?wi),
      requestTypeContextLookup := (requestTypeContextLookup b)(t \<mapsto>
        c\<lparr>ctx_pending := filter (\<lambda>p. fst p \<noteq> n) (ctx_pending c)\<rparr>),
      sends := sends b @ (Backend, toWorker E wi m, 0) # receipts E (rs_vfs rs) m t ?i\<rparr>"
    have eq: "forwardWorkerParsedClientRequest1 E w t r b = Some (0, b')"
      unfolding b'_def by (rule forward1_sends[OF E rs(1) m(1) w(1) True c rs(3) n])
    have k: "keeps b b'"
      using c worker_view_update[OF w(1), of b' ?wi] by (auto simp: keeps_def b'_def)
    have no: "(w', t, ?i, r') \<notin> G" for w' r'
      by (rule no_holding_pending[OF I c rs(4) rs(1) rs(2)])
    have held: "held b' = insert (w, t, ?i, r) (held b)"
      by (rule held_add[OF w(1)]) (use no G in \<open>auto simp: b'_def\<close>)
    note f = forwarded_rs_ok[OF rs(5) m(2), of w]
    have "broker_inv (insert (w, t, ?i, r) G) b'"
    proof (rule inv_update[OF I k, where r = r])
      show "only_in b t r" by (rule only_in_registered[OF I c rs(4)])
      show "ctx_ok (serving b t) (requestHeap b') (of_type (insert (w, t, ?i, r) G) t) t
          (c\<lparr>ctx_pending := filter (\<lambda>p. fst p \<noteq> n) (ctx_pending c)\<rparr>)"
        using ctx_ok_assign[OF invD(4)[OF I c] q rs(1) _ f] w
        by (simp add: of_type_insert b'_def serving_def)
    qed (use I c rs(1) w(1) in \<open>auto simp: b'_def invD(3)[OF I] worker_ok_update inv_worker_ok split: if_splits\<close>)
    moreover have "others_same w b b'" "pops t n b b'"
      using c by (simp_all add: others_same_def pops_def b'_def)
    moreover have "workerHeap b' w = Some ?wi" "wi_freeCapacity ?wi = wi_freeCapacity wi - 1"
      by (simp_all add: b'_def wi_upd_defs)
    ultimately show ?thesis using eq held k no by auto
  qed
qed

section \<open>Availability, contexts\<close>

text \<open>Only the contexts change, and in them only who is available and how many there are.\<close>

definition avail_only :: "Broker \<Rightarrow> Broker \<Rightarrow> bool" where
  "avail_only b b' \<longleftrightarrow> (\<exists>L. b' = b\<lparr>requestTypeContextLookup := L\<rparr>) \<and>
     (\<forall>t. rel_option same_requests (requestTypeContextLookup b t) (requestTypeContextLookup b' t))"

lemma avail_only_refl [simp]: "avail_only b b"
  by (auto simp: avail_only_def same_requests_def intro!: option.rel_refl exI[of _ "requestTypeContextLookup b"])

lemma avail_only_trans:
  assumes "avail_only a b" "avail_only b c"
  shows "avail_only a c"
proof -
  have "rel_option same_requests (requestTypeContextLookup a t) (requestTypeContextLookup c t)" for t
  proof -
    have "transp same_requests" by (auto simp: transp_def same_requests_def)
    then have "transp (rel_option same_requests)" by (rule option.rel_transp)
    then show ?thesis using assms unfolding avail_only_def by (blast dest: transpD)
  qed
  moreover have "\<exists>L. c = a\<lparr>requestTypeContextLookup := L\<rparr>"
    using assms by (auto simp: avail_only_def)
  ultimately show ?thesis by (simp add: avail_only_def)
qed

lemma avail_only_fields:
  assumes "avail_only b b'"
  shows "workerHeap b' = workerHeap b" "requestHeap b' = requestHeap b" "inbox b' = inbox b" "sends b' = sends b"
    "currentTime b' = currentTime b" "workerDeathDelay b' = workerDeathDelay b" "held b' = held b"
    "workerInfoLookup b' = workerInfoLookup b" "nextAddr b' = nextAddr b"
  using assms by (auto simp: avail_only_def held_def)

lemma avail_only_modContext:
  assumes "requestTypeContextLookup b t = Some c" "same_requests c (f c)"
  shows "avail_only b (b\<lparr>requestTypeContextLookup := (requestTypeContextLookup b)(t \<mapsto> f c)\<rparr>)"
  using assms by (auto simp: avail_only_def same_requests_def intro!: option.rel_refl)

lemma inv_avail:
  assumes I: "broker_inv G b" and c: "requestTypeContextLookup b t = Some c" and s: "same_requests c c'"
    and a: "distinct (ctx_availableWorkers c')" "set (ctx_availableWorkers c') \<subseteq> serving b t"
  shows "broker_inv G (b\<lparr>requestTypeContextLookup := (requestTypeContextLookup b)(t \<mapsto> c')\<rparr>)"
    "keeps b (b\<lparr>requestTypeContextLookup := (requestTypeContextLookup b)(t \<mapsto> c')\<rparr>)"
proof -
  let ?b = "b\<lparr>requestTypeContextLookup := (requestTypeContextLookup b)(t \<mapsto> c')\<rparr>"
  show k: "keeps b ?b" by (auto simp: keeps_def worker_view_def[abs_def])
  show "broker_inv G ?b"
  proof (rule inv_update[OF I k, where r = "nextAddr b"])
    show "only_in b t (nextAddr b)" by (rule only_in_fresh[OF I fresh_dead[OF I]])
    show "ctx_ok (serving b t) (requestHeap ?b) (of_type G t) t c'"
      using ctx_ok_available[OF invD(4)[OF I c] s a] by simp
  qed (use c s fresh_dead[OF I] inv_worker_ok[OF I] in \<open>auto simp: same_requests_def\<close>)
qed

lemma inv_newContext:
  assumes I: "broker_inv G b" and c: "requestTypeContextLookup b t = None"
  shows "broker_inv G (newContext t b)" "keeps b (newContext t b)" "held (newContext t b) = held b"
proof -
  show k: "keeps b (newContext t b)" by (auto simp: keeps_def worker_view_def[abs_def] newContext_def)
  have e: "of_type G t = {}" using invD(5)[OF I, of _ t] c by (fastforce simp: of_type_def)
  show "broker_inv G (newContext t b)"
  proof (rule inv_update[OF I k, where r = "nextAddr b"])
    show "only_in b t (nextAddr b)" by (rule only_in_fresh[OF I fresh_dead[OF I]])
    show "ctx_ok (serving b t) (requestHeap (newContext t b)) (of_type G t) t (BrokerRequestTypeContext_new t)"
      unfolding e by (rule ctx_ok_new)
  qed (use c fresh_dead[OF I] inv_worker_ok[OF I] in \<open>auto simp: newContext_def\<close>)
  show "held (newContext t b) = held b" by (rule held_cong) (simp add: newContext_def)
qed

text \<open>Nobody becomes available.\<close>

definition avail_shrinks :: "Broker \<Rightarrow> Broker \<Rightarrow> bool" where
  "avail_shrinks b b' \<longleftrightarrow> (\<forall>t c'. requestTypeContextLookup b' t = Some c' \<longrightarrow>
     (\<exists>c. requestTypeContextLookup b t = Some c \<and> set (ctx_availableWorkers c') \<subseteq> set (ctx_availableWorkers c)))"

lemma avail_shrinks_refl [simp]: "avail_shrinks b b"
  by (simp add: avail_shrinks_def)

lemma avail_shrinks_trans: "avail_shrinks a b \<Longrightarrow> avail_shrinks b c \<Longrightarrow> avail_shrinks a c"
  unfolding avail_shrinks_def by (meson subset_trans)

lemma same_requests_simps [simp]:
  "same_requests c (AddAvailableWorker w c)" "same_requests c (RemoveAvailableWorker w c)"
  "same_requests c (IncrementNumWorkers c)" "same_requests c (DecrementNumWorkers c)"
  by (simp_all add: same_requests_def)

lemma modContext_remove:
  assumes I: "broker_inv G b" and c: "requestTypeContextLookup b t = Some c"
  shows "\<exists>b'. modContext t (RemoveAvailableWorker w) b = Some b' \<and> broker_inv G b' \<and> keeps b b' \<and> avail_only b b' \<and>
    avail_shrinks b b' \<and> (\<forall>c'. requestTypeContextLookup b' t = Some c' \<longrightarrow> w \<notin> set (ctx_availableWorkers c'))"
proof -
  note k = invD(4)[OF I c]
  let ?b = "b\<lparr>requestTypeContextLookup := (requestTypeContextLookup b)(t \<mapsto> RemoveAvailableWorker w c)\<rparr>"
  have "broker_inv G ?b" "keeps b ?b"
    using inv_avail[OF I c, of "RemoveAvailableWorker w c"] ctx_okD(2,3)[OF k] by (auto simp: distinct_removeAll)
  moreover have "avail_only b ?b" by (rule avail_only_modContext[OF c]) simp
  moreover have "avail_shrinks b ?b" using c by (auto simp: avail_shrinks_def)
  ultimately show ?thesis using c by (simp add: modContext_Some)
qed

lemma modContext_add:
  assumes I: "broker_inv G b" and c: "requestTypeContextLookup b t = Some c" and w: "w \<in> serving b t"
  shows "\<exists>b'. modContext t (AddAvailableWorker w) b = Some b' \<and> broker_inv G b' \<and> keeps b b' \<and> avail_only b b'"
proof -
  note k = invD(4)[OF I c]
  let ?b = "b\<lparr>requestTypeContextLookup := (requestTypeContextLookup b)(t \<mapsto> AddAvailableWorker w c)\<rparr>"
  have "broker_inv G ?b" "keeps b ?b"
    using inv_avail[OF I c, of "AddAvailableWorker w c"] ctx_okD(2,3)[OF k] w
    by (auto simp: distinct_AddAvailableWorker)
  moreover have "avail_only b ?b" by (rule avail_only_modContext[OF c]) simp
  ultimately show ?thesis using c by (simp add: modContext_Some)
qed

lemma modContext_count:
  assumes I: "broker_inv G b" and c: "requestTypeContextLookup b t = Some c" and f: "f = IncrementNumWorkers \<or> f = DecrementNumWorkers"
  shows "\<exists>b'. modContext t f b = Some b' \<and> broker_inv G b' \<and> keeps b b' \<and> avail_only b b' \<and> avail_shrinks b b'"
proof -
  note k = invD(4)[OF I c]
  let ?b = "b\<lparr>requestTypeContextLookup := (requestTypeContextLookup b)(t \<mapsto> f c)\<rparr>"
  have a: "ctx_availableWorkers (f c) = ctx_availableWorkers c" "same_requests c (f c)"
    using f by auto
  have "broker_inv G ?b" "keeps b ?b"
    using inv_avail[OF I c a(2)] ctx_okD(2,3)[OF k] a(1) by simp_all
  moreover have "avail_only b ?b" by (rule avail_only_modContext[where f = f]) (fact c a(2))+
  moreover have "avail_shrinks b ?b" using c a by (auto simp: avail_shrinks_def)
  ultimately show ?thesis using c by (simp add: modContext_Some)
qed

lemma removeAvailableChecked_safe:
  "broker_inv G b \<Longrightarrow> broker_inv G (removeAvailableChecked ts w b) \<and> keeps b (removeAvailableChecked ts w b) \<and>
     avail_only b (removeAvailableChecked ts w b) \<and> avail_shrinks b (removeAvailableChecked ts w b)"
proof (induction ts arbitrary: b)
  case Nil
  then show ?case by simp
next
  case (Cons t ts)
  show ?case
  proof (cases "requestTypeContextLookup b t")
    case None
    with Cons show ?thesis by (simp add: modContext_def)
  next
    case (Some c)
    from modContext_remove[OF Cons.prems Some, of w] obtain b' where b': "modContext t (RemoveAvailableWorker w) b = Some b'"
      "broker_inv G b'" "keeps b b'" "avail_only b b'" "avail_shrinks b b'" by blast
    with Cons.IH[OF b'(2)] show ?thesis
      by (auto intro: keeps_trans avail_only_trans avail_shrinks_trans)
  qed
qed

lemma removeAvailableUnchecked_safe:
  "broker_inv G b \<Longrightarrow> \<forall>t \<in> set ts. requestTypeContextLookup b t \<noteq> None \<Longrightarrow>
    runs_to (removeAvailableUnchecked ts w b) (\<lambda>b'. broker_inv G b' \<and> keeps b b' \<and> avail_only b b' \<and> avail_shrinks b b')"
proof (induction ts arbitrary: b)
  case Nil
  then show ?case by simp
next
  case (Cons t ts)
  then obtain c where "requestTypeContextLookup b t = Some c" by auto
  from modContext_remove[OF Cons.prems(1) this, of w] obtain b' where b': "modContext t (RemoveAvailableWorker w) b = Some b'"
    "broker_inv G b'" "keeps b b'" "avail_only b b'" "avail_shrinks b b'" by blast
  have "\<forall>t \<in> set ts. requestTypeContextLookup b' t \<noteq> None"
    using Cons.prems(2) keeps_context[OF b'(3)] by fastforce
  note ih = Cons.IH[OF b'(2) this]
  show ?case
    unfolding removeAvailableUnchecked.simps b'(1) Option.bind.bind_lunit
    by (rule runs_to_weaken[OF ih]) (use b' in \<open>blast intro: keeps_trans avail_only_trans avail_shrinks_trans\<close>)
qed

section \<open>One request changes\<close>

definition drop_request :: "RequestType \<Rightarrow> RequestId \<Rightarrow> all_holdings \<Rightarrow> all_holdings" where
  "drop_request t i G = {(w, t', i', r) \<in> G. \<not> (t' = t \<and> i' = i)}"

lemma of_type_drop: "of_type (drop_request t i G) t = {(w, j, r) \<in> of_type G t. j \<noteq> i}"
  by (auto simp: of_type_def drop_request_def)

lemma drop_request_off: "t' \<noteq> t \<Longrightarrow> (w, t', j, r) \<in> drop_request t i G \<longleftrightarrow> (w, t', j, r) \<in> G"
  by (auto simp: drop_request_def)

lemma drop_request_iff: "(w, t', j, r) \<in> drop_request t i G \<longleftrightarrow> (w, t', j, r) \<in> G \<and> (t' \<noteq> t \<or> j \<noteq> i)"
  by (auto simp: drop_request_def)

lemma holdingE:
  assumes I: "broker_inv G b" and x: "(w, t, i, r) \<in> G"
  obtains c rs where "requestTypeContextLookup b t = Some c" "ctx_requests c i = Some r" "requestHeap b r = Some rs"
    "IsInProgress rs" "rs_ok rs" "rs_requestId rs = i" "w \<in> serving b t"
    "\<And>w' r'. (w', t, i, r') \<in> G \<Longrightarrow> w' = w \<and> r' = r"
proof -
  from invD(5)[OF I x] obtain c where c: "requestTypeContextLookup b t = Some c" by blast
  note k = invD(4)[OF I c]
  have x': "(w, i, r) \<in> of_type G t" using x by (simp add: of_type_def)
  from ctx_okD(8)[OF k x'] obtain rs where rs: "w \<in> serving b t" "ctx_requests c i = Some r" "requestHeap b r = Some rs" "IsInProgress rs"
    by (auto simp: holding_ok_def)
  have u: "w' = w \<and> r' = r" if "(w', t, i, r') \<in> G" for w' r'
  proof -
    have y: "(w', i, r') \<in> of_type G t" using that by (simp add: of_type_def)
    from ctx_okD(8)[OF k x'] y have "w' = w" unfolding holding_ok_def by blast
    moreover from ctx_okD(8)[OF k y] rs(2) have "r' = r" unfolding holding_ok_def by simp
    ultimately show ?thesis ..
  qed
  from ctx_okD(6)[OF k rs(2)] rs(3) have "rs_ok rs" "rs_requestId rs = i" by (auto simp: registered_ok_def)
  with rs c u that show thesis by blast
qed

lemma drop_request_only:
  assumes "broker_inv G b" "(w, t, i, r) \<in> G"
  shows "drop_request t i G = G - {(w, t, i, r)}"
proof -
  have u: "w' = w \<and> r' = r" if "(w', t, i, r') \<in> G" for w' r'
    by (rule holdingE[OF assms]) (use that in blast)
  have "(w', t', i', r') \<in> drop_request t i G \<longleftrightarrow> (w', t', i', r') \<in> G - {(w, t, i, r)}" for w' t' i' r'
  proof (cases "t' = t \<and> i' = i")
    case True
    then show ?thesis using u[of w' r'] by (auto simp: drop_request_iff)
  next
    case False
    then show ?thesis by (auto simp: drop_request_iff)
  qed
  then show ?thesis by auto
qed

text \<open>A request that no worker has and whose id is free, or a worker's request, is held by \<open>w\<close> from now on.\<close>

lemma inv_hold:
  assumes I: "broker_inv G b" and k: "keeps b b'" and n: "nextAddr b \<le> nextAddr b'"
    and wok: "\<And>w wi. workerHeap b' w = Some wi \<Longrightarrow> worker_ok wi"
    and c: "requestTypeContextLookup b t = Some c" and m: "may_hold c i r" and o: "only_in b t r"
    and L: "requestTypeContextLookup b' = (requestTypeContextLookup b)(t \<mapsto> c\<lparr>ctx_requests := (ctx_requests c)(i \<mapsto> r)\<rparr>)"
    and h: "requestHeap b' = (requestHeap b)(r \<mapsto> rs')" and fresh: "r < nextAddr b'"
    and rs': "rs_requestId rs' = i" "rs_ok rs'" "IsInProgress rs'"
    and H: "H = {} \<or> (H = {(w, t, i, r)} \<and> w \<in> serving b t)"
    and redirect: "hasAny (rs_vfs rs') AllowRedirect \<Longrightarrow> rs_state rs' = AssignedWorker w \<and> H \<noteq> {}"
  shows "broker_inv (H \<union> drop_request t i G) b'"
proof (rule inv_update[OF I k n wok L o])
  show "ctx_ok (serving b t) (requestHeap b') (of_type (H \<union> drop_request t i G) t) t
      (c\<lparr>ctx_requests := (ctx_requests c)(i \<mapsto> r)\<rparr>)"
    unfolding h
  proof (rule ctx_ok_hold[OF invD(4)[OF I c] m rs', where w = w])
    show "(w', j, r') \<in> of_type (H \<union> drop_request t i G) t \<longleftrightarrow> (w', j, r') \<in> of_type G t" if "j \<noteq> i" for w' j r'
      using H that by (auto simp: of_type_def drop_request_iff)
    show "w' = w \<and> r' = r \<and> w \<in> serving b t" if "(w', i, r') \<in> of_type (H \<union> drop_request t i G) t" for w' r'
      using H that by (auto simp: of_type_def drop_request_iff)
    show "rs_state rs' = AssignedWorker w \<and> (w, i, r) \<in> of_type (H \<union> drop_request t i G) t"
      if "hasAny (rs_vfs rs') AllowRedirect"
      using redirect[OF that] H by (auto simp: of_type_def)
  qed
  show "(w', t', j, r') \<in> H \<union> drop_request t i G \<longleftrightarrow> (w', t', j, r') \<in> G" if "t' \<noteq> t" for w' t' j r'
    using H that by (auto simp: drop_request_iff)
qed (use c fresh h in \<open>auto split: if_splits\<close>)

lemma inv_push:
  assumes I: "broker_inv G b" and c: "requestTypeContextLookup b t = Some c" and m: "may_hold c i r" and o: "only_in b t r"
    and rs': "rs_requestId rs' = i" "rs_ok rs'" "IsPending rs'" "rs_state rs' = ListIt (ctx_nextNode c)"
    and b': "b' = b\<lparr>inbox := x, sends := s, nextAddr := n, requestHeap := (requestHeap b)(r \<mapsto> rs'), requestTypeContextLookup :=
      (requestTypeContextLookup b)(t \<mapsto> pending_push r (c\<lparr>ctx_requests := (ctx_requests c)(i \<mapsto> r)\<rparr>))\<rparr>"
    and n: "nextAddr b \<le> n" "r < n"
  shows "broker_inv (drop_request t i G) b'" "keeps b b'" "held b' = held b"
proof -
  show k: "keeps b b'" by (auto simp: keeps_def worker_view_def[abs_def] b')
  show "held b' = held b" by (rule held_cong) (simp add: b')
  show "broker_inv (drop_request t i G) b'"
  proof (rule inv_update[OF I k _ _ _ o])
    show "ctx_ok (serving b t) (requestHeap b') (of_type (drop_request t i G) t) t
        (pending_push r (c\<lparr>ctx_requests := (ctx_requests c)(i \<mapsto> r)\<rparr>))"
      using ctx_ok_push[OF invD(4)[OF I c] m rs'] by (simp add: b' of_type_drop)
  qed (use c n inv_worker_ok[OF I] in \<open>auto simp: b' drop_request_off split: if_splits\<close>)
qed

lemma inv_erase:
  assumes I: "broker_inv G b" and c: "requestTypeContextLookup b t = Some c"
    and r: "ctx_requests c i = Some r" "requestHeap b r = Some rs" "IsInProgress rs"
    and b': "b' = b\<lparr>sends := s, requestHeap := (requestHeap b)(r := None), requestTypeContextLookup :=
      (requestTypeContextLookup b)(t \<mapsto> RemoveInProgressRequest i c)\<rparr>"
  shows "broker_inv (drop_request t i G) b'" "keeps b b'" "held b' = held b"
proof -
  show k: "keeps b b'" by (auto simp: keeps_def worker_view_def[abs_def] b')
  show "held b' = held b" by (rule held_cong) (simp add: b')
  show "broker_inv (drop_request t i G) b'"
  proof (rule inv_update[OF I k])
    show "only_in b t r" by (rule only_in_registered[OF I c r(1)])
    show "ctx_ok (serving b t) (requestHeap b') (of_type (drop_request t i G) t) t (RemoveInProgressRequest i c)"
      using ctx_ok_erase[OF invD(4)[OF I c] r] by (simp add: b' of_type_drop)
  qed (use c inv_worker_ok[OF I] in \<open>auto simp: b' drop_request_off split: if_splits\<close>)
qed

text \<open>A pending request gets another message and flags.\<close>

lemma inv_rewrite:
  assumes I: "broker_inv G b" and c: "requestTypeContextLookup b t = Some c"
    and r: "ctx_requests c i = Some r" "requestHeap b r = Some rs" "IsPending rs"
    and rs': "rs_requestId rs' = i" "rs_ok rs'" "IsPending rs'" "rs_state rs' = rs_state rs"
    and b': "b' = b\<lparr>inbox := x, sends := s, requestHeap := (requestHeap b)(r \<mapsto> rs')\<rparr>"
  shows "broker_inv G b'" "keeps b b'" "held b' = held b"
proof -
  show k: "keeps b b'" by (auto simp: keeps_def worker_view_def[abs_def] b')
  show "held b' = held b" by (rule held_cong) (simp add: b')
  show "broker_inv G b'"
  proof (rule inv_update[OF I k, where c' = c])
    show "only_in b t r" by (rule only_in_registered[OF I c r(1)])
    show "ctx_ok (serving b t) (requestHeap b') (of_type G t) t c"
      using ctx_ok_rewrite[OF invD(4)[OF I c] r rs'] by (simp add: b')
  qed (use c r inv_worker_ok[OF I] invD(3)[OF I] in \<open>auto simp: b' split: if_splits\<close>)
qed

end
