(* ===== verification/BrokerDispatch.thy ===== *)
theory BrokerDispatch
  imports BrokerSafe
begin

text \<open>
  Client messages keep the broker well formed. \<open>broker_ok\<close> is the invariant between callbacks:
  the holdings are those that the workers record.
\<close>

definition broker_ok :: "Broker \<Rightarrow> bool" where
  "broker_ok b \<longleftrightarrow> broker_inv (held b) b"

text \<open>The worker and message parts that no handler changes on its way.\<close>

definition done_with :: "Broker \<Rightarrow> Broker \<Rightarrow> bool" where
  "done_with b b' \<longleftrightarrow> broker_ok b' \<and> keeps b b' \<and> inbox b' = None"

lemma newRequest_rs_ok:
  assumes "flags_ok vfs" "whole_header m"
  shows "rs_requestId (new_rs i vfs w m) = i" "rs_ok (new_rs i vfs w m)" "IsInProgress (new_rs i vfs w m)"
    "rs_state (new_rs i vfs w m) = AssignedWorker w"
proof -
  show "rs_ok (new_rs i vfs w m)"
    unfolding new_rs_def by (rule settle_ok) (use assms in \<open>simp_all add: RequestState_inProgress_def IsInProgress_def\<close>)
qed (simp_all add: new_rs_def RequestState_inProgress_def IsInProgress_def)

lemma serving_live: "w \<in> serving b t \<Longrightarrow> \<exists>wi. workerHeap b w = Some wi \<and> t \<in> set (wi_supportedRequestTypes wi)"
  by (simp add: serving_def)

lemma drop_request_none:
  assumes I: "broker_inv G b" and c: "requestTypeContextLookup b t = Some c" "ctx_requests c i = None"
  shows "drop_request t i G = G"
  using no_holding_unregistered[OF I c] by (auto simp: drop_request_def)

section \<open>A new request\<close>

lemma forward2_new_safe:
  assumes E: "env_ok E" and ok: "broker_ok b" and m: "inbox b = Some m" "whole_header m"
    and v: "flags_ok vfs" and c: "requestTypeContextLookup b t = Some c" "ctx_requests c i = None"
    and w: "w \<in> set (ctx_availableWorkers c)"
  shows "runs_to (forwardWorkerParsedClientRequest2 E w i vfs Inbox t b) (\<lambda>(ret, b').
    ret \<noteq> 0 \<and> sent_only b b' \<or> ret = 0 \<and> done_with b b')"
proof -
  from ok have I: "broker_inv (held b) b" by (simp add: broker_ok_def)
  from w ctx_okD(3)[OF invD(4)[OF I c(1)]] have s: "w \<in> serving b t" by blast
  then obtain wi where wi: "workerHeap b w = Some wi" using serving_live by blast
  show ?thesis
  proof (cases "send_ret E wi m b = 0")
    case False
    then show ?thesis using forward2_new_fails[OF E m(1) wi False] by (auto simp: sent_only_def)
  next
    case True
    let ?wi = "UpdateWorkerLastActive (currentTime b) (WorkerInfo_AddInProgressRequest t i (nextAddr b) wi)"
    define b' where "b' = b\<lparr>inbox := None, nextAddr := Suc (nextAddr b),
      requestHeap := (requestHeap b)(nextAddr b \<mapsto> new_rs i vfs w m), workerHeap := (workerHeap b)(w \<mapsto> ?wi),
      requestTypeContextLookup := (requestTypeContextLookup b)(t \<mapsto> c\<lparr>ctx_requests := (ctx_requests c)(i \<mapsto> nextAddr b)\<rparr>),
      sends := sends b @ (Backend, toWorker E wi m, 0) # receipts E vfs m t i\<rparr>"
    have eq: "forwardWorkerParsedClientRequest2 E w i vfs Inbox t b = Some (0, b')"
      unfolding b'_def by (rule forward2_new_sends[OF E m(1) wi True c])
    have k: "keeps b b'"
      using worker_view_update[OF wi, of b' ?wi] by (auto simp: keeps_def b'_def)
    have held: "held b' = insert (w, t, i, nextAddr b) (held b)"
      by (rule held_add[OF wi]) (use no_holding_unregistered[OF I c] in \<open>auto simp: b'_def\<close>)
    have "broker_inv ({(w, t, i, nextAddr b)} \<union> drop_request t i (held b)) b'"
    proof (rule inv_hold[OF I k _ _ c(1)])
      show "may_hold c i (nextAddr b)" by (rule may_hold_fresh[OF invD(4)[OF I c(1)] c(2) fresh_dead[OF I]])
      show "only_in b t (nextAddr b)" by (rule only_in_fresh[OF I fresh_dead[OF I]])
    qed (use newRequest_rs_ok[OF v m(2)] s wi in \<open>auto simp: b'_def worker_ok_update inv_worker_ok[OF I] split: if_splits\<close>)
    then have "broker_ok b'"
      using held drop_request_none[OF I c] by (simp add: broker_ok_def)
    then show ?thesis using eq k by (simp add: done_with_def b'_def)
  qed
qed

definition queued_rs :: "list_node \<Rightarrow> RequestId \<Rightarrow> LHCVersionFlags \<Rightarrow> zmsg \<Rightarrow> RequestState" where
  "queued_rs n i vfs m = SetQueueCursor n (RequestState_pending i vfs (Some m))"

lemma queued_rs_ok:
  assumes "flags_ok vfs" "whole_header m"
  shows "rs_requestId (queued_rs n i vfs m) = i" "rs_ok (queued_rs n i vfs m)" "IsPending (queued_rs n i vfs m)"
    "rs_state (queued_rs n i vfs m) = ListIt n"
  using assms by (simp_all add: queued_rs_def rs_ok_def rs_defs)

lemma AddPendingRequest_safe:
  assumes I: "broker_inv (held b) b" and m: "inbox b = Some m" "whole_header m" and v: "flags_ok vfs"
    and c: "requestTypeContextLookup b t = Some c" "ctx_requests c i = None"
  shows "runs_to (AddPendingRequest t i vfs Inbox b) (done_with b)"
proof -
  let ?c = "pending_push (nextAddr b) (c\<lparr>ctx_requests := (ctx_requests c)(i \<mapsto> nextAddr b)\<rparr>)"
  define b' where "b' = b\<lparr>inbox := None, sends := sends b, nextAddr := Suc (nextAddr b),
    requestHeap := (requestHeap b)(nextAddr b \<mapsto> queued_rs (ctx_nextNode c) i vfs m),
    requestTypeContextLookup := (requestTypeContextLookup b)(t \<mapsto> ?c)\<rparr>"
  have eq: "AddPendingRequest t i vfs Inbox b = Some b'"
    unfolding AddPendingRequest_new[OF m(1) c] b'_def queued_rs_def by simp
  note fr = fresh_dead[OF I]
  have p: "broker_inv (drop_request t i (held b)) b'" "keeps b b'" "held b' = held b"
    by (rule inv_push[OF I c(1) may_hold_fresh[OF invD(4)[OF I c(1)] c(2) fr] only_in_fresh[OF I fr]
        queued_rs_ok[OF v m(2)] b'_def]; simp)+
  then show ?thesis
    using eq drop_request_none[OF I c] by (simp add: done_with_def broker_ok_def b'_def)
qed

lemma done_with_after: "keeps a b \<Longrightarrow> done_with b b' \<Longrightarrow> done_with a b'"
  by (auto simp: done_with_def intro: keeps_trans)

lemma sent_only_simps:
  assumes "sent_only b b'"
  shows "broker_inv G b' \<longleftrightarrow> broker_inv G b" "held b' = held b" "keeps b b'" "inbox b' = inbox b"
    "requestTypeContextLookup b' = requestTypeContextLookup b" "requestHeap b' = requestHeap b" "workerHeap b' = workerHeap b"
    "currentTime b' = currentTime b" "workerDeathDelay b' = workerDeathDelay b" "workerInfoLookup b' = workerInfoLookup b"
  using assms by (auto simp: sent_only_def)

lemma dispatchNewRequest_safe:
  assumes E: "env_ok E" and ok: "broker_ok b" and m: "inbox b = Some m" "whole_header m"
    and v: "flags_ok vfs" and c: "requestTypeContextLookup b t = Some c" "ctx_requests c i = None"
  shows "runs_to (dispatchNewRequest E vfs t i b) (\<lambda>(ret, b'). ret = 0 \<and> done_with b b')"
proof (cases "GetNextAvailableWorker c")
  case None
  with ok AddPendingRequest_safe[OF _ m v c] c(1) show ?thesis
    by (auto simp: dispatchNewRequest_def broker_ok_def elim: runs_to_weaken)
next
  case (Some w)
  then have w: "w \<in> set (ctx_availableWorkers c)"
    by (auto simp: GetNextAvailableWorker_def split: list.splits)
  note fwd = forward2_new_safe[OF E ok m v c w]
  then obtain ret b1 where f: "forwardWorkerParsedClientRequest2 E w i vfs Inbox t b = Some (ret, b1)"
    and q: "ret \<noteq> 0 \<and> sent_only b b1 \<or> ret = 0 \<and> done_with b b1"
    by (auto simp: runs_to_def)
  show ?thesis
  proof (cases "ret = 0")
    case False
    with q have s: "sent_only b b1" by simp
    with ok m c have "runs_to (AddPendingRequest t i vfs Inbox b1) (done_with b1)"
      by (intro AddPendingRequest_safe[OF _ _ m(2) v]) (auto simp: sent_only_simps broker_ok_def)
    then show ?thesis
      using c(1) Some f False sent_only_simps(3)[OF s]
      by (auto simp: dispatchNewRequest_def elim!: runs_to_weaken intro: done_with_after)
  next
    case True
    with q have d: "done_with b b1" by simp
    then have I1: "broker_inv (held b1) b1" and k: "keeps b b1" by (simp_all add: done_with_def broker_ok_def)
    obtain wi where wi: "workerHeap b1 w = Some wi"
      using w ctx_okD(3)[OF invD(4)[OF _ c(1)]] ok serving_live keeps_worker[OF k] unfolding broker_ok_def by (metis subsetD)
    let ?b = "removeAvailableChecked (wi_supportedRequestTypes wi) w b1"
    from removeAvailableChecked_safe[OF I1] have r: "broker_inv (held b1) ?b" "keeps b1 ?b" "avail_only b1 ?b" by blast+
    then have "done_with b ?b"
      using d keeps_trans[OF k r(2)] avail_only_fields(3,7)[OF r(3)] by (simp add: done_with_def broker_ok_def)
    then show ?thesis
      using c(1) Some f True d wi by (simp add: dispatchNewRequest_def)
  qed
qed

section \<open>A request that is known\<close>

text \<open>What a worker's request becomes when its client sends it again.\<close>

definition redirected_rs :: "LHCVersionFlags \<Rightarrow> zmsg \<Rightarrow> RequestState \<Rightarrow> RequestState" where
  "redirected_rs vfs m rs = UpdateRequest_vfs vfs
     (if kept_copy vfs m = None then UpdateRequest_msg None rs else settle vfs m rs)"

lemma redirected_rs_simps [simp]:
  "rs_requestId (redirected_rs vfs m rs) = rs_requestId rs" "rs_flag (redirected_rs vfs m rs) = rs_flag rs"
  "rs_state (redirected_rs vfs m rs) = rs_state rs" "rs_vfs (redirected_rs vfs m rs) = vfs"
  by (simp_all add: redirected_rs_def UpdateRequest_vfs_def UpdateRequest_msg_def)

lemma redirected_rs_ok:
  assumes "IsInProgress rs" "flags_ok vfs" "whole_header m"
  shows "rs_ok (redirected_rs vfs m rs)"
proof -
  have p: "IsInProgress (redirected_rs vfs m rs)" "\<not> IsPending (redirected_rs vfs m rs)"
    using assms(1) by (simp_all add: IsInProgress_def IsPending_def)
  have r: "rs_msg (redirected_rs vfs m rs) = Some m" if "hasAny vfs RetryOnDeath"
    using that by (simp add: redirected_rs_def kept_copy_def keeps_whole_def UpdateRequest_vfs_def settle_msg)
  have n: "rs_msg (redirected_rs vfs m rs) \<noteq> None" if "hasAny vfs NotifyOnDeath"
    using that r by (cases "hasAny vfs RetryOnDeath")
      (simp_all add: redirected_rs_def kept_copy_def keeps_whole_def UpdateRequest_vfs_def settle_msg keeps_envelope_def)
  show ?thesis using p r n assms by (simp add: rs_ok_def)
qed

definition redirect_notices :: "env \<Rightarrow> RequestState \<Rightarrow> RequestType \<Rightarrow> send_record list" where
  "redirect_notices E rs t = (case rs_msg rs of
     Some old \<Rightarrow> (if hasAny (rs_vfs rs) NotifyOnRedirect
       then [(Frontend, redirectNotice E old (rs_vfs rs) t (rs_requestId rs), 0)] else [])
   | None \<Rightarrow> [])"

lemma redirectInProgress_eq:
  assumes E: "env_ok E" and r: "requestHeap b r = Some rs" "rs_state rs = AssignedWorker w"
    and m: "inbox b = Some m" and w: "workerHeap b w = Some wi"
  shows "\<exists>ret. redirectInProgress E vfs t i r b = Some (ret, if send_ret E wi m b = 0
     then b\<lparr>inbox := None, requestHeap := (requestHeap b)(r \<mapsto> redirected_rs vfs m rs),
            sends := sends b @ (Backend, toWorker E wi m, 0) # redirect_notices E rs t @ receipts E vfs m t i\<rparr>
     else b\<lparr>inbox := None, sends := sends b @ [(Backend, toWorker E wi m, send_ret E wi m b)]\<rparr>)"
proof -
  have rc: "kept_copy vfs m = None \<Longrightarrow> receipts E vfs m t i = []" by (rule receipts_none)
  show ?thesis
  proof (cases "send_ret E wi m b = 0")
    case False
    then show ?thesis
      using E r m w by (simp add: redirectInProgress_def GetAssignedWorker_def SendMsg_def
          addWorkerHeader_eq Send_worker)
  next
    case True
    then show ?thesis
      using E r m w rc
      by (cases "rs_msg rs"; cases "kept_copy vfs m"; cases "hasAny (rs_vfs rs) NotifyOnRedirect")
        (simp_all add: redirectInProgress_def GetAssignedWorker_def SendMsg_def addWorkerHeader_eq Send_worker
          copyRequestForFlags_eq notifyOnRedirect_some notifyOnRedirect_none handleCopiedRequest_eq
          redirected_rs_def redirect_notices_def modRequest_Some)
  qed
qed

lemma redirectInProgress_safe:
  assumes E: "env_ok E" and ok: "broker_ok b" and m: "inbox b = Some m" "whole_header m" and v: "flags_ok vfs"
    and c: "requestTypeContextLookup b t = Some c" "ctx_requests c i = Some r"
    and r: "requestHeap b r = Some rs" "IsInProgress rs" "hasAny (rs_vfs rs) AllowRedirect"
  shows "runs_to (redirectInProgress E vfs t i r b) (\<lambda>(ret, b'). done_with b b')"
proof -
  from ok have I: "broker_inv (held b) b" by (simp add: broker_ok_def)
  note k = invD(4)[OF I c(1)]
  from ctx_okD(6)[OF k c(2)] r obtain w where w: "rs_state rs = AssignedWorker w" "(w, t, i, r) \<in> held b"
      and i: "rs_requestId rs = i"
    by (auto simp: registered_ok_def of_type_def)
  then obtain wi where wi: "workerHeap b w = Some wi" by (auto simp: held_iff)
  have s: "w \<in> serving b t" by (rule holdingE[OF I w(2)]) blast
  let ?b = "b\<lparr>inbox := None, requestHeap := (requestHeap b)(r \<mapsto> redirected_rs vfs m rs),
            sends := sends b @ (Backend, toWorker E wi m, 0) # redirect_notices E rs t @ receipts E vfs m t i\<rparr>"
  have k': "keeps b ?b" by (auto simp: keeps_def worker_view_def[abs_def])
  have L: "requestTypeContextLookup ?b = (requestTypeContextLookup b)(t \<mapsto> c\<lparr>ctx_requests := (ctx_requests c)(i \<mapsto> r)\<rparr>)"
  proof -
    have "c\<lparr>ctx_requests := (ctx_requests c)(i \<mapsto> r)\<rparr> = c" using c(2) by (cases c) (simp add: map_upd_triv)
    with c(1) show ?thesis by (simp add: map_upd_triv)
  qed
  have "broker_inv ({(w, t, i, r)} \<union> drop_request t i (held b)) ?b"
  proof (rule inv_hold[OF I k' _ _ c(1) _ _ L])
    show "may_hold c i r" by (rule may_hold_in_progress[OF k c(2) r(1,2)])
    show "only_in b t r" by (rule only_in_registered[OF I c])
    show "rs_ok (redirected_rs vfs m rs)" by (rule redirected_rs_ok[OF r(2) v m(2)])
    show "IsInProgress (redirected_rs vfs m rs)" using r(2) by (simp add: IsInProgress_def)
  qed (use i w(1) s inv_worker_ok[OF I] invD(3)[OF I r(1)] in \<open>auto split: if_splits\<close>)
  moreover have "{(w, t, i, r)} \<union> drop_request t i (held b) = held b"
    using drop_request_only[OF I w(2)] w(2) by auto
  moreover have "held ?b = held b" by (rule held_cong) simp
  ultimately have "done_with b ?b" using k' by (simp add: done_with_def broker_ok_def)
  moreover have "done_with b (b\<lparr>inbox := None, sends := h\<rparr>)" for h
    using ok by (simp add: done_with_def broker_ok_def keeps_def worker_view_def[abs_def])
  ultimately show ?thesis
    using redirectInProgress_eq[OF E r(1) w(1) m(1) wi, of vfs t i] by (auto simp: runs_to_def split: if_splits)
qed

definition rewritten_rs :: "LHCVersionFlags \<Rightarrow> zmsg \<Rightarrow> RequestState \<Rightarrow> RequestState" where
  "rewritten_rs vfs m rs = UpdateRequest (Some m) vfs rs"

lemma redirectPending_eq:
  assumes E: "env_ok E" and r: "requestHeap b r = Some rs" "rs_msg rs = Some old" and m: "inbox b = Some m"
  shows "redirectPending E vfs t r b = Some (0, b\<lparr>inbox := None, sends := sends b @ redirect_notices E rs t,
    requestHeap := (requestHeap b)(r \<mapsto> rewritten_rs vfs m rs)\<rparr>)"
  using assms
  by (cases "hasAny (rs_vfs rs) NotifyOnRedirect")
    (simp_all add: redirectPending_def notifyOnRedirect_some modRequest_Some redirect_notices_def rewritten_rs_def
      SetRequest_def UpdateRequest_def Let_def)

lemma redirectPending_safe:
  assumes E: "env_ok E" and ok: "broker_ok b" and m: "inbox b = Some m" "whole_header m" and v: "flags_ok vfs"
    and c: "requestTypeContextLookup b t = Some c" "ctx_requests c i = Some r"
    and r: "requestHeap b r = Some rs" "IsPending rs"
  shows "runs_to (redirectPending E vfs t r b) (\<lambda>(ret, b'). done_with b b')"
proof -
  from ok have I: "broker_inv (held b) b" by (simp add: broker_ok_def)
  from ctx_okD(6)[OF invD(4)[OF I c(1)] c(2)] r have "rs_ok rs" and i: "rs_requestId rs = i"
    by (auto simp: registered_ok_def)
  with r(2) obtain old where old: "rs_msg rs = Some old" by (auto simp: rs_ok_def)
  define b' where "b' = b\<lparr>inbox := None, sends := sends b @ redirect_notices E rs t,
    requestHeap := (requestHeap b)(r \<mapsto> rewritten_rs vfs m rs)\<rparr>"
  have f: "rs_requestId (rewritten_rs vfs m rs) = i" "rs_ok (rewritten_rs vfs m rs)"
    "IsPending (rewritten_rs vfs m rs)" "rs_state (rewritten_rs vfs m rs) = rs_state rs"
    using i r(2) v m(2) by (simp_all add: rewritten_rs_def UpdateRequest_def rs_ok_def IsPending_def)
  have p: "broker_inv (held b) b'" "keeps b b'" "held b' = held b"
    by (rule inv_rewrite[OF I c r f b'_def])+
  then have "done_with b b'" by (simp add: done_with_def broker_ok_def b'_def)
  then show ?thesis by (simp add: redirectPending_eq[OF E r(1) old m(1)] b'_def)
qed

section \<open>Client requests\<close>

lemma done_with_sent:
  "broker_ok b \<Longrightarrow> done_with b (b\<lparr>inbox := None, sends := h\<rparr>)" "broker_ok b \<Longrightarrow> done_with b (b\<lparr>inbox := None\<rparr>)"
  by (simp_all add: done_with_def broker_ok_def keeps_def worker_view_def[abs_def])

lemma newContext_fields [simp]:
  "inbox (newContext t b) = inbox b"
  "requestTypeContextLookup (newContext t b) t = Some (BrokerRequestTypeContext_new t)"
  by (simp_all add: newContext_def)

lemma forwardParsedClientRequest_safe:
  assumes E: "env_ok E" and ok: "broker_ok b" and m: "inbox b = Some m" "whole_header m" and v: "flags_ok vfs"
  shows "runs_to (forwardParsedClientRequest E vfs t i b) (\<lambda>(ret, b'). done_with b b')"
proof (cases "requestTypeContextLookup b t")
  case None
  from ok have I: "broker_inv (held b) b" by (simp add: broker_ok_def)
  note n = inv_newContext[OF I None]
  have "runs_to (AddPendingRequest t i vfs Inbox (newContext t b)) (done_with (newContext t b))"
    by (rule AddPendingRequest_safe[OF _ _ m(2) v newContext_fields(2)]) (use n m(1) in simp_all)
  then show ?thesis
    using None n(2) by (auto simp: forwardParsedClientRequest_def elim!: runs_to_weaken intro: done_with_after)
next
  case c: (Some c)
  from ok have I: "broker_inv (held b) b" by (simp add: broker_ok_def)
  show ?thesis
  proof (cases "ctx_requests c i")
    case None
    have "forwardParsedClientRequest E vfs t i b = dispatchNewRequest E vfs t i b"
      using c None by (simp add: forwardParsedClientRequest_def GetRequestState_def)
    then show ?thesis
      by (auto intro: runs_to_weaken[OF dispatchNewRequest_safe[OF E ok m v c None]])
  next
    case (Some r)
    from ctx_okD(6)[OF invD(4)[OF I c] Some] obtain rs where r: "requestHeap b r = Some rs" "rs_ok rs"
      by (auto simp: registered_ok_def)
    consider "\<not> hasAny (rs_vfs rs) AllowRedirect" | "hasAny (rs_vfs rs) AllowRedirect" "IsInProgress rs"
      | "hasAny (rs_vfs rs) AllowRedirect" "\<not> IsInProgress rs" "IsPending rs"
      using r(2) by (auto simp: rs_ok_def)
    then show ?thesis
    proof cases
      case 1
      with c Some r rejectRequest2_inbox[OF E m] done_with_sent(1)[OF ok] show ?thesis
        by (simp add: forwardParsedClientRequest_def GetRequestState_def)
    next
      case 2
      with c Some r redirectInProgress_safe[OF E ok m v c Some r(1)] show ?thesis
        by (simp add: forwardParsedClientRequest_def GetRequestState_def)
    next
      case 3
      with c Some r redirectPending_safe[OF E ok m v c Some r(1)] show ?thesis
        by (simp add: forwardParsedClientRequest_def GetRequestState_def)
    qed
  qed
qed

text \<open>After a callback: a message that was not thrown out of is gone.\<close>

definition callback_ok :: "Broker \<Rightarrow> outcome \<times> Broker \<Rightarrow> bool" where
  "callback_ok b = (\<lambda>(res, b'). broker_ok b' \<and> (covered b \<longrightarrow> covered b') \<and> (res \<noteq> Thrown \<longrightarrow> inbox b' = None))"

lemma covered_inbox [simp]: "covered (b\<lparr>inbox := m\<rparr>) \<longleftrightarrow> covered b"
  and covered_sends [simp]: "covered (b\<lparr>sends := h\<rparr>) \<longleftrightarrow> covered b"
  and covered_now [simp]: "covered (updateCurrentTime n b) \<longleftrightarrow> covered b"
  by (simp_all add: covered_def updateCurrentTime_def)

lemma done_with_callback: "done_with b b' \<Longrightarrow> callback_ok b (res, b')"
  by (auto simp: done_with_def callback_ok_def intro: covered_keeps)

definition client_flags_ok :: "env \<Rightarrow> zmsg \<Rightarrow> bool" where
  "client_flags_ok E m \<longleftrightarrow> (case parseClientRequest E m of Parsed (vfs, t, i) \<Rightarrow> flags_ok vfs | _ \<Rightarrow> True)"

lemma handleClientRequest_safe:
  assumes E: "env_ok E" and ok: "broker_ok b" and m: "inbox b = Some m" and v: "client_flags_ok E m"
  shows "runs_to (handleClientRequest E b) (callback_ok b)"
proof (cases "parseClientRequest E m")
  case (Malformed n)
  with m done_with_sent(2)[OF ok] show ?thesis
    by (simp add: handleClientRequest_def done_with_callback)
next
  case Throws
  with m ok show ?thesis by (simp add: handleClientRequest_def callback_ok_def)
next
  case (Parsed x)
  obtain vfs t i where x: "x = (vfs, t, i)" by (cases x)
  have h: "whole_header m" by (rule parseClientRequest_Parsed[OF E Parsed[unfolded x]])
  have "flags_ok vfs" using v Parsed x by (simp add: client_flags_ok_def)
  from forwardParsedClientRequest_safe[OF E ok m h this, of t i] obtain ret b' where
    "forwardParsedClientRequest E vfs t i b = Some (ret, b')" "done_with b b'"
    by (auto simp: runs_to_def)
  then show ?thesis
    using m Parsed x by (simp add: handleClientRequest_def returning_def done_with_callback)
qed

lemma pop_all_eq: "czmq_ok E \<Longrightarrow> pop_all E m = Some []"
proof (induction m)
  case Nil
  then show ?case by (subst pop_all.simps) (simp add: czmq_laws)
next
  case (Cons f m)
  then show ?case by (subst pop_all.simps) (simp add: czmq_laws)
qed

lemma handleClientHeartbeat_eq:
  assumes "env_ok E" "inbox b = Some (f # m)"
  shows "handleClientHeartbeat E b = Some (0, b\<lparr>inbox := None, sends := sends b @ [(Frontend, [f, [],
     enc_u32 E (ClusterMessage_value BrokerHeartbeat), enc_time E (currentTime b), enc_time E (selfHeartbeatDelay b)], 0)]\<rparr>)"
  using assms
  by (simp add: handleClientHeartbeat_def env_laws pop_all_eq env_okD SendHeartbeat_eq Send_front)

text \<open>The message type is taken out of the message.\<close>

definition without_type :: "zmsg \<Rightarrow> zmsg" where
  "without_type m = envelope m @ [] # tl (after_envelope m)"

lemma without_type_eq:
  assumes "env_ok E" "delimited m" "after_envelope m = f # rest"
  shows "zmsg_remove E m (length (zmsg_frames E m) - length rest - 1) = without_type m"
proof -
  have m: "m = envelope m @ [] # f # rest" using delimited_split[OF assms(2)] assms(3) by simp
  have "length (envelope m @ [] # f # rest) - length rest - 1 = Suc (length (envelope m))" by simp
  then have n: "length m - length rest - 1 = Suc (length (envelope m))" using m by metis
  have "take (Suc (length (envelope m))) (envelope m @ [] # f # rest) @ drop (Suc (Suc (length (envelope m)))) (envelope m @ [] # f # rest)
      = envelope m @ [] # rest" by simp
  then show ?thesis using m n assms(3) by (simp add: env_laws[OF assms(1)] without_type_def)
qed

lemma handleFrontendMessage_msg_safe:
  assumes E: "env_ok E" and ok: "broker_ok b" and m: "inbox b = Some m" and v: "client_flags_ok E (without_type m)"
  shows "runs_to (handleFrontendMessage_msg E b) (callback_ok b)"
proof -
  have gone: "callback_ok b (Returns n, b\<lparr>inbox := None\<rparr>)" for n
    by (rule done_with_callback[OF done_with_sent(2)[OF ok]])
  show ?thesis
  proof (cases "delimited m \<and> (\<exists>f rest. after_envelope m = f # rest \<and> f \<noteq> [])")
    case False
    then show ?thesis
      using m gone
      by (auto simp: handleFrontendMessage_msg_def skip_envelope_eq env_laws[OF E] Let_def split: list.splits)
  next
    case True
    then obtain f rest where d: "delimited m" "after_envelope m = f # rest" "f \<noteq> []" by blast
    let ?b = "b\<lparr>inbox := Some (without_type m)\<rparr>"
    have ok1: "broker_ok ?b" using ok by (simp add: broker_ok_def)
    have thrown: "callback_ok b (Thrown, ?b)" using ok1 by (simp add: callback_ok_def)
    from handleClientRequest_safe[OF E ok1 _ v] obtain res b' where
      req: "handleClientRequest E ?b = Some (res, b')" "callback_ok ?b (res, b')" by (auto simp: runs_to_def)
    then have req2: "callback_ok b (case res of Returns _ \<Rightarrow> Returns 0 | Thrown \<Rightarrow> Thrown, b')"
      by (auto simp: callback_ok_def split: outcome.splits)
    obtain g gs where w: "without_type m = g # gs" by (cases "without_type m") (auto simp: without_type_def)
    then have "inbox ?b = Some (g # gs)" by simp
    note hb = handleClientHeartbeat_eq[OF E this]
    have heart: "callback_ok b (Returns 0, ?b\<lparr>inbox := None, sends := h\<rparr>)" for h
      using done_with_callback[OF done_with_sent(1)[OF ok1]] by (simp add: callback_ok_def)
    have st: "handleFrontendMessage_msg E b = (case get_u32 E f of
              None \<Rightarrow> Some (Thrown, ?b)
            | Some messageType \<Rightarrow>
                (if messageType = ClusterMessage_value ClientNewRequest then do {
                   (res, b) \<leftarrow> handleClientRequest E ?b;
                   Some (case res of Returns _ \<Rightarrow> Returns 0 | Thrown \<Rightarrow> Thrown, b)
                 } else if messageType = ClusterMessage_value ClientHeartbeat then
                   returning (handleClientHeartbeat E ?b)
                 else Some (Returns 0, b\<lparr>inbox := None\<rparr>)))"
      using m d without_type_eq[OF E d(1,2)]
      by (auto simp: handleFrontendMessage_msg_def skip_envelope_eq env_laws[OF E] Let_def split: option.splits)
    show ?thesis
      unfolding st
      using thrown gone req(1) req2 hb heart by (auto simp: returning_def split: option.splits)
  qed
qed

end
