(* ===== verification/BrokerDeath.thy ===== *)
theory BrokerDeath
  imports BrokerDispatch
begin

text \<open>
  The death of workers keeps the broker well formed. While a worker \<open>w\<close> is being taken apart its
  \<open>WorkerInfo\<close> still lists every request it had, so the holdings are those that are recorded less
  the set \<open>X\<close> of entries of \<open>w\<close> that have been dealt with.
\<close>

definition dead_frame :: "wptr \<Rightarrow> Broker \<Rightarrow> Broker \<Rightarrow> bool" where
  "dead_frame w b b' \<longleftrightarrow> keeps b b' \<and> workerHeap b' w = workerHeap b w \<and> avail_shrinks b b' \<and>
     inbox b' = inbox b \<and> currentTime b' = currentTime b \<and> workerDeathDelay b' = workerDeathDelay b"

lemma dead_frame_refl [simp]: "dead_frame w b b"
  by (simp add: dead_frame_def)

lemma dead_frame_trans: "dead_frame w a b \<Longrightarrow> dead_frame w b c \<Longrightarrow> dead_frame w a c"
  by (auto simp: dead_frame_def intro: keeps_trans avail_shrinks_trans)

lemma dead_frame_avail: "avail_only b b' \<Longrightarrow> keeps b b' \<Longrightarrow> avail_shrinks b b' \<Longrightarrow> dead_frame w b b'"
  by (simp add: dead_frame_def avail_only_fields)

lemma dead_frame_sent: "sent_only b b' \<Longrightarrow> dead_frame w b b'"
  by (auto simp: dead_frame_def sent_only_def avail_shrinks_def)

section \<open>A request goes to another worker\<close>

lemma retried_rs_ok:
  assumes "rs_ok rs" "IsInProgress rs" "whole_header m"
  shows "rs_requestId (retried_rs m rs) = rs_requestId rs" "rs_ok (retried_rs m rs)" "IsInProgress (retried_rs m rs)"
    "hasAny (rs_vfs (retried_rs m rs)) AllowRedirect = hasAny (rs_vfs rs) AllowRedirect"
proof -
  show "rs_ok (retried_rs m rs)"
    unfolding retried_rs_def
    by (rule settle_ok) (use assms in \<open>simp_all add: rs_ok_def IsInProgress_def UpdateRequest_msg_def\<close>)
  show "hasAny (rs_vfs (retried_rs m rs)) AllowRedirect = hasAny (rs_vfs rs) AllowRedirect"
    unfolding retried_rs_def by (rule settle_flags) (simp_all add: UpdateRequest_msg_def)
qed (use assms(2) in \<open>simp_all add: retried_rs_def IsInProgress_def UpdateRequest_msg_def\<close>)

lemma context_same: "requestTypeContextLookup b t = Some c \<Longrightarrow> ctx_requests c i = Some r \<Longrightarrow>
    (requestTypeContextLookup b)(t \<mapsto> c\<lparr>ctx_requests := (ctx_requests c)(i \<mapsto> r)\<rparr>) = requestTypeContextLookup b"
  by (cases c) (simp add: map_upd_triv)

lemma forward2_retry_safe:
  assumes E: "env_ok E" and I: "broker_inv G b" and x: "(w, t, i, r) \<in> G"
    and r: "requestHeap b r = Some rs" "hasAny (rs_vfs rs) RetryOnDeath"
    and c: "requestTypeContextLookup b t = Some c" and w': "w' \<in> set (ctx_availableWorkers c)" "w' \<noteq> w"
    and G: "\<And>r'. (w', t, i, r') \<in> held b \<Longrightarrow> (w', t, i, r') \<in> G"
  shows "runs_to (forwardWorkerParsedClientRequest2 E w' i (rs_vfs rs) (MsgOf r) t b) (\<lambda>(ret, b').
    ret \<noteq> 0 \<and> sent_only b b' \<or>
    ret = 0 \<and> broker_inv (insert (w', t, i, r) (G - {(w, t, i, r)})) b' \<and>
      held b' = insert (w', t, i, r) (held b) \<and> dead_frame w b b' \<and> workerHeap b' w' \<noteq> None)"
proof -
  from holdingE[OF I x] c r obtain h: "ctx_requests c i = Some r" "IsInProgress rs" "rs_ok rs" "rs_requestId rs = i"
    and only: "\<And>w' r'. (w', t, i, r') \<in> G \<Longrightarrow> w' = w \<and> r' = r" by (metis option.inject)
  from h(3) r(2) obtain m where m: "rs_msg rs = Some m" "whole_header m" by (auto simp: rs_ok_def)
  have s: "w' \<in> serving b t" using w'(1) ctx_okD(3)[OF invD(4)[OF I c]] by blast
  then obtain wi where wi: "workerHeap b w' = Some wi" using serving_live by blast
  show ?thesis
  proof (cases "send_ret E wi m b = 0")
    case False
    then show ?thesis using forward2_retry_fails[OF E r(1) m(1) wi False] by (auto simp: sent_only_def)
  next
    case True
    let ?wi = "UpdateWorkerLastActive (currentTime b) (WorkerInfo_AddInProgressRequest t i r wi)"
    define b' where "b' = b\<lparr>requestHeap := (requestHeap b)(r \<mapsto> retried_rs m rs),
      workerHeap := (workerHeap b)(w' \<mapsto> ?wi),
      sends := sends b @ (Backend, toWorker E wi m, 0) # receipts E (rs_vfs rs) m t i\<rparr>"
    have eq: "forwardWorkerParsedClientRequest2 E w' i (rs_vfs rs) (MsgOf r) t b = Some (0, b')"
      unfolding b'_def by (rule forward2_retry_sends[OF E r(1) h(4) m(1) wi True c h(1)])
    have k: "keeps b b'" using worker_view_update[OF wi, of b' ?wi] by (auto simp: keeps_def b'_def)
    have held: "held b' = insert (w', t, i, r) (held b)"
      by (rule held_add[OF wi]) (use only G w'(2) in \<open>auto simp: b'_def\<close>)
    note f = retried_rs_ok[OF h(3,2) m(2)]
    have "broker_inv ({(w', t, i, r)} \<union> drop_request t i G) b'"
    proof (rule inv_hold[OF I k _ _ c])
      show "may_hold c i r" by (rule may_hold_in_progress[OF invD(4)[OF I c] h(1) r(1) h(2)])
      show "only_in b t r" by (rule only_in_registered[OF I c h(1)])
      show "requestTypeContextLookup b' = (requestTypeContextLookup b)(t \<mapsto> c\<lparr>ctx_requests := (ctx_requests c)(i \<mapsto> r)\<rparr>)"
        unfolding context_same[OF c h(1)] by (simp add: b'_def)
      show "rs_state (retried_rs m rs) = AssignedWorker w' \<and> {(w', t, i, r)} \<noteq> {}"
        if "hasAny (rs_vfs (retried_rs m rs)) AllowRedirect"
        using that f(4) h(3) r(2) by (simp add: rs_ok_def flags_ok_def)
    qed (use f h(4) s wi invD(3)[OF I r(1)] in \<open>auto simp: b'_def worker_ok_update inv_worker_ok[OF I] split: if_splits\<close>)
    then have "broker_inv (insert (w', t, i, r) (G - {(w, t, i, r)})) b'"
      by (simp add: drop_request_only[OF I x])
    moreover have "dead_frame w b b'" using k w'(2) by (simp add: dead_frame_def b'_def avail_shrinks_def)
    ultimately show ?thesis using eq held by (simp add: b'_def)
  qed
qed

section \<open>One request of a dead worker\<close>

text \<open>What the handling of entry \<open>(w, t, i, r)\<close> has to achieve.\<close>

definition dealt_with :: "wptr \<Rightarrow> all_holdings \<Rightarrow> wptr \<times> RequestType \<times> RequestId \<times> rptr \<Rightarrow> Broker \<Rightarrow> Broker \<Rightarrow> bool" where
  "dealt_with w X x b b' \<longleftrightarrow> broker_inv (held b' - insert x X) b' \<and> dead_frame w b b'"

lemma drop_dealt:
  assumes "broker_inv (held b - X) b" "x \<in> held b - X" "x = (w, t, i, r)" "held b' = held b"
  shows "drop_request t i (held b - X) = held b' - insert x X"
proof -
  have "drop_request t i (held b - X) = held b - X - {(w, t, i, r)}"
    using assms(2,3) by (intro drop_request_only[OF assms(1)]) simp
  then show ?thesis using assms(3,4) by blast
qed

lemma BackToPending_safe:
  assumes I: "broker_inv (held b - X) b" and x: "(w, t, i, r) \<in> held b - X"
    and r: "requestHeap b r = Some rs" "hasAny (rs_vfs rs) RetryOnDeath"
  shows "runs_to (BackToPending t r b) (dealt_with w X (w, t, i, r) b)"
proof -
  from holdingE[OF I x] r obtain c where c: "requestTypeContextLookup b t = Some c" "ctx_requests c i = Some r"
    and h: "IsInProgress rs" "rs_ok rs" "rs_requestId rs = i" by (metis option.inject)
  from h(2) r(2) obtain m where m: "rs_msg rs = Some m" "whole_header m" by (auto simp: rs_ok_def)
  define rs' where "rs' = SetQueueCursor (ctx_nextNode c) rs"
  have f: "rs_requestId rs' = i" "rs_ok rs'" "IsPending rs'" "rs_state rs' = ListIt (ctx_nextNode c)"
    using h m by (auto simp: rs'_def rs_ok_def SetQueueCursor_def IsPending_def)
  have same: "c\<lparr>ctx_requests := (ctx_requests c)(i \<mapsto> r)\<rparr> = c" using c(2) by (cases c) (simp add: map_upd_triv)
  define b' where "b' = b\<lparr>inbox := inbox b, sends := sends b, nextAddr := nextAddr b,
    requestHeap := (requestHeap b)(r \<mapsto> rs'),
    requestTypeContextLookup := (requestTypeContextLookup b)(t \<mapsto> pending_push r (c\<lparr>ctx_requests := (ctx_requests c)(i \<mapsto> r)\<rparr>))\<rparr>"
  have eq: "BackToPending t r b = Some b'"
    unfolding BackToPending_eq[OF c(1) r(1)] b'_def same rs'_def by simp
  have p: "broker_inv (drop_request t i (held b - X)) b'" "keeps b b'" "held b' = held b"
    by (rule inv_push[OF I c(1) may_hold_in_progress[OF invD(4)[OF I c(1)] c(2) r(1) h(1)]
        only_in_registered[OF I c] f b'_def]; use invD(3)[OF I r(1)] in simp)+
  then have "broker_inv (held b' - insert (w, t, i, r) X) b'"
    using drop_dealt[OF I x refl p(3)] by simp
  moreover have "avail_shrinks b b'" using c(1) by (auto simp: avail_shrinks_def b'_def)
  ultimately show ?thesis using eq p(2) by (simp add: dealt_with_def dead_frame_def b'_def)
qed

text \<open>The request is answered, or dropped, and its state destroyed.\<close>

lemma erase_dead_safe:
  assumes I: "broker_inv (held b - X) b" and x: "(w, t, i, r) \<in> held b - X"
    and b1: "b1 = b\<lparr>requestHeap := (requestHeap b)(r \<mapsto> st), sends := s\<rparr>"
  shows "runs_to (EraseInProgressRequest t i b1) (dealt_with w X (w, t, i, r) b)"
proof -
  from holdingE[OF I x] obtain c rs where c: "requestTypeContextLookup b t = Some c"
    and r: "ctx_requests c i = Some r" "requestHeap b r = Some rs" "IsInProgress rs" by metis
  define b' where "b' = b\<lparr>sends := s, requestHeap := (requestHeap b)(r := None),
    requestTypeContextLookup := (requestTypeContextLookup b)(t \<mapsto> RemoveInProgressRequest i c)\<rparr>"
  have eq: "EraseInProgressRequest t i b1 = Some b'"
    using EraseInProgressRequest_eq[of b1 t c i r] c r(1) by (simp add: b1 b'_def)
  note p = inv_erase[OF I c r b'_def]
  then have "broker_inv (held b' - insert (w, t, i, r) X) b'"
    using drop_dealt[OF I x refl p(3)] by simp
  moreover have "avail_shrinks b b'" using c by (auto simp: avail_shrinks_def b'_def)
  ultimately show ?thesis using eq p(2) by (simp add: dealt_with_def dead_frame_def b'_def)
qed

text \<open>The last try has been: without a notice the state stays as it is, with no worker.\<close>

lemma give_up_safe:
  assumes I: "broker_inv (held b - X) b" and x: "(w, t, i, r) \<in> held b - X"
    and r: "requestHeap b r = Some rs" "hasAny (rs_vfs rs) RetryOnDeath"
  shows "dealt_with w X (w, t, i, r) b b"
proof -
  from holdingE[OF I x] r obtain c where c: "requestTypeContextLookup b t = Some c" "ctx_requests c i = Some r"
    and h: "IsInProgress rs" "rs_ok rs" "rs_requestId rs = i" by (metis option.inject)
  have "broker_inv ({} \<union> drop_request t i (held b - X)) b"
  proof (rule inv_hold[OF I _ _ _ c(1) may_hold_in_progress[OF invD(4)[OF I c(1)] c(2) r(1) h(1)]
        only_in_registered[OF I c]])
    show "requestTypeContextLookup b = (requestTypeContextLookup b)(t \<mapsto> c\<lparr>ctx_requests := (ctx_requests c)(i \<mapsto> r)\<rparr>)"
      by (rule context_same[OF c, symmetric])
    show "requestHeap b = (requestHeap b)(r \<mapsto> rs)" using r(1) by (simp add: map_upd_triv)
    show "rs_state rs = AssignedWorker w \<and> {} \<noteq> {}" if "hasAny (rs_vfs rs) AllowRedirect"
      using that h(2) r(2) by (simp add: rs_ok_def flags_ok_def)
  qed (use h inv_worker_ok[OF I] invD(3)[OF I r(1)] in auto)
  then show ?thesis using drop_dealt[OF I x refl refl] by (simp add: dealt_with_def)
qed

lemma retryOnOtherWorker_safe:
  assumes E: "env_ok E" and I: "broker_inv (held b - X) b" and x: "(w, t, i, r) \<in> held b - X"
    and X: "\<And>y. y \<in> X \<Longrightarrow> fst y = w" and r: "requestHeap b r = Some rs" "hasAny (rs_vfs rs) RetryOnDeath"
    and c: "requestTypeContextLookup b t = Some c" and nw: "w \<notin> set (ctx_availableWorkers c)"
  shows "runs_to (retryOnOtherWorker E t i r ret b) (\<lambda>(_, b'). dealt_with w X (w, t, i, r) b b')"
proof (cases "GetNextAvailableWorker c")
  case None
  then show ?thesis using BackToPending_safe[OF I x r] r(1) c
    by (simp add: retryOnOtherWorker_def)
next
  case (Some w')
  then have w': "w' \<in> set (ctx_availableWorkers c)" "w' \<noteq> w"
    using nw by (auto simp: GetNextAvailableWorker_def split: list.splits)
  have "(w', t, i, r') \<in> held b - X" if "(w', t, i, r') \<in> held b" for r'
    using that X[of "(w', t, i, r')"] w'(2) by auto
  from forward2_retry_safe[OF E I x r c w' this] obtain ret1 b1 where
    f: "forwardWorkerParsedClientRequest2 E w' i (rs_vfs rs) (MsgOf r) t b = Some (ret1, b1)" and
    q: "ret1 \<noteq> 0 \<and> sent_only b b1 \<or> ret1 = 0 \<and> broker_inv (insert (w', t, i, r) (held b - X - {(w, t, i, r)})) b1 \<and>
      held b1 = insert (w', t, i, r) (held b) \<and> dead_frame w b b1 \<and> workerHeap b1 w' \<noteq> None"
    by (auto simp: runs_to_def)
  show ?thesis
  proof (cases "ret1 = 0")
    case False
    with q have s: "sent_only b b1" by simp
    have "runs_to (BackToPending t r b1) (dealt_with w X (w, t, i, r) b1)"
      by (rule BackToPending_safe[OF _ _ _ r(2)]) (use I x r(1) in \<open>simp_all add: sent_only_simps[OF s]\<close>)
    then show ?thesis
      using r(1) c Some f False
      by (auto simp: retryOnOtherWorker_def dealt_with_def elim!: runs_to_weaken
          intro: dead_frame_trans[OF dead_frame_sent[OF s]])
  next
    case True
    with q obtain wi where I1: "broker_inv (insert (w', t, i, r) (held b - X - {(w, t, i, r)})) b1"
      and h1: "held b1 = insert (w', t, i, r) (held b)" and d: "dead_frame w b b1" and wi: "workerHeap b1 w' = Some wi" by auto
    have "insert (w', t, i, r) (held b - X - {(w, t, i, r)}) = held b1 - insert (w, t, i, r) X"
      using h1 X[of "(w', t, i, r)"] w'(2) by auto
    with I1 have I2: "broker_inv (held b1 - insert (w, t, i, r) X) b1" by simp
    let ?b = "if FreeCapacity wi \<le> 0 then removeAvailableChecked (wi_supportedRequestTypes wi) w' b1 else b1"
    from removeAvailableChecked_safe[OF I2, of "wi_supportedRequestTypes wi" w'] I2
    have "broker_inv (held b1 - insert (w, t, i, r) X) ?b" "held ?b = held b1" "dead_frame w b1 ?b"
      using dead_frame_avail by (auto simp: avail_only_fields)
    then have "dealt_with w X (w, t, i, r) b ?b"
      using dead_frame_trans[OF d] by (simp add: dealt_with_def)
    then show ?thesis
      using r(1) c Some f True wi by (simp add: retryOnOtherWorker_def Let_def)
  qed
qed

lemma deadWorkerRequest_safe:
  assumes E: "env_ok E" and I: "broker_inv (held b - X) b" and x: "(w, t, i, r) \<in> held b - X"
    and X: "\<And>y. y \<in> X \<Longrightarrow> fst y = w"
    and nw: "\<And>c. requestTypeContextLookup b t = Some c \<Longrightarrow> w \<notin> set (ctx_availableWorkers c)"
  shows "runs_to (deadWorkerRequest E t i r ret b) (\<lambda>(_, b'). dealt_with w X (w, t, i, r) b b')"
proof -
  from holdingE[OF I x] obtain c rs where c: "requestTypeContextLookup b t = Some c" "ctx_requests c i = Some r"
    and r: "requestHeap b r = Some rs" "IsInProgress rs" "rs_ok rs" by metis
  consider (retry) "hasAny (rs_vfs rs) RetryOnDeath" "GetTryCount rs < MAX_TRY_COUNT"
    | (reject2) "hasAny (rs_vfs rs) RetryOnDeath" "\<not> GetTryCount rs < MAX_TRY_COUNT" "hasAny (rs_vfs rs) NotifyOnDeath"
    | (give_up) "hasAny (rs_vfs rs) RetryOnDeath" "\<not> GetTryCount rs < MAX_TRY_COUNT" "\<not> hasAny (rs_vfs rs) NotifyOnDeath"
    | (reject1) "\<not> hasAny (rs_vfs rs) RetryOnDeath" "hasAny (rs_vfs rs) NotifyOnDeath"
    | (drop) "\<not> hasAny (rs_vfs rs) RetryOnDeath" "\<not> hasAny (rs_vfs rs) NotifyOnDeath" by blast
  then show ?thesis
  proof cases
    case retry
    then show ?thesis
      using retryOnOtherWorker_safe[OF E I x X r(1) retry(1) c(1) nw[OF c(1)], of ret] r(1)
      by (simp add: deadWorkerRequest_def hasAny_or)
  next
    case reject2
    then obtain m where m: "rs_msg rs = Some m" "whole_header m" using r(3) by (auto simp: rs_ok_def)
    from erase_dead_safe[OF I x refl, where s = "sends b @ [(Frontend, rejection E m RS_WorkerDeath, 0)]" and st = "UpdateRequest_msg None rs"]
    show ?thesis
      using r(1) reject2 rejectRequest2_request[OF E r(1) m] 
      by (simp add: deadWorkerRequest_def hasAny_or)
  next
    case give_up
    with give_up_safe[OF I x r(1)] show ?thesis
      using r(1) by (simp add: deadWorkerRequest_def hasAny_or)
  next
    case reject1
    then obtain m where m: "rs_msg rs = Some m" using r(3) by (auto simp: rs_ok_def)
    from erase_dead_safe[OF I x refl, where s = "sends b @ [(Frontend, m @ [enc_vfs E (rs_vfs rs), enc_u32 E t, enc_u64 E i,
        enc_u32 E (RequestStatus_value RS_WorkerDeath)], 0)]" and st = "UpdateRequest_msg None rs"]
    show ?thesis
      using r(1) reject1 rejectRequest1_request[OF E r(1) m, of "rs_vfs rs" t i]
      by (simp add: deadWorkerRequest_def hasAny_or)
  next
    case drop
    have "b = b\<lparr>requestHeap := (requestHeap b)(r \<mapsto> rs), sends := sends b\<rparr>" using r(1) by (cases b) (simp add: map_upd_triv)
    from erase_dead_safe[OF I x this] drop show ?thesis
      using r(1) by (simp add: deadWorkerRequest_def hasAny_or)
  qed
qed

section \<open>All requests of one type, all types\<close>

definition entries :: "wptr \<Rightarrow> RequestType \<Rightarrow> (RequestId \<times> rptr) list \<Rightarrow> all_holdings" where
  "entries w t l = {(w', t', i, r). w' = w \<and> t' = t \<and> (i, r) \<in> set l}"

lemma entries_Nil [simp]: "entries w t [] = {}"
  by (auto simp: entries_def)

lemma entries_Cons: "entries w t ((i, r) # l) = insert (w, t, i, r) (entries w t l)"
  by (auto simp: entries_def)

definition not_available :: "wptr \<Rightarrow> RequestType \<Rightarrow> Broker \<Rightarrow> bool" where
  "not_available w t b \<longleftrightarrow> (\<forall>c. requestTypeContextLookup b t = Some c \<longrightarrow> w \<notin> set (ctx_availableWorkers c))"

lemma not_available_frame: "not_available w t b \<Longrightarrow> dead_frame w b b' \<Longrightarrow> not_available w t b'"
  unfolding not_available_def dead_frame_def avail_shrinks_def by blast

lemma held_of_frame: "dead_frame w b b' \<Longrightarrow> (w, t, i, r) \<in> held b' \<longleftrightarrow> (w, t, i, r) \<in> held b"
  by (simp add: dead_frame_def held_iff)

lemma deadWorkerRequests_safe:
  assumes E: "env_ok E"
  shows "broker_inv (held b - X) b \<Longrightarrow> entries w t l \<subseteq> held b - X \<Longrightarrow> distinct (map fst l) \<Longrightarrow>
    \<forall>y \<in> X. fst y = w \<Longrightarrow> not_available w t b \<Longrightarrow>
    runs_to (deadWorkerRequests E t l ret b) (\<lambda>(_, b'). broker_inv (held b' - (entries w t l \<union> X)) b' \<and> dead_frame w b b')"
proof (induction l arbitrary: X ret b)
  case Nil
  then show ?case by simp
next
  case (Cons p l)
  obtain i r where p: "p = (i, r)" by (cases p)
  have x: "(w, t, i, r) \<in> held b - X" using Cons.prems(2) p by (auto simp: entries_Cons)
  have "runs_to (deadWorkerRequest E t i r ret b) (\<lambda>(_, b'). dealt_with w X (w, t, i, r) b b')"
    by (rule deadWorkerRequest_safe[OF E Cons.prems(1) x]) (use Cons.prems(4,5) in \<open>auto simp: not_available_def\<close>)
  then obtain ret1 b1 where f: "deadWorkerRequest E t i r ret b = Some (ret1, b1)"
    and I1: "broker_inv (held b1 - insert (w, t, i, r) X) b1" and d: "dead_frame w b b1"
    by (auto simp: runs_to_def dealt_with_def)
  have "entries w t l \<subseteq> held b1 - insert (w, t, i, r) X"
  proof
    fix y assume y: "y \<in> entries w t l"
    then obtain i' r' where y': "y = (w, t, i', r')" "(i', r') \<in> set l" by (auto simp: entries_def)
    then have "i' \<noteq> i" using Cons.prems(3) p by force
    moreover have "y \<in> held b - X" using y Cons.prems(2) p by (auto simp: entries_Cons)
    ultimately show "y \<in> held b1 - insert (w, t, i, r) X"
      using y' held_of_frame[OF d] by auto
  qed
  then have "runs_to (deadWorkerRequests E t l ret1 b1) (\<lambda>(_, b'). broker_inv (held b' - (entries w t l \<union> insert (w, t, i, r) X)) b' \<and> dead_frame w b1 b')"
    using Cons.prems p not_available_frame[OF Cons.prems(5) d] by (intro Cons.IH[OF I1]) auto
  then show ?case
    unfolding p deadWorkerRequests.simps f by (auto simp: entries_Cons elim!: runs_to_weaken intro: dead_frame_trans[OF d])
qed

definition entries_of_types :: "wptr \<Rightarrow> RequestType set \<Rightarrow> Broker \<Rightarrow> all_holdings" where
  "entries_of_types w ts b = {(w', t, i, r) \<in> held b. w' = w \<and> t \<in> ts}"

lemma entries_of_types_frame: "dead_frame w b b' \<Longrightarrow> entries_of_types w ts b' = entries_of_types w ts b"
  unfolding entries_of_types_def using held_of_frame[of w b b'] by auto

lemma entries_in_progress: "workerHeap b w = Some wi \<Longrightarrow> entries w t (in_progress wi t) = entries_of_types w {t} b"
  by (auto simp: entries_def entries_of_types_def held_iff)

lemma deadWorkerTypes_safe:
  assumes E: "env_ok E"
  shows "broker_inv (held b - entries_of_types w D b) b \<Longrightarrow> workerHeap b w = Some wi \<Longrightarrow> distinct ts \<Longrightarrow> D \<inter> set ts = {} \<Longrightarrow>
    runs_to (deadWorkerTypes E w ts ret b) (\<lambda>(_, b'). broker_inv (held b' - entries_of_types w (D \<union> set ts) b') b' \<and>
      dead_frame w b b' \<and> (\<forall>t \<in> set ts. not_available w t b'))"
proof (induction ts arbitrary: D ret b)
  case Nil
  then show ?case by simp
next
  case (Cons t ts)
  show ?case
  proof (cases "requestTypeContextLookup b t")
    case None
    have "(w, t, i, r) \<notin> held b" for i r
      using invD(5)[OF Cons.prems(1)] None Cons.prems(4) by (fastforce simp: entries_of_types_def)
    then have D: "entries_of_types w (insert t D) b = entries_of_types w D b" by (auto simp: entries_of_types_def)
    have "runs_to (deadWorkerTypes E w ts ret b) (\<lambda>(_, b'). broker_inv (held b' - entries_of_types w (insert t D \<union> set ts) b') b' \<and>
      dead_frame w b b' \<and> (\<forall>t \<in> set ts. not_available w t b'))"
      using Cons.prems D by (intro Cons.IH) auto
    moreover have "not_available w t b'" if "dead_frame w b b'" for b'
      using None that by (intro not_available_frame[OF _ that]) (simp add: not_available_def)
    ultimately show ?thesis using None by (auto elim!: runs_to_weaken)
  next
    case (Some c)
    from modContext_count[OF Cons.prems(1) Some, of DecrementNumWorkers] obtain b1 where
      b1: "modContext t DecrementNumWorkers b = Some b1" "broker_inv (held b - entries_of_types w D b) b1"
      and d1: "dead_frame w b b1" by (auto intro: dead_frame_avail)
    then obtain c1 where c1: "requestTypeContextLookup b1 t = Some c1"
      using keeps_context Some unfolding dead_frame_def by blast
    from modContext_remove[OF b1(2) c1, of w] obtain b2 where
      b2: "modContext t (RemoveAvailableWorker w) b1 = Some b2" "broker_inv (held b - entries_of_types w D b) b2"
      and d2': "dead_frame w b1 b2" and nw: "not_available w t b2" and a2: "avail_only b1 b2"
      by (auto intro: dead_frame_avail simp: not_available_def)
    have a1: "avail_only b b1"
      using modContext_count[OF Cons.prems(1) Some, of DecrementNumWorkers] b1(1) by auto
    note d2 = dead_frame_trans[OF d1 d2']
    have h2: "held b2 = held b" using a1 a2 by (simp add: avail_only_fields)
    have wi: "worker_ok wi" by (rule inv_worker_ok[OF Cons.prems(1,2)])
    have w2: "workerHeap b2 w = Some wi" using d2 Cons.prems(2) by (simp add: dead_frame_def)
    have "runs_to (deadWorkerRequests E t (in_progress wi t) ret b2)
      (\<lambda>(_, b'). broker_inv (held b' - (entries w t (in_progress wi t) \<union> entries_of_types w D b)) b' \<and> dead_frame w b2 b')"
    proof (rule deadWorkerRequests_safe[OF E])
      show "entries w t (in_progress wi t) \<subseteq> held b2 - entries_of_types w D b"
        using Cons.prems(4) by (auto simp: entries_in_progress[OF Cons.prems(2)] h2 entries_of_types_def)
      show "distinct (map fst (in_progress wi t))" using wi by (simp add: worker_ok_def)
      show "\<forall>y \<in> entries_of_types w D b. fst y = w" by (auto simp: entries_of_types_def)
    qed (use b2(2) h2 nw in simp_all)
    then obtain ret3 b3 where f: "deadWorkerRequests E t (in_progress wi t) ret b2 = Some (ret3, b3)"
      and I3: "broker_inv (held b3 - (entries w t (in_progress wi t) \<union> entries_of_types w D b)) b3" and d3': "dead_frame w b2 b3"
      by (auto simp: runs_to_def)
    note d3 = dead_frame_trans[OF d2 d3']
    have "entries w t (in_progress wi t) \<union> entries_of_types w D b = entries_of_types w (insert t D) b3"
      unfolding entries_in_progress[OF Cons.prems(2)] entries_of_types_frame[OF d3] by (auto simp: entries_of_types_def)
    with I3 have I3': "broker_inv (held b3 - entries_of_types w (insert t D) b3) b3" by simp
    have "runs_to (deadWorkerTypes E w ts ret3 b3) (\<lambda>(_, b'). broker_inv (held b' - entries_of_types w (insert t D \<union> set ts) b') b' \<and>
      dead_frame w b3 b' \<and> (\<forall>t \<in> set ts. not_available w t b'))"
      using d3 Cons.prems by (intro Cons.IH[OF I3']) (auto simp: dead_frame_def)
    moreover have "not_available w t b'" if "dead_frame w b3 b'" for b'
      by (rule not_available_frame[OF not_available_frame[OF nw d3'] that])
    ultimately show ?thesis
      using Some b1(1) b2(1) w2 f Cons.prems(2)
      by (auto elim!: runs_to_weaken intro: dead_frame_trans[OF d3])
  qed
qed

section \<open>The worker goes\<close>

lemma unregisterWorker_fields [simp]:
  "requestHeap (unregisterWorker ident w b) = requestHeap b"
  "requestTypeContextLookup (unregisterWorker ident w b) = requestTypeContextLookup b"
  "nextAddr (unregisterWorker ident w b) = nextAddr b" "inbox (unregisterWorker ident w b) = inbox b"
  "workerHeap (unregisterWorker ident w b) = (workerHeap b)(w := None)"
  "workerInfoLookup (unregisterWorker ident w b) = erase_key ident (workerInfoLookup b)"
  "currentTime (unregisterWorker ident w b) = currentTime b"
  "workerDeathDelay (unregisterWorker ident w b) = workerDeathDelay b"
  by (simp_all add: unregisterWorker_def freeWorker_def RemoveWorkerInfo_def)

lemma held_unregister: "held (unregisterWorker ident w b) = {x \<in> held b. fst x \<noteq> w}"
  by (auto simp: held_def split: if_splits)

lemma serving_unregister: "serving (unregisterWorker ident w b) t = serving b t - {w}"
  by (auto simp: serving_def split: if_splits)

lemma workers_ok_unregister:
  assumes w: "workers_ok b" and l: "(ident, w) \<in> set (workerInfoLookup b)"
  shows "workers_ok (unregisterWorker ident w b)"
  unfolding workers_ok_def
proof (intro conjI allI impI)
  let ?L = "workerInfoLookup b"
  have key: "ident' = ident \<longleftrightarrow> w' = w" if "(ident', w') \<in> set ?L" for ident' w'
    using workers_okD(1,2)[OF w] l that by (metis eq_key_imp_eq_value map_of_SomeD map_of_eq_Some_iff
        distinct_map inj_onD snd_conv prod.inject)
  show "dom (workerHeap (unregisterWorker ident w b)) = snd ` set (workerInfoLookup (unregisterWorker ident w b))"
  proof -
    have "snd ` set (erase_key ident ?L) = snd ` set ?L - {w}"
      using key by (force simp: set_erase_key)
    then show ?thesis using workers_okD(3)[OF w] by simp
  qed
  show "\<forall>(ident', w') \<in> set (workerInfoLookup (unregisterWorker ident w b)).
      \<exists>wi. workerHeap (unregisterWorker ident w b) w' = Some wi \<and> wi_identity wi = ident'"
    using key workers_okD(4)[OF w] by (force simp: set_erase_key)
  fix w' wi assume "workerHeap (unregisterWorker ident w b) w' = Some wi"
  then show "worker_ok wi" "w' < nextAddr (unregisterWorker ident w b)"
    using workers_okD(5,6)[OF w] by (auto split: if_splits)
qed (use workers_okD(1,2)[OF w] in \<open>simp_all add: erase_key_def distinct_fst_filter distinct_snd_filter\<close>)

lemma inv_unregister:
  assumes I: "broker_inv G b" and l: "(ident, w) \<in> set (workerInfoLookup b)"
    and G: "\<And>t i r. (w, t, i, r) \<notin> G" and a: "\<And>t. not_available w t b"
  shows "broker_inv G (unregisterWorker ident w b)"
  unfolding broker_inv_def
proof (intro conjI allI impI ballI)
  show "workers_ok (unregisterWorker ident w b)" by (rule workers_ok_unregister[OF invD(1)[OF I] l])
  show "contexts_apart (unregisterWorker ident w b)" using invD(2)[OF I] by (simp add: contexts_apart_def)
  fix t c assume c: "requestTypeContextLookup (unregisterWorker ident w b) t = Some c"
  then have c': "requestTypeContextLookup b t = Some c" by simp
  show "ctx_ok (serving (unregisterWorker ident w b) t) (requestHeap (unregisterWorker ident w b)) (of_type G t) t c"
  proof (rule ctx_ok_cong[OF invD(4)[OF I c']])
    fix w' assume "w' \<in> set (ctx_availableWorkers c) \<or> (\<exists>i r. (w', i, r) \<in> of_type G t)"
    then show "w' \<in> serving (unregisterWorker ident w b) t"
    proof
      assume "w' \<in> set (ctx_availableWorkers c)"
      then show ?thesis using a[of t] c' ctx_okD(3)[OF invD(4)[OF I c']] by (auto simp: not_available_def serving_unregister)
    next
      assume "\<exists>i r. (w', i, r) \<in> of_type G t"
      then obtain i r where x: "(w', i, r) \<in> of_type G t" by blast
      then have "w' \<noteq> w" using G by (auto simp: of_type_def)
      then show ?thesis using ctx_okD(8)[OF invD(4)[OF I c'] x] by (simp add: holding_ok_def serving_unregister)
    qed
  qed simp
qed (use invD(3,5)[OF I] in \<open>auto\<close>)

lemma handleWorkerDeath_safe:
  assumes E: "env_ok E" and ok: "broker_ok b" and w: "workerHeap b w = Some wi" and l: "(ident, w) \<in> set (workerInfoLookup b)"
  shows "runs_to (handleWorkerDeath E w b) (\<lambda>(ret, b'). broker_ok (unregisterWorker ident w b') \<and> keeps b b' \<and>
    inbox b' = inbox b)"
proof -
  let ?ts = "wi_supportedRequestTypes wi"
  from ok have I: "broker_inv (held b) b" by (simp add: broker_ok_def)
  have ts: "distinct ?ts" using inv_worker_ok[OF I w] by (simp add: worker_ok_def)
  have "entries_of_types w {} b = {}" by (auto simp: entries_of_types_def)
  with I have "broker_inv (held b - entries_of_types w {} b) b" by simp
  from deadWorkerTypes_safe[OF E this w ts, of 0] obtain ret b1 where f: "deadWorkerTypes E w ?ts 0 b = Some (ret, b1)"
    and I1: "broker_inv (held b1 - entries_of_types w (set ?ts) b1) b1" and d: "dead_frame w b b1"
    and nw: "\<forall>t \<in> set ?ts. not_available w t b1" by (auto simp: runs_to_def)
  have types: "t \<in> set ?ts" if "w \<in> serving b t" for t
    using that w by (auto simp: serving_def)
  have na: "not_available w t b1" for t
  proof (cases "t \<in> set ?ts")
    case False
    then have "w \<notin> serving b t" using types by blast
    then have "not_available w t b" using ctx_okD(3)[OF invD(4)[OF I]] unfolding not_available_def by blast
    then show ?thesis using d by (rule not_available_frame)
  qed (use nw in simp)
  have "t \<in> set ?ts" if "(w, t, i, r) \<in> held b1" for t i r
  proof -
    from that have "(w, t, i, r) \<in> held b" using held_of_frame[OF d] by simp
    then show ?thesis by (rule holdingE[OF I]) (use types in blast)
  qed
  then have e: "held b1 - entries_of_types w (set ?ts) b1 = {x \<in> held b1. fst x \<noteq> w}"
    by (auto simp: entries_of_types_def)
  have "(ident, w) \<in> set (workerInfoLookup b1)" using l d by (simp add: dead_frame_def keeps_def)
  then have "broker_ok (unregisterWorker ident w b1)"
    unfolding broker_ok_def held_unregister using I1 na by (intro inv_unregister) (auto simp: e)
  then show ?thesis
    using w f d by (simp add: handleWorkerDeath_def updateContextsForDeadWorker_def dead_frame_def)
qed

lemma checkWorkersPulse_loop_safe:
  assumes E: "env_ok E"
  shows "broker_ok b \<Longrightarrow> set rest \<subseteq> set (workerInfoLookup b) \<Longrightarrow> distinct (map fst rest) \<Longrightarrow>
    runs_to (checkWorkersPulse_loop E rest ret b) (\<lambda>(_, b'). broker_ok b' \<and> inbox b' = inbox b)"
proof (induction rest arbitrary: ret b)
  case Nil
  then show ?case by simp
next
  case (Cons p rest)
  obtain ident w where p: "p = (ident, w)" by (cases p)
  from Cons.prems(1) have I: "broker_inv (held b) b" by (simp add: broker_ok_def)
  have l: "(ident, w) \<in> set (workerInfoLookup b)" using Cons.prems(2) p by simp
  then obtain wi where wi: "workerHeap b w = Some wi" using workers_okD(4)[OF invD(1)[OF I]] by blast
  show ?case
  proof (cases "IsAliveAsOf wi (currentTime b) (workerDeathDelay b)")
    case True
    then show ?thesis using Cons wi p by simp
  next
    case False
    from handleWorkerDeath_safe[OF E Cons.prems(1) wi l] obtain ret1 b1 where
      f: "handleWorkerDeath E w b = Some (ret1, b1)" and ok1: "broker_ok (unregisterWorker ident w b1)"
      and k: "keeps b b1" "inbox b1 = inbox b" by (auto simp: runs_to_def)
    have "set rest \<subseteq> set (workerInfoLookup (unregisterWorker ident w b1))"
      using Cons.prems(2,3) p k(1) by (force simp: keeps_def set_erase_key)
    from Cons.IH[OF ok1 this] Cons.prems(3) k(2) show ?thesis
      using wi False f p by simp
  qed
qed

lemma checkWorkersPulse_safe:
  assumes "env_ok E" "broker_ok b"
  shows "runs_to (checkWorkersPulse E b) (\<lambda>(_, b'). broker_ok b' \<and> inbox b' = inbox b)"
proof -
  from assms(2) have "distinct (map fst (workerInfoLookup b))"
    using workers_okD(1)[OF invD(1)] by (auto simp: broker_ok_def)
  then show ?thesis
    using checkWorkersPulse_loop_safe[OF assms order_refl] by (simp add: checkWorkersPulse_def)
qed

end
