(* ===== verification/BrokerSweep.thy ===== *)
theory BrokerSweep
  imports BrokerDeath
begin

text \<open>
  Workers that register or finish keep the broker well formed, and the sweeps over their request
  types end. \<open>sweep_inv F b\<close> is the invariant with \<open>F\<close> the holding, if any, that the finished
  request still stands for: the worker no longer lists it, its state is still registered.
\<close>

definition sweep_inv :: "all_holdings \<Rightarrow> Broker \<Rightarrow> bool" where
  "sweep_inv F b \<longleftrightarrow> broker_inv (held b \<union> F) b \<and> F \<inter> held b = {}"

definition reqs_same :: "Broker \<Rightarrow> Broker \<Rightarrow> bool" where
  "reqs_same b b' \<longleftrightarrow> (\<forall>t. map_option ctx_requests (requestTypeContextLookup b' t) =
     map_option ctx_requests (requestTypeContextLookup b t))"

definition sweep_frame :: "Broker \<Rightarrow> Broker \<Rightarrow> bool" where
  "sweep_frame b b' \<longleftrightarrow> keeps b b' \<and> reqs_same b b' \<and> inbox b' = inbox b"

lemma sweep_frame_refl [simp]: "sweep_frame b b"
  by (simp add: sweep_frame_def reqs_same_def)

lemma sweep_frame_trans: "sweep_frame a b \<Longrightarrow> sweep_frame b c \<Longrightarrow> sweep_frame a c"
  by (auto simp: sweep_frame_def reqs_same_def intro: keeps_trans)

lemma reqs_same_avail: "avail_only b b' \<Longrightarrow> reqs_same b b'"
  unfolding reqs_same_def
proof
  fix t
  assume "avail_only b b'"
  then have "rel_option same_requests (requestTypeContextLookup b t) (requestTypeContextLookup b' t)"
    by (simp add: avail_only_def)
  then show "map_option ctx_requests (requestTypeContextLookup b' t) = map_option ctx_requests (requestTypeContextLookup b t)"
    by (cases rule: option.rel_cases) (simp_all add: same_requests_def)
qed

lemma sweep_frame_avail: "avail_only b b' \<Longrightarrow> keeps b b' \<Longrightarrow> sweep_frame b b'"
  by (simp add: sweep_frame_def reqs_same_avail avail_only_fields)

lemma sweep_inv_avail: "sweep_inv F b \<Longrightarrow> avail_only b b' \<Longrightarrow> broker_inv (held b \<union> F) b' \<Longrightarrow> sweep_inv F b'"
  by (simp add: sweep_inv_def avail_only_fields)

lemma sweep_frame_sent: "sent_only b b' \<Longrightarrow> sweep_frame b b'"
  by (auto simp: sent_only_def sweep_frame_def reqs_same_def)

lemma sweep_inv_sent: "sent_only b b' \<Longrightarrow> sweep_inv F b' \<longleftrightarrow> sweep_inv F b"
  by (auto simp: sent_only_def sweep_inv_def)

text \<open>A worker with its capacity and types.\<close>

definition worker_at :: "wptr \<Rightarrow> RequestType list \<Rightarrow> int \<Rightarrow> Broker \<Rightarrow> bool" where
  "worker_at w ts n b \<longleftrightarrow> (\<exists>wi. workerHeap b w = Some wi \<and> wi_supportedRequestTypes wi = ts \<and> FreeCapacity wi = n)"

lemma worker_at_capacity: "worker_at w ts n b \<Longrightarrow> workerCapacity w b = Some n"
  by (auto simp: worker_at_def workerCapacity_def)

lemma worker_at_avail: "avail_only b b' \<Longrightarrow> worker_at w ts n b' \<longleftrightarrow> worker_at w ts n b"
  by (simp add: worker_at_def avail_only_fields)

lemma worker_at_sent: "sent_only b b' \<Longrightarrow> worker_at w ts n b' \<longleftrightarrow> worker_at w ts n b"
  by (auto simp: worker_at_def sent_only_def)

lemma worker_at_serving: "worker_at w ts n b \<Longrightarrow> t \<in> set ts \<Longrightarrow> w \<in> serving b t"
  by (auto simp: worker_at_def serving_def)

lemma FreeCapacity_dec:
  assumes "wi_freeCapacity wi' = wi_freeCapacity wi - 1" "0 < FreeCapacity wi"
  shows "FreeCapacity wi' = FreeCapacity wi - 1"
proof -
  have "sint (wi_freeCapacity wi) < 2 ^ 31"
    using sint_lt[of "wi_freeCapacity wi"] by simp
  then have "signed_take_bit 31 (sint (wi_freeCapacity wi) - 1) = sint (wi_freeCapacity wi) - 1"
    using assms(2) by (intro signed_take_bit_int_eq_self) (simp_all add: FreeCapacity_def)
  then show ?thesis using assms(1) by (simp add: FreeCapacity_def sint_word_ariths)
qed

lemma GetNextPendingRequest_in: "GetNextPendingRequest c = Some r \<Longrightarrow> \<exists>n. (n, r) \<in> set (ctx_pending c)"
  by (auto simp: GetNextPendingRequest_def split: list.splits)

section \<open>One request goes to the worker\<close>

lemma forward1_sweep:
  assumes E: "env_ok E" and J: "sweep_inv F b" and c: "requestTypeContextLookup b t = Some c"
    and q: "GetNextPendingRequest c = Some r" and w: "worker_at w ts n b" "t \<in> set ts" "0 < n"
  shows "runs_to (forwardWorkerParsedClientRequest1 E w t r b) (\<lambda>(ret, b'). sweep_inv F b' \<and> sweep_frame b b' \<and>
    worker_at w ts (if ret = 0 then n - 1 else n) b')"
proof -
  obtain k where k: "(k, r) \<in> set (ctx_pending c)" using GetNextPendingRequest_in[OF q] by blast
  obtain wi where wi: "workerHeap b w = Some wi" "wi_supportedRequestTypes wi = ts" "FreeCapacity wi = n"
    using w(1) by (auto simp: worker_at_def)
  from J have I: "broker_inv (held b \<union> F) b" by (simp add: sweep_inv_def)
  have "t \<in> set (wi_supportedRequestTypes wi)" using wi(2) w(2) by simp
  from forward1_safe[OF E I c k wi(1) this] obtain ret b' where
    f: "forwardWorkerParsedClientRequest1 E w t r b = Some (ret, b')" and
    p: "ret \<noteq> 0 \<and> sent_only b b' \<or>
    ret = 0 \<and> (\<exists>i wi'. broker_inv (insert (w, t, i, r) (held b \<union> F)) b' \<and> (w, t, i, r) \<notin> held b \<union> F \<and>
      held b' = insert (w, t, i, r) (held b) \<and>
      keeps b b' \<and> others_same w b b' \<and> pops t k b b' \<and>
      workerHeap b' w = Some wi' \<and> wi_freeCapacity wi' = wi_freeCapacity wi - 1)"
    by (auto simp: runs_to_def)
  from p have "sweep_inv F b' \<and> sweep_frame b b' \<and> worker_at w ts (if ret = 0 then n - 1 else n) b'"
  proof
    assume a: "ret \<noteq> 0 \<and> sent_only b b'"
    then have s: "sent_only b b'" by simp
    show ?thesis
      using a J w(1) by (simp add: sweep_inv_sent[OF s] sweep_frame_sent[OF s] worker_at_sent[OF s])
  next
    assume "ret = 0 \<and> (\<exists>i wi'. broker_inv (insert (w, t, i, r) (held b \<union> F)) b' \<and> (w, t, i, r) \<notin> held b \<union> F \<and>
      held b' = insert (w, t, i, r) (held b) \<and>
      keeps b b' \<and> others_same w b b' \<and> pops t k b b' \<and>
      workerHeap b' w = Some wi' \<and> wi_freeCapacity wi' = wi_freeCapacity wi - 1)"
    then obtain i wi' where ret: "ret = 0" and I': "broker_inv (insert (w, t, i, r) (held b \<union> F)) b'"
      and new: "(w, t, i, r) \<notin> held b \<union> F" and h: "held b' = insert (w, t, i, r) (held b)" and k': "keeps b b'"
      and o: "others_same w b b'" "pops t k b b'" and wi': "workerHeap b' w = Some wi'" "wi_freeCapacity wi' = wi_freeCapacity wi - 1"
      by blast
    have "sweep_inv F b'" using I' new h J by (auto simp: sweep_inv_def)
    moreover have "sweep_frame b b'" using k' o by (auto simp: sweep_frame_def others_same_def pops_def reqs_same_def)
    moreover have "wi_supportedRequestTypes wi' = ts"
      using keeps_worker[OF k' wi(1)] wi'(1) wi(2) by (metis option.inject)
    then have "worker_at w ts (n - 1) b'"
      using wi' FreeCapacity_dec[OF wi'(2)] wi(3) w(3) by (simp add: worker_at_def)
    ultimately show ?thesis using ret by simp
  qed
  with f show ?thesis by simp
qed

section \<open>The second sweep\<close>

definition has_contexts :: "RequestType list \<Rightarrow> Broker \<Rightarrow> bool" where
  "has_contexts ts b \<longleftrightarrow> (\<forall>t \<in> set ts. requestTypeContextLookup b t \<noteq> None)"

lemma has_contexts_frame: "sweep_frame b b' \<Longrightarrow> has_contexts ts b \<Longrightarrow> has_contexts ts b'"
  unfolding has_contexts_def sweep_frame_def using keeps_context by fastforce

text \<open>Each turn of the outer loop that asks for another one has used up capacity.\<close>

lemma sweepTypes_safe:
  assumes E: "env_ok E"
  shows "sweep_inv F b \<Longrightarrow> has_contexts us b \<Longrightarrow> worker_at w ts n b \<Longrightarrow> set us \<subseteq> set ts \<Longrightarrow> 0 < n \<Longrightarrow>
    runs_to (sweepTypes E w earlier us again b) (\<lambda>(again', b'). sweep_inv F b' \<and> sweep_frame b b' \<and>
      (\<exists>n'. worker_at w ts n' b' \<and> n' \<le> n \<and> (again' \<longrightarrow> again \<or> n' < n)))"
proof (induction us arbitrary: earlier again b n)
  case Nil
  then show ?case by auto
next
  case (Cons t us)
  from Cons.prems(2) obtain c where c: "requestTypeContextLookup b t = Some c" by (auto simp: has_contexts_def)
  have us: "has_contexts us b" using Cons.prems(2) by (simp add: has_contexts_def)
  show ?case
  proof (cases "GetNextPendingRequest c")
    case None
    with c Cons.IH[OF Cons.prems(1) us Cons.prems(3) _ Cons.prems(5), of "earlier @ [t]" again] Cons.prems(4)
    show ?thesis by simp
  next
    case (Some r)
    from forward1_sweep[OF E Cons.prems(1) c Some Cons.prems(3) _ Cons.prems(5)] Cons.prems(4) obtain ret b1 where
      f: "forwardWorkerParsedClientRequest1 E w t r b = Some (ret, b1)" and J1: "sweep_inv F b1" and d1: "sweep_frame b b1"
      and w1: "worker_at w ts (if ret = 0 then n - 1 else n) b1" by (auto simp: runs_to_def)
    note us1 = has_contexts_frame[OF d1 us]
    obtain c1 where c1: "requestTypeContextLookup b1 t = Some c1"
      using d1 keeps_context c unfolding sweep_frame_def by blast
    consider "ret \<noteq> 0" | "ret = 0" "n - 1 \<le> 0" | "ret = 0" "0 < n - 1" by linarith
    then show ?thesis
    proof cases
      case 1
      from Cons.IH[OF J1 us1 w1, of "earlier @ [t]" again] 1 Cons.prems(4,5)
      show ?thesis using c Some f by (auto elim!: runs_to_weaken intro: sweep_frame_trans[OF d1])
    next
      case 2
      let ?b = "removeAvailableChecked (earlier @ [t]) w b1"
      have r: "broker_inv (held b1 \<union> F) ?b" "keeps b1 ?b" "avail_only b1 ?b"
        using removeAvailableChecked_safe[of "held b1 \<union> F" b1] J1 by (simp_all add: sweep_inv_def)
      have "sweep_inv F ?b" by (rule sweep_inv_avail[OF J1 r(3,1)])
      moreover have "sweep_frame b ?b" by (rule sweep_frame_trans[OF d1 sweep_frame_avail[OF r(3,2)]])
      moreover have "worker_at w ts (n - 1) ?b" using w1 2 worker_at_avail[OF r(3)] by simp
      ultimately show ?thesis
        using c Some f 2 worker_at_capacity[OF w1] by (auto intro!: exI[of _ "n - 1"])
    next
      case 3
      from Cons.IH[OF J1 us1 w1, of "earlier @ [t]" "again \<or> GetNextPendingRequest c1 \<noteq> None"] 3 Cons.prems(4)
      have "runs_to (sweepTypes E w (earlier @ [t]) us (again \<or> GetNextPendingRequest c1 \<noteq> None) b1)
        (\<lambda>(again', b'). sweep_inv F b' \<and> sweep_frame b1 b' \<and>
          (\<exists>n'. worker_at w ts n' b' \<and> n' \<le> n - 1))" by (auto elim!: runs_to_weaken)
      then have "runs_to (sweepTypes E w (earlier @ [t]) us (again \<or> GetNextPendingRequest c1 \<noteq> None) b1)
        (\<lambda>(again', b'). sweep_inv F b' \<and> sweep_frame b b' \<and>
          (\<exists>n'. worker_at w ts n' b' \<and> n' \<le> n \<and> (again' \<longrightarrow> again \<or> n' < n)))"
        by (fastforce elim!: runs_to_weaken intro: sweep_frame_trans[OF d1])
      then show ?thesis using c Some f 3 worker_at_capacity[OF w1] c1 by simp
    qed
  qed
qed

text \<open>The \<open>while\<close> loop ends: the capacity is finite and every turn but the last takes some of it.\<close>

lemma sweepPendingRequests_safe:
  assumes E: "env_ok E"
  shows "sweep_inv F b \<Longrightarrow> has_contexts ts b \<Longrightarrow> worker_at w ts n b \<Longrightarrow>
    runs_to (sweepPendingRequests E w again b) (\<lambda>b'. sweep_inv F b' \<and> sweep_frame b b')"
proof (induction "nat n" arbitrary: again b n rule: less_induct)
  case less
  obtain wi where wi: "workerHeap b w = Some wi" "wi_supportedRequestTypes wi = ts" "FreeCapacity wi = n"
    using less.prems(3) by (auto simp: worker_at_def)
  show ?case
  proof (cases "0 < n \<and> again")
    case False
    with wi less.prems show ?thesis by (subst sweepPendingRequests.simps) auto
  next
    case True
    from sweepTypes_safe[OF E less.prems(1,2,3) order_refl, of "[]" False] True obtain again' b1 n' where
      f: "sweepTypes E w [] ts False b = Some (again', b1)" and J1: "sweep_inv F b1" and d1: "sweep_frame b b1"
      and w1: "worker_at w ts n' b1" and n': "n' \<le> n" "again' \<longrightarrow> n' < n" by (auto simp: runs_to_def)
    note h1 = has_contexts_frame[OF d1 less.prems(2)]
    have "runs_to (sweepPendingRequests E w again' b1) (\<lambda>b'. sweep_inv F b' \<and> sweep_frame b1 b')"
    proof (cases again')
      case True
      then have "nat n' < nat n" using n' \<open>0 < n \<and> again\<close> by simp
      from less.hyps[OF this J1 h1 w1] show ?thesis .
    next
      case False
      then show ?thesis using w1 J1 by (subst sweepPendingRequests.simps) (auto simp: worker_at_def)
    qed
    then show ?thesis
      using wi True f by (subst sweepPendingRequests.simps) (auto elim!: runs_to_weaken intro: sweep_frame_trans[OF d1])
  qed
qed

section \<open>A new worker\<close>

lemma sweep_modContext_add:
  assumes J: "sweep_inv F b" and c: "requestTypeContextLookup b t = Some c" and w: "worker_at w ts n b" "t \<in> set ts"
  obtains b' where "modContext t (AddAvailableWorker w) b = Some b'" "sweep_inv F b'" "sweep_frame b b'" "worker_at w ts n b'"
proof -
  from J have I: "broker_inv (held b \<union> F) b" by (simp add: sweep_inv_def)
  from modContext_add[OF I c worker_at_serving[OF w]] obtain b' where
    "modContext t (AddAvailableWorker w) b = Some b'" "broker_inv (held b \<union> F) b'" "keeps b b'" "avail_only b b'" by blast
  then show thesis
    using that J w(1) sweep_inv_avail sweep_frame_avail worker_at_avail by blast
qed

lemma sweep_modContext_count:
  assumes J: "sweep_inv F b" and c: "requestTypeContextLookup b t = Some c" and w: "worker_at w ts n b"
  obtains b' where "modContext t IncrementNumWorkers b = Some b'" "sweep_inv F b'" "sweep_frame b b'" "worker_at w ts n b'"
    "requestTypeContextLookup b' t = Some (IncrementNumWorkers c)"
proof -
  from J have I: "broker_inv (held b \<union> F) b" by (simp add: sweep_inv_def)
  from modContext_count[OF I c, of IncrementNumWorkers] obtain b' where
    b': "modContext t IncrementNumWorkers b = Some b'" "broker_inv (held b \<union> F) b'" "keeps b b'" "avail_only b b'" by blast
  moreover have "requestTypeContextLookup b' t = Some (IncrementNumWorkers c)"
    using b'(1) c by (auto simp: modContext_Some)
  ultimately show thesis
    using that J w(1) sweep_inv_avail sweep_frame_avail worker_at_avail by blast
qed

lemma sweep_newContext:
  assumes J: "sweep_inv F b" and c: "requestTypeContextLookup b t = None" and w: "worker_at w ts n b"
  shows "sweep_inv F (newContext t b)" "keeps b (newContext t b)" "worker_at w ts n (newContext t b)"
  using inv_newContext[OF _ c, of "held b \<union> F"] J w
  by (simp_all add: sweep_inv_def worker_at_def newContext_def)

lemma sweep_removeUnchecked:
  assumes J: "sweep_inv F b" and h: "has_contexts us b" and w: "worker_at w ts n b"
  obtains b' where "removeAvailableUnchecked us w b = Some b'" "sweep_inv F b'" "sweep_frame b b'" "worker_at w ts n b'"
proof -
  from J have I: "broker_inv (held b \<union> F) b" by (simp add: sweep_inv_def)
  from removeAvailableUnchecked_safe[OF I, of us w] h obtain b' where
    "removeAvailableUnchecked us w b = Some b'" "broker_inv (held b \<union> F) b'" "keeps b b'" "avail_only b b'"
    by (auto simp: runs_to_def has_contexts_def)
  then show thesis
    using that J w(1) sweep_inv_avail sweep_frame_avail worker_at_avail by blast
qed

definition new_frame :: "Broker \<Rightarrow> Broker \<Rightarrow> bool" where
  "new_frame b b' \<longleftrightarrow> keeps b b' \<and> inbox b' = inbox b"

lemma new_frame_trans: "new_frame a b \<Longrightarrow> new_frame b c \<Longrightarrow> new_frame a c"
  by (auto simp: new_frame_def intro: keeps_trans)

lemma new_frame_sweep: "sweep_frame b b' \<Longrightarrow> new_frame b b'"
  by (simp add: new_frame_def sweep_frame_def)

lemma has_contexts_new: "new_frame b b' \<Longrightarrow> has_contexts ts b \<Longrightarrow> has_contexts ts b'"
  unfolding has_contexts_def new_frame_def using keeps_context by fastforce

lemma has_contexts_Some: "requestTypeContextLookup b t = Some c \<Longrightarrow> has_contexts [t] b"
  by (simp add: has_contexts_def)

definition visited :: "all_holdings \<Rightarrow> wptr \<Rightarrow> RequestType list \<Rightarrow> Broker \<Rightarrow> Broker \<Rightarrow> bool" where
  "visited F w ts b b' \<longleftrightarrow> sweep_inv F b' \<and> new_frame b b' \<and> (\<exists>n. worker_at w ts n b')"

lemma visitedI: "sweep_inv F b' \<Longrightarrow> new_frame b b' \<Longrightarrow> worker_at w ts n b' \<Longrightarrow> visited F w ts b b'"
  by (auto simp: visited_def)

lemma newWorkerVisit_safe:
  assumes E: "env_ok E" and J: "sweep_inv F b" and w: "worker_at w ts n b" "t \<in> set ts" and h: "has_contexts earlier b"
  shows "runs_to (newWorkerVisit E w earlier t again b) (\<lambda>(_, b'). visited F w ts b b' \<and> has_contexts [t] b')"
proof (cases "requestTypeContextLookup b t")
  case None
  note new = sweep_newContext[OF J None w(1)]
  from sweep_modContext_count[OF new(1) newContext_fields(2) new(3)] obtain b1 where
    b1: "modContext t IncrementNumWorkers (newContext t b) = Some b1" "sweep_inv F b1" "sweep_frame (newContext t b) b1"
    "worker_at w ts n b1" and c1: "requestTypeContextLookup b1 t = Some (IncrementNumWorkers (BrokerRequestTypeContext_new t))" .
  have f1: "new_frame b b1"
    using new_frame_trans[OF _ new_frame_sweep[OF b1(3)]] new(2) by (simp add: new_frame_def)
  from sweep_modContext_add[OF b1(2) c1 b1(4) w(2)] obtain b2 where
    b2: "modContext t (AddAvailableWorker w) b1 = Some b2" "sweep_inv F b2" "sweep_frame b1 b2" "worker_at w ts n b2" .
  note f2 = new_frame_sweep[OF b2(3)]
  show ?thesis
    using None b1(1) b2(1) worker_at_capacity[OF w(1)] visitedI[OF b1(2) f1 b1(4)]
      visitedI[OF b2(2) new_frame_trans[OF f1 f2] b2(4)] has_contexts_Some[OF c1]
      has_contexts_new[OF f2 has_contexts_Some[OF c1]]
    by (simp add: newWorkerVisit_def)
next
  case (Some c)
  from sweep_modContext_count[OF J Some w(1)] obtain b1 where
    b1: "modContext t IncrementNumWorkers b = Some b1" "sweep_inv F b1" "sweep_frame b b1" "worker_at w ts n b1"
    and c1: "requestTypeContextLookup b1 t = Some (IncrementNumWorkers c)" .
  note f1 = new_frame_sweep[OF b1(3)] and v1 = visitedI[OF b1(2) new_frame_sweep[OF b1(3)] b1(4)]
  note h1 = has_contexts_Some[OF c1]
  show ?thesis
  proof (cases "0 < n")
    case False
    then show ?thesis using Some b1(1) worker_at_capacity[OF w(1)] v1 h1 by (simp add: newWorkerVisit_def)
  next
    case n: True
    show ?thesis
    proof (cases "GetNextPendingRequest c")
      case None
      from sweep_modContext_add[OF b1(2) c1 b1(4) w(2)] obtain b2 where
        b2: "modContext t (AddAvailableWorker w) b1 = Some b2" "sweep_inv F b2" "sweep_frame b1 b2" "worker_at w ts n b2" .
      note f2 = new_frame_sweep[OF b2(3)]
      show ?thesis
        using Some None n b1(1) b2(1) worker_at_capacity[OF w(1)] visitedI[OF b2(2) new_frame_trans[OF f1 f2] b2(4)]
          has_contexts_new[OF f2 h1]
        by (simp add: newWorkerVisit_def)
    next
      case r: (Some r)
      then have "GetNextPendingRequest (IncrementNumWorkers c) = Some r" by (simp add: GetNextPendingRequest_def)
      from forward1_sweep[OF E b1(2) c1 this b1(4) w(2) n] obtain ret b2 where
        f: "forwardWorkerParsedClientRequest1 E w t r b1 = Some (ret, b2)" and J2: "sweep_inv F b2" and d2: "sweep_frame b1 b2"
        and w2: "worker_at w ts (if ret = 0 then n - 1 else n) b2" by (auto simp: runs_to_def)
      have f2: "new_frame b b2" by (rule new_frame_trans[OF f1 new_frame_sweep[OF d2]])
      have h2: "has_contexts [t] b2" by (rule has_contexts_frame[OF d2 h1])
      then obtain c2 where c2: "requestTypeContextLookup b2 t = Some c2" by (auto simp: has_contexts_def)
      from sweep_modContext_add[OF J2 c2 w2 w(2)] obtain b3 where
        b3: "modContext t (AddAvailableWorker w) b2 = Some b3" "sweep_inv F b3" "sweep_frame b2 b3"
        "worker_at w ts (if ret = 0 then n - 1 else n) b3" .
      have v3: "visited F w ts b b3" by (rule visitedI[OF b3(2) new_frame_trans[OF f2 new_frame_sweep[OF b3(3)]] b3(4)])
      have h3: "has_contexts [t] b3" by (rule has_contexts_frame[OF b3(3) h2])
      then obtain c3 where c3: "requestTypeContextLookup b3 t = Some c3" by (auto simp: has_contexts_def)
      from sweep_removeUnchecked[OF J2 has_contexts_new[OF f2 h] w2] obtain b4 where
        b4: "removeAvailableUnchecked earlier w b2 = Some b4" "sweep_inv F b4" "sweep_frame b2 b4"
        "worker_at w ts (if ret = 0 then n - 1 else n) b4" .
      have v4: "visited F w ts b b4" by (rule visitedI[OF b4(2) new_frame_trans[OF f2 new_frame_sweep[OF b4(3)]] b4(4)])
      have h4: "has_contexts [t] b4" by (rule has_contexts_frame[OF b4(3) h2])
      show ?thesis
        using Some r n b1(1) f b3(1) b4(1) v3 v4 h3 h4 c3 worker_at_capacity[OF w(1)] worker_at_capacity[OF w2]
        by (simp add: newWorkerVisit_def)
    qed
  qed
qed

lemma newWorkerFirstSweep_safe:
  assumes E: "env_ok E"
  shows "sweep_inv F b \<Longrightarrow> worker_at w ts n b \<Longrightarrow> set us \<subseteq> set ts \<Longrightarrow> has_contexts earlier b \<Longrightarrow>
    runs_to (newWorkerFirstSweep E w earlier us again b) (\<lambda>(_, b'). visited F w ts b b' \<and> has_contexts (earlier @ us) b')"
proof (induction us arbitrary: earlier again b n)
  case Nil
  then show ?case by (auto simp: new_frame_def intro: visitedI)
next
  case (Cons t us)
  from newWorkerVisit_safe[OF E Cons.prems(1,2) _ Cons.prems(4), of t again] Cons.prems(3) obtain again1 b1 where
    f: "newWorkerVisit E w earlier t again b = Some (again1, b1)" and v: "visited F w ts b b1" and ht: "has_contexts [t] b1"
    by (auto simp: runs_to_def)
  from v obtain n1 where J1: "sweep_inv F b1" and f1: "new_frame b b1" and w1: "worker_at w ts n1 b1" by (auto simp: visited_def)
  have "has_contexts (earlier @ [t]) b1"
    using has_contexts_new[OF f1 Cons.prems(4)] ht by (auto simp: has_contexts_def)
  from Cons.IH[OF J1 w1 _ this] Cons.prems(3)
  have "runs_to (newWorkerFirstSweep E w (earlier @ [t]) us again1 b1)
    (\<lambda>(_, b'). visited F w ts b1 b' \<and> has_contexts ((earlier @ [t]) @ us) b')" by simp
  then show ?case
    using f by (auto simp: visited_def elim!: runs_to_weaken intro: new_frame_trans[OF f1])
qed

lemma updateContextsForNewWorker_safe:
  assumes E: "env_ok E" and J: "sweep_inv {} b" and w: "worker_at w ts n b"
  shows "runs_to (updateContextsForNewWorker E w b) (\<lambda>b'. sweep_inv {} b' \<and> new_frame b b' \<and> has_contexts ts b')"
proof -
  from w obtain wi where wi: "workerHeap b w = Some wi" "wi_supportedRequestTypes wi = ts" by (auto simp: worker_at_def)
  from newWorkerFirstSweep_safe[OF E J w order_refl, of "[]" False] obtain again b1 where
    f: "newWorkerFirstSweep E w [] ts False b = Some (again, b1)" and v: "visited {} w ts b b1" and h1: "has_contexts ts b1"
    by (auto simp: runs_to_def has_contexts_def)
  from v obtain n1 where J1: "sweep_inv {} b1" and f1: "new_frame b b1" and w1: "worker_at w ts n1 b1" by (auto simp: visited_def)
  have "runs_to (sweepPendingRequests E w again b1) (\<lambda>b'. sweep_inv {} b' \<and> new_frame b b' \<and> has_contexts ts b')"
    by (rule runs_to_weaken[OF sweepPendingRequests_safe[OF E J1 h1 w1]])
      (use has_contexts_frame[OF _ h1] new_frame_trans[OF f1 new_frame_sweep] in blast)
  then show ?thesis
    using wi f by (simp add: updateContextsForNewWorker_def)
qed

text \<open>A worker enters the lookup.\<close>

lemma registerWorker_safe:
  assumes ok: "broker_ok b" and new: "LookupWorkerInfo (workerInfoLookup b) (wi_identity wi) = None"
    and wi: "worker_ok wi" "\<And>t. in_progress wi t = []"
  obtains b' where "registerWorker wi b = (nextAddr b, b')" "sweep_inv {} b'"
    "workerHeap b' = (workerHeap b)(nextAddr b \<mapsto> wi)" "requestTypeContextLookup b' = requestTypeContextLookup b"
    "inbox b' = inbox b"
proof -
  let ?w = "nextAddr b"
  from ok have I: "broker_inv (held b) b" by (simp add: broker_ok_def)
  note W = invD(1)[OF I]
  have no: "wi_identity wi \<notin> set (map fst (workerInfoLookup b))"
    using new by (simp add: LookupWorkerInfo_def map_of_eq_None_iff)
  define b' where "b' = b\<lparr>workerHeap := (workerHeap b)(?w \<mapsto> wi), nextAddr := Suc ?w,
    workerInfoLookup := workerInfoLookup b @ [(wi_identity wi, ?w)]\<rparr>"
  have eq: "registerWorker wi b = (?w, b')"
    using no by (simp add: registerWorker_def allocWorker_def InsertWorkerInfo_def emplace_def b'_def)
  have dead: "workerHeap b ?w = None"
    using workers_okD(6)[OF W, of ?w] by (metis less_irrefl option.exhaust)
  have fresh: "?w \<notin> snd ` set (workerInfoLookup b)"
    using dead workers_okD(3)[OF W] by blast
  have h: "held b' = held b" using wi(2) dead by (auto simp: held_def b'_def split: if_splits)
  have live: "\<exists>wi'. workerHeap b' w = Some wi' \<and> wi_identity wi' = ident" if "(ident, w) \<in> set (workerInfoLookup b')" for ident w
  proof (cases "(ident, w) \<in> set (workerInfoLookup b)")
    case True
    then have "w \<noteq> ?w" using fresh by force
    with workers_okD(4)[OF W True] show ?thesis by (simp add: b'_def)
  next
    case False
    with that show ?thesis by (simp add: b'_def)
  qed
  have "workers_ok b'"
    unfolding workers_ok_def
  proof (intro conjI allI impI)
    show "\<forall>(ident, w) \<in> set (workerInfoLookup b'). \<exists>wi. workerHeap b' w = Some wi \<and> wi_identity wi = ident"
      using live by blast
    fix w' wi' assume "workerHeap b' w' = Some wi'"
    then show "worker_ok wi'" "w' < nextAddr b'"
      using workers_okD(5,6)[OF W] wi(1) by (auto simp: b'_def less_Suc_eq split: if_splits)
  qed (use workers_okD(1,2,3)[OF W] no fresh in \<open>auto simp: b'_def\<close>)
  moreover have "ctx_ok (serving b' t) (requestHeap b') (of_type (held b) t) t c"
    if "requestTypeContextLookup b' t = Some c" for t c
  proof -
    from that have c: "requestTypeContextLookup b t = Some c" by (simp add: b'_def)
    note k = invD(4)[OF I c]
    show ?thesis
    proof (rule ctx_ok_cong[OF k])
      fix w assume "w \<in> set (ctx_availableWorkers c) \<or> (\<exists>i r. (w, i, r) \<in> of_type (held b) t)"
      then have "w \<in> serving b t" using ctx_okD(3)[OF k] ctx_okD(8)[OF k] by (auto simp: holding_ok_def)
      then show "w \<in> serving b' t" using dead by (auto simp: serving_def b'_def)
    qed (simp add: b'_def)
  qed
  moreover have "contexts_apart b'" using invD(2)[OF I] by (simp add: contexts_apart_def b'_def)
  ultimately have "broker_inv (held b) b'"
    unfolding broker_inv_def using invD(3,5)[OF I] by (auto simp: b'_def less_Suc_eq)
  then have "sweep_inv {} b'" by (simp add: sweep_inv_def h)
  with eq show thesis using that by (simp add: b'_def)
qed

text \<open>Each type at most once: the broker keeps no worker that lists one twice apart from others.\<close>

definition ready_types_ok :: "env \<Rightarrow> zmsg \<Rightarrow> bool" where
  "ready_types_ok E m \<longleftrightarrow> (case parseWorkerReady E m of Parsed (wvfs, capacity, delay, ts) \<Rightarrow> distinct ts | _ \<Rightarrow> True)"

lemma callback_gone: "broker_ok b \<Longrightarrow> callback_ok b (Returns n, b\<lparr>inbox := None\<rparr>)"
  by (rule done_with_callback[OF done_with_sent(2)])

lemma callback_thrown: "broker_ok b \<Longrightarrow> callback_ok b (Thrown, b)"
  by (simp add: callback_ok_def)

lemma broker_ok_inbox [simp]: "broker_ok (b\<lparr>inbox := m\<rparr>) \<longleftrightarrow> broker_ok b"
  and broker_ok_now [simp]: "broker_ok (updateCurrentTime n b) \<longleftrightarrow> broker_ok b"
  by (simp_all add: broker_ok_def)

lemma handleWorkerReady_safe:
  assumes E: "env_ok E" and ok: "broker_ok b" and m: "inbox b = Some m" and d: "ready_types_ok E m"
  shows "runs_to (handleWorkerReady E ident b) (callback_ok b)"
proof (cases "LookupWorkerInfo (workerInfoLookup b) ident")
  case (Some w)
  then show ?thesis using m callback_gone[OF ok] by (simp add: handleWorkerReady_def)
next
  case None
  show ?thesis
  proof (cases "parseWorkerReady E m")
    case (Malformed n)
    then show ?thesis using None m callback_gone[OF ok] by (simp add: handleWorkerReady_def)
  next
    case Throws
    then show ?thesis using None m callback_thrown[OF ok] by (simp add: handleWorkerReady_def)
  next
    case (Parsed x)
    obtain wvfs capacity delay ts where x: "x = (wvfs, capacity, delay, ts)" by (cases x) auto
    let ?wi = "WorkerInfo_new ident (currentTime b) (word_of_int capacity) ts delay wvfs"
    have "worker_ok ?wi" using d Parsed x by (simp add: ready_types_ok_def worker_ok_def WorkerInfo_new_def in_progress_def)
    moreover have "LookupWorkerInfo (workerInfoLookup b) (wi_identity ?wi) = None" using None by (simp add: WorkerInfo_new_def)
    ultimately obtain b1 where b1: "registerWorker ?wi b = (nextAddr b, b1)" "sweep_inv {} b1"
      "workerHeap b1 = (workerHeap b)(nextAddr b \<mapsto> ?wi)" "requestTypeContextLookup b1 = requestTypeContextLookup b"
      using registerWorker_safe[OF ok] by (metis in_progress_new)
    have w1: "worker_at (nextAddr b) ts (FreeCapacity ?wi) b1"
      using b1(3) by (simp add: worker_at_def WorkerInfo_new_def)
    from updateContextsForNewWorker_safe[OF E b1(2) w1] obtain b2 where
      f: "updateContextsForNewWorker E (nextAddr b) b1 = Some b2" and J2: "sweep_inv {} b2" and n2: "new_frame b1 b2"
      and h2: "has_contexts ts b2" by (auto simp: runs_to_def)
    have k2: "keeps b1 b2" using n2 by (simp add: new_frame_def)
    have "covered b2" if c: "covered b"
      unfolding covered_def
    proof (intro allI impI)
      fix w wi t assume a: "workerHeap b2 w = Some wi" "t \<in> set (wi_supportedRequestTypes wi)"
      from keeps_sym_worker[OF k2 a(1)] obtain wi' where wi': "workerHeap b1 w = Some wi'"
        "wi_supportedRequestTypes wi = wi_supportedRequestTypes wi'" by metis
      show "requestTypeContextLookup b2 t \<noteq> None"
      proof (cases "w = nextAddr b")
        case True
        then show ?thesis using wi' a(2) b1(3) h2 by (auto simp: has_contexts_def WorkerInfo_new_def)
      next
        case False
        then obtain ctx where "requestTypeContextLookup b1 t = Some ctx"
          using wi' a(2) b1(3,4) coveredD[OF c] by fastforce
        then show ?thesis using keeps_context[OF k2] by fastforce
      qed
    qed
    then have "callback_ok b (Returns 0, b2\<lparr>inbox := None\<rparr>)"
      using J2 by (simp add: callback_ok_def broker_ok_def sweep_inv_def)
    then show ?thesis
      using None m Parsed x b1(1) f by (simp add: handleWorkerReady_def)
  qed
qed

end
