(* ===== verification/BrokerFinished.thy ===== *)
theory BrokerFinished
  imports BrokerSweep
begin

text \<open>
  A worker that finished a request, and the other backend messages, keep the broker well formed.
  \<open>finished_ok\<close> is what the broker trusts a worker with: it reports as finished only what it was
  given, or what no context knows of.
\<close>

definition fin_ok :: "wptr \<Rightarrow> RequestType \<Rightarrow> RequestId \<Rightarrow> all_holdings \<Rightarrow> Broker \<Rightarrow> bool" where
  "fin_ok w t i F b \<longleftrightarrow> (F = {} \<and> (\<forall>c. requestTypeContextLookup b t = Some c \<longrightarrow> ctx_requests c i = None)) \<or>
     (\<exists>r. F = {(w, t, i, r)})"

lemma fin_ok_frame:
  assumes "sweep_frame b b'" "fin_ok w t i F b"
  shows "fin_ok w t i F b'"
proof -
  have "map_option ctx_requests (requestTypeContextLookup b' t) = map_option ctx_requests (requestTypeContextLookup b t)"
    using assms(1) by (simp add: sweep_frame_def reqs_same_def)
  then show ?thesis
    using assms(2) unfolding fin_ok_def by (cases "requestTypeContextLookup b t") auto
qed

section \<open>Erasing the finished request\<close>

lemma erase_finished_safe:
  assumes J: "sweep_inv F b" and F: "fin_ok w t i F b" and c: "requestTypeContextLookup b t = Some c"
  obtains b' where "EraseInProgressRequest t i b = Some b'" "sweep_inv {} b'" "keeps b b'" "inbox b' = inbox b"
    "workerHeap b' = workerHeap b" "\<exists>c'. requestTypeContextLookup b' t = Some c' \<and> ctx_pending c' = ctx_pending c"
proof -
  from J have I: "broker_inv (held b \<union> F) b" by (simp add: sweep_inv_def)
  show thesis
  proof (cases "F = {}")
    case True
    then have "ctx_requests c i = None" using F c by (auto simp: fin_ok_def)
    from EraseInProgressRequest_none[OF c this] show thesis
      using that[of b] J True c by simp
  next
    case False
    then obtain r where r: "F = {(w, t, i, r)}" using F by (auto simp: fin_ok_def)
    then have x: "(w, t, i, r) \<in> held b \<union> F" by simp
    from holdingE[OF I x] c obtain rs where rs: "ctx_requests c i = Some r" "requestHeap b r = Some rs" "IsInProgress rs"
      by (metis option.inject)
    define b' where "b' = b\<lparr>sends := sends b, requestHeap := (requestHeap b)(r := None),
      requestTypeContextLookup := (requestTypeContextLookup b)(t \<mapsto> RemoveInProgressRequest i c)\<rparr>"
    have eq: "EraseInProgressRequest t i b = Some b'"
      using EraseInProgressRequest_eq[OF c rs(1)] by (simp add: b'_def)
    note p = inv_erase[OF I c rs b'_def]
    have "drop_request t i (held b \<union> F) = held b"
      unfolding drop_request_only[OF I x] using r J by (auto simp: sweep_inv_def)
    then have "sweep_inv {} b'" using p by (simp add: sweep_inv_def)
    then show thesis using that[OF eq] p(2) by (simp add: b'_def)
  qed
qed

section \<open>The first sweep\<close>

definition left_over :: "bool \<Rightarrow> all_holdings \<Rightarrow> all_holdings" where
  "left_over removed F = (if removed then {} else F)"

definition sweeping :: "wptr \<Rightarrow> RequestType list \<Rightarrow> RequestType \<Rightarrow> RequestId \<Rightarrow> all_holdings \<Rightarrow> Broker \<Rightarrow> bool \<Rightarrow> int \<Rightarrow> Broker \<Rightarrow> bool" where
  "sweeping w ts ft fi F b0 removed n b \<longleftrightarrow> sweep_inv (left_over removed F) b \<and> new_frame b0 b \<and> worker_at w ts n b \<and>
     (\<not> removed \<longrightarrow> fin_ok w ft fi F b)"

lemma sweeping_step:
  assumes "sweeping w ts ft fi F b0 removed n b" "sweep_inv (left_over removed F) b'" "sweep_frame b b'" "worker_at w ts n' b'"
  shows "sweeping w ts ft fi F b0 removed n' b'"
  using assms fin_ok_frame[OF assms(3)] new_frame_trans[OF _ new_frame_sweep[OF assms(3)]]
  by (auto simp: sweeping_def)

lemma finishedVisit_safe:
  assumes E: "env_ok E" and S: "sweeping w ts ft fi F b0 removed n b" and n: "0 < n" and t: "t \<in> set ts"
    and h: "has_contexts earlier b" and ht: "has_contexts [t] b"
  shows "runs_to (finishedVisit E w ft fi earlier t removed again b) (\<lambda>(goes_on, removed', again', b').
    \<exists>n'. sweeping w ts ft fi F b0 removed' n' b' \<and> (goes_on \<longrightarrow> 0 < n') \<and> (removed \<longrightarrow> removed') \<and> new_frame b b')"
proof -
  from ht obtain c where c: "requestTypeContextLookup b t = Some c" by (auto simp: has_contexts_def)
  let ?rem = "removed \<or> t = ft"
  have "\<exists>b1 c1. (if \<not> removed \<and> t = ft then EraseInProgressRequest t fi b else Some b) = Some b1 \<and>
      sweeping w ts ft fi F b0 ?rem n b1 \<and> new_frame b b1 \<and>
      requestTypeContextLookup b1 t = Some c1 \<and> ctx_pending c1 = ctx_pending c"
  proof (cases "\<not> removed \<and> t = ft")
    case True
    with S have J: "sweep_inv F b" "fin_ok w t fi F b" and w: "worker_at w ts n b" and f0: "new_frame b0 b"
      by (auto simp: sweeping_def left_over_def)
    obtain b1 where b1: "EraseInProgressRequest t fi b = Some b1" "sweep_inv {} b1" "keeps b b1" "inbox b1 = inbox b"
      "workerHeap b1 = workerHeap b" "\<exists>c'. requestTypeContextLookup b1 t = Some c' \<and> ctx_pending c' = ctx_pending c"
      by (rule erase_finished_safe[OF J c])
    have f1: "new_frame b b1" using b1(3,4) by (simp add: new_frame_def)
    have "sweeping w ts ft fi F b0 ?rem n b1"
      using b1(2,5) w new_frame_trans[OF f0 f1] True by (simp add: sweeping_def left_over_def worker_at_def)
    with b1 f1 True show ?thesis by auto
  next
    case False
    then show ?thesis using S c by (auto simp: new_frame_def)
  qed
  then obtain b1 c1 where e: "(if \<not> removed \<and> t = ft then EraseInProgressRequest t fi b else Some b) = Some b1"
    and S1: "sweeping w ts ft fi F b0 ?rem n b1" and f1: "new_frame b b1"
    and c1: "requestTypeContextLookup b1 t = Some c1" "ctx_pending c1 = ctx_pending c" by blast
  from S1 have J1: "sweep_inv (left_over ?rem F) b1" and w1: "worker_at w ts n b1" by (simp_all add: sweeping_def)
  have next_same: "GetNextPendingRequest c1 = GetNextPendingRequest c"
    using c1(2) by (simp add: GetNextPendingRequest_def)
  have h1: "has_contexts (earlier @ [t]) b1"
    using has_contexts_new[OF f1 h] c1(1) by (simp add: has_contexts_def)
  show ?thesis
  proof (cases "GetNextPendingRequest c")
    case None
    obtain b2 where b2: "modContext t (AddAvailableWorker w) b1 = Some b2" "sweep_inv (left_over ?rem F) b2"
      "sweep_frame b1 b2" "worker_at w ts n b2"
      by (rule sweep_modContext_add[OF J1 c1(1) w1 t])
    show ?thesis
      using c None e b2(1) n sweeping_step[OF S1 b2(2-4)] new_frame_trans[OF f1 new_frame_sweep[OF b2(3)]]
      by (auto simp: finishedVisit_def Let_def)
  next
    case (Some r)
    then have "GetNextPendingRequest c1 = Some r" by (simp add: next_same)
    from forward1_sweep[OF E J1 c1(1) this w1 t n] obtain ret b2 where
      f: "forwardWorkerParsedClientRequest1 E w t r b1 = Some (ret, b2)" and J2: "sweep_inv (left_over ?rem F) b2"
      and d2: "sweep_frame b1 b2" and w2: "worker_at w ts (if ret = 0 then n - 1 else n) b2"
      by (auto simp: runs_to_def)
    let ?n = "if ret = 0 then n - 1 else n"
    note S2 = sweeping_step[OF S1 J2 d2 w2]
    have f2: "new_frame b b2" by (rule new_frame_trans[OF f1 new_frame_sweep[OF d2]])
    have h2: "has_contexts (earlier @ [t]) b2" by (rule has_contexts_frame[OF d2 h1])
    then obtain c2 where c2: "requestTypeContextLookup b2 t = Some c2" by (auto simp: has_contexts_def)
    obtain b3 where b3: "modContext t (AddAvailableWorker w) b2 = Some b3" "sweep_inv (left_over ?rem F) b3"
      "sweep_frame b2 b3" "worker_at w ts ?n b3"
      by (rule sweep_modContext_add[OF J2 c2 w2 t])
    note S3 = sweeping_step[OF S2 b3(2-4)] and f3 = new_frame_trans[OF f2 new_frame_sweep[OF b3(3)]]
    obtain c3 where c3: "requestTypeContextLookup b3 t = Some c3"
      using has_contexts_frame[OF b3(3) h2] by (auto simp: has_contexts_def)
    obtain b4 where b4: "removeAvailableUnchecked (earlier @ [t]) w b2 = Some b4" "sweep_inv (left_over ?rem F) b4"
      "sweep_frame b2 b4" "worker_at w ts ?n b4"
      by (rule sweep_removeUnchecked[OF J2 h2 w2])
    note S4 = sweeping_step[OF S2 b4(2-4)] and f4 = new_frame_trans[OF f2 new_frame_sweep[OF b4(3)]]
    consider "ret \<noteq> 0" | "ret = 0" "n - 1 \<le> 0" | "ret = 0" "0 < n - 1" by linarith
    then show ?thesis
    proof cases
      case 1
      then show ?thesis using c Some e f b3(1) n S3 f3 by (auto simp: finishedVisit_def Let_def)
    next
      case 2
      then show ?thesis
        using c Some e f b4(1) S4 f4 worker_at_capacity[OF w2] by (auto simp: finishedVisit_def Let_def)
    next
      case 3
      then show ?thesis
        using c Some e f b3(1) c3 S3 f3 worker_at_capacity[OF w2] by (auto simp: finishedVisit_def Let_def)
    qed
  qed
qed

lemma finishedFirstSweep_safe:
  assumes E: "env_ok E"
  shows "sweeping w ts ft fi F b0 removed n b \<Longrightarrow> 0 < n \<Longrightarrow> set us \<subseteq> set ts \<Longrightarrow> has_contexts (earlier @ us) b \<Longrightarrow>
    runs_to (finishedFirstSweep E w ft fi earlier us removed again b) (\<lambda>(removed', again', b').
      \<exists>n'. sweeping w ts ft fi F b0 removed' n' b')"
proof (induction us arbitrary: earlier removed again b n)
  case Nil
  then show ?case by auto
next
  case (Cons t us)
  have h: "has_contexts earlier b" "has_contexts [t] b" using Cons.prems(4) by (auto simp: has_contexts_def)
  from finishedVisit_safe[OF E Cons.prems(1,2) _ h, of again] Cons.prems(3) obtain go removed1 again1 b1 n1 where
    f: "finishedVisit E w ft fi earlier t removed again b = Some (go, removed1, again1, b1)"
    and S1: "sweeping w ts ft fi F b0 removed1 n1 b1" and n1: "go \<longrightarrow> 0 < n1" and f1: "new_frame b b1"
    by (auto simp: runs_to_def)
  show ?case
  proof (cases go)
    case False
    then show ?thesis using f S1 by auto
  next
    case True
    have "has_contexts ((earlier @ [t]) @ us) b1" using has_contexts_new[OF f1 Cons.prems(4)] by simp
    from Cons.IH[OF S1 _ _ this, of again1] n1 True Cons.prems(3) f show ?thesis by simp
  qed
qed

lemma updateContextsForFinishedWorker_safe:
  assumes E: "env_ok E" and J: "sweep_inv F b" and w: "worker_at w ts n b" and F: "fin_ok w ft fi F b"
    and h: "has_contexts ts b"
  shows "runs_to (updateContextsForFinishedWorker E w ft fi b) (\<lambda>b'. sweep_inv {} b' \<and> new_frame b b')"
proof -
  from w obtain wi where wi: "workerHeap b w = Some wi" "wi_supportedRequestTypes wi = ts" "FreeCapacity wi = n"
    by (auto simp: worker_at_def)
  have S: "sweeping w ts ft fi F b False n b"
    using J w F by (simp add: sweeping_def left_over_def new_frame_def)
  have "runs_to (if FreeCapacity wi > 0 then finishedFirstSweep E w ft fi [] ts False False b else Some (False, False, b))
      (\<lambda>(removed', again', b'). \<exists>n'. sweeping w ts ft fi F b removed' n' b')"
    using finishedFirstSweep_safe[OF E S _ order_refl, of "[]" False] h wi(3) S by auto
  then obtain removed1 again1 b1 n1 where
    f: "(if FreeCapacity wi > 0 then finishedFirstSweep E w ft fi [] ts False False b else Some (False, False, b))
      = Some (removed1, again1, b1)" and S1: "sweeping w ts ft fi F b removed1 n1 b1"
    by (auto simp: runs_to_def)
  from S1 have J1: "sweep_inv (left_over removed1 F) b1" and f1: "new_frame b b1" and w1: "worker_at w ts n1 b1"
    and F1: "\<not> removed1 \<Longrightarrow> fin_ok w ft fi F b1" by (simp_all add: sweeping_def)
  have "\<exists>b2. (if removed1 \<or> requestTypeContextLookup b1 ft = None then Some b1 else EraseInProgressRequest ft fi b1) = Some b2 \<and>
      sweep_inv {} b2 \<and> new_frame b b2 \<and> worker_at w ts n1 b2"
  proof (cases "removed1 \<or> requestTypeContextLookup b1 ft = None")
    case True
    have "sweep_inv {} b1"
    proof (cases removed1)
      case True
      then show ?thesis using J1 by (simp add: left_over_def)
    next
      case False
      with True have no: "requestTypeContextLookup b1 ft = None" by simp
      have "F = {}"
      proof (rule ccontr)
        assume "F \<noteq> {}"
        then obtain r where r: "F = {(w, ft, fi, r)}" using F1 False by (auto simp: fin_ok_def)
        from J1 False have "broker_inv (held b1 \<union> F) b1" by (simp add: sweep_inv_def left_over_def)
        from invD(5)[OF this, of w ft fi r] r no show False by simp
      qed
      then show ?thesis using J1 False by (simp add: left_over_def)
    qed
    with True f1 w1 show ?thesis by auto
  next
    case False
    then obtain c where c: "requestTypeContextLookup b1 ft = Some c" by auto
    have J1': "sweep_inv F b1" using J1 False by (simp add: left_over_def)
    obtain b2 where b2: "EraseInProgressRequest ft fi b1 = Some b2" "sweep_inv {} b2" "keeps b1 b2" "inbox b2 = inbox b1"
      "workerHeap b2 = workerHeap b1" 
      by (rule erase_finished_safe[OF J1' F1 c]) (use False in auto)
    then have "new_frame b b2" by (intro new_frame_trans[OF f1]) (simp add: new_frame_def)
    with b2 False c w1 show ?thesis by (auto simp: worker_at_def)
  qed
  then obtain b2 where e: "(if removed1 \<or> requestTypeContextLookup b1 ft = None then Some b1 else EraseInProgressRequest ft fi b1) = Some b2"
    and J2: "sweep_inv {} b2" and f2: "new_frame b b2" and w2: "worker_at w ts n1 b2" by blast
  have "runs_to (sweepPendingRequests E w again1 b2) (\<lambda>b'. sweep_inv {} b' \<and> new_frame b b')"
    by (rule runs_to_weaken[OF sweepPendingRequests_safe[OF E J2 has_contexts_new[OF f2 h] w2]])
      (use new_frame_trans[OF f2 new_frame_sweep] in blast)
  then show ?thesis
    unfolding updateContextsForFinishedWorker_def wi(1) Option.bind.bind_lunit wi(2) f prod.case e .
qed

section \<open>The message\<close>

definition finished_ok :: "frame \<Rightarrow> RequestType \<Rightarrow> RequestId \<Rightarrow> Broker \<Rightarrow> bool" where
  "finished_ok ident t i b \<longleftrightarrow> (case LookupWorkerInfo (workerInfoLookup b) ident of None \<Rightarrow> True
     | Some w \<Rightarrow> (case requestTypeContextLookup b t of None \<Rightarrow> True
        | Some c \<Rightarrow> (case ctx_requests c i of None \<Rightarrow> True
           | Some r \<Rightarrow> (case workerHeap b w of None \<Rightarrow> False | Some wi \<Rightarrow> (i, r) \<in> set (in_progress wi t)))))"

lemma LookupWorkerInfo_live:
  assumes "broker_ok b" "LookupWorkerInfo (workerInfoLookup b) ident = Some w"
  obtains wi where "workerHeap b w = Some wi" "wi_identity wi = ident"
proof -
  from assms have "(ident, w) \<in> set (workerInfoLookup b)" by (auto simp: LookupWorkerInfo_def dest: map_of_SomeD)
  moreover from assms(1) have "workers_ok b" by (simp add: broker_ok_def invD)
  ultimately show thesis using that workers_okD(4) by blast
qed

text \<open>The times and delays of one worker change.\<close>

lemma update_worker_safe:
  assumes ok: "broker_ok b" and w: "workerHeap b w = Some wi"
    and f: "wi_identity (f wi) = wi_identity wi" "wi_supportedRequestTypes (f wi) = wi_supportedRequestTypes wi"
      "in_progress (f wi) = in_progress wi"
  obtains b' where "modWorker w f b = Some b'" "broker_ok b'" "keeps b b'" "inbox b' = inbox b"
    "workerHeap b' = (workerHeap b)(w \<mapsto> f wi)" "requestTypeContextLookup b' = requestTypeContextLookup b"
    "workerInfoLookup b' = workerInfoLookup b"
proof -
  let ?b = "b\<lparr>workerHeap := (workerHeap b)(w \<mapsto> f wi)\<rparr>"
  from ok have I: "broker_inv (held b) b" by (simp add: broker_ok_def)
  have k: "keeps b ?b" using worker_view_update[OF w, of ?b "f wi"] f by (simp add: keeps_def)
  have "worker_ok (f wi)" using inv_worker_ok[OF I w] f by (simp add: worker_ok_def)
  then have "broker_inv (held b) ?b"
    by (intro inv_same[OF I k]) (use inv_worker_ok[OF I] in \<open>auto split: if_splits\<close>)
  moreover have "held ?b = held b" by (rule held_scalar[OF w _ f(3)]) simp
  ultimately have "broker_ok ?b" by (simp add: broker_ok_def)
  with k show thesis using that[of ?b] w by (simp add: modWorker_Some)
qed

lemma workerFinished_safe:
  assumes E: "env_ok E" and ok: "broker_ok b" and cov: "covered b" and fin: "finished_ok ident t i b"
  shows "runs_to (workerFinished E ident t i b) (\<lambda>b'. broker_ok b' \<and> covered b' \<and> inbox b' = inbox b)"
proof (cases "LookupWorkerInfo (workerInfoLookup b) ident")
  case None
  then show ?thesis using ok cov by (simp add: workerFinished_def)
next
  case (Some w)
  obtain wi where wi: "workerHeap b w = Some wi" by (rule LookupWorkerInfo_live[OF ok Some])
  let ?wi1 = "UpdateWorkerLastActive (currentTime b) wi"
  obtain b1 where b1: "modWorker w (UpdateWorkerLastActive (currentTime b)) b = Some b1" "broker_ok b1" "keeps b b1"
    "inbox b1 = inbox b" "workerHeap b1 = (workerHeap b)(w \<mapsto> ?wi1)"
    "requestTypeContextLookup b1 = requestTypeContextLookup b"
    by (rule update_worker_safe[OF ok wi, of "UpdateWorkerLastActive (currentTime b)"]) simp_all
  let ?wi2 = "WorkerInfo_RemoveInProgressRequest t i ?wi1"
  define b2 where "b2 = b1\<lparr>workerHeap := (workerHeap b1)(w \<mapsto> ?wi2)\<rparr>"
  have w1: "workerHeap b1 w = Some ?wi1" using b1(5) by simp
  have e2: "modWorker w (WorkerInfo_RemoveInProgressRequest t i) b1 = Some b2" using w1 by (simp add: modWorker_Some b2_def)
  have k2: "keeps b1 b2" using worker_view_update[OF w1, of b2 ?wi2] by (simp add: keeps_def b2_def)
  let ?F = "{x \<in> held b1. \<exists>r. x = (w, t, i, r)}"
  have h2: "held b2 = held b1 - ?F"
    using held_remove[OF w1, of b2 ?wi2 t i] by (auto simp: b2_def)
  from b1(2) have I1: "broker_inv (held b1) b1" by (simp add: broker_ok_def)
  have "broker_inv (held b1) b2"
    by (rule inv_same[OF I1 k2]) (use inv_worker_ok[OF I1] w1 in \<open>auto simp: b2_def worker_ok_update split: if_splits\<close>)
  moreover have "held b2 \<union> ?F = held b1" using h2 by auto
  ultimately have J2: "sweep_inv ?F b2" using h2 by (auto simp: sweep_inv_def)
  have F2: "fin_ok w t i ?F b2"
  proof (cases "?F = {}")
    case False
    then obtain r where r: "(w, t, i, r) \<in> held b1" by blast
    have "r' = r" if "(w, t, i, r') \<in> held b1" for r'
      by (rule holdingE[OF I1 r]) (use that in blast)
    with r have "?F = {(w, t, i, r)}" by blast
    then show ?thesis by (auto simp: fin_ok_def)
  next
    case True
    have "ctx_requests c i = None" if "requestTypeContextLookup b2 t = Some c" for c
    proof (rule ccontr)
      assume "ctx_requests c i \<noteq> None"
      then obtain r where r: "ctx_requests c i = Some r" by auto
      have "requestTypeContextLookup b t = Some c" using that b1(6) by (simp add: b2_def)
      with fin Some wi r have "(i, r) \<in> set (in_progress wi t)" by (simp add: finished_ok_def)
      then have "(w, t, i, r) \<in> held b1" using w1 by (simp add: held_iff)
      with True show False by blast
    qed
    with True show ?thesis by (simp add: fin_ok_def)
  qed
  have cov2: "covered b2" by (rule covered_keeps[OF keeps_trans[OF b1(3) k2] cov])
  have w2: "worker_at w (wi_supportedRequestTypes wi) (FreeCapacity ?wi2) b2"
    by (simp add: worker_at_def b2_def)
  have c2: "has_contexts (wi_supportedRequestTypes wi) b2"
    using coveredD[OF cov2, of w ?wi2] by (auto simp: has_contexts_def b2_def)
  from updateContextsForFinishedWorker_safe[OF E J2 w2 F2 c2] obtain b3 where
    f: "updateContextsForFinishedWorker E w t i b2 = Some b3" "sweep_inv {} b3" "new_frame b2 b3"
    by (auto simp: runs_to_def)
  then have "broker_ok b3" "covered b3" "inbox b3 = inbox b"
    using covered_keeps[OF _ cov2] b1(4) by (simp_all add: broker_ok_def sweep_inv_def new_frame_def b2_def)
  then show ?thesis using Some b1(1) e2 f(1) by (simp add: workerFinished_def)
qed

definition finished_msg_ok :: "env \<Rightarrow> frame \<Rightarrow> zmsg \<Rightarrow> Broker \<Rightarrow> bool" where
  "finished_msg_ok E ident m b \<longleftrightarrow>
     (case parseWorkerFinished E m of Parsed (vfs, t, i) \<Rightarrow> finished_ok ident t i b | _ \<Rightarrow> True)"

lemma sendOrDestroy_inbox:
  assumes "env_ok E" "inbox b = Some m"
  shows "sendOrDestroy E Frontend Inbox b = Some (0, b\<lparr>inbox := None, sends := sends b @ [(Frontend, m, 0)]\<rparr>)"
  using assms by (simp add: sendOrDestroy_def SendMsg_def Send_front)

lemma broker_ok_sends [simp]: "broker_ok (b\<lparr>sends := h\<rparr>) \<longleftrightarrow> broker_ok b"
  by (simp add: broker_ok_def)

lemma finished_ok_fields [simp]:
  "finished_ok ident t i (b\<lparr>inbox := m\<rparr>) = finished_ok ident t i b"
  "finished_ok ident t i (b\<lparr>sends := h\<rparr>) = finished_ok ident t i b"
  by (simp_all add: finished_ok_def cong: option.case_cong)

lemma finished_msg_ok_inbox [simp]: "finished_msg_ok E ident m (b\<lparr>inbox := x\<rparr>) = finished_msg_ok E ident m b"
  unfolding finished_msg_ok_def by (auto split: parsed.splits)

lemma handleWorkerFinished_safe:
  assumes E: "env_ok E" and ok: "broker_ok b" and cov: "covered b" and m: "inbox b = Some m"
    and fin: "finished_msg_ok E ident m b"
  shows "runs_to (handleWorkerFinished E ident b) (callback_ok b)"
proof (cases "parseWorkerFinished E m")
  case (Malformed n)
  then show ?thesis using m callback_gone[OF ok] by (simp add: handleWorkerFinished_def)
next
  case Throws
  then show ?thesis using m callback_thrown[OF ok] by (simp add: handleWorkerFinished_def)
next
  case (Parsed x)
  obtain vfs t i where x: "x = (vfs, t, i)" by (cases x) auto
  have fin': "finished_ok ident t i b" using fin Parsed x by (simp add: finished_msg_ok_def)
  let ?b = "if hasAny vfs Asynchronous then b\<lparr>inbox := None\<rparr> else b\<lparr>inbox := None, sends := sends b @ [(Frontend, m, 0)]\<rparr>"
  have e: "(if hasAny vfs Asynchronous then Some (0, b\<lparr>inbox := None\<rparr>) else sendOrDestroy E Frontend Inbox b) = Some (0, ?b)"
    using sendOrDestroy_inbox[OF E m] by simp
  have "runs_to (workerFinished E ident t i ?b) (\<lambda>b'. broker_ok b' \<and> covered b' \<and> inbox b' = inbox ?b)"
    by (rule workerFinished_safe[OF E]) (use ok cov fin' in simp_all)
  then obtain b' where f: "workerFinished E ident t i ?b = Some b'" and b': "broker_ok b'" "covered b'" "inbox b' = None"
    by (auto simp: runs_to_def split: if_splits)
  have "handleWorkerFinished E ident b = Some (Returns 0, b')"
    using m Parsed x e f by (simp add: handleWorkerFinished_def split: if_splits)
  then show ?thesis using b' by (simp add: callback_ok_def)
qed

section \<open>Heartbeats, receipts, the rest\<close>

text \<open>After a callback whose message may still be around.\<close>

definition stays_ok :: "Broker \<Rightarrow> outcome \<times> Broker \<Rightarrow> bool" where
  "stays_ok b = (\<lambda>(res, b'). broker_ok b' \<and> (covered b \<longrightarrow> covered b'))"

lemma stays_ok_callback: "callback_ok b x \<Longrightarrow> stays_ok b x"
  by (auto simp: stays_ok_def callback_ok_def)

lemma stays_ok_keeps: "broker_ok b' \<Longrightarrow> keeps b b' \<Longrightarrow> stays_ok b (res, b')"
  by (auto simp: stays_ok_def intro: covered_keeps)

lemma handleWorkerHeartbeat_safe:
  assumes ok: "broker_ok b" and m: "inbox b = Some m"
  shows "runs_to (handleWorkerHeartbeat E ident b) (stays_ok b)"
proof (cases "LookupWorkerInfo (workerInfoLookup b) ident")
  case None
  then show ?thesis using m ok by (simp add: handleWorkerHeartbeat_def stays_ok_def)
next
  case (Some w)
  obtain wi where wi: "workerHeap b w = Some wi" by (rule LookupWorkerInfo_live[OF ok Some])
  show ?thesis
  proof (cases "parseWorkerHeartbeat E (currentTime b) (minimumWorkerHeartbeatDelay b) m")
    case (Parsed x)
    obtain s d where x: "x = (s, d)" by (cases x)
    obtain b1 where b1: "modWorker w (UpdateWithHeartbeat (currentTime b) s d) b = Some b1" "broker_ok b1" "keeps b b1"
      by (rule update_worker_safe[OF ok wi, of "UpdateWithHeartbeat (currentTime b) s d"]) simp_all
    have "stays_ok b (Returns 0, b1\<lparr>inbox := None\<rparr>)"
      by (rule stays_ok_keeps) (use b1 in \<open>auto intro: keeps_trans\<close>)
    then show ?thesis using Some m Parsed x b1(1) by (simp add: handleWorkerHeartbeat_def)
  qed (use Some m ok stays_ok_keeps in \<open>simp_all add: handleWorkerHeartbeat_def\<close>)
qed

lemma handleWorkerReceipt_safe:
  assumes E: "env_ok E" and ok: "broker_ok b" and m: "inbox b = Some m"
  shows "runs_to (returning (handleWorkerReceipt E ident b)) (callback_ok b)"
proof (cases "LookupWorkerInfo (workerInfoLookup b) ident")
  case None
  then show ?thesis
    using done_with_callback[OF done_with_sent(1)[OF ok]] sendOrDestroy_inbox[OF E m]
    by (simp add: handleWorkerReceipt_def returning_def)
next
  case (Some w)
  obtain wi where wi: "workerHeap b w = Some wi" by (rule LookupWorkerInfo_live[OF ok Some])
  obtain b1 where b1: "modWorker w (UpdateWorkerLastActive (currentTime b)) b = Some b1" "broker_ok b1" "keeps b b1"
    "inbox b1 = inbox b"
    by (rule update_worker_safe[OF ok wi, of "UpdateWorkerLastActive (currentTime b)"]) simp_all
  have "inbox b1 = Some m" using b1(4) m by simp
  note s = sendOrDestroy_inbox[OF E this]
  have "callback_ok b (Returns 0, b1\<lparr>inbox := None, sends := h\<rparr>)" for h
    using done_with_after[OF b1(3) done_with_sent(1)[OF b1(2)]] by (rule done_with_callback)
  then show ?thesis using Some b1(1) s by (simp add: handleWorkerReceipt_def returning_def)
qed

text \<open>What the broker trusts its workers with: distinct types, and only requests they were given.\<close>

definition trusted_worker_message :: "env \<Rightarrow> Broker \<Rightarrow> zmsg \<Rightarrow> bool" where
  "trusted_worker_message E b m \<longleftrightarrow> (case m of
     ident # delimiter # type # rest \<Rightarrow>
       (case get_u32 E type of
          None \<Rightarrow> True
        | Some ty \<Rightarrow> (ty = ClusterMessage_value WorkerReady \<longrightarrow> ready_types_ok E rest) \<and>
                    (ty = ClusterMessage_value WorkerFinished \<longrightarrow> finished_msg_ok E ident rest b))
   | _ \<Rightarrow> True)"

lemma handleBackendMessage_msg_safe:
  assumes E: "env_ok E" and ok: "broker_ok b" and cov: "covered b" and m: "inbox b = Some m"
    and tr: "trusted_worker_message E b m"
  shows "runs_to (handleBackendMessage_msg E b) (stays_ok b)"
proof -
  have gone: "stays_ok b (Returns n, b\<lparr>inbox := None\<rparr>)" for n
    by (rule stays_ok_callback[OF callback_gone[OF ok]])
  consider (short) "\<not> (\<exists>ident type rest. m = ident # [] # type # rest \<and> ident \<noteq> [] \<and> type \<noteq> [])"
    | (whole) ident type rest where "m = ident # [] # type # rest" "ident \<noteq> []" "type \<noteq> []" by blast
  then show ?thesis
  proof cases
    case short
    then show ?thesis
      using m gone by (cases m; cases "tl m"; cases "tl (tl m)")
        (auto simp: handleBackendMessage_msg_def env_laws[OF E] Let_def)
  next
    case whole
    let ?b = "b\<lparr>inbox := Some rest\<rparr>"
    have ok1: "broker_ok ?b" "covered ?b" "inbox ?b = Some rest" using ok cov by simp_all
    have up: "stays_ok ?b x \<Longrightarrow> stays_ok b x" for x by (auto simp: stays_ok_def)
    show ?thesis
    proof (cases "get_u32 E type")
      case None
      then show ?thesis using m whole ok1 by (simp add: handleBackendMessage_msg_def env_laws[OF E] Let_def stays_ok_def cov)
    next
      case (Some ty)
      have "runs_to (dispatchBackendMessage E ident ty ?b) (stays_ok ?b)"
      proof -
        have r: "ty = ClusterMessage_value WorkerReady \<Longrightarrow> ready_types_ok E rest"
          and f: "ty = ClusterMessage_value WorkerFinished \<Longrightarrow> finished_msg_ok E ident rest ?b"
          using tr whole Some by (simp_all add: trusted_worker_message_def)
        have "stays_ok ?b (Returns 0, ?b\<lparr>inbox := None\<rparr>)" by (rule stays_ok_callback[OF callback_gone[OF ok1(1)]])
        then show ?thesis
          unfolding dispatchBackendMessage_def
          using runs_to_weaken[OF handleWorkerReceipt_safe[OF E ok1(1,3)] stays_ok_callback]
            handleWorkerHeartbeat_safe[OF ok1(1,3)]
            runs_to_weaken[OF handleWorkerReady_safe[OF E ok1(1,3) r] stays_ok_callback]
            runs_to_weaken[OF handleWorkerFinished_safe[OF E ok1 f] stays_ok_callback]
          by simp
      qed
      then have "runs_to (dispatchBackendMessage E ident ty ?b) (stays_ok b)" by (rule runs_to_weaken) (rule up)
      then show ?thesis using m whole Some by (simp add: handleBackendMessage_msg_def env_laws[OF E] Let_def)
    qed
  qed
qed

lemma sendWorkerHeartbeat_safe:
  assumes E: "env_ok E" and ok: "broker_ok b" and wi: "workerHeap b w = Some wi"
  shows "runs_to (sendWorkerHeartbeat E w b) (\<lambda>(ret, b'). ret = 0 \<and> broker_ok b' \<and> keeps b b' \<and> inbox b' = inbox b)"
proof -
  let ?m = "[wi_identity wi, [], enc_u32 E (ClusterMessage_value BrokerHeartbeat), enc_time E (currentTime b), enc_time E (selfHeartbeatDelay b)]"
  have hb: "SendHeartbeat E (sends b) Backend (currentTime b) (selfHeartbeatDelay b) (ClusterMessage_value BrokerHeartbeat)
      (zmsg_prepend E (zmsg_new E) (wi_identity wi)) = Send E (sends b) Backend ?m"
    using E by (simp add: SendHeartbeat_eq env_okD env_laws)
  show ?thesis
  proof (cases rule: Send_cases[OF env_okD(3)[OF E], where h = "sends b" and s = Backend and m = ?m, case_names sent kept])
    case sent
    let ?b = "b\<lparr>sends := sends b @ [(Backend, ?m, 0)]\<rparr>"
    have "broker_ok ?b" "workerHeap ?b w = Some wi" using ok wi by simp_all
    from update_worker_safe[OF this, of "UpdateBrokerLastActive (currentTime b)"] obtain b1 where
      b1: "modWorker w (UpdateBrokerLastActive (currentTime b)) ?b = Some b1" "broker_ok b1" "keeps ?b b1" "inbox b1 = inbox ?b"
      by (metis wi_frame_simps(1,6,11))
    then show ?thesis
      using wi hb sent keeps_trans[OF keeps_sends b1(3)] by (simp add: sendWorkerHeartbeat_def Let_def)
  next
    case (kept r)
    then show ?thesis using wi hb ok by (simp add: sendWorkerHeartbeat_def Let_def)
  qed
qed

lemma sendWorkerHeartbeats_loop_safe:
  assumes E: "env_ok E"
  shows "broker_ok b \<Longrightarrow> set ws \<subseteq> dom (workerHeap b) \<Longrightarrow>
    runs_to (sendWorkerHeartbeats_loop E ws ret b) (\<lambda>(_, b'). broker_ok b' \<and> keeps b b' \<and> inbox b' = inbox b)"
proof (induction ws arbitrary: ret b)
  case Nil
  then show ?case by simp
next
  case (Cons w ws)
  from Cons.prems(2) obtain wi where wi: "workerHeap b w = Some wi" by auto
  have "runs_to (if IsHeartbeatNeededAsOf wi (currentTime b) then sendWorkerHeartbeat E w b else Some (ret, b))
    (\<lambda>(ret, b'). broker_ok b' \<and> keeps b b' \<and> inbox b' = inbox b)"
    using sendWorkerHeartbeat_safe[OF E Cons.prems(1) wi] Cons.prems(1) by (auto elim!: runs_to_weaken)
  then obtain ret1 b1 where f: "(if IsHeartbeatNeededAsOf wi (currentTime b) then sendWorkerHeartbeat E w b else Some (ret, b)) = Some (ret1, b1)"
    and b1: "broker_ok b1" "keeps b b1" "inbox b1 = inbox b" by (auto simp: runs_to_def)
  have "set ws \<subseteq> dom (workerHeap b1)" using Cons.prems(2) keeps_dom[OF b1(2)] by simp
  from Cons.IH[OF b1(1) this, of ret1] show ?case
    unfolding sendWorkerHeartbeats_loop.simps wi Option.bind.bind_lunit f
    using b1(2,3) by (auto elim!: runs_to_weaken intro: keeps_trans)
qed

lemma sendWorkerHeartbeats_safe:
  assumes "env_ok E" "broker_ok b"
  shows "runs_to (sendWorkerHeartbeats E b) (\<lambda>(_, b'). broker_ok b' \<and> keeps b b' \<and> inbox b' = inbox b)"
proof -
  from assms(2) have "set (map snd (workerInfoLookup b)) \<subseteq> dom (workerHeap b)"
    using workers_okD(3)[OF invD(1)] by (auto simp: broker_ok_def)
  then show ?thesis
    using sendWorkerHeartbeats_loop_safe[OF assms] by (simp add: sendWorkerHeartbeats_def)
qed

end
