(* ===== verification/SafeMachine.thy ===== *)
theory SafeMachine
  imports Main
begin

text \<open>
  The contract between a component and the reactor it runs in: in a good state, every callback the
  component trusts returns and leaves a good state. Then so does every run of the reactor loop.
\<close>

section \<open>Safe machines\<close>

locale safe_machine =
  fixes step :: "'e \<Rightarrow> 's \<Rightarrow> (int \<times> 's) option"
    and good :: "'s \<Rightarrow> bool"
    and trusted :: "'e \<Rightarrow> 's \<Rightarrow> bool"
  assumes step_good: "good s \<Longrightarrow> trusted e s \<Longrightarrow> \<exists>ret s'. step e s = Some (ret, s') \<and> good s'"
begin

primrec machine_run :: "'e list \<Rightarrow> 's \<Rightarrow> (bool \<times> 's) option" where
  "machine_run [] s = Some (False, s)"
| "machine_run (e # es) s = (case step e s of None \<Rightarrow> None
     | Some (ret, s') \<Rightarrow> if ret = -1 then Some (True, s') else machine_run es s')"

primrec trusted_along :: "'e list \<Rightarrow> 's \<Rightarrow> bool" where
  "trusted_along [] s = True"
| "trusted_along (e # es) s \<longleftrightarrow> trusted e s \<and>
     (case step e s of None \<Rightarrow> True | Some (ret, s') \<Rightarrow> ret = -1 \<or> trusted_along es s')"

lemma run_good: "good s \<Longrightarrow> trusted_along es s \<Longrightarrow> \<exists>ended s'. machine_run es s = Some (ended, s') \<and> good s'"
proof (induction es arbitrary: s)
  case Nil
  then show ?case by auto
next
  case (Cons e es)
  from Cons.prems obtain ret s' where s': "step e s = Some (ret, s')" "good s'"
    using step_good by fastforce
  show ?case
  proof (cases "ret = -1")
    case True
    with s' show ?thesis by auto
  next
    case False
    with Cons.prems(2) s' have "trusted_along es s'" by simp
    from Cons.IH[OF s'(2) this] s' False show ?thesis by simp
  qed
qed

lemma run_prefix: "machine_run (es @ fs) s = (case machine_run es s of None \<Rightarrow> None
    | Some (ended, s') \<Rightarrow> if ended then Some (True, s') else machine_run fs s')"
  by (induction es arbitrary: s) (simp_all split: option.splits)

end

end
