(* ===== verification/BrokerSystem.thy ===== *)
theory BrokerSystem
  imports BrokerFinished SafeMachine
begin

text \<open>
  The broker as a machine driven by its reactor: the states it can reach, that no callback has
  undefined behaviour or runs forever in any of them, and that every one is well formed. The
  hypotheses are the documented behaviour of CZMQ and protobuf (\<open>env_ok\<close>) and what the broker
  trusts its peers with (\<open>trusted_event\<close>).
\<close>

section \<open>The broker\<close>

definition system_ok :: "Broker \<Rightarrow> bool" where
  "system_ok b \<longleftrightarrow> broker_ok b \<and> covered b"

text \<open>
  Clients do not combine \<open>AllowRedirect\<close> with \<open>RetryOnDeath\<close>; workers announce each type once and
  report as finished what they were given.
\<close>

fun trusted_event :: "env \<Rightarrow> event \<Rightarrow> Broker \<Rightarrow> bool" where
  "trusted_event E (FrontendReadable now (Some m)) b = client_flags_ok E (without_type m)"
| "trusted_event E (BackendReadable now (Some m)) b = trusted_worker_message E b m"
| "trusted_event E _ b = True"

lemma system_ok_new: "system_ok (Broker_new d m p)"
  by (simp add: system_ok_def broker_ok_def broker_inv_def Broker_new_def held_def workers_ok_def
      contexts_apart_def covered_def)

lemma trusted_worker_message_fields [simp]:
  "trusted_worker_message E (b\<lparr>inbox := x\<rparr>) m = trusted_worker_message E b m"
  unfolding trusted_worker_message_def by (auto split: list.splits option.splits)

lemma trusted_worker_message_now [simp]:
  "trusted_worker_message E (updateCurrentTime n b) m = trusted_worker_message E b m"
  unfolding trusted_worker_message_def finished_msg_ok_def finished_ok_def updateCurrentTime_def
  by (auto split: list.splits option.splits parsed.splits)

lemma stays_ok_system: "system_ok b \<Longrightarrow> stays_ok b (res, b') \<Longrightarrow> system_ok b'"
  by (auto simp: stays_ok_def system_ok_def)

lemma frontend_safe:
  assumes E: "env_ok E" and ok: "system_ok b" and tr: "trusted_event E (FrontendReadable now received) b"
  shows "runs_to (handleFrontendMessage E now received b) (\<lambda>(res, b'). system_ok b' \<and>
    (res \<noteq> Thrown \<longrightarrow> received \<noteq> None \<longrightarrow> inbox b' = None))"
proof (cases received)
  case None
  then show ?thesis using ok by (simp add: handleFrontendMessage_def system_ok_def)
next
  case (Some m)
  let ?b = "(updateCurrentTime now b)\<lparr>inbox := Some m\<rparr>"
  have "runs_to (handleFrontendMessage_msg E ?b) (callback_ok ?b)"
    by (rule handleFrontendMessage_msg_safe[OF E]) (use ok tr Some in \<open>simp_all add: system_ok_def\<close>)
  then obtain res b' where r: "handleFrontendMessage_msg E ?b = Some (res, b')" "callback_ok ?b (res, b')"
    by (auto simp: runs_to_def)
  then have "system_ok b'" "res \<noteq> Thrown \<Longrightarrow> inbox b' = None"
    using stays_ok_system[OF _ stays_ok_callback[OF r(2)]] ok by (auto simp: system_ok_def callback_ok_def)
  then show ?thesis
    using r(1) Some by (auto simp: handleFrontendMessage_def Let_def only_negative_def split: outcome.splits)
qed

lemma backend_safe:
  assumes E: "env_ok E" and ok: "system_ok b" and tr: "trusted_event E (BackendReadable now received) b"
  shows "runs_to (handleBackendMessage E now received b) (\<lambda>(res, b'). system_ok b')"
proof (cases received)
  case None
  then show ?thesis using ok by (simp add: handleBackendMessage_def system_ok_def)
next
  case (Some m)
  let ?b = "(updateCurrentTime now b)\<lparr>inbox := Some m\<rparr>"
  have "runs_to (handleBackendMessage_msg E ?b) (stays_ok ?b)"
    by (rule handleBackendMessage_msg_safe[OF E]) (use ok tr Some in \<open>simp_all add: system_ok_def\<close>)
  then obtain res b' where r: "handleBackendMessage_msg E ?b = Some (res, b')" "stays_ok ?b (res, b')"
    by (auto simp: runs_to_def)
  then have "system_ok b'" using stays_ok_system[OF _ r(2)] ok by (simp add: system_ok_def)
  then show ?thesis using r(1) Some by (simp add: handleBackendMessage_def Let_def)
qed

lemma covered_unregister: "covered b \<Longrightarrow> covered (unregisterWorker ident w b)"
  by (auto simp: covered_def)

lemma checkWorkersPulse_loop_covered:
  assumes E: "env_ok E"
  shows "broker_ok b \<Longrightarrow> covered b \<Longrightarrow> set rest \<subseteq> set (workerInfoLookup b) \<Longrightarrow> distinct (map fst rest) \<Longrightarrow>
    checkWorkersPulse_loop E rest ret b = Some (ret', b') \<Longrightarrow> covered b'"
proof (induction rest arbitrary: ret b)
  case Nil
  then show ?case by simp
next
  case (Cons p rest)
  obtain ident w where p: "p = (ident, w)" by (cases p)
  from Cons.prems(1) have I: "broker_inv (held b) b" by (simp add: broker_ok_def)
  have l: "(ident, w) \<in> set (workerInfoLookup b)" using Cons.prems(3) p by simp
  then obtain wi where wi: "workerHeap b w = Some wi" using workers_okD(4)[OF invD(1)[OF I]] by blast
  show ?case
  proof (cases "IsAliveAsOf wi (currentTime b) (workerDeathDelay b)")
    case True
    with Cons wi p show ?thesis by simp
  next
    case False
    from handleWorkerDeath_safe[OF E Cons.prems(1) wi l] obtain ret1 b1 where
      f: "handleWorkerDeath E w b = Some (ret1, b1)" and ok1: "broker_ok (unregisterWorker ident w b1)"
      and k: "keeps b b1" by (auto simp: runs_to_def)
    have "set rest \<subseteq> set (workerInfoLookup (unregisterWorker ident w b1))"
      using Cons.prems(3,4) p k by (force simp: keeps_def set_erase_key)
    from Cons.IH[OF ok1 covered_unregister[OF covered_keeps[OF k Cons.prems(2)]] this, of ret1] Cons.prems(4,5) f wi False p
    show ?thesis by simp
  qed
qed

lemma pulse_safe:
  assumes E: "env_ok E" and ok: "system_ok b"
  shows "runs_to (checkWorkersPulse E b) (\<lambda>(_, b'). system_ok b' \<and> inbox b' = inbox b)"
proof -
  from ok have ok': "broker_ok b" "covered b" by (simp_all add: system_ok_def)
  then have d: "distinct (map fst (workerInfoLookup b))" using workers_okD(1)[OF invD(1)] by (auto simp: broker_ok_def)
  from checkWorkersPulse_safe[OF E ok'(1)] obtain ret b' where
    f: "checkWorkersPulse E b = Some (ret, b')" "broker_ok b'" "inbox b' = inbox b" by (auto simp: runs_to_def)
  moreover have "covered b'"
    using checkWorkersPulse_loop_covered[OF E ok' order_refl d] f(1) by (simp add: checkWorkersPulse_def)
  ultimately show ?thesis by (simp add: system_ok_def)
qed

lemma heartbeats_safe:
  assumes E: "env_ok E" and ok: "system_ok b"
  shows "runs_to (sendWorkerHeartbeats E b) (\<lambda>(_, b'). system_ok b' \<and> inbox b' = inbox b)"
  using sendWorkerHeartbeats_safe[OF E, of b] ok covered_keeps
  by (auto simp: system_ok_def elim!: runs_to_weaken)

lemma system_ok_now [simp]: "system_ok (updateCurrentTime n b) \<longleftrightarrow> system_ok b"
  by (simp add: system_ok_def)

lemma reactor_step_good:
  assumes E: "env_ok E" and ok: "system_ok b" and tr: "trusted_event E e b"
  shows "\<exists>ret b'. reactor_step E e b = Some (ret, b') \<and> system_ok b'"
proof (cases e)
  case (FrontendReadable now m)
  then show ?thesis
    using frontend_safe[OF E ok] tr by (force simp: runs_to_def frontendMessagingReactor_def catching_def)
next
  case (BackendReadable now m)
  then show ?thesis
    using backend_safe[OF E ok] tr by (force simp: runs_to_def backendMessagingReactor_def catching_def)
next
  case (HeartbeatTimer now)
  then show ?thesis
    using heartbeats_safe[OF E, of "updateCurrentTime now b"] ok
    by (force simp: runs_to_def heartbeatWorkersReactor_def catching_def returning_def)
next
  case (PulseTimer now)
  then show ?thesis
    using pulse_safe[OF E, of "updateCurrentTime now b"] ok
    by (force simp: runs_to_def checkWorkersPulseReactor_def catching_def returning_def)
next
  case (DumpStatsTimer now)
  then show ?thesis using ok by (simp add: dumpStatsBrokerReactor_def)
next
  case ControllerReadable
  then show ?thesis using ok by (simp add: brokerPrimaryControllerReactor_def)
qed

interpretation broker: safe_machine "reactor_step E" system_ok "\<lambda>e b. env_ok E \<and> trusted_event E e b" for E
  by unfold_locales (blast intro: reactor_step_good)

lemma zloop_run_machine: "zloop_run E es b = broker.machine_run E es b"
proof (induction es arbitrary: b)
  case Nil
  then show ?case by simp
next
  case (Cons e es)
  then show ?case by (cases "reactor_step E e b") auto
qed

section \<open>The states the broker reaches\<close>

inductive reachable :: "env \<Rightarrow> Broker \<Rightarrow> bool" for E where
  constructed: "reachable E (Broker_new heartbeatDelay minimumDelay pulseDelay)"
| callback: "reachable E b \<Longrightarrow> trusted_event E e b \<Longrightarrow> reactor_step E e b = Some (ret, b') \<Longrightarrow> reachable E b'"

lemma reachable_ok: "reachable E b \<Longrightarrow> env_ok E \<Longrightarrow> system_ok b"
proof (induction rule: reachable.induct)
  case (constructed d m p)
  show ?case by (rule system_ok_new)
next
  case (callback b e ret b')
  then show ?case using reactor_step_good by fastforce
qed

end
