(* ===== verification/BrokerRequests.thy ===== *)
theory BrokerRequests
  imports BrokerSystem
begin

text \<open>
  What a client's message does, from the reactor callback down to the messages that leave the
  broker: the effect of every branch of \<open>forwardParsedClientRequest\<close> on the wire and on the
  state, heartbeats, and the messages that are dropped.
\<close>

section \<open>Requests on the wire\<close>

text \<open>\<open>envelope | null | version and flags | type | id | body\<close>, and with the message type.\<close>

definition request_frames :: "env \<Rightarrow> frame list \<Rightarrow> LHCVersionFlags \<Rightarrow> RequestType \<Rightarrow> RequestId \<Rightarrow> zmsg \<Rightarrow> zmsg" where
  "request_frames E sender vfs t i body = sender @ [] # enc_vfs E vfs # enc_u32 E t # enc_u64 E i # body"

definition client_request :: "env \<Rightarrow> frame list \<Rightarrow> LHCVersionFlags \<Rightarrow> RequestType \<Rightarrow> RequestId \<Rightarrow> zmsg \<Rightarrow> zmsg" where
  "client_request E sender vfs t i body =
     sender @ [] # enc_u32 E (ClusterMessage_value ClientNewRequest) # enc_vfs E vfs # enc_u32 E t # enc_u64 E i # body"

definition is_envelope :: "frame list \<Rightarrow> bool" where
  "is_envelope fs \<longleftrightarrow> [] \<notin> set fs"

lemma envelope_split:
  assumes "is_envelope fs"
  shows "delimited (fs @ [] # rest)" "envelope (fs @ [] # rest) = fs" "after_envelope (fs @ [] # rest) = rest"
proof -
  have ne: "\<forall>f \<in> set fs. f \<noteq> []" using assms by (auto simp: is_envelope_def)
  show "delimited (fs @ [] # rest)" by (auto simp: delimited_def)
  show "envelope (fs @ [] # rest) = fs" using ne by (simp add: envelope_def takeWhile_append)
  show "after_envelope (fs @ [] # rest) = rest" using ne by (simp add: after_envelope_def dropWhile_append)
qed

lemma request_envelope:
  assumes "is_envelope sender"
  shows "envelope (request_frames E sender vfs t i body) = sender" "whole_header (request_frames E sender vfs t i body)"
  using envelope_split[OF assms] by (simp_all add: request_frames_def whole_header_def)

lemma without_type_request:
  "is_envelope sender \<Longrightarrow> without_type (client_request E sender vfs t i body) = request_frames E sender vfs t i body"
  using envelope_split by (simp add: without_type_def client_request_def request_frames_def)

lemma parse_request_frames:
  assumes "env_ok E" "is_envelope sender"
  shows "parseClientRequest E (request_frames E sender vfs t i body) = Parsed (vfs, t, i)"
proof -
  have ne: "enc_vfs E vfs \<noteq> []" "enc_u32 E t \<noteq> []" "enc_u64 E i \<noteq> []"
    using enc_nonempty[OF env_okD(2)[OF assms(1)]] by simp_all
  then show ?thesis
    using assms envelope_split[OF assms(2)]
    by (simp add: parseClientRequest_def skip_envelope_eq request_frames_def env_laws)
qed

definition receiving :: "time_t \<Rightarrow> zmsg \<Rightarrow> Broker \<Rightarrow> Broker" where
  "receiving now m b = (updateCurrentTime now b)\<lparr>inbox := Some m\<rparr>"

lemma receiving_fields [simp]:
  "inbox (receiving now m b) = Some m" "currentTime (receiving now m b) = now"
  "requestTypeContextLookup (receiving now m b) = requestTypeContextLookup b"
  "requestHeap (receiving now m b) = requestHeap b" "workerHeap (receiving now m b) = workerHeap b"
  "workerInfoLookup (receiving now m b) = workerInfoLookup b" "sends (receiving now m b) = sends b"
  "nextAddr (receiving now m b) = nextAddr b" "selfHeartbeatDelay (receiving now m b) = selfHeartbeatDelay b"
  "workerDeathDelay (receiving now m b) = workerDeathDelay b"
  "minimumWorkerHeartbeatDelay (receiving now m b) = minimumWorkerHeartbeatDelay b"
  by (simp_all add: receiving_def updateCurrentTime_def)

lemma without_type_at:
  assumes "env_ok E" "is_envelope sender"
  shows "zmsg_remove E (sender @ [] # f # rest) (Suc (length sender)) = sender @ [] # rest"
  using assms by (simp add: env_laws)

lemma frontend_request:
  assumes E: "env_ok E" and s: "is_envelope sender"
  shows "frontendMessagingReactor E now (Some (client_request E sender vfs t i body)) b =
    map_option (\<lambda>(ret, b'). (0, b'))
      (forwardParsedClientRequest E vfs t i (receiving now (request_frames E sender vfs t i body) b))"
proof -
  let ?m = "client_request E sender vfs t i body"
  have ne: "enc_u32 E (ClusterMessage_value ClientNewRequest) \<noteq> []"
    using enc_nonempty[OF env_okD(2)[OF E]] by simp
  have rem: "zmsg_remove E ?m (Suc (length sender)) = request_frames E sender vfs t i body"
    using without_type_at[OF E s] by (simp add: client_request_def request_frames_def)
  have msg: "handleFrontendMessage_msg E (receiving now ?m b) =
      map_option (\<lambda>(ret, b'). (Returns 0, b'))
        (forwardParsedClientRequest E vfs t i (receiving now (request_frames E sender vfs t i body) b))"
    using E s ne rem parse_request_frames[OF E s, of vfs t i body]
    by (simp add: handleFrontendMessage_msg_def client_request_def skip_envelope_eq envelope_split env_laws
        handleClientRequest_def returning_def receiving_def Option.bind_map_option option.map_comp o_def
        case_prod_unfold map_conv_bind_option split: option.splits)
  show ?thesis
    using msg by (simp add: frontendMessagingReactor_def handleFrontendMessage_def receiving_def Let_def catching_def
        only_negative_def option.map_comp o_def case_prod_unfold map_conv_bind_option split: option.splits)
qed

section \<open>Withdrawing a worker that is full\<close>

definition withdrawn :: "RequestType list \<Rightarrow> wptr \<Rightarrow> (RequestType \<rightharpoonup> BrokerRequestTypeContext) \<Rightarrow> (RequestType \<rightharpoonup> BrokerRequestTypeContext)" where
  "withdrawn ts w f = (\<lambda>t. if t \<in> set ts then map_option (RemoveAvailableWorker w) (f t) else f t)"

lemma RemoveAvailableWorker_idem [simp]:
  "RemoveAvailableWorker w (RemoveAvailableWorker w c) = RemoveAvailableWorker w c"
  by (simp add: RemoveAvailableWorker_def)

lemma withdrawn_Cons: "withdrawn ts w (withdrawn [t] w f) = withdrawn (t # ts) w f"
  by (auto simp: withdrawn_def fun_eq_iff option.map_comp o_def)

lemma removeAvailableChecked_eq:
  "removeAvailableChecked ts w b = b\<lparr>requestTypeContextLookup := withdrawn ts w (requestTypeContextLookup b)\<rparr>"
proof (induction ts arbitrary: b)
  case Nil
  then show ?case by (simp add: withdrawn_def)
next
  case (Cons t ts)
  have one: "withdrawn [t] w f = f(t := map_option (RemoveAvailableWorker w) (f t))" for f
    by (auto simp: withdrawn_def)
  have "(case modContext t (RemoveAvailableWorker w) b of None \<Rightarrow> b | Some b' \<Rightarrow> b') =
      b\<lparr>requestTypeContextLookup := withdrawn [t] w (requestTypeContextLookup b)\<rparr>"
  proof (cases "requestTypeContextLookup b t")
    case None
    then have "(requestTypeContextLookup b)(t := None) = requestTypeContextLookup b" by auto
    with None show ?thesis by (simp add: modContext_def one)
  next
    case (Some c)
    then show ?thesis by (simp add: modContext_def one)
  qed
  then show ?case by (simp add: Cons.IH withdrawn_Cons)
qed

lemma withdrawn_available:
  "withdrawn ts w f t = Some c \<Longrightarrow> t \<in> set ts \<Longrightarrow> w \<notin> set (ctx_availableWorkers c)"
  by (auto simp: withdrawn_def)

lemma withdrawn_requests: "f t = Some c \<Longrightarrow> \<exists>c'. withdrawn ts w f t = Some c' \<and> ctx_requests c' = ctx_requests c"
  by (simp add: withdrawn_def)

section \<open>The effect of a request\<close>

text \<open>What every effect below has in common: nothing else of the broker moves.\<close>

lemma GetNextAvailableWorker_Some: "GetNextAvailableWorker c = Some w \<Longrightarrow> w \<in> set (ctx_availableWorkers c)"
  by (auto simp: GetNextAvailableWorker_def split: list.splits)

definition loaded :: "RequestType \<Rightarrow> RequestId \<Rightarrow> rptr \<Rightarrow> time_t \<Rightarrow> WorkerInfo \<Rightarrow> WorkerInfo" where
  "loaded t i r now wi = UpdateWorkerLastActive now (WorkerInfo_AddInProgressRequest t i r wi)"

lemma loaded_fields [simp]:
  "wi_supportedRequestTypes (loaded t i r now wi) = wi_supportedRequestTypes wi"
  "wi_freeCapacity (loaded t i r now wi) = wi_freeCapacity wi - 1"
  "wi_identity (loaded t i r now wi) = wi_identity wi"
  by (simp_all add: loaded_def WorkerInfo_AddInProgressRequest_def)

definition new_request_sent :: "env \<Rightarrow> wptr \<Rightarrow> WorkerInfo \<Rightarrow> BrokerRequestTypeContext \<Rightarrow> LHCVersionFlags \<Rightarrow> RequestType
    \<Rightarrow> RequestId \<Rightarrow> zmsg \<Rightarrow> Broker \<Rightarrow> Broker" where
  "new_request_sent E w wi c vfs t i m b = (let ctxs = (requestTypeContextLookup b)(t \<mapsto>
        c\<lparr>ctx_requests := (ctx_requests c)(i \<mapsto> nextAddr b)\<rparr>);
      wi' = loaded t i (nextAddr b) (currentTime b) wi in
    b\<lparr>inbox := None, nextAddr := Suc (nextAddr b),
      requestHeap := (requestHeap b)(nextAddr b \<mapsto> new_rs i vfs w m),
      workerHeap := (workerHeap b)(w \<mapsto> wi'),
      requestTypeContextLookup := (if FreeCapacity wi' \<le> 0 then withdrawn (wi_supportedRequestTypes wi) w ctxs else ctxs),
      sends := sends b @ (Backend, toWorker E wi m, 0) # receipts E vfs m t i\<rparr>)"

lemma dispatch_sent:
  assumes E: "env_ok E" and m: "inbox b = Some m" and c: "requestTypeContextLookup b t = Some c" "ctx_requests c i = None"
    and w: "GetNextAvailableWorker c = Some w" "workerHeap b w = Some wi" and s: "send_ret E wi m b = 0"
  shows "forwardParsedClientRequest E vfs t i b = Some (0, new_request_sent E w wi c vfs t i m b)"
  using forward2_new_sends[OF E m w(2) s c, of vfs] c w
  by (simp add: forwardParsedClientRequest_def GetRequestState_def dispatchNewRequest_def removeAvailableChecked_eq
      new_request_sent_def loaded_def Let_def)

definition queued_request :: "LHCVersionFlags \<Rightarrow> RequestType \<Rightarrow> RequestId \<Rightarrow> zmsg \<Rightarrow> BrokerRequestTypeContext \<Rightarrow> Broker \<Rightarrow> Broker" where
  "queued_request vfs t i m c b = b\<lparr>inbox := None, nextAddr := Suc (nextAddr b),
    requestHeap := (requestHeap b)(nextAddr b \<mapsto> queued_rs (ctx_nextNode c) i vfs m),
    requestTypeContextLookup := (requestTypeContextLookup b)(t \<mapsto>
      pending_push (nextAddr b) (c\<lparr>ctx_requests := (ctx_requests c)(i \<mapsto> nextAddr b)\<rparr>))\<rparr>"

lemma AddPendingRequest_queued:
  assumes "inbox b = Some m" and c: "requestTypeContextLookup b t = Some c" "ctx_requests c i = None"
  shows "AddPendingRequest t i vfs Inbox b = Some (queued_request vfs t i m c b)"
  using AddPendingRequest_new[OF assms] by (simp add: queued_request_def queued_rs_def)

lemma dispatch_unsent:
  assumes E: "env_ok E" and m: "inbox b = Some m" and c: "requestTypeContextLookup b t = Some c" "ctx_requests c i = None"
    and w: "GetNextAvailableWorker c = Some w" "workerHeap b w = Some wi" and s: "send_ret E wi m b \<noteq> 0"
  shows "forwardParsedClientRequest E vfs t i b = Some (0, queued_request vfs t i m c
    (b\<lparr>sends := sends b @ [(Backend, toWorker E wi m, send_ret E wi m b)]\<rparr>))"
  using forward2_new_fails[OF E m w(2) s, of i vfs t] s m c w
  by (simp add: forwardParsedClientRequest_def GetRequestState_def dispatchNewRequest_def
      AddPendingRequest_queued[of _ m])

lemma dispatch_queued:
  assumes m: "inbox b = Some m" and c: "requestTypeContextLookup b t = Some c" "ctx_requests c i = None"
    and w: "GetNextAvailableWorker c = None"
  shows "forwardParsedClientRequest E vfs t i b = Some (0, queued_request vfs t i m c b)"
  using assms by (simp add: forwardParsedClientRequest_def GetRequestState_def dispatchNewRequest_def
      AddPendingRequest_queued[OF m c])

lemma dispatch_new_type:
  assumes m: "inbox b = Some m" and c: "requestTypeContextLookup b t = None"
  shows "forwardParsedClientRequest E vfs t i b =
    Some (0, queued_request vfs t i m (BrokerRequestTypeContext_new t) (newContext t b))"
  using assms by (simp add: forwardParsedClientRequest_def AddPendingRequest_queued[of _ m])

lemma duplicate_rejected:
  assumes E: "env_ok E" and m: "inbox b = Some m" "whole_header m"
    and c: "requestTypeContextLookup b t = Some c" "ctx_requests c i = Some r"
    and r: "requestHeap b r = Some rs" "\<not> hasAny (rs_vfs rs) AllowRedirect"
  shows "forwardParsedClientRequest E vfs t i b =
    Some (0, b\<lparr>inbox := None, sends := sends b @ [(Frontend, rejection E m RS_Rejected, 0)]\<rparr>)"
  using assms by (simp add: forwardParsedClientRequest_def GetRequestState_def rejectRequest2_inbox)

end
