(* ===== verification/BrokerBackend.thy ===== *)
theory BrokerBackend
  imports BrokerRequests
begin

text \<open>
  What a worker's message does, in closed form: from the frames on the wire to the handler, and
  the registration of a worker when nothing is waiting for it. The last section builds the small
  reachable states the properties are tried on.
\<close>

section \<open>Worker messages on the wire\<close>

definition worker_message :: "env \<Rightarrow> frame \<Rightarrow> ClusterMessage \<Rightarrow> zmsg \<Rightarrow> zmsg" where
  "worker_message E ident type payload = ident # [] # enc_u32 E (ClusterMessage_value type) # payload"

lemma backend_message:
  assumes E: "env_ok E" and i: "ident \<noteq> []"
  shows "backendMessagingReactor E now (Some (worker_message E ident type payload)) b =
    catching (map_option (map_prod only_negative id)
      (dispatchBackendMessage E ident (ClusterMessage_value type) (receiving now payload b)))"
proof -
  have ne: "enc_u32 E (ClusterMessage_value type) \<noteq> []" using enc_nonempty[OF env_okD(2)[OF E]] by simp
  have "handleBackendMessage_msg E (receiving now (worker_message E ident type payload) b) =
      dispatchBackendMessage E ident (ClusterMessage_value type) (receiving now payload b)"
    using E i ne by (simp add: handleBackendMessage_msg_def worker_message_def env_laws receiving_def)
  then show ?thesis
    by (simp add: backendMessagingReactor_def handleBackendMessage_def receiving_def Let_def map_conv_bind_option
        map_prod_def case_prod_unfold o_def)
qed

definition ready_payload :: "env \<Rightarrow> LHCVersionFlags \<Rightarrow> int \<Rightarrow> int \<Rightarrow> RequestType list \<Rightarrow> zmsg" where
  "ready_payload E vfs capacity delay types =
     enc_vfs E vfs # enc_i32 E capacity # enc_i32 E delay # map (enc_u32 E) types"

definition int32 :: "int set" where
  "int32 = {- (2 ^ 31) ..< 2 ^ 31}"

lemma parseRequestTypes_enc: "env_ok E \<Longrightarrow> parseRequestTypes E (map (enc_u32 E) ts) = Parsed ts"
  using enc_nonempty[OF env_okD(2)] by (induction ts) (simp_all add: env_laws)

lemma parseWorkerReady_payload:
  assumes E: "env_ok E" and n: "0 \<le> capacity" "capacity \<in> int32" "delay \<in> int32" "types \<noteq> []"
  shows "parseWorkerReady E (ready_payload E vfs capacity delay types) = Parsed (vfs, capacity, delay, types)"
proof -
  have ne: "enc_vfs E vfs \<noteq> []" using enc_nonempty[OF env_okD(2)[OF E]] by simp
  have i: "get_i32 E (enc_i32 E m) = Some m" "enc_i32 E m \<noteq> []" if "m \<in> int32" for m
    using get_enc_i32[OF env_okD(2)[OF E], of m] that by (simp_all add: int32_def)
  have l: "\<not> zmsg_size E (ready_payload E vfs capacity delay types) < 4"
    using E n(4) by (cases types) (simp_all add: env_laws ready_payload_def)
  show ?thesis
    using E ne l n i[OF n(2)] i[OF n(3)]
    by (simp add: parseWorkerReady_def env_laws parseRequestTypes_enc) (simp add: ready_payload_def env_laws parseRequestTypes_enc)
qed

section \<open>A worker registers and nothing waits\<close>

definition joined :: "wptr \<Rightarrow> bool \<Rightarrow> RequestType list \<Rightarrow> (RequestType \<rightharpoonup> BrokerRequestTypeContext) \<Rightarrow> (RequestType \<rightharpoonup> BrokerRequestTypeContext)" where
  "joined w free ts f = (\<lambda>t. if t \<in> set ts then
     Some ((if free then AddAvailableWorker w else id) (IncrementNumWorkers
       (case f t of None \<Rightarrow> BrokerRequestTypeContext_new t | Some c \<Rightarrow> c))) else f t)"

definition nothing_pending :: "RequestType list \<Rightarrow> Broker \<Rightarrow> bool" where
  "nothing_pending ts b \<longleftrightarrow> (\<forall>t \<in> set ts. \<forall>c. requestTypeContextLookup b t = Some c \<longrightarrow> ctx_pending c = [])"

lemma newWorkerVisit_idle:
  assumes "workerHeap b w = Some wi" "nothing_pending [t] b"
  shows "newWorkerVisit E w earlier t again b = Some (again,
    b\<lparr>requestTypeContextLookup := joined w (0 < FreeCapacity wi) [t] (requestTypeContextLookup b)\<rparr>)"
proof -
  have one: "joined w free [t] f = f(t \<mapsto> (if free then AddAvailableWorker w else id) (IncrementNumWorkers
       (case f t of None \<Rightarrow> BrokerRequestTypeContext_new t | Some c \<Rightarrow> c)))" for free f
    by (auto simp: joined_def)
  show ?thesis
    using assms by (cases "requestTypeContextLookup b t"; cases "0 < FreeCapacity wi")
      (simp_all add: newWorkerVisit_def workerCapacity_def one modContext_def newContext_def nothing_pending_def
        GetNextPendingRequest_def)
qed

lemma joined_Cons: "t \<notin> set ts \<Longrightarrow> joined w free ts (joined w free [t] f) = joined w free (t # ts) f"
  by (auto simp: joined_def fun_eq_iff)

lemma newWorkerFirstSweep_idle:
  assumes "distinct ts"
  shows "workerHeap b w = Some wi \<Longrightarrow> nothing_pending ts b \<Longrightarrow>
    newWorkerFirstSweep E w earlier ts again b = Some (again,
      b\<lparr>requestTypeContextLookup := joined w (0 < FreeCapacity wi) ts (requestTypeContextLookup b)\<rparr>)"
  using assms
proof (induction ts arbitrary: earlier b)
  case Nil
  then show ?case by (simp add: joined_def)
next
  case (Cons t ts)
  let ?b = "b\<lparr>requestTypeContextLookup := joined w (0 < FreeCapacity wi) [t] (requestTypeContextLookup b)\<rparr>"
  have "nothing_pending ts ?b"
    using Cons.prems(2,3) by (auto simp: nothing_pending_def joined_def)
  then have "newWorkerFirstSweep E w (earlier @ [t]) ts again ?b = Some (again,
      ?b\<lparr>requestTypeContextLookup := joined w (0 < FreeCapacity wi) ts (requestTypeContextLookup ?b)\<rparr>)"
    using Cons.IH[of ?b "earlier @ [t]"] Cons.prems(1,3) by simp
  moreover have "newWorkerVisit E w earlier t again b = Some (again, ?b)"
    by (rule newWorkerVisit_idle) (use Cons.prems in \<open>simp_all add: nothing_pending_def\<close>)
  ultimately show ?case using Cons.prems(3) by (simp add: joined_Cons)
qed

lemma sweepPendingRequests_done: "workerHeap b w = Some wi \<Longrightarrow> sweepPendingRequests E w False b = Some b"
  by (subst sweepPendingRequests.simps) simp

definition with_worker :: "WorkerInfo \<Rightarrow> Broker \<Rightarrow> Broker" where
  "with_worker wi b = b\<lparr>workerHeap := (workerHeap b)(nextAddr b \<mapsto> wi), nextAddr := Suc (nextAddr b),
     workerInfoLookup := workerInfoLookup b @ [(wi_identity wi, nextAddr b)],
     requestTypeContextLookup := joined (nextAddr b) (0 < FreeCapacity wi) (wi_supportedRequestTypes wi) (requestTypeContextLookup b)\<rparr>"

lemma ready_idle_parsed:
  assumes E: "env_ok E" and i: "ident \<noteq> []" and new: "LookupWorkerInfo (workerInfoLookup b) ident = None"
    and p: "parseWorkerReady E payload = Parsed (vfs, capacity, delay, types)" and n: "distinct types"
    and idle: "nothing_pending types b"
  shows "backendMessagingReactor E now (Some (worker_message E ident WorkerReady payload)) b =
    Some (0, (with_worker (WorkerInfo_new ident now (word_of_int capacity) types delay vfs) (updateCurrentTime now b))\<lparr>inbox := None\<rparr>)"
proof -
  let ?wi = "WorkerInfo_new ident now (word_of_int capacity) types delay vfs"
  let ?b = "receiving now payload b"
  have no: "ident \<notin> fst ` set (workerInfoLookup b)" using new by (auto simp: LookupWorkerInfo_def map_of_eq_None_iff)
  define b1 where "b1 = ?b\<lparr>workerHeap := (workerHeap b)(nextAddr b \<mapsto> ?wi), nextAddr := Suc (nextAddr b),
    workerInfoLookup := workerInfoLookup b @ [(ident, nextAddr b)]\<rparr>"
  have reg: "registerWorker ?wi ?b = (nextAddr b, b1)"
    using no by (simp add: registerWorker_def allocWorker_def InsertWorkerInfo_def emplace_def b1_def WorkerInfo_new_def)
  have w1: "workerHeap b1 (nextAddr b) = Some ?wi" by (simp add: b1_def)
  have ts: "wi_supportedRequestTypes ?wi = types" by (simp add: WorkerInfo_new_def)
  have "nothing_pending types b1" using idle by (simp add: nothing_pending_def b1_def)
  note sweep = newWorkerFirstSweep_idle[OF n w1 this, of E "[]" False]
  have "updateContextsForNewWorker E (nextAddr b) b1 = Some (b1\<lparr>requestTypeContextLookup :=
      joined (nextAddr b) (0 < FreeCapacity ?wi) types (requestTypeContextLookup b1)\<rparr>)"
    using w1 by (simp add: updateContextsForNewWorker_def ts sweep sweepPendingRequests_done[where wi = ?wi])
  then have "handleWorkerReady E ident ?b = Some (Returns 0, (b1\<lparr>requestTypeContextLookup :=
      joined (nextAddr b) (0 < FreeCapacity ?wi) types (requestTypeContextLookup b1)\<rparr>)\<lparr>inbox := None\<rparr>)"
    using new p reg by (simp add: handleWorkerReady_def)
  then have "backendMessagingReactor E now (Some (worker_message E ident WorkerReady payload)) b =
    Some (0, (b1\<lparr>requestTypeContextLookup :=
      joined (nextAddr b) (0 < FreeCapacity ?wi) types (requestTypeContextLookup b1)\<rparr>)\<lparr>inbox := None\<rparr>)"
    by (simp add: backend_message[OF E i] dispatchBackendMessage_def catching_def only_negative_def)
  then show ?thesis
    by (simp add: with_worker_def b1_def ts receiving_def updateCurrentTime_def) (simp add: WorkerInfo_new_def)
qed

lemma ready_idle:
  assumes E: "env_ok E" and i: "ident \<noteq> []" and new: "LookupWorkerInfo (workerInfoLookup b) ident = None"
    and n: "0 \<le> capacity" "capacity \<in> int32" "delay \<in> int32" "types \<noteq> []" "distinct types"
    and idle: "nothing_pending types b"
  shows "backendMessagingReactor E now (Some (worker_message E ident WorkerReady (ready_payload E vfs capacity delay types))) b =
    Some (0, (with_worker (WorkerInfo_new ident now (word_of_int capacity) types delay vfs) (updateCurrentTime now b))\<lparr>inbox := None\<rparr>)"
  by (rule ready_idle_parsed[OF E i new parseWorkerReady_payload[OF E n(1-4)] n(5) idle])

section \<open>A worker finishes and nothing waits\<close>

definition response_payload :: "env \<Rightarrow> frame list \<Rightarrow> LHCVersionFlags \<Rightarrow> RequestType \<Rightarrow> RequestId \<Rightarrow> zmsg \<Rightarrow> zmsg" where
  "response_payload E sender vfs t i body = sender @ [] # enc_u32 E (ClusterMessage_value BrokerResponse) #
     enc_vfs E vfs # enc_u32 E t # enc_u64 E i # body"

lemma parse_response_payload:
  assumes E: "env_ok E" and s: "is_envelope sender" "sender \<noteq> []"
  shows "parseWorkerFinished E (response_payload E sender vfs t i body) = Parsed (vfs, t, i)"
proof -
  have ne: "enc_u32 E v \<noteq> []" "enc_vfs E vfs \<noteq> []" "enc_u64 E i \<noteq> []" for v
    using enc_nonempty[OF env_okD(2)[OF E]] by simp_all
  have "hd sender \<noteq> []" using s by (cases sender) (auto simp: is_envelope_def)
  then show ?thesis
    using E s ne envelope_split[OF s(1)]
    by (simp add: parseWorkerFinished_def response_payload_def skip_envelope_eq env_laws Let_def hd_append)
qed

definition freed :: "wptr \<Rightarrow> RequestType \<Rightarrow> RequestId \<Rightarrow> RequestType list \<Rightarrow> (RequestType \<rightharpoonup> BrokerRequestTypeContext)
    \<Rightarrow> (RequestType \<rightharpoonup> BrokerRequestTypeContext)" where
  "freed w type i ts f = (\<lambda>t. if t \<in> set ts then map_option (\<lambda>c. AddAvailableWorker w
     (if t = type then RemoveInProgressRequest i c else c)) (f t) else f t)"

definition finished_idle :: "wptr \<Rightarrow> RequestType \<Rightarrow> RequestId \<Rightarrow> rptr \<Rightarrow> RequestType list \<Rightarrow> Broker \<Rightarrow> Broker" where
  "finished_idle w type i r ts b = b\<lparr>
     requestHeap := (if type \<in> set ts then (requestHeap b)(r := None) else requestHeap b),
     requestTypeContextLookup := freed w type i ts (requestTypeContextLookup b)\<rparr>"

lemma freed_one: "freed w type i [t] f = f(t := map_option (\<lambda>c. AddAvailableWorker w
     (if t = type then RemoveInProgressRequest i c else c)) (f t))"
  by (auto simp: freed_def)

lemma finishedVisit_idle:
  assumes "requestTypeContextLookup b t = Some c" "ctx_pending c = []" "t = type \<longrightarrow> ctx_requests c i = Some r"
    "t = type \<longrightarrow> \<not> removed"
  shows "finishedVisit E w type i earlier t removed again b =
    Some (True, removed \<or> t = type, again, finished_idle w type i r [t] b)"
  using assms by (cases "t = type")
    (simp_all add: finishedVisit_def GetNextPendingRequest_def EraseInProgressRequest_eq finished_idle_def freed_one
      modContext_Some Let_def)

lemma finished_idle_Cons:
  assumes "t \<notin> set ts"
  shows "finished_idle w type i r ts (finished_idle w type i r [t] b) = finished_idle w type i r (t # ts) b"
proof -
  have "freed w type i ts (freed w type i [t] f) = freed w type i (t # ts) f" for f
    using assms by (auto simp: freed_def fun_eq_iff)
  then show ?thesis by (auto simp: finished_idle_def)
qed

lemma finishedFirstSweep_idle:
  assumes "distinct ts"
  shows "has_contexts ts b \<Longrightarrow> nothing_pending ts b \<Longrightarrow> type \<in> set ts \<longrightarrow> \<not> removed \<Longrightarrow>
    (\<forall>c. requestTypeContextLookup b type = Some c \<longrightarrow> type \<in> set ts \<longrightarrow> ctx_requests c i = Some r) \<Longrightarrow>
    finishedFirstSweep E w type i earlier ts removed again b =
      Some (removed \<or> type \<in> set ts, again, finished_idle w type i r ts b)"
  using assms
proof (induction ts arbitrary: earlier removed b)
  case Nil
  have "freed w type i [] f = f" for f by (auto simp: freed_def)
  then show ?case by (simp add: finished_idle_def)
next
  case (Cons t ts)
  from Cons.prems(1) obtain c where c: "requestTypeContextLookup b t = Some c" by (auto simp: has_contexts_def)
  have v: "finishedVisit E w type i earlier t removed again b =
      Some (True, removed \<or> t = type, again, finished_idle w type i r [t] b)"
    using finishedVisit_idle[OF c, of type i r removed E w earlier again] Cons.prems(2,3,4) c
    by (auto simp: nothing_pending_def)
  let ?b = "finished_idle w type i r [t] b"
  have same: "requestTypeContextLookup ?b t' = requestTypeContextLookup b t'" if "t' \<noteq> t" for t'
    using that by (simp add: finished_idle_def freed_def)
  have "finishedFirstSweep E w type i (earlier @ [t]) ts (removed \<or> t = type) again ?b =
      Some ((removed \<or> t = type) \<or> type \<in> set ts, again, finished_idle w type i r ts ?b)"
  proof (rule Cons.IH)
    have same_ts: "requestTypeContextLookup ?b t' = requestTypeContextLookup b t'" if "t' \<in> set ts" for t'
      using that Cons.prems(5) same[of t'] by auto
    show "has_contexts ts ?b" "nothing_pending ts ?b"
      using Cons.prems(1,2) by (simp_all add: has_contexts_def nothing_pending_def same_ts)
    show "\<forall>c. requestTypeContextLookup ?b type = Some c \<longrightarrow> type \<in> set ts \<longrightarrow> ctx_requests c i = Some r"
      using Cons.prems(4) same_ts by auto
  qed (use Cons.prems in auto)
  then show ?case using v Cons.prems(5) by (auto simp: finished_idle_Cons)
qed

lemma finished_held:
  assumes E: "env_ok E" and b: "reachable E b" and i: "ident \<noteq> []" and s: "is_envelope sender" "sender \<noteq> []"
    and w: "LookupWorkerInfo (workerInfoLookup b) ident = Some w" "workerHeap b w = Some wi"
    and req: "(i, r) \<in> set (in_progress wi t)" and cap: "0 \<le> FreeCapacity wi" "FreeCapacity wi < 2 ^ 31 - 1"
    and idle: "nothing_pending (wi_supportedRequestTypes wi) b"
  shows "\<exists>b' wi' c'. backendMessagingReactor E now
      (Some (worker_message E ident WorkerFinished (response_payload E sender vfs t i body))) b = Some (0, b') \<and>
    sends b' = sends b @ (if hasAny vfs Asynchronous then [] else [(Frontend, response_payload E sender vfs t i body, 0)]) \<and>
    workerHeap b' = (workerHeap b)(w \<mapsto> wi') \<and> FreeCapacity wi' = FreeCapacity wi + 1 \<and>
    in_progress wi' t = erase_key i (in_progress wi t) \<and> requestHeap b' = (requestHeap b)(r := None) \<and>
    requestTypeContextLookup b' t = Some c' \<and> ctx_requests c' i = None \<and>
    (\<forall>t' \<in> set (wi_supportedRequestTypes wi). \<exists>c. requestTypeContextLookup b' t' = Some c \<and> w \<in> set (ctx_availableWorkers c))"
proof -
  let ?m = "response_payload E sender vfs t i body" and ?ts = "wi_supportedRequestTypes wi"
  have ok: "system_ok b" by (rule reachable_ok[OF b E])
  then have I: "broker_inv (held b) b" and cov: "covered b" by (simp_all add: system_ok_def broker_ok_def)
  have h: "(w, t, i, r) \<in> held b" using w(2) req by (auto simp: held_def)
  then obtain c where c: "requestTypeContextLookup b t = Some c" using I by (fastforce simp: broker_inv_def)
  have hold: "holding_ok (serving b t) (requestHeap b) (of_type (held b) t) c w i r"
    by (rule ctx_okD(8)[OF invD(4)[OF I c]]) (use h in \<open>simp add: of_type_def\<close>)
  then have t: "t \<in> set ?ts" and reg: "ctx_requests c i = Some r" using w(2) by (auto simp: holding_ok_def serving_def)
  have ctxs: "has_contexts ?ts b" using cov w(2) by (auto simp: has_contexts_def covered_def)
  have ts: "distinct ?ts" using inv_worker_ok[OF I w(2)] by (simp add: worker_ok_def)
  let ?wi = "WorkerInfo_RemoveInProgressRequest t i (UpdateWorkerLastActive now wi)"
  have free: "FreeCapacity ?wi = FreeCapacity wi + 1"
  proof -
    have "signed_take_bit 31 (sint (wi_freeCapacity wi) + 1) = sint (wi_freeCapacity wi) + 1"
      using cap by (intro signed_take_bit_int_eq_self) (simp_all add: FreeCapacity_def)
    then show ?thesis by (simp add: FreeCapacity_def WorkerInfo_RemoveInProgressRequest_def sint_word_ariths)
  qed
  define b0 where "b0 = (receiving now ?m b)\<lparr>inbox := None,
    sends := sends b @ (if hasAny vfs Asynchronous then [] else [(Frontend, ?m, 0)])\<rparr>"
  define b1 where "b1 = b0\<lparr>workerHeap := (workerHeap b)(w \<mapsto> ?wi)\<rparr>"
  have up: "modWorker w (UpdateWorkerLastActive now) b0 = Some (b0\<lparr>workerHeap := (workerHeap b)(w \<mapsto> UpdateWorkerLastActive now wi)\<rparr>)"
    "modWorker w (WorkerInfo_RemoveInProgressRequest t i) (b0\<lparr>workerHeap := (workerHeap b)(w \<mapsto> UpdateWorkerLastActive now wi)\<rparr>) = Some b1"
    using w(2) by (simp_all add: modWorker_Some b0_def b1_def)
  let ?b2 = "finished_idle w t i r ?ts b1"
  have ctx1: "requestTypeContextLookup b1 = requestTypeContextLookup b" by (simp add: b1_def b0_def)
  have sweep: "finishedFirstSweep E w t i [] ?ts False False b1 = Some (True, False, ?b2)"
    using finishedFirstSweep_idle[OF ts, of b1 t False i r E w "[]" False] ctxs idle c reg t
    by (simp add: has_contexts_def nothing_pending_def ctx1)
  have w2: "workerHeap ?b2 w = Some ?wi" by (simp add: finished_idle_def b1_def)
  have upd: "updateContextsForFinishedWorker E w t i b1 = Some ?b2"
    using free cap sweep sweepPendingRequests_done[OF w2]
    by (simp add: updateContextsForFinishedWorker_def b1_def)
  have "workerFinished E ident t i b0 = Some ?b2"
    using up upd w(1) by (simp add: workerFinished_def b0_def)
  moreover have "(if hasAny vfs Asynchronous then Some (0, (receiving now ?m b)\<lparr>inbox := None\<rparr>)
      else sendOrDestroy E Frontend Inbox (receiving now ?m b)) = Some (0, b0)"
    using E by (cases b) (simp add: sendOrDestroy_inbox b0_def receiving_def updateCurrentTime_def)
  ultimately have "handleWorkerFinished E ident (receiving now ?m b) = Some (Returns 0, ?b2)"
    using parse_response_payload[OF E s, of vfs t i body] by (simp add: handleWorkerFinished_def)
  then have run: "backendMessagingReactor E now (Some (worker_message E ident WorkerFinished ?m)) b = Some (0, ?b2)"
    by (simp add: backend_message[OF E i] dispatchBackendMessage_def catching_def only_negative_def)
  let ?c = "AddAvailableWorker w (RemoveInProgressRequest i c)"
  have avail: "\<exists>c. requestTypeContextLookup ?b2 t' = Some c \<and> w \<in> set (ctx_availableWorkers c)" if "t' \<in> set ?ts" for t'
  proof -
    from that ctxs obtain c' where "requestTypeContextLookup b t' = Some c'" by (auto simp: has_contexts_def)
    then show ?thesis using that by (simp add: finished_idle_def freed_def ctx1)
  qed
  show ?thesis
  proof (rule exI[of _ ?b2], rule exI[of _ ?wi], rule exI[of _ ?c], intro conjI ballI)
    show "\<exists>c. requestTypeContextLookup ?b2 t' = Some c \<and> w \<in> set (ctx_availableWorkers c)" if "t' \<in> set ?ts" for t'
      by (rule avail[OF that])
    show "requestTypeContextLookup ?b2 t = Some ?c"
      using t c by (simp add: finished_idle_def freed_def ctx1)
  qed (use run free t in \<open>simp_all add: finished_idle_def b1_def b0_def\<close>)
qed

end
