(* ===== verification/BrokerExamples.thy ===== *)
theory BrokerExamples
  imports BrokerBackend
begin

text \<open>
  Small reachable states of the broker, on which the witnesses apply the properties: a broker
  with one idle worker, one with a request in its queue, and one whose worker is busy.
\<close>

definition plain :: LHCVersionFlags where
  "plain = LHCVersionFlags (LHCVersion 0 1) MF_None"

definition flagged :: "MessageFlags \<Rightarrow> LHCVersionFlags" where
  "flagged fs = LHCVersionFlags (LHCVersion 0 1) fs"

definition good_env :: env where
  "good_env = ref_env (\<lambda>_ _. False)"

definition failing_env :: env where
  "failing_env = ref_env (\<lambda>_ _. True)"

lemma example_envs [simp]: "env_ok good_env" "backend_ok good_env" "env_ok failing_env"
  by (simp_all add: good_env_def failing_env_def)

lemma failing_send [simp]: "fst (zmsg_send failing_env h Backend m) \<noteq> 0"
  by (simp add: failing_env_def ref_env_def)

definition fresh_broker :: Broker where
  "fresh_broker = Broker_new 10 1 5"

section \<open>One idle worker\<close>

definition example_worker :: WorkerInfo where
  "example_worker = WorkerInfo_new [7] 100 2 [1] 5 plain"

definition idle_broker :: Broker where
  "idle_broker = (with_worker example_worker (updateCurrentTime 100 fresh_broker))\<lparr>inbox := None\<rparr>"

lemma example_worker_fields [simp]:
  "wi_identity example_worker = [7]" "wi_supportedRequestTypes example_worker = [1]"
  "wi_freeCapacity example_worker = 2" "FreeCapacity example_worker = 2"
  "wi_workerLastActive example_worker = 100" "wi_brokerLastActive example_worker = 100"
  "wi_heartbeatSendDelay example_worker = 5" "in_progress example_worker t = []"
  by (simp_all add: example_worker_def WorkerInfo_new_def FreeCapacity_def in_progress_def)

lemma fresh_broker_fields [simp]:
  "workerHeap fresh_broker = Map.empty" "requestHeap fresh_broker = Map.empty" "nextAddr fresh_broker = 0"
  "workerInfoLookup fresh_broker = []" "requestTypeContextLookup fresh_broker = Map.empty" "sends fresh_broker = []"
  "selfHeartbeatDelay fresh_broker = 10" "workerDeathDelay fresh_broker = 20" "minimumWorkerHeartbeatDelay fresh_broker = 1"
  by (simp_all add: fresh_broker_def Broker_new_def)

definition idle_context :: BrokerRequestTypeContext where
  "idle_context = AddAvailableWorker 0 (IncrementNumWorkers (BrokerRequestTypeContext_new 1))"

lemma idle_context_fields [simp]:
  "ctx_availableWorkers idle_context = [0]" "ctx_pending idle_context = []" "ctx_requests idle_context = Map.empty"
  "GetNextAvailableWorker idle_context = Some 0"
  by (simp_all add: idle_context_def AddAvailableWorker_def GetNextAvailableWorker_def ctx_fields(1) IncrementNumWorkers_def
      BrokerRequestTypeContext_new_def)

lemma idle_broker_fields [simp]:
  "workerHeap idle_broker = [0 \<mapsto> example_worker]" "requestHeap idle_broker = Map.empty" "nextAddr idle_broker = 1"
  "workerInfoLookup idle_broker = [([7], 0)]" "requestTypeContextLookup idle_broker = [1 \<mapsto> idle_context]"
  "sends idle_broker = []" "currentTime idle_broker = 100" "selfHeartbeatDelay idle_broker = 10"
  "workerDeathDelay idle_broker = 20" "minimumWorkerHeartbeatDelay idle_broker = 1"
  by (auto simp: idle_broker_def with_worker_def updateCurrentTime_def joined_def idle_context_def)

lemma fresh_reachable: "reachable E fresh_broker"
  unfolding fresh_broker_def by (rule reachable.constructed)

definition example_ready :: "env \<Rightarrow> zmsg" where
  "example_ready E = worker_message E [7] WorkerReady (ready_payload E plain 2 5 [1])"

lemma trusted_ready:
  assumes E: "env_ok E" and n: "0 \<le> capacity" "capacity \<in> int32" "delay \<in> int32" "types \<noteq> []" "distinct types"
  shows "trusted_event E (BackendReadable now (Some (worker_message E ident WorkerReady
    (ready_payload E vfs capacity delay types)))) b"
  using parseWorkerReady_payload[OF E n(1-4)] n(5) E
  by (simp add: trusted_worker_message_def worker_message_def env_laws ready_types_ok_def)

lemma idle_reachable:
  assumes E: "env_ok E"
  shows "reachable E idle_broker"
proof (rule reachable.callback[OF fresh_reachable])
  show "trusted_event E (BackendReadable 100 (Some (example_ready E))) fresh_broker"
    unfolding example_ready_def by (rule trusted_ready[OF E]) (simp_all add: int32_def)
  show "reactor_step E (BackendReadable 100 (Some (example_ready E))) fresh_broker = Some (0, idle_broker)"
    using ready_idle[OF E, of "[7]" fresh_broker 2 5 "[1]" 100 plain]
    by (simp add: example_ready_def idle_broker_def example_worker_def LookupWorkerInfo_def int32_def nothing_pending_def)
qed

section \<open>A request in the queue\<close>

definition example_frames :: "env \<Rightarrow> LHCVersionFlags \<Rightarrow> zmsg" where
  "example_frames E f = request_frames E [[9]] f 1 5 []"

lemma example_sender [simp]: "is_envelope [[9 :: byte]]"
  by (simp add: is_envelope_def)

definition waiting_broker :: "env \<Rightarrow> LHCVersionFlags \<Rightarrow> Broker" where
  "waiting_broker E f = queued_request f 1 5 (example_frames E f) (BrokerRequestTypeContext_new 1)
     (newContext 1 (receiving 101 (example_frames E f) fresh_broker))"

definition waiting_context :: BrokerRequestTypeContext where
  "waiting_context = pending_push 0 ((BrokerRequestTypeContext_new 1)\<lparr>ctx_requests := [5 \<mapsto> 0]\<rparr>)"

lemma waiting_context_fields [simp]:
  "ctx_availableWorkers waiting_context = []" "ctx_pending waiting_context = [(0, 0)]" "ctx_requests waiting_context = [5 \<mapsto> 0]"
  by (simp_all add: waiting_context_def pending_push_def BrokerRequestTypeContext_new_def)

lemma waiting_broker_fields [simp]:
  "workerHeap (waiting_broker E f) = Map.empty" "requestHeap (waiting_broker E f) = [0 \<mapsto> queued_rs 0 5 f (example_frames E f)]"
  "workerInfoLookup (waiting_broker E f) = []" "requestTypeContextLookup (waiting_broker E f) = [1 \<mapsto> waiting_context]"
  "sends (waiting_broker E f) = []"
  by (simp_all add: waiting_broker_def queued_request_def newContext_def waiting_context_def ctx_defs)

lemma trusted_request:
  assumes "env_ok E" "is_envelope sender" "flags_ok vfs"
  shows "trusted_event E (FrontendReadable now (Some (client_request E sender vfs t i body))) b"
  using assms parse_request_frames[OF assms(1,2)] by (simp add: without_type_request client_flags_ok_def)

lemma waiting_reachable:
  assumes E: "env_ok E" and f: "flags_ok f"
  shows "reachable E (waiting_broker E f)"
proof (rule reachable.callback[OF fresh_reachable])
  let ?m = "client_request E [[9]] f 1 5 []"
  show "trusted_event E (FrontendReadable 101 (Some ?m)) fresh_broker"
    by (rule trusted_request[OF E example_sender f])
  show "reactor_step E (FrontendReadable 101 (Some ?m)) fresh_broker = Some (0, waiting_broker E f)"
    using dispatch_new_type[of "receiving 101 (example_frames E f) fresh_broker" "example_frames E f" 1 E f 5]
      frontend_request[OF E example_sender, of 101 f 1 5 "[]" fresh_broker]
    by (simp add: waiting_broker_def example_frames_def[symmetric])
qed

section \<open>A busy worker\<close>

definition busy_broker :: "env \<Rightarrow> LHCVersionFlags \<Rightarrow> Broker" where
  "busy_broker E f = new_request_sent E 0 example_worker idle_context f 1 5 (example_frames E f)
     (receiving 101 (example_frames E f) idle_broker)"

definition busy_worker :: WorkerInfo where
  "busy_worker = loaded 1 5 1 101 example_worker"

definition busy_context :: BrokerRequestTypeContext where
  "busy_context = idle_context\<lparr>ctx_requests := [5 \<mapsto> 1]\<rparr>"

lemma busy_context_fields [simp]:
  "ctx_availableWorkers busy_context = [0]" "ctx_pending busy_context = []" "ctx_requests busy_context = [5 \<mapsto> 1]"
  by (simp_all add: busy_context_def)

lemma busy_worker_fields [simp]:
  "wi_identity busy_worker = [7]" "wi_supportedRequestTypes busy_worker = [1]" "wi_freeCapacity busy_worker = 1"
  "FreeCapacity busy_worker = 1" "in_progress busy_worker 1 = [(5, 1)]"
  "wi_workerLastActive busy_worker = 101" "wi_brokerLastActive busy_worker = 100" "wi_heartbeatSendDelay busy_worker = 5"
proof -
  show "in_progress busy_worker 1 = [(5, 1)]"
    by (simp add: busy_worker_def loaded_def emplace_def)
qed (simp_all add: busy_worker_def FreeCapacity_def, simp_all add: loaded_def wi_upd_defs)

lemma busy_broker_fields [simp]:
  "workerHeap (busy_broker E f) = [0 \<mapsto> busy_worker]"
  "requestHeap (busy_broker E f) = [1 \<mapsto> new_rs 5 f 0 (example_frames E f)]"
  "workerInfoLookup (busy_broker E f) = [([7], 0)]" "requestTypeContextLookup (busy_broker E f) = [1 \<mapsto> busy_context]"
  "workerDeathDelay (busy_broker E f) = 20" "currentTime (busy_broker E f) = 101"
proof -
  have l: "loaded 1 5 (nextAddr idle_broker) 101 example_worker = busy_worker" by (simp add: busy_worker_def)
  show "workerHeap (busy_broker E f) = [0 \<mapsto> busy_worker]"
    "requestHeap (busy_broker E f) = [1 \<mapsto> new_rs 5 f 0 (example_frames E f)]"
    "workerInfoLookup (busy_broker E f) = [([7], 0)]" "requestTypeContextLookup (busy_broker E f) = [1 \<mapsto> busy_context]"
    "workerDeathDelay (busy_broker E f) = 20" "currentTime (busy_broker E f) = 101"
    using l by (simp_all add: busy_broker_def new_request_sent_def Let_def busy_context_def)
qed

lemma busy_reachable:
  assumes E: "env_ok E" "backend_ok E" and f: "flags_ok f"
  shows "reachable E (busy_broker E f)"
proof (rule reachable.callback[OF idle_reachable[OF E(1)]])
  let ?m = "client_request E [[9]] f 1 5 []"
  let ?b = "receiving 101 (example_frames E f) idle_broker"
  show "trusted_event E (FrontendReadable 101 (Some ?m)) idle_broker"
    by (rule trusted_request[OF E(1) example_sender f])
  have "send_ret E example_worker (example_frames E f) ?b = 0" using E(2) by (simp add: send_ret_def backend_ok_def)
  then show "reactor_step E (FrontendReadable 101 (Some ?m)) idle_broker = Some (0, busy_broker E f)"
    using dispatch_sent[OF E(1), of ?b "example_frames E f" 1 idle_context 5 0 example_worker f]
      frontend_request[OF E(1) example_sender, of 101 f 1 5 "[]" idle_broker]
    by (simp add: busy_broker_def example_frames_def[symmetric])
qed

lemma example_flags [simp]: "flags_ok (flagged AllowRedirect)" "flags_ok plain" "flags_ok (flagged NotifyOnDeath)"
    "flags_ok (flagged RetryOnDeath)" "hasAny (flagged fs) fs \<longleftrightarrow> fs \<noteq> 0" "\<not> hasAny plain fs"
  by (simp_all add: flags_ok_def flagged_def plain_def hasAny_def flag_defs)

end
