(* ===== verification/BrokerClientProps.thy ===== *)
theory BrokerClientProps
  imports BrokerExamples
begin

text \<open>
  The properties of the broker's frontend: what the reactor callback does with each kind of
  client message, stated on the messages that arrive and leave and on the broker's queues.
\<close>

section \<open>What a reachable broker gives\<close>

lemma reachable_inv: "reachable E b \<Longrightarrow> env_ok E \<Longrightarrow> broker_inv (held b) b"
  using reachable_ok by (auto simp: system_ok_def broker_ok_def)

lemma reachable_available:
  assumes "reachable E b" "env_ok E" "requestTypeContextLookup b t = Some c" "w \<in> set (ctx_availableWorkers c)"
  obtains wi where "workerHeap b w = Some wi" "t \<in> set (wi_supportedRequestTypes wi)"
proof -
  have "ctx_ok (serving b t) (requestHeap b) (of_type (held b) t) t c"
    using reachable_inv[OF assms(1,2)] assms(3) by (auto simp: broker_inv_def)
  then have "w \<in> serving b t" using assms(4) by (auto simp: ctx_ok_def)
  then show thesis using that by (auto simp: serving_def)
qed

lemma reachable_registered:
  assumes "reachable E b" "env_ok E" "requestTypeContextLookup b t = Some c" "ctx_requests c i = Some r"
  obtains rs where "requestHeap b r = Some rs" "registered_ok (requestHeap b) (of_type (held b) t) c i r" "rs_requestId rs = i" "rs_ok rs"
proof -
  have "ctx_ok (serving b t) (requestHeap b) (of_type (held b) t) t c"
    using reachable_inv[OF assms(1,2)] assms(3) by (auto simp: broker_inv_def)
  then have "registered_ok (requestHeap b) (of_type (held b) t) c i r" using assms(4) by (auto simp: ctx_ok_def)
  then show thesis using that by (auto simp: registered_ok_def)
qed

section \<open>New requests\<close>

definition worker_request :: "env \<Rightarrow> WorkerInfo \<Rightarrow> zmsg \<Rightarrow> zmsg" where
  "worker_request E wi m = wi_identity wi # [] # enc_u32 E (ClusterMessage_value BrokerNewRequest) # m"

lemma worker_request_toWorker: "toWorker E wi m = worker_request E wi m"
  by (simp add: toWorker_def worker_request_def)

definition sent_receipt :: "env \<Rightarrow> frame list \<Rightarrow> LHCVersionFlags \<Rightarrow> RequestType \<Rightarrow> RequestId \<Rightarrow> send_record list" where
  "sent_receipt E sender vfs t i = (if hasAny vfs ReceiptOnSend
     then [(Frontend, sender @ [[], enc_u32 E (ClusterMessage_value BrokerSentReceipt), enc_u32 E t, enc_u64 E i], 0)] else [])"

lemma receipts_request:
  "is_envelope sender \<Longrightarrow> receipts E vfs (request_frames E sender vfs' t' i' body) t i = sent_receipt E sender vfs t i"
  by (simp add: receipts_def sent_receipt_def receipt_def request_envelope)

lemma new_rs_fields [simp]:
  "rs_flag (new_rs i vfs w m) = InProgress" "rs_state (new_rs i vfs w m) = AssignedWorker w"
  "rs_tryCount (new_rs i vfs w m) = 1"
  by (simp_all add: new_rs_def settle_def rs_defs split: option.splits)

text \<open>
  C9: A new request of a known type goes to the next available worker in the very frames the
  client sent, behind the worker's identity, with a receipt to the client exactly if it asked
  for one; the worker loses one unit of capacity, is withdrawn from all its types when none is
  left, and the request is registered in progress, assigned to it, on its first try.
\<close>

theorem new_request_reaches_worker:
  assumes E: "env_ok E" "backend_ok E" and b: "reachable E b" and sender: "is_envelope sender"
    and c: "requestTypeContextLookup b t = Some c" "ctx_requests c i = None" "GetNextAvailableWorker c = Some w"
  shows "\<exists>wi wi' b' c' r rs.
    frontendMessagingReactor E now (Some (client_request E sender vfs t i body)) b = Some (0, b') \<and>
    workerHeap b w = Some wi \<and> workerHeap b' w = Some wi' \<and> wi_freeCapacity wi' = wi_freeCapacity wi - 1 \<and>
    sends b' = sends b @ (Backend, worker_request E wi (request_frames E sender vfs t i body), 0) # sent_receipt E sender vfs t i \<and>
    (FreeCapacity wi' \<le> 0 \<longrightarrow> (\<forall>t' \<in> set (wi_supportedRequestTypes wi). \<forall>c2.
       requestTypeContextLookup b' t' = Some c2 \<longrightarrow> w \<notin> set (ctx_availableWorkers c2))) \<and>
    requestTypeContextLookup b' t = Some c' \<and> ctx_requests c' i = Some r \<and> requestHeap b' r = Some rs \<and>
    IsInProgress rs \<and> GetAssignedWorker rs = Some w \<and> GetTryCount rs = 1"
proof -
  let ?m = "request_frames E sender vfs t i body"
  let ?b = "receiving now ?m b"
  obtain wi where wi: "workerHeap b w = Some wi" "t \<in> set (wi_supportedRequestTypes wi)"
    using reachable_available[OF b E(1) c(1) GetNextAvailableWorker_Some[OF c(3)]] .
  have s: "send_ret E wi ?m ?b = 0" using E(2) by (simp add: send_ret_def backend_ok_def)
  define b' where "b' = new_request_sent E w wi c vfs t i ?m ?b"
  have run: "frontendMessagingReactor E now (Some (client_request E sender vfs t i body)) b = Some (0, b')"
    using dispatch_sent[OF E(1), of ?b ?m t c i w wi vfs] c wi s frontend_request[OF E(1) sender]
    by (simp add: b'_def)
  let ?wi = "loaded t i (nextAddr b) now wi"
  let ?c = "c\<lparr>ctx_requests := (ctx_requests c)(i \<mapsto> nextAddr b)\<rparr>"
  have fields: "workerHeap b' w = Some ?wi" "requestHeap b' (nextAddr b) = Some (new_rs i vfs w ?m)"
    "sends b' = sends b @ (Backend, worker_request E wi ?m, 0) # sent_receipt E sender vfs t i"
    by (simp_all add: b'_def new_request_sent_def Let_def receipts_request[OF sender] worker_request_toWorker)
  have "\<exists>c'. requestTypeContextLookup b' t = Some c' \<and> ctx_requests c' = ctx_requests ?c"
    using withdrawn_requests[of "(requestTypeContextLookup b)(t \<mapsto> ?c)" t ?c]
    by (simp add: b'_def new_request_sent_def Let_def)
  then obtain c' where c': "requestTypeContextLookup b' t = Some c'" "ctx_requests c' i = Some (nextAddr b)"
    by auto
  have "FreeCapacity ?wi \<le> 0 \<longrightarrow> (\<forall>t' \<in> set (wi_supportedRequestTypes wi). \<forall>c2.
       requestTypeContextLookup b' t' = Some c2 \<longrightarrow> w \<notin> set (ctx_availableWorkers c2))"
    by (auto simp: b'_def new_request_sent_def Let_def dest: withdrawn_available)
  with run wi fields c' show ?thesis
    by (intro exI[of _ wi] exI[of _ ?wi] exI[of _ b'] exI[of _ c'] exI[of _ "nextAddr b"] exI[of _ "new_rs i vfs w ?m"])
      (simp add: IsInProgress_def GetAssignedWorker_def GetTryCount_def)
qed

lemma new_request_reaches_worker_witness:
  "\<exists>wi b'. frontendMessagingReactor good_env 101 (Some (client_request good_env [[9]] (flagged ReceiptOnSend) 1 5 [[3]])) idle_broker = Some (0, b') \<and>
    workerHeap idle_broker 0 = Some wi \<and>
    sends b' = (Backend, worker_request good_env wi (request_frames good_env [[9]] (flagged ReceiptOnSend) 1 5 [[3]]), 0) #
      sent_receipt good_env [[9]] (flagged ReceiptOnSend) 1 5"
  using new_request_reaches_worker[OF _ _ idle_reachable, of good_env "[[9]]" 1 idle_context 5 0 101 "flagged ReceiptOnSend" "[[3]]"]
  by auto


text \<open>
  C24: A new request whose send to the chosen worker fails is not lost: it ends up at the back of
  the queue of its type in exactly the frames the client sent, pending, with no try counted, and
  the worker is left as it was.
\<close>

theorem unsent_request_is_queued:
  assumes E: "env_ok E" and b: "reachable E b" and sender: "is_envelope sender"
    and c: "requestTypeContextLookup b t = Some c" "ctx_requests c i = None" "GetNextAvailableWorker c = Some w"
    and wi: "workerHeap b w = Some wi"
    and s: "fst (zmsg_send E (sends b) Backend (worker_request E wi (request_frames E sender vfs t i body))) \<noteq> 0"
  shows "\<exists>b' c' r rs.
    frontendMessagingReactor E now (Some (client_request E sender vfs t i body)) b = Some (0, b') \<and>
    workerHeap b' = workerHeap b \<and> requestTypeContextLookup b' t = Some c' \<and>
    pending_requests c' = pending_requests c @ [r] \<and> ctx_requests c' i = Some r \<and> requestHeap b' r = Some rs \<and>
    IsPending rs \<and> GetTryCount rs = 0 \<and> rs_vfs rs = vfs \<and> rs_msg rs = Some (request_frames E sender vfs t i body)"
proof -
  let ?m = "request_frames E sender vfs t i body"
  let ?b = "receiving now ?m b"
  have "send_ret E wi ?m ?b \<noteq> 0" using s by (simp add: send_ret_def worker_request_toWorker)
  then show ?thesis
    using dispatch_unsent[OF E, of ?b ?m t c i w wi vfs] c wi frontend_request[OF E sender, of now vfs t i body b]
    by (simp add: queued_request_def queued_rs_def pending_requests_def pending_push_def rs_defs)
qed

lemma unsent_request_is_queued_witness:
  "\<exists>b' c' r. frontendMessagingReactor failing_env 101 (Some (client_request failing_env [[9]] plain 1 5 [[3]])) idle_broker = Some (0, b') \<and>
    requestTypeContextLookup b' 1 = Some c' \<and> pending_requests c' = pending_requests idle_context @ [r]"
  using unsent_request_is_queued[OF _ idle_reachable, of failing_env "[[9]]" 1 idle_context 5 0 example_worker plain "[[3]]" 101]
  by auto


text \<open>
  A new request waits when no worker can take it, of a type that is unknown as of one whose
  workers are all busy: it is put at the back of the queue of its type, with its frames, and
  nothing is sent.
\<close>

theorem request_without_worker_is_queued:
  assumes E: "env_ok E" and sender: "is_envelope sender"
    and c: "case requestTypeContextLookup b t of None \<Rightarrow> waiting = []
      | Some c \<Rightarrow> ctx_requests c i = None \<and> NumWorkersAvailable c = 0 \<and> waiting = pending_requests c"
  shows "\<exists>b' c' r rs.
    frontendMessagingReactor E now (Some (client_request E sender vfs t i body)) b = Some (0, b') \<and>
    sends b' = sends b \<and> workerHeap b' = workerHeap b \<and> requestTypeContextLookup b' t = Some c' \<and>
    pending_requests c' = waiting @ [r] \<and> ctx_requests c' i = Some r \<and> requestHeap b' r = Some rs \<and>
    IsPending rs \<and> rs_vfs rs = vfs \<and> rs_msg rs = Some (request_frames E sender vfs t i body)"
proof (cases "requestTypeContextLookup b t")
  case None
  then show ?thesis
    using c frontend_request[OF E sender, of now vfs t i body b]
    by (simp add: dispatch_new_type queued_request_def queued_rs_def pending_requests_def pending_push_def rs_defs newContext_def)
next
  case (Some ctx)
  then have "GetNextAvailableWorker ctx = None"
    using c by (simp add: GetNextAvailableWorker_def NumWorkersAvailable_def)
  with Some show ?thesis
    using c frontend_request[OF E sender, of now vfs t i body b]
    by (simp add: dispatch_queued queued_request_def queued_rs_def pending_requests_def pending_push_def rs_defs)
qed

lemma request_without_worker_is_queued_witness:
  "\<exists>b' c' r. frontendMessagingReactor good_env 101 (Some (client_request good_env [[9]] plain 1 6 [])) (waiting_broker good_env plain) = Some (0, b') \<and>
    sends b' = [] \<and> requestTypeContextLookup b' 1 = Some c' \<and> pending_requests c' = [0, r]"
  using request_without_worker_is_queued[where E = good_env and sender = "[[9]]" and b = "waiting_broker good_env plain"
    and t = 1 and waiting = "[0]" and i = 6 and now = 101 and vfs = plain and body = "[]"]
  by (auto simp: pending_requests_def NumWorkersAvailable_def)


text \<open>
  C25: A second copy of a request that does not allow redirection is rejected: the client gets
  its own envelope, flags, type and id back with the status \<open>Rejected\<close>, and nothing of the
  request, its queue or its worker changes.
\<close>

theorem duplicate_is_rejected:
  assumes E: "env_ok E" and b: "reachable E b" and sender: "is_envelope sender"
    and c: "requestTypeContextLookup b t = Some c" "ctx_requests c i = Some r"
    and r: "requestHeap b r = Some rs" "\<not> hasAny (rs_vfs rs) AllowRedirect"
  shows "frontendMessagingReactor E now (Some (client_request E sender vfs t i body)) b =
    Some (0, b\<lparr>currentTime := now, inbox := None, sends := sends b @
      [(Frontend, sender @ [[], enc_vfs E vfs, enc_u32 E t, enc_u64 E i, enc_u32 E (RequestStatus_value RS_Rejected)], 0)]\<rparr>)"
proof -
  let ?m = "request_frames E sender vfs t i body"
  have rej: "rejection E ?m RS_Rejected =
      sender @ [[], enc_vfs E vfs, enc_u32 E t, enc_u64 E i, enc_u32 E (RequestStatus_value RS_Rejected)]"
    using envelope_split[OF sender] by (simp add: rejection_def request_frames_def)
  have "forwardParsedClientRequest E vfs t i (receiving now ?m b) =
      Some (0, (receiving now ?m b)\<lparr>inbox := None, sends := sends b @ [(Frontend, rejection E ?m RS_Rejected, 0)]\<rparr>)"
    using duplicate_rejected[OF E, of "receiving now ?m b" ?m t c i r rs vfs] c r request_envelope[OF sender] by simp
  then show ?thesis
    by (simp add: frontend_request[OF E sender] rej receiving_def updateCurrentTime_def)
qed

lemma duplicate_is_rejected_witness:
  "\<exists>b'. frontendMessagingReactor good_env 102 (Some (client_request good_env [[8]] plain 1 5 [])) (waiting_broker good_env plain) = Some (0, b') \<and>
    sends b' = [(Frontend, [[8], [], enc_vfs good_env plain, enc_u32 good_env 1, enc_u64 good_env 5,
      enc_u32 good_env (RequestStatus_value RS_Rejected)], 0)]"
proof -
  have "is_envelope [[8 :: byte]]" by (simp add: is_envelope_def)
  from duplicate_is_rejected[OF _ waiting_reachable this, of good_env plain 1 waiting_context 5 0
      "queued_rs 0 5 plain (example_frames good_env plain)" 102 plain "[]"]
  show ?thesis by (simp add: queued_rs_def rs_defs)
qed


section \<open>Redirection\<close>

text \<open>
  C26: A second copy of a request that allows redirection and is with a worker goes to that same
  worker; the client it is taken from is notified if it asked to be, the new one gets its
  receipt, and from then on the request carries the new client's flags. Queues, workers and
  capacities stay as they are.
\<close>

theorem redirect_in_progress:
  assumes E: "env_ok E" "backend_ok E" and b: "reachable E b" and sender: "is_envelope sender"
    and c: "requestTypeContextLookup b t = Some c" "ctx_requests c i = Some r"
    and r: "requestHeap b r = Some rs" "hasAny (rs_vfs rs) AllowRedirect" "IsInProgress rs"
  shows "\<exists>w wi b' rs'.
    frontendMessagingReactor E now (Some (client_request E sender vfs t i body)) b = Some (0, b') \<and>
    GetAssignedWorker rs = Some w \<and> workerHeap b w = Some wi \<and>
    sends b' = sends b @ (Backend, worker_request E wi (request_frames E sender vfs t i body), 0) #
      redirect_notices E rs t @ sent_receipt E sender vfs t i \<and>
    workerHeap b' = workerHeap b \<and> requestTypeContextLookup b' = requestTypeContextLookup b \<and>
    requestHeap b' = (requestHeap b)(r \<mapsto> rs') \<and> rs_vfs rs' = vfs \<and> IsInProgress rs' \<and> GetAssignedWorker rs' = Some w"
proof -
  let ?m = "request_frames E sender vfs t i body"
  let ?b = "receiving now ?m b"
  obtain w where w: "rs_state rs = AssignedWorker w" "(w, i, r) \<in> of_type (held b) t"
    using reachable_registered[OF b E(1) c] r by (auto simp: registered_ok_def)
  then obtain wi where wi: "workerHeap b w = Some wi" by (auto simp: of_type_def held_def)
  have s: "send_ret E wi ?m ?b = 0" using E(2) by (simp add: send_ret_def backend_ok_def)
  let ?rs = "redirected_rs vfs ?m rs"
  let ?fin = "?b\<lparr>inbox := None, requestHeap := (requestHeap b)(r \<mapsto> ?rs),
         sends := sends b @ (Backend, toWorker E wi ?m, 0) # redirect_notices E rs t @ receipts E vfs ?m t i\<rparr>"
  obtain ret where "redirectInProgress E vfs t i r ?b = Some (ret, ?fin)"
    using redirectInProgress_eq[OF E(1), of ?b r rs w ?m wi vfs t i] r w wi s by auto
  then have run: "frontendMessagingReactor E now (Some (client_request E sender vfs t i body)) b = Some (0, ?fin)"
    using c r frontend_request[OF E(1) sender, of now vfs t i body b]
    by (simp add: forwardParsedClientRequest_def GetRequestState_def)
  show ?thesis
    by (intro exI[of _ w] exI[of _ wi] exI[of _ ?fin] exI[of _ ?rs])
      (use run r w wi in \<open>simp add: receipts_request[OF sender] worker_request_toWorker GetAssignedWorker_def IsInProgress_def\<close>)
qed

lemma redirect_in_progress_witness:
  "\<exists>wi b'. frontendMessagingReactor good_env 102 (Some (client_request good_env [[9]] plain 1 5 []))
      (busy_broker good_env (flagged AllowRedirect)) = Some (0, b') \<and>
    sends b' = sends (busy_broker good_env (flagged AllowRedirect)) @
      (Backend, worker_request good_env wi (request_frames good_env [[9]] plain 1 5 []), 0) #
      redirect_notices good_env (new_rs 5 (flagged AllowRedirect) 0 (example_frames good_env (flagged AllowRedirect))) 1 @
      sent_receipt good_env [[9]] plain 1 5"
proof -
  let ?f = "flagged AllowRedirect" and ?rs = "new_rs 5 (flagged AllowRedirect) 0 (example_frames good_env (flagged AllowRedirect))"
  have rs: "hasAny (rs_vfs ?rs) AllowRedirect" "IsInProgress ?rs"
    by (simp_all add: new_rs_def settle_def rs_defs flagged_def hasAny_def minusReceiptOnSend_def flag_defs
        split: option.splits)
  from redirect_in_progress[OF _ _ busy_reachable, of good_env ?f "[[9]]" 1 busy_context 5 1 ?rs 102 plain "[]"] rs
  show ?thesis by auto
qed


text \<open>
  A second copy of a request that allows redirection and still waits takes the place of the
  first in the queue: the request keeps its position, and what will go to a worker are the new
  client's frames and flags.
\<close>

theorem redirect_pending:
  assumes E: "env_ok E" and b: "reachable E b" and sender: "is_envelope sender"
    and c: "requestTypeContextLookup b t = Some c" "ctx_requests c i = Some r"
    and r: "requestHeap b r = Some rs" "hasAny (rs_vfs rs) AllowRedirect" "IsPending rs"
  shows "\<exists>b' rs'.
    frontendMessagingReactor E now (Some (client_request E sender vfs t i body)) b = Some (0, b') \<and>
    requestTypeContextLookup b' = requestTypeContextLookup b \<and> workerHeap b' = workerHeap b \<and>
    sends b' = sends b @ redirect_notices E rs t \<and>
    requestHeap b' = (requestHeap b)(r \<mapsto> rs') \<and> IsPending rs' \<and> GetQueueCursor rs' = GetQueueCursor rs \<and>
    rs_vfs rs' = vfs \<and> rs_msg rs' = Some (request_frames E sender vfs t i body)"
proof -
  let ?m = "request_frames E sender vfs t i body"
  let ?b = "receiving now ?m b"
  obtain old where old: "rs_msg rs = Some old"
    using reachable_registered[OF b E c] r by (auto simp: rs_ok_def)
  let ?rs = "rewritten_rs vfs ?m rs"
  let ?fin = "?b\<lparr>inbox := None, sends := sends b @ redirect_notices E rs t, requestHeap := (requestHeap b)(r \<mapsto> ?rs)\<rparr>"
  have "redirectPending E vfs t r ?b = Some (0, ?fin)"
    using redirectPending_eq[OF E, of ?b r rs old ?m vfs t] r old by simp
  then have run: "frontendMessagingReactor E now (Some (client_request E sender vfs t i body)) b = Some (0, ?fin)"
    using c r frontend_request[OF E sender, of now vfs t i body b] pending_not_in_progress[OF r(3)]
    by (simp add: forwardParsedClientRequest_def GetRequestState_def)
  show ?thesis
    by (intro exI[of _ ?fin] exI[of _ ?rs]) (use run r in \<open>simp add: rewritten_rs_def rs_defs\<close>)
qed

lemma redirect_pending_witness:
  "\<exists>b' rs'. frontendMessagingReactor good_env 102 (Some (client_request good_env [[9]] plain 1 5 [[4]]))
      (waiting_broker good_env (flagged AllowRedirect)) = Some (0, b') \<and>
    requestHeap b' 0 = Some rs' \<and> rs_msg rs' = Some (request_frames good_env [[9]] plain 1 5 [[4]])"
proof -
  let ?f = "flagged AllowRedirect" and ?rs = "queued_rs 0 5 (flagged AllowRedirect) (example_frames good_env (flagged AllowRedirect))"
  have rs: "hasAny (rs_vfs ?rs) AllowRedirect" "IsPending ?rs"
    by (simp_all add: queued_rs_def rs_defs flagged_def hasAny_def flag_defs)
  from redirect_pending[OF _ waiting_reachable, of good_env ?f "[[9]]" 1 waiting_context 5 0 ?rs 102 plain "[[4]]"] rs
  show ?thesis by auto
qed


section \<open>Other messages\<close>

lemma frontend_inbox:
  "frontendMessagingReactor E now (Some m) b =
    catching (map_option (map_prod only_negative id) (handleFrontendMessage_msg E (receiving now m b)))"
  by (simp add: frontendMessagingReactor_def handleFrontendMessage_def receiving_def Let_def map_conv_bind_option
      map_prod_def case_prod_unfold o_def)

text \<open>
  A client's heartbeat is answered to the frame it came from with the broker's own
  heartbeat: the time and the delay the client is to keep. Nothing else changes.
\<close>

theorem client_heartbeat_answered:
  assumes E: "env_ok E" and sender: "is_envelope (client # others)"
  shows "frontendMessagingReactor E now
      (Some ((client # others) @ [] # enc_u32 E (ClusterMessage_value ClientHeartbeat) # body)) b =
    Some (0, b\<lparr>currentTime := now, inbox := None, sends := sends b @ [(Frontend,
      [client, [], enc_u32 E (ClusterMessage_value BrokerHeartbeat), enc_time E now, enc_time E (selfHeartbeatDelay b)], 0)]\<rparr>)"
proof -
  let ?m = "(client # others) @ [] # enc_u32 E (ClusterMessage_value ClientHeartbeat) # body"
  have ne: "enc_u32 E (ClusterMessage_value ClientHeartbeat) \<noteq> []" using enc_nonempty[OF env_okD(2)[OF E]] by simp
  have s: "skip_envelope n ?m = Parsed (enc_u32 E (ClusterMessage_value ClientHeartbeat) # body)" for n
    using envelope_split[OF sender] by (simp add: skip_envelope_eq)
  have "zmsg_remove E ?m (length ?m - length body - 1) = client # others @ [] # body"
    using without_type_at[OF E sender, of "enc_u32 E (ClusterMessage_value ClientHeartbeat)" body] by simp
  then show ?thesis
    using E ne s handleClientHeartbeat_eq[OF E, of "(receiving now ?m b)\<lparr>inbox := Some (client # others @ [] # body)\<rparr>"]
    by (simp add: frontend_inbox handleFrontendMessage_msg_def env_laws returning_def catching_def only_negative_def)
      (simp add: receiving_def updateCurrentTime_def)
qed

lemma client_heartbeat_answered_witness:
  "\<exists>b'. frontendMessagingReactor good_env 103
      (Some ([[9]] @ [] # enc_u32 good_env (ClusterMessage_value ClientHeartbeat) # [[1], [2]])) idle_broker = Some (0, b') \<and>
    sends b' = [(Frontend, [[9], [], enc_u32 good_env (ClusterMessage_value BrokerHeartbeat), enc_time good_env 103,
      enc_time good_env 10], 0)]"
  using client_heartbeat_answered[of good_env "[9]" "[]" 103 "[[1], [2]]" idle_broker] by simp


text \<open>What the frontend recognises.\<close>

definition frontend_type :: "env \<Rightarrow> zmsg \<Rightarrow> 32 word option" where
  "frontend_type E m = (if delimited m then
     (case after_envelope m of [] \<Rightarrow> None | f # _ \<Rightarrow> if f = [] then None else get_u32 E f) else None)"

text \<open>
  A frontend message with no delimiter, with no frame or an empty one for its type, or of a
  type that is not a client's, is dropped: the reactor goes on and only the clock has changed.
\<close>

theorem malformed_frontend_message_dropped:
  assumes E: "env_ok E"
    and m: "delimited m \<longrightarrow> after_envelope m = [] \<or> hd (after_envelope m) = [] \<or>
      (\<exists>n. frontend_type E m = Some n \<and> n \<notin> {ClusterMessage_value ClientNewRequest, ClusterMessage_value ClientHeartbeat})"
  shows "frontendMessagingReactor E now (Some m) b = Some (0, b\<lparr>currentTime := now, inbox := None\<rparr>)"
proof -
  have "handleFrontendMessage_msg E (receiving now m b) = Some (Returns 0, (receiving now m b)\<lparr>inbox := None\<rparr>)"
  proof (cases "delimited m")
    case False
    then show ?thesis using E by (simp add: handleFrontendMessage_msg_def skip_envelope_eq env_laws)
  next
    case True
    show ?thesis
    proof (cases "after_envelope m")
      case Nil
      with True show ?thesis using E by (simp add: handleFrontendMessage_msg_def skip_envelope_eq env_laws)
    next
      case (Cons f rest)
      with True m show ?thesis
        using E by (auto simp: handleFrontendMessage_msg_def skip_envelope_eq env_laws frontend_type_def)
    qed
  qed
  then show ?thesis
    by (simp add: frontend_inbox catching_def only_negative_def receiving_def updateCurrentTime_def)
qed

lemma malformed_frontend_message_dropped_witness:
  "frontendMessagingReactor good_env 103 (Some [[9], [], []]) idle_broker = Some (0, idle_broker\<lparr>currentTime := 103, inbox := None\<rparr>)"
  by (rule malformed_frontend_message_dropped) (simp_all add: delimited_def after_envelope_def)


text \<open>
  One frontend message whose type frame is not a number the broker can parse ends the
  broker: the exception reaches the callback, which returns -1 to the reactor.
\<close>

theorem unparsable_frontend_type_ends_loop:
  assumes E: "env_ok E" and m: "delimited m" "after_envelope m = f # rest" "f \<noteq> []" "get_u32 E f = None"
  shows "\<exists>b'. zloop_run E (FrontendReadable now (Some m) # es) b = Some (True, b') \<and>
    requestTypeContextLookup b' = requestTypeContextLookup b \<and> sends b' = sends b"
  using E m
  by (simp add: frontend_inbox handleFrontendMessage_msg_def skip_envelope_eq env_laws catching_def only_negative_def)

lemma unparsable_frontend_type_ends_loop_witness:
  "\<exists>b'. zloop_run good_env [FrontendReadable 103 (Some [[9], [], [77]]), PulseTimer 104] idle_broker = Some (True, b') \<and>
    sends b' = []"
proof -
  have "get_u32 good_env [77] = None"
    by (simp add: read_defs good_env_def ref_env_def ref_parse_def)
  from unparsable_frontend_type_ends_loop[OF _ _ _ _ this, of "[[9], [], [77]]" "[]" 103 "[PulseTimer 104]" idle_broker]
  show ?thesis by (auto simp: delimited_def after_envelope_def)
qed


end
