(* ===== verification/BrokerSystemProps.thy ===== *)
theory BrokerSystemProps
  imports BrokerExamples
begin

text \<open>
  The properties of the broker as a whole: in every state it can reach no callback dereferences
  a freed object or runs forever, and every pointer the broker keeps is valid.
\<close>

section \<open>No undefined behaviour\<close>

text \<open>
  C1: In every state the broker can reach, every callback of its reactor returns: no handler
  dereferences a freed request or worker or a missing context, and every loop ends; and the
  state it leaves is reachable again. The trusted events leave out clients that combine
  \<open>AllowRedirect\<close> with \<open>RetryOnDeath\<close> and workers that repeat a type or finish what they were not given.
\<close>

theorem reactor_callback_returns:
  assumes "env_ok E" "reachable E b" "trusted_event E e b"
  shows "\<exists>ret b'. reactor_step E e b = Some (ret, b') \<and> reachable E b'"
proof -
  from reactor_step_good[OF assms(1) reachable_ok[OF assms(2,1)] assms(3)]
  obtain ret b' where "reactor_step E e b = Some (ret, b')" by blast
  with reachable.callback[OF assms(2,3)] show ?thesis by blast
qed

lemma reactor_callback_returns_witness:
  "\<exists>ret b'. reactor_step good_env (FrontendReadable 101 (Some (client_request good_env [[9]] (flagged RetryOnDeath) 1 5 [])))
    idle_broker = Some (ret, b') \<and> reachable good_env b'"
  by (rule reactor_callback_returns[OF _ idle_reachable trusted_request]) simp_all

section \<open>Valid pointers\<close>

lemma reachable_ctx:
  assumes "reachable E b" "env_ok E" "requestTypeContextLookup b t = Some c"
  shows "ctx_ok (serving b t) (requestHeap b) (of_type (held b) t) t c"
  using reachable_ok[OF assms(1,2)] assms(3) invD(4) by (auto simp: system_ok_def broker_ok_def)

text \<open>
  C2: In every reachable state, each entry of a queue is a live request of that type which is
  pending, knows its own place in the queue, is registered under its id and holds the message to
  send, and no request is queued twice.
\<close>

theorem queues_hold_pending_requests:
  assumes "env_ok E" "reachable E b" "requestTypeContextLookup b t = Some c"
  shows "distinct (pending_requests c) \<and> (\<forall>n r. (n, r) \<in> set (ctx_pending c) \<longrightarrow> (\<exists>rs m. requestHeap b r = Some rs \<and>
    IsPending rs \<and> GetQueueCursor rs = Some n \<and> ctx_requests c (rs_requestId rs) = Some r \<and> rs_msg rs = Some m))"
proof -
  note k = reachable_ctx[OF assms(2,1,3)]
  have "\<exists>rs m. requestHeap b r = Some rs \<and> IsPending rs \<and> GetQueueCursor rs = Some n \<and>
      ctx_requests c (rs_requestId rs) = Some r \<and> rs_msg rs = Some m" if q: "(n, r) \<in> set (ctx_pending c)" for n r
  proof -
    from k q obtain rs where rs: "requestHeap b r = Some rs" "IsPending rs" "rs_state rs = ListIt n"
      "ctx_requests c (rs_requestId rs) = Some r" by (auto simp: ctx_ok_def queued_ok_def)
    then have "rs_ok rs" using ctx_okD(6)[OF k rs(4)] by (simp add: registered_ok_def)
    with rs show ?thesis by (auto simp: rs_ok_def GetQueueCursor_def)
  qed
  with k show ?thesis by (auto simp: ctx_ok_def pending_requests_def)
qed

lemma queues_hold_pending_requests_witness:
  "\<exists>rs m. requestHeap (waiting_broker good_env plain) 0 = Some rs \<and> IsPending rs \<and> rs_msg rs = Some m"
  using queues_hold_pending_requests[OF _ waiting_reachable, of good_env plain 1 waiting_context] by auto

text \<open>
  C3: In every reachable state, a worker offered for a request type is registered and supports
  that type, the lookup maps each identity to the live worker with that identity, and each
  request a worker has in progress is registered in the context of its type, alive and in
  progress.
\<close>

theorem workers_and_requests_alive:
  assumes "env_ok E" "reachable E b"
  shows "(\<forall>t c w. requestTypeContextLookup b t = Some c \<longrightarrow> w \<in> set (ctx_availableWorkers c) \<longrightarrow>
      (\<exists>wi. workerHeap b w = Some wi \<and> t \<in> set (wi_supportedRequestTypes wi) \<and>
        LookupWorkerInfo (workerInfoLookup b) (wi_identity wi) = Some w)) \<and>
    (\<forall>w wi t i r. workerHeap b w = Some wi \<longrightarrow> (i, r) \<in> set (in_progress wi t) \<longrightarrow>
      (\<exists>c rs. requestTypeContextLookup b t = Some c \<and> ctx_requests c i = Some r \<and>
        requestHeap b r = Some rs \<and> rs_requestId rs = i \<and> IsInProgress rs))"
proof (intro conjI allI impI)
  have ok: "broker_inv (held b) b" using reachable_ok[OF assms(2,1)] by (simp add: system_ok_def broker_ok_def)
  note W = invD(1)[OF ok]
  fix t c w assume c: "requestTypeContextLookup b t = Some c" "w \<in> set (ctx_availableWorkers c)"
  from reachable_ctx[OF assms(2,1) c(1)] c(2) obtain wi where
    wi: "workerHeap b w = Some wi" "t \<in> set (wi_supportedRequestTypes wi)" by (auto simp: ctx_ok_def serving_def)
  then have "w \<in> snd ` set (workerInfoLookup b)" using workers_okD(3)[OF W] by auto
  then obtain ident where l: "(ident, w) \<in> set (workerInfoLookup b)" by auto
  then have "ident = wi_identity wi" using workers_okD(4)[OF W l] wi(1) by auto
  then have "LookupWorkerInfo (workerInfoLookup b) (wi_identity wi) = Some w"
    using l workers_okD(1)[OF W] by (simp add: LookupWorkerInfo_def)
  with wi show "\<exists>wi. workerHeap b w = Some wi \<and> t \<in> set (wi_supportedRequestTypes wi) \<and>
      LookupWorkerInfo (workerInfoLookup b) (wi_identity wi) = Some w" by blast
next
  have ok: "broker_inv (held b) b" using reachable_ok[OF assms(2,1)] by (simp add: system_ok_def broker_ok_def)
  fix w wi t i r assume a: "workerHeap b w = Some wi" "(i, r) \<in> set (in_progress wi t)"
  then have h: "(w, t, i, r) \<in> held b" by (auto simp: held_def)
  then obtain c where c: "requestTypeContextLookup b t = Some c" using ok by (fastforce simp: broker_inv_def)
  from reachable_ctx[OF assms(2,1) c] have k: "holding_ok (serving b t) (requestHeap b) (of_type (held b) t) c w i r"
    "\<forall>i r. ctx_requests c i = Some r \<longrightarrow> registered_ok (requestHeap b) (of_type (held b) t) c i r"
    using h by (auto simp: ctx_ok_def of_type_def)
  then show "\<exists>c rs. requestTypeContextLookup b t = Some c \<and> ctx_requests c i = Some r \<and>
        requestHeap b r = Some rs \<and> rs_requestId rs = i \<and> IsInProgress rs"
    using c by (fastforce simp: holding_ok_def registered_ok_def)
qed

lemma workers_and_requests_alive_witness:
  "\<exists>c rs. requestTypeContextLookup (busy_broker good_env plain) 1 = Some c \<and> ctx_requests c 5 = Some 1 \<and>
    requestHeap (busy_broker good_env plain) 1 = Some rs \<and> rs_requestId rs = 5 \<and> IsInProgress rs"
proof -
  have "workerHeap (busy_broker good_env plain) 0 = Some busy_worker" "(5, 1) \<in> set (in_progress busy_worker 1)" by simp_all
  with workers_and_requests_alive[OF _ busy_reachable, of good_env plain] show ?thesis by (auto simp del: busy_broker_fields)
qed

text \<open>
  C4: In every reachable state no request is with two workers: two workers that list the same id
  of the same type are the same worker.
\<close>

theorem one_worker_per_request:
  assumes "env_ok E" "reachable E b"
    and "workerHeap b w = Some wi" "(i, r) \<in> set (in_progress wi t)"
    and "workerHeap b w' = Some wi'" "(i, r') \<in> set (in_progress wi' t)"
  shows "w = w' \<and> r = r'"
proof -
  have ok: "broker_inv (held b) b" using reachable_ok[OF assms(2,1)] by (simp add: system_ok_def broker_ok_def)
  have h: "(w, t, i, r) \<in> held b" "(w', t, i, r') \<in> held b" using assms(3-6) by (auto simp: held_def)
  then obtain c where c: "requestTypeContextLookup b t = Some c" using ok by (fastforce simp: broker_inv_def)
  have "holding_ok (serving b t) (requestHeap b) (of_type (held b) t) c w i r"
    "holding_ok (serving b t) (requestHeap b) (of_type (held b) t) c w' i r'"
    using reachable_ctx[OF assms(2,1) c] h by (auto simp: ctx_ok_def of_type_def)
  then show ?thesis using h(2) by (auto simp: holding_ok_def of_type_def)
qed

lemma one_worker_per_request_witness:
  "(0::wptr) = 0 \<and> (1::rptr) = 1 \<and> workerHeap (busy_broker good_env plain) 0 = Some busy_worker"
  using one_worker_per_request[OF _ busy_reachable, of good_env plain 0 busy_worker 5 1 1 0 busy_worker 1] by simp

section \<open>Whole runs\<close>

fun trusted_run :: "env \<Rightarrow> event list \<Rightarrow> Broker \<Rightarrow> bool" where
  "trusted_run E [] b = True"
| "trusted_run E (e # es) b \<longleftrightarrow> trusted_event E e b \<and>
     (case reactor_step E e b of None \<Rightarrow> True | Some (ret, b') \<Rightarrow> ret = -1 \<or> trusted_run E es b')"

lemma trusted_run_along: "env_ok E \<Longrightarrow> trusted_run E es b \<Longrightarrow> broker.trusted_along E es b"
proof (induction es arbitrary: b)
  case Nil
  show ?case unfolding broker.trusted_along.simps ..
next
  case (Cons e es)
  show ?case unfolding broker.trusted_along.simps
    using Cons by (auto split: option.splits)
qed

lemma workers_freed:
  "workerHeap (fold freeWorker ws b) = (\<lambda>w. if w \<in> set ws then None else workerHeap b w)"
  by (induction ws arbitrary: b) (auto simp: freeWorker_def fun_eq_iff)

text \<open>
  C8: The primary's main loop, started on a new broker, comes to the end of any sequence of
  trusted events without undefined behaviour; and if a callback stopped it, every worker the
  broker knew has been released.
\<close>

theorem primary_loop_completes:
  assumes "env_ok E" "trusted_run E es (Broker_new heartbeatDelay minimumDelay pulseDelay)"
  shows "\<exists>ended b'. StartAsPrimary E es (Broker_new heartbeatDelay minimumDelay pulseDelay) = Some (ended, b') \<and>
    (ended \<longrightarrow> workerInfoLookup b' = [] \<and> workerHeap b' = Map.empty)"
proof -
  let ?b = "Broker_new heartbeatDelay minimumDelay pulseDelay"
  from broker.run_good[OF system_ok_new trusted_run_along[OF assms]]
  obtain ended b1 where r: "zloop_run E es ?b = Some (ended, b1)" "system_ok b1" by (auto simp: zloop_run_machine)
  then have "dom (workerHeap b1) = snd ` set (workerInfoLookup b1)"
    using workers_okD(3)[OF invD(1), of "held b1" b1] by (simp add: system_ok_def broker_ok_def)
  then have "workerHeap (WorkerInfoLookup_Clear b1) = Map.empty"
    by (auto simp: WorkerInfoLookup_Clear_def workers_freed fun_eq_iff)
  with r show ?thesis by (simp add: StartAsPrimary_def WorkerInfoLookup_Clear_def)
qed

lemma primary_loop_completes_witness:
  "\<exists>ended b'. StartAsPrimary good_env [PulseTimer 100, HeartbeatTimer 101, ControllerReadable] (Broker_new 10 1 5) = Some (ended, b') \<and>
    (ended \<longrightarrow> workerInfoLookup b' = [] \<and> workerHeap b' = Map.empty)"
  by (rule primary_loop_completes) (simp_all split: option.splits)

end
