(* ===== verification/BrokerWorkerProps.thy ===== *)
theory BrokerWorkerProps
  imports BrokerExamples
begin

text \<open>
  The properties of the broker's backend: what workers cause when they register, beat, finish a
  request, or are found dead.
\<close>

section \<open>Registration\<close>

text \<open>
  C27: A ready message from an identity the broker does not know, when nothing waits for its
  types, registers the worker with the announced capacity, types and delay under a fresh
  address, counts it in every one of its types and offers it there exactly if it has capacity;
  types that were unknown become known. Nothing is sent.
\<close>

theorem worker_ready_registers:
  assumes E: "env_ok E" and i: "ident \<noteq> []" and new: "LookupWorkerInfo (workerInfoLookup b) ident = None"
    and n: "0 \<le> capacity" "capacity \<in> int32" "delay \<in> int32" "types \<noteq> []" "distinct types"
    and idle: "nothing_pending types b"
  shows "\<exists>b' wi. backendMessagingReactor E now
      (Some (worker_message E ident WorkerReady (ready_payload E vfs capacity delay types))) b = Some (0, b') \<and>
    sends b' = sends b \<and> workerInfoLookup b' = workerInfoLookup b @ [(ident, nextAddr b)] \<and>
    workerHeap b' = (workerHeap b)(nextAddr b \<mapsto> wi) \<and> wi_supportedRequestTypes wi = types \<and>
    FreeCapacity wi = capacity \<and> wi_heartbeatSendDelay wi = delay \<and> wi_workerLastActive wi = now \<and>
    (\<forall>t \<in> set types. \<exists>c'. requestTypeContextLookup b' t = Some c' \<and>
      ctx_totalWorkers c' = 1 + (case requestTypeContextLookup b t of None \<Rightarrow> 0 | Some c \<Rightarrow> ctx_totalWorkers c) \<and>
      (0 < capacity \<longrightarrow> nextAddr b \<in> set (ctx_availableWorkers c')) \<and>
      (capacity = 0 \<longrightarrow> set (ctx_availableWorkers c') =
        (case requestTypeContextLookup b t of None \<Rightarrow> {} | Some c \<Rightarrow> set (ctx_availableWorkers c)))) \<and>
    (\<forall>t. t \<notin> set types \<longrightarrow> requestTypeContextLookup b' t = requestTypeContextLookup b t)"
proof -
  let ?wi = "WorkerInfo_new ident now (word_of_int capacity) types delay vfs"
  let ?b = "(with_worker ?wi (updateCurrentTime now b))\<lparr>inbox := None\<rparr>"
  have cap: "FreeCapacity ?wi = capacity"
    using n(2) sint_small[of capacity] by (simp add: FreeCapacity_def WorkerInfo_new_def int32_def)
  have tot: "ctx_totalWorkers (AddAvailableWorker w c) = ctx_totalWorkers c"
    "ctx_totalWorkers (IncrementNumWorkers c) = 1 + ctx_totalWorkers c" for w c
    by (simp_all add: AddAvailableWorker_def IncrementNumWorkers_def)
  have fields: "wi_supportedRequestTypes ?wi = types" "wi_heartbeatSendDelay ?wi = delay" "wi_workerLastActive ?wi = now"
    "wi_identity ?wi = ident" by (simp_all add: WorkerInfo_new_def)
  show ?thesis
  proof (intro exI[of _ ?b] exI[of _ ?wi] conjI ballI allI impI)
    show "backendMessagingReactor E now
      (Some (worker_message E ident WorkerReady (ready_payload E vfs capacity delay types))) b = Some (0, ?b)"
      by (rule ready_idle[OF E i new n idle])
  next
    fix t assume t: "t \<in> set types"
    then show "\<exists>c'. requestTypeContextLookup ?b t = Some c' \<and>
      ctx_totalWorkers c' = 1 + (case requestTypeContextLookup b t of None \<Rightarrow> 0 | Some c \<Rightarrow> ctx_totalWorkers c) \<and>
      (0 < capacity \<longrightarrow> nextAddr b \<in> set (ctx_availableWorkers c')) \<and>
      (capacity = 0 \<longrightarrow> set (ctx_availableWorkers c') =
        (case requestTypeContextLookup b t of None \<Rightarrow> {} | Some c \<Rightarrow> set (ctx_availableWorkers c)))"
      by (cases "requestTypeContextLookup b t")
        (simp_all add: with_worker_def joined_def updateCurrentTime_def cap fields tot)
  qed (simp_all add: with_worker_def updateCurrentTime_def cap fields joined_def)
qed

lemma worker_ready_registers_witness:
  "\<exists>b'. backendMessagingReactor good_env 100 (Some (worker_message good_env [7] WorkerReady
      (ready_payload good_env plain 2 5 [1, 3]))) fresh_broker = Some (0, b') \<and> sends b' = [] \<and>
    workerInfoLookup b' = [([7], 0)]"
  using worker_ready_registers[of good_env "[7]" fresh_broker 2 5 "[1, 3]" 100 plain]
  by (auto simp: LookupWorkerInfo_def int32_def nothing_pending_def)

text \<open>
  A ready message from an identity that is already registered is ignored: only the clock
  changes, whatever the message says.
\<close>

theorem extra_ready_ignored:
  assumes E: "env_ok E" and i: "ident \<noteq> []" and known: "LookupWorkerInfo (workerInfoLookup b) ident = Some w"
  shows "backendMessagingReactor E now (Some (worker_message E ident WorkerReady payload)) b =
    Some (0, b\<lparr>currentTime := now, inbox := None\<rparr>)"
  using known
  by (simp add: backend_message[OF E i] dispatchBackendMessage_def handleWorkerReady_def catching_def only_negative_def)
    (simp add: receiving_def updateCurrentTime_def)

lemma extra_ready_ignored_witness:
  "backendMessagingReactor good_env 105 (Some (worker_message good_env [7] WorkerReady [])) idle_broker =
    Some (0, idle_broker\<lparr>currentTime := 105, inbox := None\<rparr>)"
  by (rule extra_ready_ignored) (simp_all add: LookupWorkerInfo_def)

section \<open>Heartbeats and receipts\<close>

definition heartbeat_payload :: "env \<Rightarrow> time_t \<Rightarrow> Delay \<Rightarrow> zmsg" where
  "heartbeat_payload E sentAt delay = [enc_time E sentAt, enc_time E delay]"

lemma parse_heartbeat_payload:
  assumes E: "env_ok E"
  shows "parseWorkerHeartbeat E now minimum (heartbeat_payload E sentAt delay) =
    (if sentAt \<le> 0 \<or> sentAt > now then Malformed 2 else if delay < minimum then Malformed 3 else Parsed (sentAt, delay))"
proof -
  have ne: "enc_time E v \<noteq> []" for v using enc_nonempty[OF env_okD(2)[OF E]] by simp
  show ?thesis using E ne by (simp add: parseWorkerHeartbeat_def heartbeat_payload_def env_laws)
qed

text \<open>
  A heartbeat of a registered worker is taken exactly if it was sent in the past and asks
  for a delay the broker accepts: then the worker counts as active now and its delay is the new
  one; otherwise nothing but the clock changes.
\<close>

theorem worker_heartbeat:
  assumes E: "env_ok E" and i: "ident \<noteq> []"
    and known: "LookupWorkerInfo (workerInfoLookup b) ident = Some w" "workerHeap b w = Some wi"
  shows "backendMessagingReactor E now (Some (worker_message E ident WorkerHeartbeat (heartbeat_payload E sentAt delay))) b =
    Some (0, b\<lparr>currentTime := now, inbox := None, workerHeap := (workerHeap b)(w \<mapsto>
      (if 0 < sentAt \<and> sentAt \<le> now \<and> minimumWorkerHeartbeatDelay b \<le> delay
       then wi\<lparr>wi_workerLastActive := now, wi_heartbeatSendDelay := delay\<rparr> else wi))\<rparr>)"
proof -
  have "(workerHeap b)(w \<mapsto> wi) = workerHeap b" using known(2) by auto
  then show ?thesis
    using known parse_heartbeat_payload[OF E, of now "minimumWorkerHeartbeatDelay b" sentAt delay]
    by (simp add: backend_message[OF E i] dispatchBackendMessage_def handleWorkerHeartbeat_def catching_def
        only_negative_def modWorker_Some UpdateWithHeartbeat_def UpdateWorkerLastActive_def)
      (simp add: receiving_def updateCurrentTime_def)
qed

lemma worker_heartbeat_witness:
  "\<exists>b'. backendMessagingReactor good_env 110 (Some (worker_message good_env [7] WorkerHeartbeat
      (heartbeat_payload good_env 109 4))) idle_broker = Some (0, b') \<and>
    workerHeap b' 0 = Some (example_worker\<lparr>wi_workerLastActive := 110, wi_heartbeatSendDelay := 4\<rparr>)"
  using worker_heartbeat[of good_env "[7]" idle_broker 0 example_worker 110 109 4] by (simp add: LookupWorkerInfo_def)

text \<open>
  A receipt from a worker goes to the client verbatim, whether the worker is registered or
  not; a registered worker counts as active now, and nothing else changes.
\<close>

theorem worker_receipt_forwarded:
  assumes E: "env_ok E" and i: "ident \<noteq> []"
    and wi: "\<And>w. LookupWorkerInfo (workerInfoLookup b) ident = Some w \<Longrightarrow> workerHeap b w = Some (wi w)"
  shows "\<exists>b'. backendMessagingReactor E now (Some (worker_message E ident WorkerReceipt payload)) b = Some (0, b') \<and>
    sends b' = sends b @ [(Frontend, payload, 0)] \<and> requestTypeContextLookup b' = requestTypeContextLookup b \<and>
    requestHeap b' = requestHeap b \<and>
    workerHeap b' = (case LookupWorkerInfo (workerInfoLookup b) ident of None \<Rightarrow> workerHeap b
      | Some w \<Rightarrow> (workerHeap b)(w \<mapsto> (wi w)\<lparr>wi_workerLastActive := now\<rparr>))"
proof (cases "LookupWorkerInfo (workerInfoLookup b) ident")
  case None
  then show ?thesis
    using E by (simp add: backend_message[OF E i] dispatchBackendMessage_def handleWorkerReceipt_def catching_def
        only_negative_def returning_def sendOrDestroy_inbox)
next
  case (Some w)
  then show ?thesis
    using E wi by (simp add: backend_message[OF E i] dispatchBackendMessage_def handleWorkerReceipt_def catching_def
        only_negative_def returning_def sendOrDestroy_inbox modWorker_Some UpdateWorkerLastActive_def)
qed

lemma worker_receipt_forwarded_witness:
  "\<exists>b'. backendMessagingReactor good_env 110 (Some (worker_message good_env [7] WorkerReceipt [[9], [], [1]])) idle_broker = Some (0, b') \<and>
    sends b' = [(Frontend, [[9], [], [1]], 0)]"
  using worker_receipt_forwarded[of good_env "[7]" idle_broker "\<lambda>_. example_worker" 110 "[[9], [], [1]]"]
  by (auto simp: LookupWorkerInfo_def split: if_splits)

section \<open>Finished requests\<close>

text \<open>
  C12: When a worker finishes a request it holds, its capacity is not negative and below 2^31 - 1,
  and no request waits for any of its types, its answer goes to the client verbatim unless the
  request was asynchronous; the worker gets its unit of capacity back, no longer lists the
  request, is offered for all its types again, and the request is forgotten. (If a request were
  waiting, the worker would take it.)
\<close>

theorem worker_finished:
  assumes E: "env_ok E" and b: "reachable E b" and i: "ident \<noteq> []" and s: "is_envelope sender" "sender \<noteq> []"
    and w: "LookupWorkerInfo (workerInfoLookup b) ident = Some w" "workerHeap b w = Some wi"
    and req: "(i, r) \<in> set (in_progress wi t)" and cap: "0 \<le> FreeCapacity wi" "FreeCapacity wi < 2 ^ 31 - 1"
    and idle: "nothing_pending (wi_supportedRequestTypes wi) b"
  shows "\<exists>b' wi' c'. backendMessagingReactor E now
      (Some (worker_message E ident WorkerFinished (response_payload E sender vfs t i body))) b = Some (0, b') \<and>
    sends b' = sends b @ (if hasAny vfs Asynchronous then [] else [(Frontend, response_payload E sender vfs t i body, 0)]) \<and>
    workerHeap b' = (workerHeap b)(w \<mapsto> wi') \<and> FreeCapacity wi' = FreeCapacity wi + 1 \<and>
    in_progress wi' t = erase_key i (in_progress wi t) \<and> requestHeap b' = (requestHeap b)(r := None) \<and>
    requestTypeContextLookup b' t = Some c' \<and> ctx_requests c' i = None \<and>
    (\<forall>t' \<in> set (wi_supportedRequestTypes wi). \<exists>c. requestTypeContextLookup b' t' = Some c \<and> w \<in> set (ctx_availableWorkers c))"
  by (rule finished_held[OF assms])

lemma worker_finished_witness:
  "\<exists>b'. backendMessagingReactor good_env 103 (Some (worker_message good_env [7] WorkerFinished
      (response_payload good_env [[9]] plain 1 5 [[3]]))) (busy_broker good_env plain) = Some (0, b') \<and>
    sends b' = sends (busy_broker good_env plain) @ [(Frontend, response_payload good_env [[9]] plain 1 5 [[3]], 0)] \<and>
    requestHeap b' 1 = None"
  using worker_finished[OF _ busy_reachable, of good_env plain "[7]" "[[9]]" 0 busy_worker 5 1 1 103 plain "[[3]]"]
  by (auto simp: LookupWorkerInfo_def nothing_pending_def)

end
