(* ===== verification/BrokerDeathProps.thy ===== *)
theory BrokerDeathProps
  imports BrokerExamples
begin

text \<open>
  The properties of dead workers: which workers the pulse check removes, and what becomes of
  each request that a dead worker had, by its flags and the tries it had. Also the heartbeats the
  broker sends.
\<close>

section \<open>The requests of a dead worker\<close>

text \<open>
  A dead worker's request that asks neither for a retry nor for a notification is forgotten:
  its state is freed, its context no longer knows it, and nobody is told.
\<close>

theorem dead_request_dropped:
  assumes "requestTypeContextLookup b t = Some c" "ctx_requests c i = Some r" "requestHeap b r = Some rs"
    and "\<not> hasAny (rs_vfs rs) RetryOnDeath" "\<not> hasAny (rs_vfs rs) NotifyOnDeath"
  shows "deadWorkerRequest E t i r ret b = Some (ret, b\<lparr>requestHeap := (requestHeap b)(r := None),
    requestTypeContextLookup := (requestTypeContextLookup b)(t \<mapsto> RemoveInProgressRequest i c)\<rparr>)"
  using assms by (simp add: deadWorkerRequest_def hasAny_or EraseInProgressRequest_eq)

lemma dead_request_dropped_witness:
  "\<exists>b'. deadWorkerRequest good_env 1 5 1 0 (busy_broker good_env plain) = Some (0, b') \<and>
    requestHeap b' 1 = None \<and> sends b' = sends (busy_broker good_env plain)"
proof -
  have "\<not> hasAny (rs_vfs (new_rs 5 plain 0 m)) f" for m f
    by (simp add: new_rs_def settle_def kept_copy_def keeps_whole_def keeps_envelope_def RequestState_inProgress_def)
  with dead_request_dropped[of "busy_broker good_env plain" 1 busy_context 5 1] show ?thesis by simp
qed

text \<open>
  A dead worker's request that asks for a notification and no retry is failed to its client:
  what the broker kept of it (at least the envelope) goes out with flags, type, id and the status
  \<open>WorkerDeath\<close>, and the request is forgotten.
\<close>

theorem dead_request_notified:
  assumes E: "env_ok E" and c: "requestTypeContextLookup b t = Some c" "ctx_requests c i = Some r"
    and r: "requestHeap b r = Some rs" "rs_msg rs = Some m"
    and f: "\<not> hasAny (rs_vfs rs) RetryOnDeath" "hasAny (rs_vfs rs) NotifyOnDeath"
  shows "deadWorkerRequest E t i r ret b = Some (0, b\<lparr>requestHeap := (requestHeap b)(r := None),
    sends := sends b @ [(Frontend, m @ [enc_vfs E (rs_vfs rs), enc_u32 E t, enc_u64 E i,
      enc_u32 E (RequestStatus_value RS_WorkerDeath)], 0)],
    requestTypeContextLookup := (requestTypeContextLookup b)(t \<mapsto> RemoveInProgressRequest i c)\<rparr>)"
  using assms by (simp add: deadWorkerRequest_def hasAny_or rejectRequest1_request EraseInProgressRequest_eq)

lemma dead_request_notified_witness:
  "\<exists>b'. deadWorkerRequest good_env 1 5 1 0 (busy_broker good_env (flagged NotifyOnDeath)) = Some (0, b') \<and>
    sends b' = sends (busy_broker good_env (flagged NotifyOnDeath)) @ [(Frontend, [[9], enc_vfs good_env (flagged NotifyOnDeath),
      enc_u32 good_env 1, enc_u64 good_env 5, enc_u32 good_env (RequestStatus_value RS_WorkerDeath)], 0)]"
proof -
  let ?f = "flagged NotifyOnDeath" and ?rs = "new_rs 5 (flagged NotifyOnDeath) 0 (example_frames good_env (flagged NotifyOnDeath))"
  have v: "hasAny ?f NotifyOnDeath" "\<not> hasAny ?f RetryOnDeath" "\<not> hasAny ?f ReceiptOnSend" "\<not> hasAny ?f NotifyOnRedirect"
    by (simp_all add: flagged_def hasAny_def flag_defs)
  have "rs_msg ?rs = Some [[9]]" "rs_vfs ?rs = ?f"
    using v by (simp_all add: new_rs_def settle_def kept_copy_def keeps_whole_def keeps_envelope_def rs_defs
        example_frames_def request_envelope)
  with dead_request_notified[of good_env "busy_broker good_env ?f" 1 busy_context 5 1 ?rs "[[9]]" 0] v show ?thesis by simp
qed

text \<open>
  A dead worker's request that asks for a retry, has been tried once and finds no available
  worker goes back to the end of the queue of its type with the message the broker kept; it is
  pending again and nothing is sent.
\<close>

theorem dead_request_requeued:
  assumes c: "requestTypeContextLookup b t = Some c" "NumWorkersAvailable c = 0"
    and r: "requestHeap b r = Some rs" "hasAny (rs_vfs rs) RetryOnDeath" "GetTryCount rs < MAX_TRY_COUNT"
  shows "\<exists>b' c' rs'. deadWorkerRequest E t i r ret b = Some (ret, b') \<and> sends b' = sends b \<and> workerHeap b' = workerHeap b \<and>
    requestTypeContextLookup b' t = Some c' \<and> pending_requests c' = pending_requests c @ [r] \<and>
    ctx_requests c' = ctx_requests c \<and> requestHeap b' r = Some rs' \<and> IsPending rs' \<and> rs_msg rs' = rs_msg rs \<and>
    rs_vfs rs' = rs_vfs rs \<and> GetTryCount rs' = GetTryCount rs"
proof -
  have "GetNextAvailableWorker c = None" using c(2) by (simp add: NumWorkersAvailable_def GetNextAvailableWorker_def)
  then show ?thesis
    using c(1) r by (simp add: deadWorkerRequest_def hasAny_or retryOnOtherWorker_def BackToPending_eq pending_requests_def
        pending_push_def SetQueueCursor_def IsPending_def GetTryCount_def)
qed

definition starved_broker :: Broker where
  "starved_broker = (busy_broker good_env (flagged RetryOnDeath))\<lparr>
     requestTypeContextLookup := [1 \<mapsto> busy_context\<lparr>ctx_availableWorkers := []\<rparr>]\<rparr>"

lemma retry_flag [simp]: "RetryOnDeath \<noteq> 0"
  by (simp add: flag_defs)

lemma retry_state:
  "rs_vfs (new_rs 5 (flagged RetryOnDeath) 0 m) = flagged RetryOnDeath" "rs_msg (new_rs 5 (flagged RetryOnDeath) 0 m) = Some m"
  "GetTryCount (new_rs 5 (flagged RetryOnDeath) 0 m) = 1" "rs_requestId (new_rs 5 (flagged RetryOnDeath) 0 m) = 5"
  "GetAssignedWorker (new_rs 5 (flagged RetryOnDeath) 0 m) = Some 0"
proof -
  have "hasAny (flagged RetryOnDeath) RetryOnDeath" "\<not> hasAny (flagged RetryOnDeath) ReceiptOnSend"
    by (simp_all add: flagged_def hasAny_def flag_defs)
  then show "rs_vfs (new_rs 5 (flagged RetryOnDeath) 0 m) = flagged RetryOnDeath"
    "rs_msg (new_rs 5 (flagged RetryOnDeath) 0 m) = Some m" "GetTryCount (new_rs 5 (flagged RetryOnDeath) 0 m) = 1"
    "rs_requestId (new_rs 5 (flagged RetryOnDeath) 0 m) = 5" "GetAssignedWorker (new_rs 5 (flagged RetryOnDeath) 0 m) = Some 0"
    by (simp_all add: new_rs_def settle_def kept_copy_def keeps_whole_def rs_defs)
qed

lemma dead_request_requeued_witness:
  "\<exists>b' c'. deadWorkerRequest good_env 1 5 1 0 starved_broker = Some (0, b') \<and>
    requestTypeContextLookup b' 1 = Some c' \<and> pending_requests c' = [1]"
  using dead_request_requeued[of starved_broker 1 "busy_context\<lparr>ctx_availableWorkers := []\<rparr>" 1
      "new_rs 5 (flagged RetryOnDeath) 0 (example_frames good_env (flagged RetryOnDeath))" good_env 5 0]
  by (auto simp: starved_broker_def NumWorkersAvailable_def retry_state MAX_TRY_COUNT_def pending_requests_def)


text \<open>
  C28: When a dead worker's request is handed to another worker at once, its state is not told:
  the worker it is assigned to is still the one that died, and the try is not counted.
\<close>

theorem retried_request_keeps_dead_worker:
  assumes E: "env_ok E" "backend_ok E" and c: "requestTypeContextLookup b t = Some c" "ctx_requests c i = Some r"
    and w: "GetNextAvailableWorker c = Some w" "workerHeap b w = Some wi"
    and r: "requestHeap b r = Some rs" "rs_requestId rs = i" "rs_msg rs = Some m"
    and f: "hasAny (rs_vfs rs) RetryOnDeath" "GetTryCount rs < MAX_TRY_COUNT"
  shows "\<exists>b' rs'. deadWorkerRequest E t i r ret b = Some (0, b') \<and>
    sends b' = sends b @ (Backend, toWorker E wi m, 0) # receipts E (rs_vfs rs) m t i \<and>
    requestHeap b' r = Some rs' \<and> GetAssignedWorker rs' = GetAssignedWorker rs \<and> GetTryCount rs' = GetTryCount rs"
proof -
  have s: "send_ret E wi m b = 0" using E(2) by (simp add: send_ret_def backend_ok_def)
  have same: "rs_state (retried_rs m rs) = rs_state rs" "rs_tryCount (retried_rs m rs) = rs_tryCount rs"
    by (simp_all add: retried_rs_def settle_def rs_defs split: option.splits)
  let ?wi = "UpdateWorkerLastActive (currentTime b) (WorkerInfo_AddInProgressRequest t i r wi)"
  define b1 where "b1 = b\<lparr>requestHeap := (requestHeap b)(r \<mapsto> retried_rs m rs), workerHeap := (workerHeap b)(w \<mapsto> ?wi),
      sends := sends b @ (Backend, toWorker E wi m, 0) # receipts E (rs_vfs rs) m t i\<rparr>"
  define b2 where "b2 = (if FreeCapacity ?wi \<le> 0 then removeAvailableChecked (wi_supportedRequestTypes ?wi) w b1 else b1)"
  have "forwardWorkerParsedClientRequest2 E w i (rs_vfs rs) (MsgOf r) t b = Some (0, b1)"
    unfolding b1_def by (rule forward2_retry_sends[OF E(1) r(1,2,3) w(2) s c])
  moreover have "workerHeap b1 w = Some ?wi" by (simp add: b1_def)
  ultimately have run: "deadWorkerRequest E t i r ret b = Some (0, b2)"
    using r(1) w(1) f c(1) by (simp add: deadWorkerRequest_def hasAny_or retryOnOtherWorker_def b2_def Let_def)
  have "sends b2 = sends b1" "requestHeap b2 = requestHeap b1"
    by (simp_all add: b2_def removeAvailableChecked_eq)
  then show ?thesis
    using run same by (simp add: b1_def GetAssignedWorker_def GetTryCount_def)
qed

lemma retried_request_keeps_dead_worker_witness:
  "\<exists>b' rs'. deadWorkerRequest good_env 1 5 1 0 (busy_broker good_env (flagged RetryOnDeath)) = Some (0, b') \<and>
    requestHeap b' 1 = Some rs' \<and> GetAssignedWorker rs' = Some 0 \<and> GetTryCount rs' = 1"
  using retried_request_keeps_dead_worker[of good_env "busy_broker good_env (flagged RetryOnDeath)" 1 busy_context 5 1 0 busy_worker
      "new_rs 5 (flagged RetryOnDeath) 0 (example_frames good_env (flagged RetryOnDeath))"
      "example_frames good_env (flagged RetryOnDeath)" 0]
  by (auto simp: retry_state MAX_TRY_COUNT_def GetNextAvailableWorker_def)


text \<open>
  A dead worker's request that has been tried twice and does not ask for a notification is
  left as it is: it stays registered, in progress with a worker that no longer exists, and its
  client is not told.
\<close>

theorem exhausted_request_is_stuck:
  assumes "requestHeap b r = Some rs" "hasAny (rs_vfs rs) RetryOnDeath" "MAX_TRY_COUNT \<le> GetTryCount rs"
    "\<not> hasAny (rs_vfs rs) NotifyOnDeath"
  shows "deadWorkerRequest E t i r ret b = Some (ret, b)"
  using assms by (simp add: deadWorkerRequest_def hasAny_or)

lemma exhausted_request_is_stuck_witness:
  "deadWorkerRequest good_env 1 5 1 0 (starved_broker\<lparr>requestHeap := [1 \<mapsto>
      (new_rs 5 (flagged RetryOnDeath) 0 [[9]])\<lparr>rs_tryCount := 2\<rparr>]\<rparr>) =
    Some (0, starved_broker\<lparr>requestHeap := [1 \<mapsto> (new_rs 5 (flagged RetryOnDeath) 0 [[9]])\<lparr>rs_tryCount := 2\<rparr>]\<rparr>)"
proof -
  have "\<not> hasAny (flagged RetryOnDeath) NotifyOnDeath" by (simp add: flagged_def hasAny_def flag_defs)
  then show ?thesis
    by (intro exhausted_request_is_stuck[where rs = "(new_rs 5 (flagged RetryOnDeath) 0 [[9]])\<lparr>rs_tryCount := 2\<rparr>"])
      (simp_all add: retry_state MAX_TRY_COUNT_def GetTryCount_def)
qed


section \<open>The pulse\<close>

text \<open>What the retries of a death may do to the other workers.\<close>

definition active_or_newer :: "Broker \<Rightarrow> Broker \<Rightarrow> bool" where
  "active_or_newer b b' \<longleftrightarrow> currentTime b' = currentTime b \<and> workerDeathDelay b' = workerDeathDelay b \<and>
     (\<forall>w wi. workerHeap b w = Some wi \<longrightarrow> (\<exists>wi'. workerHeap b' w = Some wi' \<and>
        (wi_workerLastActive wi' = wi_workerLastActive wi \<or> wi_workerLastActive wi' = currentTime b)))"


lemma active_or_newer_refl [simp]: "active_or_newer b b"
  by (simp add: active_or_newer_def)

lemma active_or_newer_trans: "active_or_newer a b \<Longrightarrow> active_or_newer b c \<Longrightarrow> active_or_newer a c"
  unfolding active_or_newer_def by metis

text \<open>Everything but the record of a forwarded request leaves workers and clock alone.\<close>

definition same_workers :: "Broker \<Rightarrow> Broker \<Rightarrow> bool" where
  "same_workers b b' \<longleftrightarrow> workerHeap b' = workerHeap b \<and> currentTime b' = currentTime b \<and> workerDeathDelay b' = workerDeathDelay b"

lemma same_workers_refl [simp]: "same_workers b b"
  by (simp add: same_workers_def)

lemma same_workers_trans: "same_workers a b \<Longrightarrow> same_workers b c \<Longrightarrow> same_workers a c"
  by (simp add: same_workers_def)

lemma same_workers_active: "same_workers b b' \<Longrightarrow> active_or_newer b b'"
  by (simp add: same_workers_def active_or_newer_def)

lemma same_workers_basic:
  "modRequest r f b = Some b' \<Longrightarrow> same_workers b b'"
  "modContext t g b = Some b' \<Longrightarrow> same_workers b b'"
  "storeMsg lp m b = Some b' \<Longrightarrow> same_workers b b'"
  by (auto simp: modRequest_def modContext_def same_workers_def split: option.splits msgref.splits)
    (cases lp; auto simp: modRequest_def split: option.splits)+

lemma same_workers_sends [simp]: "same_workers b (b\<lparr>sends := h\<rparr>)"
  by (simp add: same_workers_def)

lemma same_workers_Send:
  assumes "SendMsg E s lp b = Some (ret, b')"
  shows "same_workers b b'"
proof -
  from assms obtain x where x: "loadMsg lp b = Some (Some x)"
    by (auto simp: SendMsg_def Option.bind_eq_Some_conv)
  obtain r m h where "Send E (sends b) s x = (r, m, h)" by (cases "Send E (sends b) s x")
  with assms x obtain b1 where "storeMsg lp m b = Some b1" "b' = b1\<lparr>sends := h\<rparr>"
    by (auto simp: SendMsg_def Option.bind_eq_Some_conv)
  with same_workers_basic(3) show ?thesis by (auto simp: same_workers_def)
qed

lemma same_workers_undo: "undoWorkerHeader E lp b = Some b' \<Longrightarrow> same_workers b b'"
  by (auto simp: undoWorkerHeader_def Option.bind_eq_Some_conv dest: same_workers_basic)

lemma same_workers_SendLocal: "SendLocal E s m b = (ret, x, b') \<Longrightarrow> same_workers b b'"
  by (auto simp: SendLocal_def split: prod.splits)

lemma same_workers_receipt: "sendReceipt E m t i b = (ret, x, b') \<Longrightarrow> same_workers b b'"
  by (auto simp: sendReceipt_def Let_def dest: same_workers_SendLocal)

lemma same_workers_copied: "handleCopiedRequest E r vfs t i m b = Some (ret, b') \<Longrightarrow> same_workers b b'"
  by (auto simp: handleCopiedRequest_def Let_def Option.bind_eq_Some_conv split: if_splits prod.splits
      dest!: same_workers_basic(1) same_workers_receipt intro: same_workers_trans)

lemma same_workers_reject:
  "sendOrDestroy E s lp b = Some (ret, b') \<Longrightarrow> same_workers b b'"
  by (auto simp: sendOrDestroy_def Option.bind_eq_Some_conv split: if_splits
      dest!: same_workers_basic(3) same_workers_Send intro: same_workers_trans)

lemma same_workers_rejects:
  "rejectRequest1 E vfs t i lp st b = Some (ret, b') \<Longrightarrow> same_workers b b'"
  "rejectRequest2 E lp st b = Some (ret, b') \<Longrightarrow> same_workers b b'"
  by (auto simp: rejectRequest1_def rejectRequest2_def Let_def Option.bind_eq_Some_conv split: if_splits
      dest!: same_workers_basic(3) same_workers_reject intro: same_workers_trans)

lemma same_workers_queue:
  "BackToPending t r b = Some b' \<Longrightarrow> same_workers b b'"
  "EraseInProgressRequest t i b = Some b' \<Longrightarrow> same_workers b b'"
proof -
  show "BackToPending t r b = Some b' \<Longrightarrow> same_workers b b'"
    by (auto simp: BackToPending_def Option.bind_eq_Some_conv dest!: same_workers_basic intro: same_workers_trans)
  assume "EraseInProgressRequest t i b = Some b'"
  then obtain c :: BrokerRequestTypeContext where c: "modContext t (RemoveInProgressRequest i)
      (case ctx_requests c i of None \<Rightarrow> b | Some r \<Rightarrow> freeRequest r b) = Some b'"
    unfolding EraseInProgressRequest_def Let_def Option.bind_eq_Some_conv by blast
  have "same_workers b (case ctx_requests c i of None \<Rightarrow> b | Some r \<Rightarrow> freeRequest r b)"
    by (simp add: same_workers_def freeRequest_def split: option.splits)
  with same_workers_basic(2)[OF c] show "same_workers b b'" by (rule same_workers_trans[rotated])
qed

lemma same_workers_Add: "AddInProgressRequest t i vfs w b = Some (r, b') \<Longrightarrow> same_workers b b'"
  by (auto simp: AddInProgressRequest_def Option.bind_eq_Some_conv allocRequest_def same_workers_def modContext_def
      split: option.splits)

lemma active_modWorker:
  assumes "modWorker w f b = Some b'" "\<And>wi. wi_workerLastActive (f wi) \<in> {wi_workerLastActive wi, currentTime b}"
  shows "active_or_newer b b'"
proof -
  from assms(1) obtain wi where "workerHeap b w = Some wi" "b' = b\<lparr>workerHeap := (workerHeap b)(w \<mapsto> f wi)\<rparr>"
    by (auto simp: modWorker_def split: option.splits)
  with assms(2)[of wi] show ?thesis by (auto simp: active_or_newer_def)
qed

lemma active_forward2:
  assumes "forwardWorkerParsedClientRequest2 E w i vfs lp t b = Some (ret, b')"
  shows "active_or_newer b b'"
proof -
  from assms obtain m wi where m: "loadMsg lp b = Some (Some m)" "workerHeap b w = Some wi"
    by (auto simp: forwardWorkerParsedClientRequest2_def Option.bind_eq_Some_conv)
  with assms obtain b1 r b2 where 1: "storeMsg lp (Some (addWorkerHeader E (wi_identity wi) m)) b = Some b1"
    and 2: "SendMsg E Backend lp b1 = Some (r, b2)"
    by (auto simp: forwardWorkerParsedClientRequest2_def Option.bind_eq_Some_conv)
  have s2: "same_workers b b2" by (rule same_workers_trans[OF same_workers_basic(3)[OF 1] same_workers_Send[OF 2]])
  show ?thesis
  proof (cases "r = 0")
    case False
    with assms m 1 2 have "undoWorkerHeader E lp b2 = Some b'"
      by (auto simp: forwardWorkerParsedClientRequest2_def Option.bind_eq_Some_conv)
    from same_workers_active[OF same_workers_trans[OF s2 same_workers_undo[OF this]]] show ?thesis .
  next
    case True
    with assms m 1 2 obtain q b3 and rs :: RequestState and b4 b5 where 3: "AddInProgressRequest t i vfs w b2 = Some (q, b3)"
      and 4: "modWorker w (WorkerInfo_AddInProgressRequest t (rs_requestId rs) q) b3 = Some b4"
      and 5: "modWorker w (UpdateWorkerLastActive (currentTime b4)) b4 = Some b5"
      and 6: "(case copyRequestForFlags E vfs m of None \<Rightarrow> Some (r, b5)
        | Some copied \<Rightarrow> handleCopiedRequest E q vfs t i copied b5) = Some (ret, b')"
      by (auto simp: forwardWorkerParsedClientRequest2_def Option.bind_eq_Some_conv Let_def)
    have "active_or_newer b b3"
      by (rule same_workers_active[OF same_workers_trans[OF s2 same_workers_Add[OF 3]]])
    moreover have "active_or_newer b3 b4"
      by (rule active_modWorker[OF 4]) (simp add: WorkerInfo_AddInProgressRequest_def)
    moreover have "active_or_newer b4 b5"
      by (rule active_modWorker[OF 5]) (simp add: UpdateWorkerLastActive_def)
    moreover have "active_or_newer b5 b'"
      using 6 same_workers_active same_workers_copied by (cases "copyRequestForFlags E vfs m") auto
    ultimately show ?thesis using active_or_newer_trans by blast
  qed
qed

lemma active_available: "active_or_newer b (removeAvailableChecked ts w b)"
  by (simp add: removeAvailableChecked_eq active_or_newer_def)

lemma active_retry:
  assumes "retryOnOtherWorker E t i r ret b = Some (ret', b')"
  shows "active_or_newer b b'"
proof -
  from assms obtain rs c where rs: "requestHeap b r = Some rs" "requestTypeContextLookup b t = Some c"
    by (auto simp: retryOnOtherWorker_def Option.bind_eq_Some_conv)
  show ?thesis
  proof (cases "GetNextAvailableWorker c")
    case None
    with assms rs have "BackToPending t r b = Some b'" by (auto simp: retryOnOtherWorker_def Option.bind_eq_Some_conv)
    from same_workers_active[OF same_workers_queue(1)[OF this]] show ?thesis .
  next
    case (Some w)
    with assms rs obtain ret1 b1 where 1: "forwardWorkerParsedClientRequest2 E w i (rs_vfs rs) (MsgOf r) t b = Some (ret1, b1)"
      by (auto simp: retryOnOtherWorker_def Option.bind_eq_Some_conv)
    have "active_or_newer b1 b'"
    proof (cases "ret1 = 0")
      case False
      with assms rs Some 1 have "BackToPending t r b1 = Some b'"
        by (auto simp: retryOnOtherWorker_def Option.bind_eq_Some_conv)
      from same_workers_active[OF same_workers_queue(1)[OF this]] show ?thesis .
    next
      case True
      with assms rs Some 1 show ?thesis
        using active_available by (auto simp: retryOnOtherWorker_def Option.bind_eq_Some_conv Let_def split: if_splits)
    qed
    with active_forward2[OF 1] show ?thesis by (rule active_or_newer_trans)
  qed
qed

lemma active_deadRequest:
  assumes "deadWorkerRequest E t i r ret b = Some (ret', b')"
  shows "active_or_newer b b'"
proof -
  have end_reject: "active_or_newer b b'" if "same_workers b b1" "EraseInProgressRequest t i b1 = Some b'" for b1
    by (rule same_workers_active[OF same_workers_trans[OF that(1) same_workers_queue(2)[OF that(2)]]])
  from assms show ?thesis
    unfolding deadWorkerRequest_def
    by (auto simp: Let_def Option.bind_eq_Some_conv split: if_splits
        intro: active_retry end_reject end_reject[OF same_workers_refl] dest!: same_workers_rejects)
qed

lemma active_deadRequests: "deadWorkerRequests E t rest ret b = Some (ret', b') \<Longrightarrow> active_or_newer b b'"
proof (induction rest arbitrary: ret b)
  case Nil
  then show ?case by simp
next
  case (Cons p rest)
  then show ?case
    by (cases p) (auto simp: Option.bind_eq_Some_conv dest!: active_deadRequest intro: active_or_newer_trans)
qed

lemma active_deadTypes: "deadWorkerTypes E w ts ret b = Some (ret', b') \<Longrightarrow> active_or_newer b b'"
proof (induction ts arbitrary: ret b)
  case Nil
  then show ?case by simp
next
  case (Cons t ts)
  show ?case
  proof (cases "requestTypeContextLookup b t")
    case None
    with Cons show ?thesis by simp
  next
    case (Some c)
    with Cons.prems obtain wi b1 b2 ret3 b3 where
      1: "modContext t DecrementNumWorkers b = Some b1" and 2: "modContext t (RemoveAvailableWorker w) b1 = Some b2"
      and 3: "deadWorkerRequests E t (in_progress wi t) ret b2 = Some (ret3, b3)"
      and 4: "deadWorkerTypes E w ts ret3 b3 = Some (ret', b')"
      by (auto simp: Option.bind_eq_Some_conv)
    have "active_or_newer b b2"
      by (rule same_workers_active[OF same_workers_trans[OF same_workers_basic(2)[OF 1] same_workers_basic(2)[OF 2]]])
    with active_deadRequests[OF 3] Cons.IH[OF 4] show ?thesis using active_or_newer_trans by blast
  qed
qed

definition alive_at :: "Broker \<Rightarrow> wptr \<Rightarrow> bool" where
  "alive_at b w \<longleftrightarrow> (\<exists>wi. workerHeap b w = Some wi \<and> IsAliveAsOf wi (currentTime b) (workerDeathDelay b))"

lemma alive_active:
  assumes "active_or_newer b b'" "0 < workerDeathDelay b" "workerDeathDelay b < 2 ^ 31 - 60" "alive_at b w"
  shows "alive_at b' w"
proof -
  from assms(4) obtain wi where wi: "workerHeap b w = Some wi" "IsAliveAsOf wi (currentTime b) (workerDeathDelay b)"
    by (auto simp: alive_at_def)
  with assms(1) obtain wi' where wi': "workerHeap b' w = Some wi'"
    "wi_workerLastActive wi' = wi_workerLastActive wi \<or> wi_workerLastActive wi' = currentTime b"
    "currentTime b' = currentTime b" "workerDeathDelay b' = workerDeathDelay b" by (auto simp: active_or_newer_def)
  then have "IsAliveAsOf wi' (currentTime b) (workerDeathDelay b)"
    using wi(2) tm_sec_plus_eq[of "workerDeathDelay b" "currentTime b"] assms(2,3) by (auto simp: IsAliveAsOf_def)
  with wi' show ?thesis by (simp add: alive_at_def)
qed

text \<open>A worker the check leaves registered was last active when it was before, or is active now.\<close>

definition same_or_active :: "Broker \<Rightarrow> Broker \<Rightarrow> wptr \<Rightarrow> bool" where
  "same_or_active b b' w \<longleftrightarrow> (\<exists>wi wi'. workerHeap b w = Some wi \<and> workerHeap b' w = Some wi' \<and>
     (wi_workerLastActive wi' = wi_workerLastActive wi \<or> wi_workerLastActive wi' = currentTime b'))"

lemma same_or_active_trans:
  "same_or_active a b w \<Longrightarrow> same_or_active b c w \<Longrightarrow> currentTime c = currentTime b \<Longrightarrow> same_or_active a c w"
  unfolding same_or_active_def by (metis option.inject)

lemma pulse_loop:
  assumes E: "env_ok E" and d: "0 < workerDeathDelay b0" "workerDeathDelay b0 < 2 ^ 31 - 60"
  shows "broker_ok b \<Longrightarrow> workerDeathDelay b = workerDeathDelay b0 \<Longrightarrow> currentTime b = currentTime b0 \<Longrightarrow>
    set rest \<subseteq> set (workerInfoLookup b) \<Longrightarrow> distinct (map fst rest) \<Longrightarrow>
    \<forall>(ident, w) \<in> set (workerInfoLookup b) - set rest. alive_at b w \<Longrightarrow>
    checkWorkersPulse_loop E rest ret b = Some (ret', b') \<Longrightarrow>
    set (workerInfoLookup b') \<subseteq> set (workerInfoLookup b) \<and> (\<forall>(ident, w) \<in> set (workerInfoLookup b'). alive_at b' w \<and> same_or_active b b' w) \<and>
    (\<forall>(ident, w) \<in> set (workerInfoLookup b). alive_at b w \<longrightarrow> (ident, w) \<in> set (workerInfoLookup b')) \<and>
    currentTime b' = currentTime b0 \<and> workerDeathDelay b' = workerDeathDelay b0"
proof (induction rest arbitrary: ret b)
  case Nil
  then have "broker_inv (held b) b" by (simp add: broker_ok_def)
  from workers_okD(4)[OF invD(1)[OF this]] have "same_or_active b b w" if "(ident, w) \<in> set (workerInfoLookup b)" for ident w
    using that by (fastforce simp: same_or_active_def)
  then show ?case using Nil by auto
next
  case (Cons p rest)
  obtain ident w where p: "p = (ident, w)" by (cases p)
  from Cons.prems(1) have I: "broker_inv (held b) b" by (simp add: broker_ok_def)
  note W = invD(1)[OF I]
  have l: "(ident, w) \<in> set (workerInfoLookup b)" using Cons.prems(4) p by simp
  then obtain wi where wi: "workerHeap b w = Some wi" using workers_okD(4)[OF W] by blast
  show ?case
  proof (cases "IsAliveAsOf wi (currentTime b) (workerDeathDelay b)")
    case True
    then have "alive_at b w" using wi by (simp add: alive_at_def)
    then have rest: "\<forall>(ident, w) \<in> set (workerInfoLookup b) - set rest. alive_at b w" using Cons.prems(6) p by auto
    show ?thesis
      by (rule Cons.IH[OF Cons.prems(1,2,3) _ _ rest]) (use Cons.prems True wi p in auto)
  next
    case False
    from handleWorkerDeath_safe[OF E Cons.prems(1) wi l] obtain ret1 b1 where
      f: "handleWorkerDeath E w b = Some (ret1, b1)" and ok1: "broker_ok (unregisterWorker ident w b1)"
      and k: "keeps b b1" by (auto simp: runs_to_def)
    have act: "active_or_newer b b1"
      using f wi by (simp add: handleWorkerDeath_def updateContextsForDeadWorker_def active_deadTypes)
    let ?b = "unregisterWorker ident w b1"
    have lookup: "set (workerInfoLookup ?b) = {q \<in> set (workerInfoLookup b). fst q \<noteq> ident}"
      using k by (auto simp: keeps_def set_erase_key)
    have fields: "workerHeap ?b = (workerHeap b1)(w := None)" "currentTime ?b = currentTime b0"
      "workerDeathDelay ?b = workerDeathDelay b0"
      using act Cons.prems(2,3) by (simp_all add: unregisterWorker_def freeWorker_def active_or_newer_def)
    have others: "w' \<noteq> w" if "(ident', w') \<in> set (workerInfoLookup b)" "ident' \<noteq> ident" for ident' w'
    proof
      assume "w' = w"
      with workers_okD(4)[OF W that(1)] workers_okD(4)[OF W l] have "ident' = ident" by auto
      with that(2) show False ..
    qed
    have keep: "alive_at ?b w'" if "(ident', w') \<in> set (workerInfoLookup b)" "ident' \<noteq> ident" "alive_at b w'" for ident' w'
      using alive_active[OF act _ _ that(3)] d Cons.prems(2,3) fields others[OF that(1,2)] act
      by (simp add: alive_at_def active_or_newer_def)
    have "checkWorkersPulse_loop E rest ret1 ?b = Some (ret', b')" using Cons.prems(7) False wi f p by simp
    moreover have "\<forall>(ident, w) \<in> set (workerInfoLookup ?b) - set rest. alive_at ?b w"
      using Cons.prems(6) keep p lookup by fastforce
    moreover have "set rest \<subseteq> set (workerInfoLookup ?b)"
      using Cons.prems(4,5) p lookup by force
    ultimately have r: "set (workerInfoLookup b') \<subseteq> set (workerInfoLookup ?b) \<and>
      (\<forall>(ident, w) \<in> set (workerInfoLookup b'). alive_at b' w \<and> same_or_active ?b b' w) \<and>
      (\<forall>(ident, w) \<in> set (workerInfoLookup ?b). alive_at ?b w \<longrightarrow> (ident, w) \<in> set (workerInfoLookup b')) \<and>
      currentTime b' = currentTime b0 \<and> workerDeathDelay b' = workerDeathDelay b0"
      using Cons.IH[OF ok1 fields(3,2)] Cons.prems(5) p by simp
    have same: "same_or_active b b' w'" if "(ident', w') \<in> set (workerInfoLookup b')" for ident' w'
    proof -
      from that r lookup have l': "(ident', w') \<in> set (workerInfoLookup b)" "ident' \<noteq> ident" by auto
      obtain wi' where "workerHeap b w' = Some wi'" using workers_okD(4)[OF W l'(1)] by blast
      with act others[OF l'] fields Cons.prems(3) have "same_or_active b ?b w'"
        unfolding same_or_active_def active_or_newer_def by fastforce
      then show ?thesis by (rule same_or_active_trans) (use r that fields(2) in auto)
    qed
    have "\<not> alive_at b w" using wi False by (simp add: alive_at_def)
    moreover have "w' = w" if "(ident, w') \<in> set (workerInfoLookup b)" for w'
      using that l workers_okD(1)[OF W] by (metis eq_key_imp_eq_value)
    moreover have "set (workerInfoLookup b') \<subseteq> set (workerInfoLookup b)" using r lookup by auto
    moreover have "\<forall>(ident, w) \<in> set (workerInfoLookup b'). alive_at b' w \<and> same_or_active b b' w" using r same by fast
    moreover have "currentTime b' = currentTime b0 \<and> workerDeathDelay b' = workerDeathDelay b0" using r by blast
    moreover have "(ident', w') \<in> set (workerInfoLookup b')" if "(ident', w') \<in> set (workerInfoLookup b)" "alive_at b w'" for ident' w'
    proof -
      have "ident' \<noteq> ident" using that calculation(1,2) by auto
      then show ?thesis using that keep lookup r by auto
    qed
    ultimately show ?thesis by blast
  qed
qed

text \<open>
  C13: The pulse check of a reachable broker, whose death delay is positive and below 2^31 - 60 seconds,
  keeps every worker that was alive, and every worker it keeps is alive afterwards: it was alive
  before, or the check itself has just counted it as active, which it does when it sends it the
  request of a worker that died.
\<close>

theorem pulse_removes_the_dead:
  assumes E: "env_ok E" and b: "reachable E b" and d: "0 < workerDeathDelay b" "workerDeathDelay b < 2 ^ 31 - 60"
  shows "\<exists>ret b'. checkWorkersPulseReactor E now b = Some (ret, b') \<and>
    set (workerInfoLookup b') \<subseteq> set (workerInfoLookup b) \<and>
    (\<forall>(ident, w) \<in> set (workerInfoLookup b'). \<exists>wi wi'. workerHeap b w = Some wi \<and> workerHeap b' w = Some wi' \<and>
      IsAliveAsOf wi' now (workerDeathDelay b) \<and>
      (IsAliveAsOf wi now (workerDeathDelay b) \<or> wi_workerLastActive wi' = now)) \<and>
    (\<forall>(ident, w) \<in> set (workerInfoLookup b). (\<exists>wi. workerHeap b w = Some wi \<and> IsAliveAsOf wi now (workerDeathDelay b)) \<longrightarrow>
      (ident, w) \<in> set (workerInfoLookup b'))"
proof -
  let ?b = "updateCurrentTime now b"
  have ok: "broker_ok ?b" using reachable_ok[OF b E] by (simp add: system_ok_def)
  from checkWorkersPulse_safe[OF E ok] obtain ret b' where f: "checkWorkersPulse E ?b = Some (ret, b')" "broker_ok b'"
    by (auto simp: runs_to_def)
  have "distinct (map fst (workerInfoLookup ?b))" using workers_okD(1)[OF invD(1)] ok by (auto simp: broker_ok_def)
  with pulse_loop[OF E, of ?b ?b "workerInfoLookup ?b" 0 ret b'] f ok d
  have r: "set (workerInfoLookup b') \<subseteq> set (workerInfoLookup ?b) \<and>
    (\<forall>(ident, w) \<in> set (workerInfoLookup b'). alive_at b' w \<and> same_or_active ?b b' w) \<and>
    (\<forall>(ident, w) \<in> set (workerInfoLookup ?b). alive_at ?b w \<longrightarrow> (ident, w) \<in> set (workerInfoLookup b')) \<and>
    currentTime b' = now \<and> workerDeathDelay b' = workerDeathDelay b"
    by (simp add: checkWorkersPulse_def updateCurrentTime_def)
  have run: "checkWorkersPulseReactor E now b = Some (ret, b')"
    using f(1) by (simp add: checkWorkersPulseReactor_def returning_def catching_def)
  have same: "workerInfoLookup ?b = workerInfoLookup b" "alive_at ?b w \<longleftrightarrow> (\<exists>wi. workerHeap b w = Some wi \<and>
      IsAliveAsOf wi now (workerDeathDelay b))" for w
    by (simp_all add: updateCurrentTime_def alive_at_def)
  have kept: "\<exists>wi wi'. workerHeap b w = Some wi \<and> workerHeap b' w = Some wi' \<and> IsAliveAsOf wi' now (workerDeathDelay b) \<and>
      (IsAliveAsOf wi now (workerDeathDelay b) \<or> wi_workerLastActive wi' = now)" 
    if at: "alive_at b' w" and act: "same_or_active ?b b' w" for w
  proof -
    obtain wi wi' where w: "workerHeap b w = Some wi" "workerHeap b' w = Some wi'"
      "wi_workerLastActive wi' = wi_workerLastActive wi \<or> wi_workerLastActive wi' = now"
      using act r by (auto simp: same_or_active_def updateCurrentTime_def)
    moreover have "IsAliveAsOf wi' now (workerDeathDelay b)" using at w(2) r by (simp add: alive_at_def)
    ultimately show ?thesis by (auto simp: IsAliveAsOf_def)
  qed
  from run r kept show ?thesis unfolding same by blast
qed

lemma pulse_removes_the_dead_witness:
  "\<exists>ret b'. checkWorkersPulseReactor good_env 105 idle_broker = Some (ret, b') \<and> set (workerInfoLookup b') = {([7], 0)}"
proof -
  have "IsAliveAsOf example_worker 105 20" by (simp add: IsAliveAsOf_def tm_sec_plus_eq)
  with pulse_removes_the_dead[OF _ idle_reachable, of good_env 105] show ?thesis by fastforce
qed


section \<open>The heartbeats of the broker\<close>

definition broker_beat :: "env \<Rightarrow> time_t \<Rightarrow> Delay \<Rightarrow> WorkerInfo \<Rightarrow> send_record" where
  "broker_beat E now delay wi = (Backend, [wi_identity wi, [], enc_u32 E (ClusterMessage_value BrokerHeartbeat),
     enc_time E now, enc_time E delay], 0)"

definition beat_worker :: "time_t \<Rightarrow> WorkerInfo \<Rightarrow> WorkerInfo" where
  "beat_worker now wi = (if IsHeartbeatNeededAsOf wi now then UpdateBrokerLastActive now wi else wi)"

definition due_workers :: "time_t \<Rightarrow> wptr list \<Rightarrow> Broker \<Rightarrow> WorkerInfo list" where
  "due_workers now ws b = filter (\<lambda>wi. IsHeartbeatNeededAsOf wi now) (map (\<lambda>w. the (workerHeap b w)) ws)"

lemma sendWorkerHeartbeat_eq:
  assumes E: "env_ok E" "backend_ok E" and w: "workerHeap b w = Some wi"
  shows "sendWorkerHeartbeat E w b = Some (0, b\<lparr>sends := sends b @ [broker_beat E (currentTime b) (selfHeartbeatDelay b) wi],
    workerHeap := (workerHeap b)(w \<mapsto> UpdateBrokerLastActive (currentTime b) wi)\<rparr>)"
  using E w by (simp add: sendWorkerHeartbeat_def SendHeartbeat_eq env_okD Send_backend env_laws modWorker_Some broker_beat_def)

lemma sendWorkerHeartbeats_loop_eq:
  assumes E: "env_ok E" "backend_ok E"
  shows "distinct ws \<Longrightarrow> set ws \<subseteq> dom (workerHeap b) \<Longrightarrow> \<exists>b'. sendWorkerHeartbeats_loop E ws 0 b = Some (0, b') \<and>
    sends b' = sends b @ map (broker_beat E (currentTime b) (selfHeartbeatDelay b)) (due_workers (currentTime b) ws b) \<and>
    workerHeap b' = (\<lambda>w. if w \<in> set ws then map_option (beat_worker (currentTime b)) (workerHeap b w) else workerHeap b w)"
proof (induction ws arbitrary: b)
  case Nil
  then show ?case by (simp add: due_workers_def)
next
  case (Cons w ws)
  then obtain wi where wi: "workerHeap b w = Some wi" by auto
  let ?n = "currentTime b"
  define b1 where "b1 = (if IsHeartbeatNeededAsOf wi ?n
    then b\<lparr>sends := sends b @ [broker_beat E ?n (selfHeartbeatDelay b) wi],
      workerHeap := (workerHeap b)(w \<mapsto> UpdateBrokerLastActive ?n wi)\<rparr> else b)"
  have heap: "workerHeap b1 = (workerHeap b)(w \<mapsto> beat_worker ?n wi)"
    using wi by (auto simp: b1_def beat_worker_def)
  have same: "currentTime b1 = ?n" "selfHeartbeatDelay b1 = selfHeartbeatDelay b" by (simp_all add: b1_def)
  have "map (\<lambda>v. the (workerHeap b1 v)) ws = map (\<lambda>v. the (workerHeap b v)) ws"
    by (rule map_cong) (use Cons.prems(1) heap in auto)
  then have due: "due_workers ?n ws b1 = due_workers ?n ws b" unfolding due_workers_def by (rule arg_cong)
  have "sends b1 = sends b @ map (broker_beat E ?n (selfHeartbeatDelay b)) (due_workers ?n [w] b)"
    using wi by (simp add: b1_def due_workers_def)
  moreover have "due_workers ?n (w # ws) b = due_workers ?n [w] b @ due_workers ?n ws b" by (simp add: due_workers_def)
  moreover have "distinct ws" "set ws \<subseteq> dom (workerHeap b1)" using Cons.prems heap by auto
  note Cons.IH[OF this]
  then obtain b' where b': "sendWorkerHeartbeats_loop E ws 0 b1 = Some (0, b')"
    "sends b' = sends b1 @ map (broker_beat E ?n (selfHeartbeatDelay b)) (due_workers ?n ws b1)"
    "workerHeap b' = (\<lambda>w. if w \<in> set ws then map_option (beat_worker ?n) (workerHeap b1 w) else workerHeap b1 w)"
    unfolding same by blast
  moreover have "sendWorkerHeartbeats_loop E (w # ws) 0 b = Some (0, b')"
    using wi b'(1) sendWorkerHeartbeat_eq[OF E wi] by (simp add: b1_def split: if_splits)
  moreover have "workerHeap b' = (\<lambda>v. if v \<in> set (w # ws) then map_option (beat_worker ?n) (workerHeap b v) else workerHeap b v)"
    using b'(3) heap wi Cons.prems(1) by (auto simp: fun_eq_iff)
  ultimately show ?case using due by auto
qed

text \<open>
  When the heartbeat timer fires, the broker beats exactly the workers whose delay has passed
  since it last wrote to them, in the order of its lookup, and records the time for these and for
  no other.
\<close>

theorem heartbeats_sent_when_due:
  assumes E: "env_ok E" "backend_ok E" and b: "reachable E b"
  shows "\<exists>b'. heartbeatWorkersReactor E now b = Some (0, b') \<and>
    sends b' = sends b @ map (broker_beat E now (selfHeartbeatDelay b))
      (filter (\<lambda>wi. IsHeartbeatNeededAsOf wi now) (map (\<lambda>(ident, w). the (workerHeap b w)) (workerInfoLookup b))) \<and>
    (\<forall>w wi. workerHeap b w = Some wi \<longrightarrow> workerHeap b' w =
      Some (if IsHeartbeatNeededAsOf wi now then wi\<lparr>wi_brokerLastActive := now\<rparr> else wi))"
proof -
  let ?b = "updateCurrentTime now b" and ?ws = "map snd (workerInfoLookup b)"
  have W: "workers_ok b" using reachable_ok[OF b E(1)] invD(1) by (auto simp: system_ok_def broker_ok_def)
  have same: "currentTime ?b = now" "workerHeap ?b = workerHeap b" "sends ?b = sends b"
    "selfHeartbeatDelay ?b = selfHeartbeatDelay b" by (simp_all add: updateCurrentTime_def)
  have "distinct ?ws" "set ?ws \<subseteq> dom (workerHeap ?b)"
    using workers_okD(2,3)[OF W] same by auto
  note sendWorkerHeartbeats_loop_eq[OF E this, unfolded same]
  then obtain b' where
    r: "sendWorkerHeartbeats_loop E ?ws 0 ?b = Some (0, b')"
    "sends b' = sends b @ map (broker_beat E now (selfHeartbeatDelay b)) (due_workers now ?ws ?b)"
    "workerHeap b' = (\<lambda>w. if w \<in> set ?ws then map_option (beat_worker now) (workerHeap b w) else workerHeap b w)"
    by blast
  have "due_workers now ?ws ?b = filter (\<lambda>wi. IsHeartbeatNeededAsOf wi now)
      (map (\<lambda>(ident, w). the (workerHeap b w)) (workerInfoLookup b))"
    by (simp add: due_workers_def updateCurrentTime_def case_prod_unfold o_def)
  moreover have "heartbeatWorkersReactor E now b = Some (0, b')"
    using r(1) by (simp add: heartbeatWorkersReactor_def sendWorkerHeartbeats_def returning_def catching_def updateCurrentTime_def)
  moreover have "workerHeap b' w = Some (beat_worker now wi)" if "workerHeap b w = Some wi" for w wi
    using that r(3) workers_okD(3)[OF W] by auto
  ultimately show ?thesis using r(2) by (auto simp: beat_worker_def UpdateBrokerLastActive_def)
qed

lemma heartbeats_sent_when_due_witness:
  "\<exists>b'. heartbeatWorkersReactor good_env 106 idle_broker = Some (0, b') \<and>
    sends b' = [broker_beat good_env 106 10 example_worker]"
proof -
  have "IsHeartbeatNeededAsOf example_worker 106" by (simp add: IsHeartbeatNeededAsOf_def tm_sec_plus_eq)
  with heartbeats_sent_when_due[OF _ _ idle_reachable, of good_env 106] show ?thesis by auto
qed

end
