(* ===== verification/BrokerQueueProps.thy ===== *)
theory BrokerQueueProps
  imports BrokerExamples
begin

text \<open>
  The queue of pending requests against its specification: a plain list of requests, each with its
  id, flags and message. \<open>Submit\<close> is what the broker does with a request it can give to nobody,
  \<open>Hand\<close> what it does when a worker can take one.
\<close>

section \<open>The specification\<close>

type_synonym queued = "RequestId \<times> LHCVersionFlags \<times> zmsg option"

datatype queue_op = Submit RequestId LHCVersionFlags zmsg | Hand wptr

fun list_queue_step :: "queue_op \<Rightarrow> queued list \<times> RequestId set \<Rightarrow> queued option \<times> queued list \<times> RequestId set" where
  "list_queue_step (Submit i vfs m) (q, known) =
     (None, if i \<in> known then (q, known) else (q @ [(i, vfs, Some m)], insert i known))"
| "list_queue_step (Hand w) (q, known) = (case q of [] \<Rightarrow> (None, q, known) | x # q \<Rightarrow> (Some x, q, known))"

fun list_queue_run :: "queue_op list \<Rightarrow> queued list \<times> RequestId set \<Rightarrow> queued option list \<times> queued list \<times> RequestId set" where
  "list_queue_run [] s = ([], s)"
| "list_queue_run (x # xs) s = (case list_queue_step x s of (a, s) \<Rightarrow>
     case list_queue_run xs s of (as, s) \<Rightarrow> (a # as, s))"

section \<open>The broker\<close>

definition contents :: "RequestState \<Rightarrow> queued" where
  "contents rs = (rs_requestId rs, rs_vfs rs, rs_msg rs)"

fun queue_step :: "RequestType \<Rightarrow> queue_op \<Rightarrow> Broker \<Rightarrow> (queued option \<times> Broker) option" where
  "queue_step t (Submit i vfs m) b = do {
     c \<leftarrow> requestTypeContextLookup b t;
     case GetRequestState i c of
       Some _ \<Rightarrow> Some (None, b)
     | None \<Rightarrow> do {
         b \<leftarrow> AddPendingRequest t i vfs Inbox (b\<lparr>inbox := Some m\<rparr>);
         Some (None, b)
       }
   }"
| "queue_step t (Hand w) b = do {
     c \<leftarrow> requestTypeContextLookup b t;
     case GetNextPendingRequest c of
       None \<Rightarrow> Some (None, b)
     | Some r \<Rightarrow> do {
         rs \<leftarrow> requestHeap b r;
         b \<leftarrow> AssignWorkerFromPending t r w b;
         Some (Some (contents rs), b)
       }
   }"

fun queue_run :: "RequestType \<Rightarrow> queue_op list \<Rightarrow> Broker \<Rightarrow> (queued option list \<times> Broker) option" where
  "queue_run t [] b = Some ([], b)"
| "queue_run t (x # xs) b = do {
     (a, b) \<leftarrow> queue_step t x b;
     (as, b) \<leftarrow> queue_run t xs b;
     Some (a # as, b)
   }"

definition queue_abs :: "RequestType \<Rightarrow> Broker \<Rightarrow> queued list \<times> RequestId set" where
  "queue_abs t b = (case requestTypeContextLookup b t of None \<Rightarrow> ([], {})
     | Some c \<Rightarrow> (map (\<lambda>r. contents (the (requestHeap b r))) (pending_requests c), dom (ctx_requests c)))"

definition queue_inv :: "RequestType \<Rightarrow> Broker \<Rightarrow> bool" where
  "queue_inv t b \<longleftrightarrow> (\<exists>c. requestTypeContextLookup b t = Some c \<and> pending_inv c \<and> distinct (map snd (ctx_pending c)) \<and>
     (\<forall>(n, r) \<in> set (ctx_pending c). \<exists>rs. requestHeap b r = Some rs \<and> rs_state rs = ListIt n) \<and>
     (\<forall>r \<in> dom (requestHeap b). r < nextAddr b))"

lemma queue_invI:
  assumes "requestTypeContextLookup b t = Some c" "pending_inv c" "distinct (map snd (ctx_pending c))"
    and "\<And>n r. (n, r) \<in> set (ctx_pending c) \<Longrightarrow> \<exists>rs. requestHeap b r = Some rs \<and> rs_state rs = ListIt n"
    and "\<And>r. r \<in> dom (requestHeap b) \<Longrightarrow> r < nextAddr b"
  shows "queue_inv t b"
  using assms unfolding queue_inv_def by blast

lemma queue_inv_reachable:
  assumes "reachable E b" "env_ok E" "requestTypeContextLookup b t = Some c"
  shows "queue_inv t b"
proof -
  from reachable_ok[OF assms(1,2)] have I: "broker_inv (held b) b" by (simp add: system_ok_def broker_ok_def)
  note k = ctx_okD[OF invD(4)[OF I assms(3)]]
  have "\<exists>rs. requestHeap b r = Some rs \<and> rs_state rs = ListIt n" if "(n, r) \<in> set (ctx_pending c)" for n r
    using k(7)[OF that] by (auto simp: queued_ok_def)
  with k(4,5) assms(3) invD(3)[OF I] show ?thesis unfolding queue_inv_def by auto
qed

section \<open>One operation\<close>

lemma submit_refines:
  assumes inv: "queue_inv t b" and step: "list_queue_step (Submit i vfs m) (queue_abs t b) = (a, s)"
  shows "\<exists>b'. queue_step t (Submit i vfs m) b = Some (a, b') \<and> queue_abs t b' = s \<and> queue_inv t b'"
proof -
  obtain c where c: "requestTypeContextLookup b t = Some c" "pending_inv c" "distinct (map snd (ctx_pending c))"
    and st: "\<And>n r. (n, r) \<in> set (ctx_pending c) \<Longrightarrow> \<exists>rs. requestHeap b r = Some rs \<and> rs_state rs = ListIt n"
    and fresh: "\<And>r. r \<in> dom (requestHeap b) \<Longrightarrow> r < nextAddr b"
    using inv unfolding queue_inv_def by fast
  show ?thesis
  proof (cases "ctx_requests c i")
    case (Some r)
    then have "a = None" "s = queue_abs t b" using step c(1) by (auto simp: queue_abs_def domI)
    with Some c(1) inv show ?thesis by (simp add: GetRequestState_def)
  next
    case None
    let ?r = "nextAddr b"
    let ?b = "b\<lparr>inbox := None, requestHeap := (requestHeap b)(?r \<mapsto> SetQueueCursor (ctx_nextNode c) (RequestState_pending i vfs (Some m))),
      nextAddr := Suc ?r, requestTypeContextLookup := (requestTypeContextLookup b)(t \<mapsto>
        pending_push ?r (c\<lparr>ctx_requests := (ctx_requests c)(i \<mapsto> ?r)\<rparr>))\<rparr>"
    have run: "queue_step t (Submit i vfs m) b = Some (None, ?b)"
      using c(1) None by (simp add: GetRequestState_def AddPendingRequest_def allocRequest_def modContext_def modRequest_def)
    have nin: "?r \<notin> snd ` set (ctx_pending c)" using st fresh by force
    then have "map (\<lambda>r. contents (the (requestHeap ?b r))) (pending_requests c) =
        map (\<lambda>r. contents (the (requestHeap b r))) (pending_requests c)"
      by (force simp: pending_requests_def)
    then have "queue_abs t ?b = s" "a = None"
      using step c(1) None
      by (auto simp: queue_abs_def pending_requests_def pending_push_def contents_def rs_defs)
    moreover have "queue_inv t ?b"
    proof (rule queue_invI)
      show "requestTypeContextLookup ?b t = Some (pending_push ?r (c\<lparr>ctx_requests := (ctx_requests c)(i \<mapsto> ?r)\<rparr>))" by simp
      show "pending_inv (pending_push ?r (c\<lparr>ctx_requests := (ctx_requests c)(i \<mapsto> ?r)\<rparr>))"
        using c(2) by (intro pending_inv_push) (simp add: pending_inv_def)
      show "distinct (map snd (ctx_pending (pending_push ?r (c\<lparr>ctx_requests := (ctx_requests c)(i \<mapsto> ?r)\<rparr>))))"
        using c(3) nin by (simp add: pending_push_def)
    next
      fix n q assume "(n, q) \<in> set (ctx_pending (pending_push ?r (c\<lparr>ctx_requests := (ctx_requests c)(i \<mapsto> ?r)\<rparr>)))"
      then consider "(n, q) \<in> set (ctx_pending c)" | "n = ctx_nextNode c" "q = ?r" by (auto simp: pending_push_def)
      then show "\<exists>rs. requestHeap ?b q = Some rs \<and> rs_state rs = ListIt n"
      proof cases
        case 1
        then have "q \<noteq> ?r" using nin by force
        then show ?thesis using st[OF 1] by simp
      qed (simp add: rs_defs)
    next
      fix q assume "q \<in> dom (requestHeap ?b)"
      then show "q < nextAddr ?b" using fresh[of q] by (auto simp: less_Suc_eq)
    qed
    ultimately show ?thesis using run by blast
  qed
qed

lemma hand_refines:
  assumes inv: "queue_inv t b" and step: "list_queue_step (Hand w) (queue_abs t b) = (a, s)"
  shows "\<exists>b'. queue_step t (Hand w) b = Some (a, b') \<and> queue_abs t b' = s \<and> queue_inv t b'"
proof -
  obtain c where c: "requestTypeContextLookup b t = Some c" "pending_inv c" "distinct (map snd (ctx_pending c))"
    and st: "\<And>n r. (n, r) \<in> set (ctx_pending c) \<Longrightarrow> \<exists>rs. requestHeap b r = Some rs \<and> rs_state rs = ListIt n"
    and fresh: "\<And>r. r \<in> dom (requestHeap b) \<Longrightarrow> r < nextAddr b"
    using inv unfolding queue_inv_def by fast
  show ?thesis
  proof (cases "ctx_pending c")
    case Nil
    then have "a = None" "s = queue_abs t b" using step c(1) by (auto simp: queue_abs_def pending_requests_def)
    with Nil c(1) inv show ?thesis by (simp add: GetNextPendingRequest_def)
  next
    case (Cons p ps)
    obtain n r where p: "p = (n, r)" by (cases p)
    from st[of n r] obtain rs where rs: "requestHeap b r = Some rs" "rs_state rs = ListIt n" using Cons p by auto
    from c(2) Cons p have "n \<notin> fst ` set ps" by (simp add: pending_inv_def)
    then have ps: "filter (\<lambda>q. fst q \<noteq> n) ps = ps" by (force simp: filter_id_conv)
    have nin: "r \<notin> snd ` set ps" using c(3) Cons p by simp
    let ?c = "c\<lparr>ctx_pending := ps\<rparr>"
    let ?b = "b\<lparr>requestTypeContextLookup := (requestTypeContextLookup b)(t \<mapsto> ?c),
      requestHeap := (requestHeap b)(r \<mapsto> Assign w rs)\<rparr>"
    have run: "queue_step t (Hand w) b = Some (Some (contents rs), ?b)"
      using c(1) Cons p rs ps
      by (simp add: GetNextPendingRequest_def AssignWorkerFromPending_def GetQueueCursor_def pending_erase_def
          modContext_def modRequest_def)
    have same: "map (\<lambda>q. contents (the (requestHeap ?b q))) (map snd ps) = map (\<lambda>q. contents (the (requestHeap b q))) (map snd ps)"
      using nin by auto
    have "queue_abs t ?b = (map (\<lambda>q. contents (the (requestHeap b q))) (map snd ps), dom (ctx_requests c))"
      unfolding same[symmetric] by (simp add: queue_abs_def pending_requests_def)
    then have "queue_abs t ?b = s" "a = Some (contents rs)"
      using step c(1) Cons p rs(1) by (auto simp: queue_abs_def pending_requests_def)
    moreover have "queue_inv t ?b"
    proof (rule queue_invI)
      show "requestTypeContextLookup ?b t = Some ?c" "distinct (map snd (ctx_pending ?c))" using c(3) Cons by simp_all
      show "pending_inv ?c" using c(2) Cons by (simp add: pending_inv_def)
    next
      fix n' q assume "(n', q) \<in> set (ctx_pending ?c)"
      then have "q \<noteq> r" "(n', q) \<in> set (ctx_pending c)" using nin Cons by force+
      then show "\<exists>rs. requestHeap ?b q = Some rs \<and> rs_state rs = ListIt n'" using st by simp
    next
      fix q assume "q \<in> dom (requestHeap ?b)"
      then show "q < nextAddr ?b" using fresh[of q] rs(1) by (auto split: if_splits)
    qed
    ultimately show ?thesis using run by blast
  qed
qed

lemma queue_run_refines:
  "queue_inv t b \<Longrightarrow> list_queue_run ops (queue_abs t b) = (as, s) \<Longrightarrow>
    \<exists>b'. queue_run t ops b = Some (as, b') \<and> queue_abs t b' = s \<and> queue_inv t b'"
proof (induction ops arbitrary: b as s)
  case Nil
  then show ?case by simp
next
  case (Cons x ops)
  obtain a s1 as1 s2 where x: "list_queue_step x (queue_abs t b) = (a, s1)" and r: "list_queue_run ops s1 = (as1, s2)"
    by (metis surj_pair)
  with Cons.prems(2) have e: "as = a # as1" "s = s2" by simp_all
  obtain b1 where b1: "queue_step t x b = Some (a, b1)" "queue_abs t b1 = s1" "queue_inv t b1"
    using submit_refines[OF Cons.prems(1)] hand_refines[OF Cons.prems(1)] x by (cases x) blast+
  from Cons.IH[OF b1(3)] b1(2) r obtain b2 where "queue_run t ops b1 = Some (as1, b2)" "queue_abs t b2 = s2" "queue_inv t b2"
    by blast
  with b1(1) e show ?case by simp
qed

text \<open>
  C14: In every reachable broker, submitting requests of a known type to its queue and handing
  them to workers behaves, for any sequence of the two, as on a plain list: requests come out in
  the order they were submitted, each once, with the flags and message it was submitted with, and
  a request whose id is known is not queued again. No operation is undefined.
\<close>

theorem pending_queue_refines_list:
  assumes "env_ok E" "reachable E b" "requestTypeContextLookup b t = Some c"
  shows "\<exists>b'. queue_run t ops b = Some (fst (list_queue_run ops (queue_abs t b)), b') \<and>
    queue_abs t b' = snd (list_queue_run ops (queue_abs t b))"
  using queue_run_refines[OF queue_inv_reachable[OF assms(2,1,3)]] by (cases "list_queue_run ops (queue_abs t b)") fastforce

lemma pending_queue_refines_list_witness:
  "\<exists>b'. queue_run 1 [Submit 6 plain [[8]], Submit 5 plain [[8]], Hand 0, Hand 0, Hand 0] (waiting_broker good_env plain) =
    Some ([None, None, Some (5, plain, Some (example_frames good_env plain)), Some (6, plain, Some [[8]]), None], b')"
proof -
  have a: "queue_abs 1 (waiting_broker good_env plain) = ([(5, plain, Some (example_frames good_env plain))], {5})"
    by (simp add: queue_abs_def pending_requests_def contents_def queued_rs_def rs_defs)
  show ?thesis
    using pending_queue_refines_list[OF _ waiting_reachable, of good_env plain 1 waiting_context
        "[Submit 6 plain [[8]], Submit 5 plain [[8]], Hand 0, Hand 0, Hand 0]"]
    by (auto simp: a)
qed

end
