(* ===== verification/BrokerDrain.thy ===== *)
theory BrokerDrain
  imports BrokerExamples
begin

text \<open>
  A worker that registers works off the queues: when no send to workers fails, it is left without
  capacity, or no request of its types is left waiting. This is progress, not safety, so it is
  stated of the runs that BrokerSweep shows to exist.
\<close>

section \<open>What the steps do to queues and capacity\<close>

definition queue_of :: "Broker \<Rightarrow> RequestType \<Rightarrow> (list_node \<times> rptr) list" where
  "queue_of b t = (case requestTypeContextLookup b t of None \<Rightarrow> [] | Some c \<Rightarrow> ctx_pending c)"

text \<open>No empty queue fills, and the worker's capacity does not grow.\<close>

definition works_off :: "wptr \<Rightarrow> Broker \<Rightarrow> Broker \<Rightarrow> bool" where
  "works_off w b b' \<longleftrightarrow> (\<forall>t. queue_of b t = [] \<longrightarrow> queue_of b' t = []) \<and>
     (\<forall>n. workerCapacity w b = Some n \<longrightarrow> (\<exists>n'. workerCapacity w b' = Some n' \<and> n' \<le> n))"

lemma works_off_refl [simp]: "works_off w b b"
  by (simp add: works_off_def)

lemma works_off_trans: "works_off w a b \<Longrightarrow> works_off w b c \<Longrightarrow> works_off w a c"
  unfolding works_off_def by (meson order_trans)

lemma works_offD: "works_off w b b' \<Longrightarrow> queue_of b t = [] \<Longrightarrow> queue_of b' t = []"
  by (simp add: works_off_def)

lemma works_off_context:
  assumes "modContext t f b = Some b'" "\<And>c. ctx_pending (f c) = ctx_pending c"
  shows "works_off w b b' \<and> queue_of b' = queue_of b \<and> workerHeap b' = workerHeap b"
proof -
  from assms(1) obtain c where c: "requestTypeContextLookup b t = Some c"
    "b' = b\<lparr>requestTypeContextLookup := (requestTypeContextLookup b)(t \<mapsto> f c)\<rparr>"
    by (auto simp: modContext_def split: option.splits)
  then have "queue_of b' = queue_of b" using assms(2) by (auto simp: queue_of_def fun_eq_iff)
  with c(2) show ?thesis by (auto simp: works_off_def workerCapacity_def)
qed

lemma queue_of_removeChecked: "queue_of (removeAvailableChecked ts w b) = queue_of b \<and>
    workerHeap (removeAvailableChecked ts w b) = workerHeap b"
proof (induction ts arbitrary: b)
  case (Cons t ts)
  show ?case
  proof (cases "modContext t (RemoveAvailableWorker w) b")
    case (Some b1)
    with works_off_context[OF Some] Cons show ?thesis by simp
  qed (use Cons in simp)
qed simp

lemma queue_of_removeUnchecked: "removeAvailableUnchecked ts w b = Some b' \<Longrightarrow> queue_of b' = queue_of b \<and> workerHeap b' = workerHeap b"
proof (induction ts arbitrary: b)
  case (Cons t ts)
  then obtain b1 where b1: "modContext t (RemoveAvailableWorker w) b = Some b1" "removeAvailableUnchecked ts w b1 = Some b'"
    by (auto split: bind_splits)
  with works_off_context[OF b1(1)] Cons.IH show ?case by simp
qed simp

lemma works_offI: "queue_of b' = queue_of b \<Longrightarrow> workerHeap b' = workerHeap b \<Longrightarrow> works_off w b b'"
  by (auto simp: works_off_def workerCapacity_def)

lemma forward1_works_off:
  assumes E: "env_ok E" "backend_ok E" and n: "workerCapacity w b = Some n" "0 < n"
    and f: "forwardWorkerParsedClientRequest1 E w t r b = Some (ret, b')"
  shows "ret = 0 \<and> works_off w b b' \<and> workerCapacity w b' = Some (n - 1)"
proof -
  obtain wi where wi: "workerHeap b w = Some wi" "FreeCapacity wi = n" using n(1) by (auto simp: workerCapacity_def)
  obtain rs m where rs: "requestHeap b r = Some rs" "rs_msg rs = Some m"
    using f by (auto simp: forwardWorkerParsedClientRequest1_def split: bind_splits)
  have s: "send_ret E wi m b = 0" using E(2) by (simp add: send_ret_def backend_ok_def)
  obtain c k where c: "requestTypeContextLookup b t = Some c" "rs_state rs = ListIt k" "k \<in> fst ` set (ctx_pending c)"
  proof (rule ccontr)
    assume no: "\<not> thesis"
    have bad: "\<not> (requestTypeContextLookup b t = Some c \<and> rs_state rs = ListIt k \<and> k \<in> fst ` set (ctx_pending c))" for c k
      using that no by blast
    then have "AssignWorkerFromPending t r w b1 = None" if "requestTypeContextLookup b1 = requestTypeContextLookup b"
      "requestHeap b1 = (requestHeap b)(r \<mapsto> rs\<lparr>rs_msg := None\<rparr>)" for b1
      using that
      by (auto simp: AssignWorkerFromPending_def GetQueueCursor_def pending_erase_def split: rs_union.splits bind_splits if_splits)
    then have "forwardWorkerParsedClientRequest1 E w t r b = None"
      using E(1) wi(1) rs s by (simp add: forwardWorkerParsedClientRequest1_def SendMsg_def Let_def modRequest_def
          modWorker_def UpdateRequest_msg_def addWorkerHeader_eq Send_worker)
    with f show False by simp
  qed
  note forward1_sends[OF E(1) rs wi(1) s c]
  with f have b': "ret = 0" "b' = b\<lparr>requestHeap := (requestHeap b)(r \<mapsto> forwarded_rs w m rs),
      workerHeap := (workerHeap b)(w \<mapsto> UpdateBrokerLastActive (currentTime b)
        (WorkerInfo_AddInProgressRequest t (rs_requestId rs) r wi)),
      requestTypeContextLookup := (requestTypeContextLookup b)(t \<mapsto>
        c\<lparr>ctx_pending := filter (\<lambda>p. fst p \<noteq> k) (ctx_pending c)\<rparr>),
      sends := sends b @ (Backend, toWorker E wi m, 0) # receipts E (rs_vfs rs) m t (rs_requestId rs)\<rparr>"
    by simp_all
  have "wi_freeCapacity (UpdateBrokerLastActive (currentTime b) (WorkerInfo_AddInProgressRequest t (rs_requestId rs) r wi))
      = wi_freeCapacity wi - 1" by (simp add: wi_upd_defs)
  from FreeCapacity_dec[OF this] wi(2) n(2) have "workerCapacity w b' = Some (n - 1)"
    by (simp add: b'(2) workerCapacity_def)
  moreover have "\<forall>t'. queue_of b t' = [] \<longrightarrow> queue_of b' t' = []"
    using c(1) by (simp add: b'(2) queue_of_def)
  ultimately show ?thesis using b'(1) n(1) by (simp add: works_off_def)
qed

section \<open>The sweeps\<close>

text \<open>\<open>exhausted\<close>: nothing of these types waits, or the worker is full, or the sweep knows better.\<close>

definition exhausted :: "wptr \<Rightarrow> bool \<Rightarrow> RequestType list \<Rightarrow> Broker \<Rightarrow> bool" where
  "exhausted w again ts b \<longleftrightarrow> again \<or> (\<exists>n. workerCapacity w b = Some n \<and> n \<le> 0) \<or> (\<forall>t \<in> set ts. queue_of b t = [])"

lemma exhausted_works_off: "exhausted w again ts b \<Longrightarrow> works_off w b b' \<Longrightarrow> exhausted w again ts b'"
  unfolding exhausted_def works_off_def by (meson order_trans)

lemma exhausted_weaken: "exhausted w again ts b \<Longrightarrow> (again \<longrightarrow> again') \<Longrightarrow> exhausted w again' ts b"
  by (auto simp: exhausted_def)

lemma exhausted_append: "exhausted w again us b \<Longrightarrow> exhausted w again vs b \<Longrightarrow> exhausted w again (us @ vs) b"
  by (auto simp: exhausted_def)

lemma next_none: "requestTypeContextLookup b t = Some c \<Longrightarrow> GetNextPendingRequest c = None \<longleftrightarrow> queue_of b t = []"
  by (simp add: queue_of_def GetNextPendingRequest_def split: list.splits)

lemma sweepTypes_works_off:
  assumes E: "env_ok E" "backend_ok E"
  shows "sweepTypes E w earlier us again b = Some (again', b') \<Longrightarrow> workerCapacity w b = Some n \<Longrightarrow> 0 < n \<Longrightarrow>
    works_off w b b' \<and> (again \<longrightarrow> again') \<and> exhausted w again' us b'"
proof (induction us arbitrary: earlier again b n)
  case Nil
  then show ?case by (simp add: exhausted_def)
next
  case (Cons t us)
  from Cons.prems(1) obtain c where c: "requestTypeContextLookup b t = Some c" by (auto split: bind_splits)
  have goal: ?case if "works_off w b b1" "workerCapacity w b1 = Some n1" "0 < n1" "exhausted w again1 [t] b1"
    "again \<longrightarrow> again1" "sweepTypes E w (earlier @ [t]) us again1 b1 = Some (again', b')" for b1 n1 again1
  proof -
    from Cons.IH[OF that(6,2,3)] have r: "works_off w b1 b'" "again1 \<longrightarrow> again'" "exhausted w again' us b'" by blast+
    with exhausted_append[OF exhausted_weaken[OF exhausted_works_off[OF that(4) r(1)] r(2)] r(3)] that(1,5)
    show ?thesis using works_off_trans by fastforce
  qed
  show ?case
  proof (cases "GetNextPendingRequest c")
    case None
    then have "exhausted w again [t] b" using next_none[OF c] by (simp add: exhausted_def)
    from goal[OF works_off_refl Cons.prems(2,3) this] Cons.prems(1) c None show ?thesis by simp
  next
    case (Some r)
    with Cons.prems(1) c obtain ret b1 where f: "forwardWorkerParsedClientRequest1 E w t r b = Some (ret, b1)"
      by (auto split: bind_splits)
    from forward1_works_off[OF E Cons.prems(2,3) f] have p: "ret = 0" "works_off w b b1" "workerCapacity w b1 = Some (n - 1)"
      by blast+
    show ?thesis
    proof (cases "n - 1 \<le> 0")
      case True
      with Cons.prems(1) c Some f p have e: "again' = again" "b' = removeAvailableChecked (earlier @ [t]) w b1" by simp_all
      have "works_off w b1 b'" unfolding e(2) by (rule works_offI) (simp_all add: queue_of_removeChecked)
      moreover from this have "exhausted w again' (t # us) b'"
        using True p(3) by (auto simp: exhausted_def works_off_def)
      ultimately show ?thesis using e(1) works_off_trans[OF p(2)] by blast
    next
      case False
      with Cons.prems(1) c Some f p obtain c1 where c1: "requestTypeContextLookup b1 t = Some c1"
        "sweepTypes E w (earlier @ [t]) us (again \<or> GetNextPendingRequest c1 \<noteq> None) b1 = Some (again', b')"
        by (auto split: bind_splits)
      have "exhausted w (again \<or> GetNextPendingRequest c1 \<noteq> None) [t] b1"
        using next_none[OF c1(1)] by (auto simp: exhausted_def)
      from goal[OF p(2,3) _ this _ c1(2)] False show ?thesis by simp
    qed
  qed
qed

lemma sweepPendingRequests_works_off:
  assumes E: "env_ok E" "backend_ok E"
  shows "sweepPendingRequests E w again b = Some b' \<Longrightarrow> workerHeap b w = Some wi \<Longrightarrow> FreeCapacity wi = n \<Longrightarrow>
    sweep_inv F b \<Longrightarrow> has_contexts ts b \<Longrightarrow> worker_at w ts n b \<Longrightarrow> exhausted w again ts b \<Longrightarrow>
    exhausted w False ts b'"
proof (induction "nat n" arbitrary: again b n wi rule: less_induct)
  case less
  have ts: "wi_supportedRequestTypes wi = ts" using less.prems(2,6) by (auto simp: worker_at_def)
  show ?case
  proof (cases "0 < n \<and> again")
    case False
    then have "b' = b" using less.prems(1,2,3) by (subst (asm) sweepPendingRequests.simps) (auto split: if_splits)
    then show ?thesis using False less.prems(2,3,7) by (auto simp: exhausted_def workerCapacity_def)
  next
    case True
    from sweepTypes_safe[OF E(1) less.prems(4,5,6) order_refl, of "[]" False] True obtain again' b1 n' where
      f: "sweepTypes E w [] ts False b = Some (again', b1)" and J1: "sweep_inv F b1" and d1: "sweep_frame b b1"
      and w1: "worker_at w ts n' b1" and n': "n' \<le> n" "again' \<longrightarrow> n' < n" by (auto simp: runs_to_def)
    have step: "sweepPendingRequests E w again' b1 = Some b'"
      using less.prems(1,2,3) True f ts by (subst (asm) sweepPendingRequests.simps) simp
    have cap: "workerCapacity w b = Some n" using less.prems(2,3) by (simp add: workerCapacity_def)
    from sweepTypes_works_off[OF E f cap] True have ex: "exhausted w again' ts b1" by blast
    obtain wi1 where wi1: "workerHeap b1 w = Some wi1" "FreeCapacity wi1 = n'" using w1 by (auto simp: worker_at_def)
    show ?thesis
    proof (cases again')
      case True
      then have "nat n' < nat n" using n' \<open>0 < n \<and> again\<close> by simp
      from less.hyps[OF this step wi1 J1 has_contexts_frame[OF d1 less.prems(5)] w1 ex] show ?thesis .
    next
      case False
      then have "b' = b1" using step wi1(1) by (subst (asm) sweepPendingRequests.simps) simp
      with ex False show ?thesis by simp
    qed
  qed
qed

section \<open>A new worker\<close>

lemma newWorkerVisit_works_off:
  assumes E: "env_ok E" "backend_ok E" and f: "newWorkerVisit E w earlier t again b = Some (again', b')"
    and n: "workerCapacity w b = Some n"
  shows "works_off w b b' \<and> (again \<longrightarrow> again') \<and> exhausted w again' [t] b'"
proof (cases "requestTypeContextLookup b t")
  case None
  let ?b = "newContext t b"
  have q: "queue_of ?b = queue_of b" "workerHeap ?b = workerHeap b" "queue_of b t = []"
    using None by (auto simp: newContext_def queue_of_def fun_eq_iff)
  from f n None obtain b1 where b1: "modContext t IncrementNumWorkers ?b = Some b1"
    "again' = again" "(if 0 < n then modContext t (AddAvailableWorker w) b1 else Some b1) = Some b'"
    by (auto simp: newWorkerVisit_def split: bind_splits if_splits)
  from works_off_context[OF b1(1)] q have p1: "queue_of b1 = queue_of b" "workerHeap b1 = workerHeap b" by simp_all
  have "queue_of b' = queue_of b1 \<and> workerHeap b' = workerHeap b1"
    using b1(3) works_off_context[of t "AddAvailableWorker w" b1 b' w] by (auto split: if_splits)
  with p1 q(3) b1(2) show ?thesis by (simp add: works_offI exhausted_def)
next
  case (Some c)
  from f n Some obtain b1 where b1: "modContext t IncrementNumWorkers b = Some b1"
    by (auto simp: newWorkerVisit_def split: bind_splits)
  from works_off_context[OF b1] have p1: "queue_of b1 = queue_of b" "workerHeap b1 = workerHeap b" by simp_all
  then have w1: "works_off w b b1" and n1: "workerCapacity w b1 = Some n"
    using n by (simp_all add: works_offI workerCapacity_def)
  have add: "works_off w b2 b' \<and> queue_of b' = queue_of b2" if "modContext t (AddAvailableWorker w) b2 = Some b'" for b2
    using works_off_context[OF that] by simp
  have c1: "requestTypeContextLookup b1 t = Some (IncrementNumWorkers c)"
    using b1 Some by (auto simp: modContext_def)
  consider (busy) "n \<le> 0" | (idle) "0 < n" "GetNextPendingRequest c = None"
    | (waiting) r where "0 < n" "GetNextPendingRequest c = Some r" by fastforce
  then show ?thesis
  proof cases
    case busy
    then have "again' = again" "b' = b1" using f n Some b1 by (auto simp: newWorkerVisit_def)
    then show ?thesis using w1 n1 busy by (simp add: exhausted_def)
  next
    case idle
    then have e: "modContext t (AddAvailableWorker w) b1 = Some b'" "again' = again"
      using f n Some b1 by (auto simp: newWorkerVisit_def split: bind_splits)
    have "queue_of b t = []" using next_none[OF Some] idle(2) by simp
    then show ?thesis using add[OF e(1)] p1 e(2) works_off_trans[OF w1] by (simp add: exhausted_def)
  next
    case waiting
    obtain ret b2 where s: "forwardWorkerParsedClientRequest1 E w t r b1 = Some (ret, b2)"
      using f n Some b1 waiting by (auto simp: newWorkerVisit_def split: bind_splits)
    from forward1_works_off[OF E n1 waiting(1) s] have p: "ret = 0" "works_off w b1 b2" "workerCapacity w b2 = Some (n - 1)"
      by blast+
    show ?thesis
    proof (cases "n - 1 \<le> 0")
      case True
      then have e: "removeAvailableUnchecked earlier w b2 = Some b'" "again' = again"
        using f n Some b1 waiting s p by (auto simp: newWorkerVisit_def split: bind_splits)
      have u: "works_off w b2 b'" using queue_of_removeUnchecked[OF e(1)] by (simp add: works_offI)
      have "exhausted w again' [t] b2" using True p(3) by (simp add: exhausted_def)
      with exhausted_works_off[OF this u] works_off_trans[OF w1 works_off_trans[OF p(2) u]] e(2) show ?thesis by simp
    next
      case False
      then obtain b3 c3 where e: "modContext t (AddAvailableWorker w) b2 = Some b3" "requestTypeContextLookup b3 t = Some c3"
        "b' = b3" "again' \<longleftrightarrow> again \<or> GetNextPendingRequest c3 \<noteq> None"
        using f n Some b1 waiting s p by (auto simp: newWorkerVisit_def split: bind_splits)
      have "works_off w b2 b'" using works_off_context[OF e(1)] e(3) by simp
      moreover have "exhausted w again' [t] b'" using next_none[OF e(2)] e(3,4) by (auto simp: exhausted_def)
      ultimately show ?thesis using e(4) works_off_trans[OF w1 works_off_trans[OF p(2)]] by simp
    qed
  qed
qed

lemma newWorkerFirstSweep_works_off:
  assumes E: "env_ok E" "backend_ok E"
  shows "newWorkerFirstSweep E w earlier us again b = Some (again', b') \<Longrightarrow> workerCapacity w b = Some n \<Longrightarrow>
    works_off w b b' \<and> (again \<longrightarrow> again') \<and> exhausted w again' us b'"
proof (induction us arbitrary: earlier again b n)
  case Nil
  then show ?case by (simp add: exhausted_def)
next
  case (Cons t us)
  then obtain again1 b1 where v: "newWorkerVisit E w earlier t again b = Some (again1, b1)"
    and r: "newWorkerFirstSweep E w (earlier @ [t]) us again1 b1 = Some (again', b')"
    by (auto split: bind_splits)
  from newWorkerVisit_works_off[OF E v Cons.prems(2)] have p: "works_off w b b1" "again \<longrightarrow> again1" "exhausted w again1 [t] b1"
    by blast+
  then obtain n1 where "workerCapacity w b1 = Some n1" using Cons.prems(2) by (auto simp: works_off_def)
  from Cons.IH[OF r this] have q: "works_off w b1 b'" "again1 \<longrightarrow> again'" "exhausted w again' us b'" by blast+
  from exhausted_append[OF exhausted_weaken[OF exhausted_works_off[OF p(3) q(1)] q(2)] q(3)] p(2) q(2)
    works_off_trans[OF p(1) q(1)]
  show ?case by simp
qed

lemma updateContextsForNewWorker_drains:
  assumes E: "env_ok E" "backend_ok E" and J: "sweep_inv {} b" and w: "worker_at w ts n b"
  shows "\<exists>b'. updateContextsForNewWorker E w b = Some b' \<and> exhausted w False ts b'"
proof -
  from w obtain wi where wi: "workerHeap b w = Some wi" "wi_supportedRequestTypes wi = ts" by (auto simp: worker_at_def)
  from newWorkerFirstSweep_safe[OF E(1) J w order_refl, of "[]" False] obtain again b1 where
    f: "newWorkerFirstSweep E w [] ts False b = Some (again, b1)" and v: "visited {} w ts b b1" and h1: "has_contexts ts b1"
    by (auto simp: runs_to_def has_contexts_def)
  from v obtain n1 where J1: "sweep_inv {} b1" and w1: "worker_at w ts n1 b1" by (auto simp: visited_def)
  from newWorkerFirstSweep_works_off[OF E f worker_at_capacity[OF w]] have ex: "exhausted w again ts b1" by blast
  from sweepPendingRequests_safe[OF E(1) J1 h1 w1, of again] obtain b2 where
    s: "sweepPendingRequests E w again b1 = Some b2" by (auto simp: runs_to_def)
  obtain wi1 where wi1: "workerHeap b1 w = Some wi1" "FreeCapacity wi1 = n1" using w1 by (auto simp: worker_at_def)
  from sweepPendingRequests_works_off[OF E s wi1 J1 h1 w1 ex] wi f s show ?thesis
    by (auto simp: updateContextsForNewWorker_def)
qed

text \<open>
  C15: When sends to workers do not fail, a worker that registers with a reachable broker takes
  the waiting requests: afterwards it is full, or none of its types has a request left waiting.
\<close>

theorem ready_worker_drains_queues:
  assumes E: "env_ok E" "backend_ok E" and b: "reachable E b" and i: "ident \<noteq> []"
    and new: "LookupWorkerInfo (workerInfoLookup b) ident = None"
    and n: "0 \<le> capacity" "capacity \<in> int32" "delay \<in> int32" "types \<noteq> []" "distinct types"
  shows "\<exists>b'. backendMessagingReactor E now
      (Some (worker_message E ident WorkerReady (ready_payload E vfs capacity delay types))) b = Some (0, b') \<and>
    ((\<exists>wi. workerHeap b' (nextAddr b) = Some wi \<and> FreeCapacity wi \<le> 0) \<or> nothing_pending types b')"
proof -
  let ?wi = "WorkerInfo_new ident now (word_of_int capacity) types delay vfs"
  let ?b = "receiving now (ready_payload E vfs capacity delay types) b"
  have ok: "broker_ok ?b" using reachable_ok[OF b E(1)] by (simp add: system_ok_def receiving_def)
  have l: "LookupWorkerInfo (workerInfoLookup ?b) (wi_identity ?wi) = None"
    using new by (simp add: receiving_def updateCurrentTime_def WorkerInfo_new_def)
  have "worker_ok ?wi" using n(5) by (simp add: worker_ok_def WorkerInfo_new_def in_progress_def)
  from registerWorker_safe[OF ok l this in_progress_new] obtain b1 where b1: "registerWorker ?wi ?b = (nextAddr ?b, b1)" "sweep_inv {} b1"
      "workerHeap b1 = (workerHeap ?b)(nextAddr ?b \<mapsto> ?wi)"
    by blast
  have a: "nextAddr ?b = nextAddr b" "currentTime ?b = now" by (simp_all add: receiving_def updateCurrentTime_def)
  have w1: "worker_at (nextAddr b) types (FreeCapacity ?wi) b1"
    using b1(3) a by (simp add: worker_at_def WorkerInfo_new_def)
  from updateContextsForNewWorker_drains[OF E b1(2) w1] obtain b2 where
    b2: "updateContextsForNewWorker E (nextAddr b) b1 = Some b2" "exhausted (nextAddr b) False types b2" by blast
  have "handleWorkerReady E ident ?b = Some (Returns 0, b2\<lparr>inbox := None\<rparr>)"
    using new parseWorkerReady_payload[OF E(1) n(1-4), of vfs] b1(1) b2(1) a
    by (simp add: handleWorkerReady_def)
  then have "backendMessagingReactor E now (Some (worker_message E ident WorkerReady (ready_payload E vfs capacity delay types))) b =
      Some (0, b2\<lparr>inbox := None\<rparr>)"
    by (simp add: backend_message[OF E(1) i] dispatchBackendMessage_def catching_def only_negative_def)
  moreover have "(\<exists>wi. workerHeap (b2\<lparr>inbox := None\<rparr>) (nextAddr b) = Some wi \<and> FreeCapacity wi \<le> 0) \<or>
      nothing_pending types (b2\<lparr>inbox := None\<rparr>)"
    using b2(2) by (force simp: exhausted_def workerCapacity_def nothing_pending_def queue_of_def split: option.splits)
  ultimately show ?thesis by blast
qed

lemma ready_worker_drains_queues_witness:
  "\<exists>b'. backendMessagingReactor good_env 105
      (Some (worker_message good_env [7] WorkerReady (ready_payload good_env plain 2 5 [1, 3]))) (waiting_broker good_env plain) =
      Some (0, b') \<and>
    ((\<exists>wi. workerHeap b' (nextAddr (waiting_broker good_env plain)) = Some wi \<and> FreeCapacity wi \<le> 0) \<or> nothing_pending [1, 3] b')"
  using ready_worker_drains_queues[OF _ _ waiting_reachable, of good_env plain "[7]" 2 5 "[1, 3]" 105 plain]
  by (auto simp: LookupWorkerInfo_def int32_def)

end
