(* ===== verification/Host.thy ===== *)
theory Host
  imports Prelude "HOL-Library.State_Monad"
begin

text \<open>
  What the components share around their handlers: sockets made by a factory
  (\<open>IZMQSocketFactory\<close>), the \<open>zloop\<close> reactor with its readers and timers, the thread the reactor
  runs in, and \<open>RefreshSocket\<close> of utils.cxx. All of it is outside the repository, so an operation is
  a call whose result code comes from a parameter \<open>H\<close>, a function of the calls made before; the
  state keeps the calls, and which members are not null. A component names its sockets by a type
  \<open>'s\<close> and its timers by a type \<open>'t\<close>.
\<close>

section \<open>Calls\<close>

type_synonym endpoint = string

datatype SocketType = Dealer | Router | Pair | Subscriber | Publisher | XSubscriber | XPublisher

datatype ('s, 't) host_call =
    Create 's SocketType
  | Destroy 's
  | Bind 's endpoint
  | UnBind 's endpoint
  | Connect 's endpoint
  | DisConnect 's endpoint
  | SignalOn 's int
  | SendOn 's "8 word list list"
  | zloop_new
  | zloop_destroy
  | zloop_reader 's
  | zloop_reader_end 's
  | zloop_timer 't int      \<comment> \<open>the member that takes the timer's id, and the delay in milliseconds\<close>
  | zloop_timer_end 't
  | zpoller_new 's
  | zpoller_destroy
  | PollOn 's int            \<comment> \<open>\<open>zpoller_wait\<close> on the socket's poller, in milliseconds\<close>
  | ReceiveOn 's
  | Subscribe 's "8 word list"
  | UnSubscribe 's "8 word list"
  | NewThread
  | JoinThread
  | SleepFor int

record ('s, 't) host =
  calls :: "('s, 't) host_call list"
  present :: "'s set"          \<comment> \<open>the socket members that are not null\<close>
  has_reactor :: bool
  has_poller :: bool
  reactorThread :: bool

type_synonym ('s, 't) host_env = "('s, 't) host_call list \<Rightarrow> ('s, 't) host_call \<Rightarrow> int"
type_synonym ('s, 't, 'a) hosted = "(('s, 't) host, 'a) state"

definition new_host :: "('s, 't) host" where
  "new_host = \<lparr> calls = [], present = {}, has_reactor = False, has_poller = False, reactorThread = False \<rparr>"

definition invoke :: "('s, 't) host_env \<Rightarrow> ('s, 't) host_call \<Rightarrow> ('s, 't, int) hosted" where
  "invoke H c = State (\<lambda>h. (H (calls h) c, h\<lparr>calls := calls h @ [c]\<rparr>))"

lemma run_invoke [simp]: "run_state (invoke H c) h = (H (calls h) c, h\<lparr>calls := calls h @ [c]\<rparr>)"
  by (simp add: invoke_def)

lemma run_update [simp]: "run_state (State_Monad.update f) h = ((), f h)"
  by (simp add: State_Monad.update_def)

text \<open>A result code as the \<open>int\<close> that \<open>... < 0\<close> is added up as.\<close>

definition failed :: "int \<Rightarrow> int" where
  "failed ret = (if ret < 0 then 1 else 0)"

section \<open>The socket factory and the reactor\<close>

text \<open>A socket or reactor is null exactly if the call that makes it gives 0.\<close>

definition factory_create :: "('s, 't) host_env \<Rightarrow> 's \<Rightarrow> SocketType \<Rightarrow> ('s, 't, unit) hosted" where
  "factory_create H s type = do {
     made \<leftarrow> invoke H (Create s type);
     State_Monad.update (\<lambda>h. h\<lparr>present := (if made \<noteq> 0 then insert s (present h) else present h - {s})\<rparr>)
   }"

definition factory_destroy :: "('s, 't) host_env \<Rightarrow> 's \<Rightarrow> ('s, 't, unit) hosted" where
  "factory_destroy H s = do {
     _ \<leftarrow> invoke H (Destroy s);
     State_Monad.update (\<lambda>h. h\<lparr>present := present h - {s}\<rparr>)
   }"

definition RefreshSocket :: "('s, 't) host_env \<Rightarrow> 's \<Rightarrow> SocketType \<Rightarrow> ('s, 't, int) hosted" where
  "RefreshSocket H s type = do {
     factory_destroy H s;
     factory_create H s type;
     h \<leftarrow> State_Monad.get;
     State_Monad.return (if s \<in> present h then 0 else 1)
   }"

definition reactor_create :: "('s, 't) host_env \<Rightarrow> ('s, 't, unit) hosted" where
  "reactor_create H = do {
     made \<leftarrow> invoke H zloop_new;
     State_Monad.update (\<lambda>h. h\<lparr>has_reactor := made \<noteq> 0\<rparr>)
   }"

definition poller_create :: "('s, 't) host_env \<Rightarrow> 's \<Rightarrow> ('s, 't, unit) hosted" where
  "poller_create H s = do {
     made \<leftarrow> invoke H (zpoller_new s);
     State_Monad.update (\<lambda>h. h\<lparr>has_poller := made \<noteq> 0\<rparr>)
   }"

text \<open>\<open>if ( member ) destroy\<close>, as the destructors have it.\<close>

definition destroy_present :: "('s, 't) host_env \<Rightarrow> 's \<Rightarrow> ('s, 't, unit) hosted" where
  "destroy_present H s = do {
     h \<leftarrow> State_Monad.get;
     if s \<in> present h then factory_destroy H s else State_Monad.return ()
   }"

definition destroy_reactor :: "('s, 't) host_env \<Rightarrow> ('s, 't, unit) hosted" where
  "destroy_reactor H = do {
     h \<leftarrow> State_Monad.get;
     if has_reactor h then do {
       _ \<leftarrow> invoke H zloop_destroy;
       State_Monad.update (\<lambda>h. h\<lparr>has_reactor := False\<rparr>)
     } else State_Monad.return ()
   }"

definition destroy_poller :: "('s, 't) host_env \<Rightarrow> ('s, 't, unit) hosted" where
  "destroy_poller H = do {
     h \<leftarrow> State_Monad.get;
     if has_poller h then do {
       _ \<leftarrow> invoke H zpoller_destroy;
       State_Monad.update (\<lambda>h. h\<lparr>has_poller := False\<rparr>)
     } else State_Monad.return ()
   }"

text \<open>
  \<open>reactorThread = unique_ptr< thread >( new thread( ... ) )\<close>. If the system has no thread to give the
  constructor throws, and leaves \<open>reactorThread\<close> as it was; the result is then \<open>False\<close>. \<open>new\<close> never gives
  a null pointer, so the branches that follow in the code for that case are never taken.
\<close>

definition new_thread :: "('s, 't) host_env \<Rightarrow> ('s, 't, bool) hosted" where
  "new_thread H = do {
     made \<leftarrow> invoke H NewThread;
     if made = 0 then State_Monad.return False
     else do {
       State_Monad.update (\<lambda>h. h\<lparr>reactorThread := True\<rparr>);
       State_Monad.return True
     }
   }"

lemmas host_defs = factory_create_def factory_destroy_def RefreshSocket_def reactor_create_def
  destroy_present_def destroy_reactor_def poller_create_def destroy_poller_def new_thread_def

section \<open>What the calls hold\<close>

text \<open>Bindings, connections, readers and timers.\<close>

record ('s, 't) resources =
  bound :: "('s \<times> endpoint) set"
  connected :: "('s \<times> endpoint) set"
  reading :: "'s set"
  ticking :: "'t set"

definition no_resources :: "('s, 't) resources" where
  "no_resources = \<lparr> bound = {}, connected = {}, reading = {}, ticking = {} \<rparr>"

text \<open>
  What a history of calls asks for and has not asked to be released, whatever the calls answered.
  Destroying a socket drops its bindings and connections.
\<close>

fun ask_for :: "('s, 't) host_call \<Rightarrow> ('s, 't) resources \<Rightarrow> ('s, 't) resources" where
  "ask_for (Bind s e) R = R\<lparr>bound := insert (s, e) (bound R)\<rparr>"
| "ask_for (UnBind s e) R = R\<lparr>bound := bound R - {(s, e)}\<rparr>"
| "ask_for (Connect s e) R = R\<lparr>connected := insert (s, e) (connected R)\<rparr>"
| "ask_for (DisConnect s e) R = R\<lparr>connected := connected R - {(s, e)}\<rparr>"
| "ask_for (Destroy s) R = R\<lparr>bound := {x \<in> bound R. fst x \<noteq> s}, connected := {x \<in> connected R. fst x \<noteq> s}\<rparr>"
| "ask_for (zloop_reader s) R = R\<lparr>reading := insert s (reading R)\<rparr>"
| "ask_for (zloop_reader_end s) R = R\<lparr>reading := reading R - {s}\<rparr>"
| "ask_for (zloop_timer t delay) R = R\<lparr>ticking := insert t (ticking R)\<rparr>"
| "ask_for (zloop_timer_end t) R = R\<lparr>ticking := ticking R - {t}\<rparr>"
| "ask_for _ R = R"

definition asked_for :: "('s, 't) host \<Rightarrow> ('s, 't) resources" where
  "asked_for h = fold ask_for (calls h) no_resources"

lemma asked_for_update [simp]:
  "fold ask_for (calls h) no_resources = asked_for h" "asked_for (h\<lparr>calls := cs\<rparr>) = fold ask_for cs no_resources"
  "asked_for (h\<lparr>present := p\<rparr>) = asked_for h" "asked_for (h\<lparr>has_reactor := r\<rparr>) = asked_for h" "asked_for (h\<lparr>has_poller := r\<rparr>) = asked_for h" "asked_for (h\<lparr>reactorThread := r\<rparr>) = asked_for h"
  by (simp_all add: asked_for_def)

lemma no_resources_fields [simp]:
  "bound no_resources = {}" "connected no_resources = {}" "reading no_resources = {}" "ticking no_resources = {}"
  by (simp_all add: no_resources_def)

lemma resources_eq_iff: "(R :: ('s, 't) resources) = S \<longleftrightarrow> bound R = bound S \<and> connected R = connected S \<and>
    reading R = reading S \<and> ticking R = ticking S"
  by (cases R; cases S) simp

lemma asked_for_new [simp]: "asked_for new_host = no_resources"
  by (simp add: asked_for_def new_host_def)

text \<open>
  What they hold in fact. A call that fails changes nothing: what could not be bound is not held, and
  what could not be released still is. Destroying a socket and ending a reader have no result.
\<close>

fun has_result :: "('s, 't) host_call \<Rightarrow> bool" where
  "has_result (Destroy s) = False"
| "has_result (zloop_reader_end s) = False"
| "has_result _ = True"

definition grant :: "int \<Rightarrow> ('s, 't) host_call \<Rightarrow> ('s, 't) resources \<Rightarrow> ('s, 't) resources" where
  "grant ret c R = (if has_result c \<and> ret < 0 then R else ask_for c R)"

fun granted_from ::
    "('s, 't) host_env \<Rightarrow> ('s, 't) host_call list \<Rightarrow> ('s, 't) host_call list \<Rightarrow> ('s, 't) resources \<Rightarrow> ('s, 't) resources" where
  "granted_from H before [] R = R"
| "granted_from H before (c # cs) R = granted_from H (before @ [c]) cs (grant (H before c) c R)"

definition granted :: "('s, 't) host_env \<Rightarrow> ('s, 't) host \<Rightarrow> ('s, 't) resources" where
  "granted H h = granted_from H [] (calls h) no_resources"

definition refused :: "('s, 't) host_env \<Rightarrow> ('s, 't) host \<Rightarrow> ('s, 't) host_call \<Rightarrow> bool" where
  "refused H h c \<longleftrightarrow> (\<exists>before after. calls h = before @ c # after \<and> H before c < 0)"

definition within :: "('s, 't) resources \<Rightarrow> ('s, 't) resources \<Rightarrow> bool" where
  "within R S \<longleftrightarrow> bound R \<subseteq> bound S \<and> connected R \<subseteq> connected S \<and> reading R \<subseteq> reading S \<and> ticking R \<subseteq> ticking S"

lemma within_refl [simp]: "within R R"
  by (simp add: within_def)

lemma within_trans: "within R S \<Longrightarrow> within S T \<Longrightarrow> within R T"
  by (auto simp: within_def)

lemma within_no_resources [simp]: "within R no_resources \<longleftrightarrow> R = no_resources"
  by (auto simp: within_def resources_eq_iff)

lemma granted_from_append: "granted_from H before (cs @ ds) R = granted_from H (before @ cs) ds (granted_from H before cs R)"
  by (induction cs arbitrary: before R) simp_all

lemma granted_calls: "calls h' = calls h @ cs \<Longrightarrow> granted H h' = granted_from H (calls h) cs (granted H h)"
  by (simp add: granted_def granted_from_append)

lemma granted_update [simp]:
  "granted H (h\<lparr>present := p\<rparr>) = granted H h" "granted H (h\<lparr>has_reactor := r\<rparr>) = granted H h"
  "granted H (h\<lparr>has_poller := r\<rparr>) = granted H h" "granted H (h\<lparr>reactorThread := r\<rparr>) = granted H h"
  "granted H new_host = no_resources"
  by (simp_all add: granted_def new_host_def)

text \<open>What is held and was asked to be released was refused.\<close>

lemma refused_snoc:
  "refused H h c \<Longrightarrow> refused H (h\<lparr>calls := calls h @ [d]\<rparr>) c" "H (calls h) c < 0 \<Longrightarrow> refused H (h\<lparr>calls := calls h @ [c]\<rparr>) c"
proof -
  show "refused H (h\<lparr>calls := calls h @ [d]\<rparr>) c" if r: "refused H h c"
  proof -
    obtain before after where "calls h = before @ c # after" "H before c < 0" using r by (auto simp: refused_def)
    then have "calls (h\<lparr>calls := calls h @ [d]\<rparr>) = before @ c # (after @ [d]) \<and> H before c < 0" by simp
    then show ?thesis unfolding refused_def by blast
  qed
qed (auto simp: refused_def)

definition all_asked_or_refused :: "('s, 't) host_env \<Rightarrow> ('s, 't) host \<Rightarrow> bool" where
  "all_asked_or_refused H h \<longleftrightarrow>
     (\<forall>s e. (s, e) \<in> bound (granted H h) \<longrightarrow> (s, e) \<in> bound (asked_for h) \<or> refused H h (UnBind s e)) \<and>
     (\<forall>s e. (s, e) \<in> connected (granted H h) \<longrightarrow> (s, e) \<in> connected (asked_for h) \<or> refused H h (DisConnect s e)) \<and>
     reading (granted H h) \<subseteq> reading (asked_for h) \<and>
     (\<forall>t. t \<in> ticking (granted H h) \<longrightarrow> t \<in> ticking (asked_for h) \<or> refused H h (zloop_timer_end t))"

lemma asked_or_refused_snoc:
  assumes "all_asked_or_refused H h"
  shows "all_asked_or_refused H (h\<lparr>calls := calls h @ [c]\<rparr>)"
proof -
  define h' where "h' = h\<lparr>calls := calls h @ [c]\<rparr>"
  have g: "granted H h' = grant (H (calls h) c) c (granted H h)" "asked_for h' = ask_for c (asked_for h)"
    using granted_calls[of h' h "[c]" H] by (simp_all add: h'_def)
  have up: "refused H h x \<Longrightarrow> refused H h' x" and now: "H (calls h) c < 0 \<Longrightarrow> refused H h' c" for x
    using refused_snoc unfolding h'_def by blast+
  let ?G = "granted H h" and ?A = "asked_for h"
  have old: "(s, e) \<in> bound ?G \<Longrightarrow> (s, e) \<in> bound ?A \<or> refused H h' (UnBind s e)"
    "(s, e) \<in> connected ?G \<Longrightarrow> (s, e) \<in> connected ?A \<or> refused H h' (DisConnect s e)"
    "r \<in> reading ?G \<Longrightarrow> r \<in> reading ?A" "t \<in> ticking ?G \<Longrightarrow> t \<in> ticking ?A \<or> refused H h' (zloop_timer_end t)" for s e r t
    using assms up unfolding all_asked_or_refused_def by blast+
  have "all_asked_or_refused H h'"
    using now unfolding all_asked_or_refused_def g by (cases c) (auto simp: grant_def dest: old split: if_splits)
  then show ?thesis by (simp add: h'_def)
qed

lemma asked_or_refused: "all_asked_or_refused H h"
proof -
  have "all_asked_or_refused H (h\<lparr>calls := cs\<rparr>)" for cs
  proof (induction cs rule: rev_induct)
    case Nil
    then show ?case by (simp add: all_asked_or_refused_def granted_def)
  next
    case (snoc c cs)
    then show ?case using asked_or_refused_snoc[of H "h\<lparr>calls := cs\<rparr>" c] by simp
  qed
  from this[of "calls h"] show ?thesis by simp
qed

text \<open>The most they may hold: as if every release failed that can.\<close>

fun at_most :: "('s, 't) host_call \<Rightarrow> ('s, 't) resources \<Rightarrow> ('s, 't) resources" where
  "at_most (UnBind s e) R = R"
| "at_most (DisConnect s e) R = R"
| "at_most (zloop_timer_end t) R = R"
| "at_most c R = ask_for c R"

lemma grant_at_most: "within R S \<Longrightarrow> within (grant ret c R) (at_most c S)"
  by (cases c) (auto simp: grant_def within_def)

lemma granted_from_at_most: "within R S \<Longrightarrow> within (granted_from H before cs R) (fold at_most cs S)"
  by (induction cs arbitrary: before R S) (simp_all add: grant_at_most)

lemma granted_at_most: "calls h' = calls h @ cs \<Longrightarrow> within (granted H h) S \<Longrightarrow> within (granted H h') (fold at_most cs S)"
  by (simp add: granted_calls granted_from_at_most)

end
