(* ===== verification/BrokerLifecycle.thy ===== *)
theory BrokerLifecycle
  imports BrokerLoop Host
begin

text \<open>
  The life of a \<open>Broker\<close> around its handlers (broker.cxx, constructor to \<open>StartAsPrimary\<close>): making
  and destroying its sockets and reactor, binding them, registering the callbacks, starting and
  stopping the thread the reactor runs in. \<open>PrimaryThread\<close> is what that thread runs, with the loop of
  theory BrokerLoop in the middle. \<open>checkRet\<close> only logs.
\<close>

datatype broker_socket = backendMessagingSocket | frontendMessagingSocket | listenerSocket | signalerSocket

datatype broker_timer = heartbeatWorkerReactorId | checkPulseWorkerReactorId | dumpStatsReactorId

type_synonym broker_host = "(broker_socket, broker_timer) host"
type_synonym broker_hosting = "(broker_socket, broker_timer) host_env"
type_synonym 'a broker_hosted = "(broker_socket, broker_timer, 'a) hosted"

record BrokerEndpoints =
  selfFrontendMessagingEndpoint :: endpoint
  selfBackendMessagingEndpoint :: endpoint
  selfControllerEndpoint :: endpoint

section \<open>Construction and destruction\<close>

text \<open>The result tells whether the constructor returned; it throws otherwise.\<close>

definition Broker_construct :: "broker_hosting \<Rightarrow> bool broker_hosted" where
  "Broker_construct H = do {
     factory_create H backendMessagingSocket Router;
     factory_create H frontendMessagingSocket Router;
     factory_create H listenerSocket Pair;
     factory_create H signalerSocket Pair;
     reactor_create H;
     h \<leftarrow> State_Monad.get;
     State_Monad.return ({backendMessagingSocket, listenerSocket, signalerSocket} \<subseteq> present h \<and> has_reactor h)
   }"

section \<open>Sockets and callbacks\<close>

definition activateControllerSockets :: "broker_hosting \<Rightarrow> BrokerEndpoints \<Rightarrow> int broker_hosted" where
  "activateControllerSockets H eps = do {
     ret \<leftarrow> invoke H (Bind listenerSocket (selfControllerEndpoint eps));
     ret1 \<leftarrow> invoke H (Connect signalerSocket (selfControllerEndpoint eps));
     State_Monad.return (failed ret + failed ret1)
   }"

definition activateMessagingSockets :: "broker_hosting \<Rightarrow> BrokerEndpoints \<Rightarrow> int broker_hosted" where
  "activateMessagingSockets H eps = do {
     ret \<leftarrow> invoke H (Bind backendMessagingSocket (selfBackendMessagingEndpoint eps));
     ret1 \<leftarrow> invoke H (Bind frontendMessagingSocket (selfFrontendMessagingEndpoint eps));
     State_Monad.return (failed ret + failed ret1)
   }"

definition setupControllerCallbacks :: "broker_hosting \<Rightarrow> int broker_hosted" where
  "setupControllerCallbacks H = invoke H (zloop_reader listenerSocket)"

definition teardownControllerCallbacks :: "broker_hosting \<Rightarrow> int broker_hosted" where
  "teardownControllerCallbacks H = do {
     _ \<leftarrow> invoke H (zloop_reader_end listenerSocket);
     State_Monad.return 0
   }"

definition teardownMessagingCallbacks :: "broker_hosting \<Rightarrow> int broker_hosted" where
  "teardownMessagingCallbacks H = do {
     _ \<leftarrow> invoke H (zloop_reader_end frontendMessagingSocket);
     _ \<leftarrow> invoke H (zloop_reader_end backendMessagingSocket);
     _ \<leftarrow> invoke H (zloop_timer_end heartbeatWorkerReactorId);
     _ \<leftarrow> invoke H (zloop_timer_end checkPulseWorkerReactorId);
     _ \<leftarrow> invoke H (zloop_timer_end dumpStatsReactorId);
     State_Monad.return 0
   }"

text \<open>The delays are in seconds, the timers in milliseconds.\<close>

definition setupMessagingCallbacks :: "broker_hosting \<Rightarrow> Broker \<Rightarrow> int broker_hosted" where
  "setupMessagingCallbacks H b = do {
     ret \<leftarrow> invoke H (zloop_reader backendMessagingSocket);
     ret1 \<leftarrow> invoke H (zloop_reader frontendMessagingSocket);
     _ \<leftarrow> invoke H (zloop_timer heartbeatWorkerReactorId (1000 * minimumWorkerHeartbeatDelay b));
     _ \<leftarrow> invoke H (zloop_timer checkPulseWorkerReactorId (1000 * workerPulseDelay b));
     _ \<leftarrow> invoke H (zloop_timer dumpStatsReactorId 5000);
     State_Monad.return (ret + ret1)
   }"

definition deactivateControllerSockets :: "broker_hosting \<Rightarrow> BrokerEndpoints \<Rightarrow> int broker_hosted" where
  "deactivateControllerSockets H eps = do {
     _ \<leftarrow> invoke H (DisConnect signalerSocket (selfControllerEndpoint eps));
     _ \<leftarrow> invoke H (UnBind listenerSocket (selfControllerEndpoint eps));
     ret \<leftarrow> RefreshSocket H signalerSocket Pair;
     ret1 \<leftarrow> RefreshSocket H listenerSocket Pair;
     State_Monad.return (ret + ret1)
   }"

definition deactivateMessagingSockets :: "broker_hosting \<Rightarrow> BrokerEndpoints \<Rightarrow> int broker_hosted" where
  "deactivateMessagingSockets H eps = do {
     _ \<leftarrow> invoke H (UnBind backendMessagingSocket (selfBackendMessagingEndpoint eps));
     _ \<leftarrow> invoke H (UnBind frontendMessagingSocket (selfFrontendMessagingEndpoint eps));
     State_Monad.return 0
   }"

section \<open>Start, run, stop\<close>

text \<open>\<open>False\<close>: the constructor of the thread threw, and what is activated stays so.\<close>

definition Start :: "broker_hosting \<Rightarrow> BrokerEndpoints \<Rightarrow> bool broker_hosted" where
  "Start H eps = do {
     _ \<leftarrow> activateControllerSockets H eps;
     _ \<leftarrow> setupControllerCallbacks H;
     new_thread H
   }"

definition before_loop :: "broker_hosting \<Rightarrow> BrokerEndpoints \<Rightarrow> Broker \<Rightarrow> unit broker_hosted" where
  "before_loop H eps b = do {
     _ \<leftarrow> activateMessagingSockets H eps;
     _ \<leftarrow> setupMessagingCallbacks H b;
     State_Monad.return ()
   }"

definition after_loop :: "broker_hosting \<Rightarrow> BrokerEndpoints \<Rightarrow> unit broker_hosted" where
  "after_loop H eps = do {
     _ \<leftarrow> teardownMessagingCallbacks H;
     _ \<leftarrow> deactivateMessagingSockets H eps;
     State_Monad.return ()
   }"

text \<open>The whole of \<open>Broker::StartAsPrimary\<close>; while no callback ends the loop it stays in it.\<close>

definition PrimaryThread ::
    "broker_hosting \<Rightarrow> BrokerEndpoints \<Rightarrow> env \<Rightarrow> event list \<Rightarrow> broker_host \<times> Broker \<Rightarrow> (bool \<times> broker_host \<times> Broker) option" where
  "PrimaryThread H eps E es s = (case s of (h, b) \<Rightarrow>
     let (_, h) = run_state (before_loop H eps b) h
     in do {
       (ended, b) \<leftarrow> StartAsPrimary E es b;
       Some (ended, if ended then snd (run_state (after_loop H eps) h) else h, b)
     })"

definition Stop :: "broker_hosting \<Rightarrow> BrokerEndpoints \<Rightarrow> unit broker_hosted" where
  "Stop H eps = do {
     h \<leftarrow> State_Monad.get;
     _ \<leftarrow> (if reactorThread h then do {
         _ \<leftarrow> invoke H (SignalOn signalerSocket 0);
         _ \<leftarrow> invoke H JoinThread;
         State_Monad.update (\<lambda>h. h\<lparr>reactorThread := False\<rparr>)
       } else State_Monad.return ());
     _ \<leftarrow> teardownControllerCallbacks H;
     _ \<leftarrow> deactivateControllerSockets H eps;
     State_Monad.return ()
   }"

definition Broker_destroy :: "broker_hosting \<Rightarrow> BrokerEndpoints \<Rightarrow> unit broker_hosted" where
  "Broker_destroy H eps = do {
     Stop H eps;
     destroy_reactor H;
     destroy_present H backendMessagingSocket;
     destroy_present H listenerSocket;
     destroy_present H signalerSocket;
     destroy_present H frontendMessagingSocket
   }"

lemmas broker_host_defs = activateControllerSockets_def activateMessagingSockets_def setupControllerCallbacks_def
  teardownControllerCallbacks_def teardownMessagingCallbacks_def setupMessagingCallbacks_def
  deactivateControllerSockets_def deactivateMessagingSockets_def Start_def before_loop_def after_loop_def
  Stop_def Broker_destroy_def

end
