(* ===== verification/BrokerLifecycleProps.thy ===== *)
theory BrokerLifecycleProps
  imports BrokerLifecycle BrokerExamples
begin

text \<open>
  Properties of the broker's life: what a run acquires it releases, and what it forgets to.
\<close>

section \<open>Resources\<close>

text \<open>While its thread runs, a broker listens for the command to stop.\<close>

definition listening :: "BrokerEndpoints \<Rightarrow> (broker_socket, broker_timer) resources" where
  "listening eps = \<lparr> bound = {(listenerSocket, selfControllerEndpoint eps)},
     connected = {(signalerSocket, selfControllerEndpoint eps)}, reading = {listenerSocket}, ticking = {} \<rparr>"

lemma start_asks: "asked_for h = no_resources \<Longrightarrow> asked_for (snd (run_state (Start H eps) h)) = listening eps"
  by (simp add: broker_host_defs host_defs resources_eq_iff Let_def listening_def)

lemma loop_asks:
  assumes "PrimaryThread H eps E es (h, b) = Some (True, h', b')" "asked_for h = listening eps"
  shows "asked_for h' = listening eps"
proof -
  from assms(1) have "h' = snd (run_state (after_loop H eps) (snd (run_state (before_loop H eps b) h)))"
    by (auto simp: PrimaryThread_def Let_def split: prod.splits bind_splits)
  then show ?thesis using assms(2) by (simp add: broker_host_defs resources_eq_iff) (auto simp: listening_def)
qed

lemma stop_asks: "asked_for h = listening eps \<Longrightarrow> asked_for (snd (run_state (Stop H eps) h)) = no_resources"
  by (simp add: broker_host_defs host_defs resources_eq_iff) (auto simp: listening_def)

text \<open>What a run may still hold when every release fails that can.\<close>

definition messaging_bound :: "BrokerEndpoints \<Rightarrow> (broker_socket \<times> endpoint) set" where
  "messaging_bound eps = {(backendMessagingSocket, selfBackendMessagingEndpoint eps),
     (frontendMessagingSocket, selfFrontendMessagingEndpoint eps)}"

lemma run_at_most:
  assumes "granted H h = no_resources" and start: "run_state (Start H eps) h = (True, h1)"
    and run: "PrimaryThread H eps E es (h1, b) = Some (True, h2, b2)"
  defines "G \<equiv> granted H (snd (run_state (Stop H eps) h2))"
  shows "bound G \<subseteq> messaging_bound eps" "connected G = {}" "reading G = {}"
proof -
  have h1: "h1 = snd (run_state (Start H eps) h)" using start by simp
  have h2: "h2 = snd (run_state (after_loop H eps) (snd (run_state (before_loop H eps b) h1)))"
    using run by (auto simp: PrimaryThread_def Let_def split: prod.splits bind_splits)
  have t: "reactorThread h1" using start by (auto simp: broker_host_defs host_defs split: if_splits)
  then have t2: "reactorThread h2" by (simp add: h2 broker_host_defs)
  have c1: "calls h1 = calls h @ [Bind listenerSocket (selfControllerEndpoint eps), Connect signalerSocket (selfControllerEndpoint eps),
      zloop_reader listenerSocket, NewThread]"
    by (simp add: h1 broker_host_defs host_defs)
  have c2: "calls h2 = calls h1 @ [Bind backendMessagingSocket (selfBackendMessagingEndpoint eps),
      Bind frontendMessagingSocket (selfFrontendMessagingEndpoint eps), zloop_reader backendMessagingSocket,
      zloop_reader frontendMessagingSocket, zloop_timer heartbeatWorkerReactorId (1000 * minimumWorkerHeartbeatDelay b),
      zloop_timer checkPulseWorkerReactorId (1000 * workerPulseDelay b), zloop_timer dumpStatsReactorId 5000,
      zloop_reader_end frontendMessagingSocket, zloop_reader_end backendMessagingSocket, zloop_timer_end heartbeatWorkerReactorId,
      zloop_timer_end checkPulseWorkerReactorId, zloop_timer_end dumpStatsReactorId,
      UnBind backendMessagingSocket (selfBackendMessagingEndpoint eps), UnBind frontendMessagingSocket (selfFrontendMessagingEndpoint eps)]"
    by (simp add: h2 broker_host_defs)
  have c3: "calls (snd (run_state (Stop H eps) h2)) = calls h2 @ [SignalOn signalerSocket 0, JoinThread, zloop_reader_end listenerSocket,
      DisConnect signalerSocket (selfControllerEndpoint eps), UnBind listenerSocket (selfControllerEndpoint eps),
      Destroy signalerSocket, Create signalerSocket Pair, Destroy listenerSocket, Create listenerSocket Pair]"
    using t2 by (simp add: broker_host_defs host_defs)
  have "within (granted H h) no_resources" using assms(1) by simp
  from granted_at_most[OF c3 granted_at_most[OF c2 granted_at_most[OF c1 this]]]
  show "bound G \<subseteq> messaging_bound eps" "connected G = {}" "reading G = {}"
    by (auto simp: G_def within_def messaging_bound_def)
qed

text \<open>
  C29: A broker that is started from a state in which it holds nothing, runs its loop to the end and is
  stopped holds no connection and no reader any more; what it may still hold are the addresses of
  its two messaging sockets and its timers, and of these only what a call failed to release: an
  \<open>UnBind\<close> whose result the code does not look at, on a socket that it does not destroy.
\<close>

theorem broker_run_releases_all:
  assumes "granted H h = no_resources" "asked_for h = no_resources" and start: "run_state (Start H eps) h = (True, h1)"
    and run: "PrimaryThread H eps E es (h1, b) = Some (True, h2, b2)" and stop: "h3 = snd (run_state (Stop H eps) h2)"
  shows "bound (granted H h3) \<subseteq> {x \<in> messaging_bound eps. refused H h3 (UnBind (fst x) (snd x))} \<and>
    connected (granted H h3) = {} \<and> reading (granted H h3) = {} \<and>
    ticking (granted H h3) \<subseteq> {t. refused H h3 (zloop_timer_end t)} \<and> \<not> reactorThread h3"
proof -
  have "asked_for h1 = listening eps" using start_asks[OF assms(2), of H eps] start by simp
  then have asked: "asked_for h3 = no_resources" unfolding stop using stop_asks[OF loop_asks[OF run]] by simp
  have "\<not> reactorThread h3" by (simp add: stop broker_host_defs host_defs)
  then show ?thesis
    using asked_or_refused[of H h3] run_at_most[OF assms(1) start run] unfolding all_asked_or_refused_def asked stop[symmetric]
    by auto
qed

text \<open>If there is no thread to be had \<open>Start\<close> throws, and the broker goes on listening with nobody to answer.\<close>

lemma failed_start_listens:
  assumes "run_state (Start H eps) h = (False, h1)" "0 \<le> H (calls h) (Bind listenerSocket (selfControllerEndpoint eps))"
  shows "(listenerSocket, selfControllerEndpoint eps) \<in> bound (granted H h1)"
proof -
  have "h1 = snd (run_state (Start H eps) h)" using assms(1) by simp
  then have "calls h1 = calls h @ [Bind listenerSocket (selfControllerEndpoint eps), Connect signalerSocket (selfControllerEndpoint eps),
      zloop_reader listenerSocket, NewThread]"
    by (simp add: broker_host_defs host_defs)
  from granted_calls[OF this, of H] show ?thesis using assms(2) by (simp add: grant_def)
qed

text \<open>Everything succeeds, and the loop ends on the command to stop.\<close>

definition example_endpoints :: BrokerEndpoints where
  "example_endpoints = \<lparr> selfFrontendMessagingEndpoint = ''f'', selfBackendMessagingEndpoint = ''b'',
     selfControllerEndpoint = ''c'' \<rparr>"

lemma broker_run_releases_all_witness:
  "\<exists>h1 h2 b2. run_state (Start (\<lambda>_ _. 1) example_endpoints) new_host = (True, h1) \<and>
    PrimaryThread (\<lambda>_ _. 1) example_endpoints good_env [ControllerReadable] (h1, fresh_broker) = Some (True, h2, b2) \<and>
    granted (\<lambda>_ _. 1) (snd (run_state (Stop (\<lambda>_ _. 1) example_endpoints) h2)) = no_resources"
proof -
  obtain h1 where h1: "run_state (Start (\<lambda>_ _. 1) example_endpoints) new_host = (True, h1)"
    by (simp add: broker_host_defs host_defs)
  obtain h2 b2 where r: "PrimaryThread (\<lambda>_ _. 1) example_endpoints good_env [ControllerReadable] (h1, fresh_broker) = Some (True, h2, b2)"
    by (simp add: PrimaryThread_def StartAsPrimary_def brokerPrimaryControllerReactor_def Let_def case_prod_unfold)
  from broker_run_releases_all[OF _ _ h1 r refl] h1 r show ?thesis
    by (auto simp: refused_def resources_eq_iff)
qed

section \<open>What a stopped broker still knows\<close>

lemma cleared_fields:
  "requestTypeContextLookup (fold freeWorker ws b) = requestTypeContextLookup b"
  "requestHeap (fold freeWorker ws b) = requestHeap b"
  "workerHeap (fold freeWorker ws b) = (\<lambda>w. if w \<in> set ws then None else workerHeap b w)"
  by (induction ws arbitrary: b) (auto simp: freeWorker_def fun_eq_iff)

text \<open>
  C30: \<open>StartAsPrimary\<close> releases the workers when its loop ends, but leaves them in the contexts. If a
  worker was available for a type when a reachable broker was stopped, then the first new request
  of that type after a restart dereferences the freed worker: the callback has undefined
  behaviour.
\<close>

theorem restart_uses_freed_worker:
  assumes E: "env_ok E" and b: "reachable E b" and c: "requestTypeContextLookup b t = Some c"
    and w: "GetNextAvailableWorker c = Some w" and new: "ctx_requests c i = None" and s: "is_envelope sender"
  shows "\<exists>b'. StartAsPrimary E [ControllerReadable] b = Some (True, b') \<and>
    frontendMessagingReactor E now (Some (client_request E sender vfs t i body)) b' = None"
proof -
  let ?b = "WorkerInfoLookup_Clear b"
  have "dom (workerHeap b) = snd ` set (workerInfoLookup b)"
    using reachable_ok[OF b E] workers_okD(3)[OF invD(1), of "held b" b] by (simp add: system_ok_def broker_ok_def)
  then have gone: "workerHeap ?b v = None" for v
    by (cases "v \<in> snd ` set (workerInfoLookup b)") (auto simp: WorkerInfoLookup_Clear_def cleared_fields)
  let ?m = "request_frames E sender vfs t i body"
  have "requestTypeContextLookup (receiving now ?m ?b) t = Some c" "workerHeap (receiving now ?m ?b) w = None"
    "inbox (receiving now ?m ?b) = Some ?m"
    using c gone by (simp_all add: receiving_def updateCurrentTime_def WorkerInfoLookup_Clear_def cleared_fields)
  then have "forwardParsedClientRequest E vfs t i (receiving now ?m ?b) = None"
    using w new by (simp add: forwardParsedClientRequest_def GetRequestState_def dispatchNewRequest_def
        forwardWorkerParsedClientRequest2_def)
  then show ?thesis
    using frontend_request[OF E s, of now vfs t i body ?b]
    by (simp add: StartAsPrimary_def brokerPrimaryControllerReactor_def)
qed

lemma restart_uses_freed_worker_witness:
  "\<exists>b'. StartAsPrimary good_env [ControllerReadable] idle_broker = Some (True, b') \<and>
    frontendMessagingReactor good_env 105 (Some (client_request good_env [[9]] plain 1 5 [])) b' = None"
  using restart_uses_freed_worker[OF _ idle_reachable, of good_env 1 idle_context 0 5 "[[9]]" 105 plain "[]"] by simp

end
