(* ===== verification/WireProps.thy ===== *)
theory WireProps
  imports WorkerInfo
begin

text \<open>
  Properties of the parts below the broker: what is written to the wire is read back, an envelope
  that is moved is the envelope that is copied, the order of protocol versions, and the arithmetic
  by which a worker counts as alive.
\<close>

section \<open>Values on the wire\<close>

datatype wire_value =
    VUInt32 "32 word"
  | VInt32 int
  | VUInt64 "64 word"
  | VTime time_t
  | VFlags LHCVersionFlags

fun representable :: "wire_value \<Rightarrow> bool" where
  "representable (VInt32 n) \<longleftrightarrow> - (2 ^ 31) \<le> n \<and> n < 2 ^ 31"
| "representable _ \<longleftrightarrow> True"

fun write_value :: "env \<Rightarrow> wire_value \<Rightarrow> ZMQFrameHandler \<times> zmsg \<Rightarrow> ZMQFrameHandler \<times> zmsg" where
  "write_value E (VUInt32 v) (h, msg) = (case append_message_value_uint32 E h msg v of ((ret, m), h') \<Rightarrow> (h', m))"
| "write_value E (VInt32 v) (h, msg) = (case append_message_value_int32 E h msg v of ((ret, m), h') \<Rightarrow> (h', m))"
| "write_value E (VUInt64 v) (h, msg) = (case append_message_value_uint64 E h msg v of ((ret, m), h') \<Rightarrow> (h', m))"
| "write_value E (VTime v) (h, msg) = (case append_message_value_time E h msg v of ((ret, m), h') \<Rightarrow> (h', m))"
| "write_value E (VFlags v) (h, msg) = (case append_message_value_LHCVersionFlags E h msg v of ((ret, m), h') \<Rightarrow> (h', m))"

text \<open>The reader knows the type of the next value, as the code does, from a template.\<close>

fun read_value :: "env \<Rightarrow> wire_value \<Rightarrow> ZMQFrameHandler \<Rightarrow> frame \<Rightarrow> wire_value option \<times> ZMQFrameHandler" where
  "read_value E (VUInt32 _) h f = apfst (map_option VUInt32) (get_frame_value_uint32 E h f)"
| "read_value E (VInt32 _) h f = apfst (map_option VInt32) (get_frame_value_int32 E h f)"
| "read_value E (VUInt64 _) h f = apfst (map_option VUInt64) (get_frame_value_uint64 E h f)"
| "read_value E (VTime _) h f = apfst (map_option VTime) (get_frame_value_time E h f)"
| "read_value E (VFlags _) h f = apfst (map_option VFlags) (get_frame_value_LHCVersionFlags E h f)"

fun read_values :: "env \<Rightarrow> ZMQFrameHandler \<Rightarrow> wire_value list \<Rightarrow> frame list \<Rightarrow> wire_value option list" where
  "read_values E h (v # vs) (f # fs) = (case read_value E v h f of (r, h) \<Rightarrow> r # read_values E h vs fs)"
| "read_values E h _ _ = []"

definition keeps_set :: "ZMQFrameHandler \<Rightarrow> bool" where
  "keeps_set h \<longleftrightarrow> fst (frameTime h) \<and> fst (frameInt32 h) \<and> fst (frameUInt32 h) \<and> fst (frameUInt64 h) \<and>
     fst (frameVersionFlags h)"

lemma codec_keep:
  assumes "codec_ok ser parse keep" "keep x"
  obtains f where "ser x = Some f" "parse f = Some x" "f \<noteq> []"
  using codec_okE[OF assms(1), of x] assms(2) by metis

lemma write_value_read:
  assumes E: "czmq_ok E" "protobuf_ok E" and h: "keeps_set h" and v: "representable v"
  shows "\<exists>f h'. write_value E v (h, msg) = (h', msg @ [f]) \<and> keeps_set h' \<and> f \<noteq> [] \<and>
    (\<forall>hr. fst (read_value E v hr f) = Some v)"
proof -
  note codecs = E(2)[unfolded protobuf_ok_def]
  show ?thesis
  proof (cases v)
    case (VUInt32 n)
    from codecs obtain f where "pb_ser_uint32 E (True, n) = Some f" "pb_parse_uint32 E f = Some (True, n)" "f \<noteq> []"
      by (auto elim: codec_keep[where x = "(True, n)"])
    then show ?thesis using VUInt32 h E(1) by (auto simp: write_defs read_defs czmq_laws keeps_set_def)
  next
    case (VInt32 n)
    from codecs obtain f where "pb_ser_int32 E (True, word_of_int n) = Some f"
      "pb_parse_int32 E f = Some (True, word_of_int n)" "f \<noteq> []"
      by (auto elim: codec_keep[where x = "(True, word_of_int n)"])
    then show ?thesis using VInt32 h E(1) v sint_small
      by (auto simp: write_defs read_defs czmq_laws keeps_set_def append_message_value_int32_def)
  next
    case (VUInt64 n)
    from codecs obtain f where "pb_ser_uint64 E (True, n) = Some f" "pb_parse_uint64 E f = Some (True, n)" "f \<noteq> []"
      by (auto elim: codec_keep[where x = "(True, n)"])
    then show ?thesis using VUInt64 h E(1) by (auto simp: write_defs read_defs czmq_laws keeps_set_def)
  next
    case (VTime n)
    from codecs obtain f where "pb_ser_time E (True, n) = Some f" "pb_parse_time E f = Some (True, n)" "f \<noteq> []"
      by (auto elim: codec_keep[where x = "(True, n)"])
    then show ?thesis using VTime h E(1) by (auto simp: write_defs read_defs czmq_laws keeps_set_def)
  next
    case (VFlags n)
    let ?x = "(True, ucast (lhcmajor (version n)) :: 32 word, ucast (lhcminor (version n)) :: 32 word, flags n)"
    from codecs obtain f where "pb_ser_versionflags E ?x = Some f" "pb_parse_versionflags E f = Some ?x" "f \<noteq> []"
      by (auto elim: codec_keep[where x = ?x])
    then show ?thesis using VFlags h E(1) by (auto simp: write_defs read_defs czmq_laws keeps_set_def)
  qed
qed

text \<open>
  C31: Any sequence of values written with one frame handler is read back, whatever the state of
  the handler that reads: one frame per value, in order, and none of the frames is empty, so that
  no value can be taken for the delimiter of an envelope.
\<close>

theorem values_round_trip:
  assumes "czmq_ok E" "protobuf_ok E" "keeps_set h" "list_all representable vs"
  shows "\<exists>fs h'. fold (write_value E) vs (h, msg) = (h', msg @ fs) \<and> length fs = length vs \<and>
    [] \<notin> set fs \<and> read_values E reader vs fs = map Some vs"
  using assms(3,4)
proof (induction vs arbitrary: h msg reader)
  case Nil
  then show ?case by simp
next
  case (Cons v vs)
  then obtain f h1 where f: "write_value E v (h, msg) = (h1, msg @ [f])" "keeps_set h1" "f \<noteq> []"
    "fst (read_value E v reader f) = Some v"
    using write_value_read[OF assms(1,2)] by fastforce
  let ?reader = "snd (read_value E v reader f)"
  from Cons.IH[OF f(2), of "msg @ [f]" ?reader] Cons.prems(2) obtain fs h' where
    fs: "fold (write_value E) vs (h1, msg @ [f]) = (h', (msg @ [f]) @ fs)" "length fs = length vs" "[] \<notin> set fs"
      "read_values E ?reader vs fs = map Some vs"
    by auto
  have "read_values E reader (v # vs) (f # fs) = map Some (v # vs)"
    using f(4) fs(4) by (simp add: case_prod_unfold)
  moreover have "fold (write_value E) (v # vs) (h, msg) = (h', msg @ f # fs)" using f(1) fs(1) by simp
  ultimately show ?case using fs(2,3) f(3)
    by (intro exI[of _ "f # fs"] exI[of _ h']) simp
qed

lemma values_round_trip_witness:
  "\<exists>fs h'. fold (write_value (ref_env (\<lambda>_ _. False))) [VUInt32 0, VInt32 (-1), VTime 100] (ZMQFrameHandler_new, []) = (h', fs) \<and>
    read_values (ref_env (\<lambda>_ _. False)) ZMQFrameHandler_new [VUInt32 0, VInt32 (-1), VTime 100] fs =
      [Some (VUInt32 0), Some (VInt32 (-1)), Some (VTime 100)]"
  using values_round_trip[of "ref_env (\<lambda>_ _. False)" ZMQFrameHandler_new "[VUInt32 0, VInt32 (-1), VTime 100]" "[]" ZMQFrameHandler_new]
  by (auto simp: keeps_set_def ZMQFrameHandler_new_def)

section \<open>Envelopes\<close>

text \<open>
  C32: Moving the envelope of a message ends on every message, and gives what copying it gives;
  what it leaves is the message after its delimiter, so that a delimited message can be put
  together again from the two.
\<close>

theorem envelope_move_is_copy:
  assumes "czmq_ok E"
  shows "\<exists>rest. ZMQMessageEnvMove E to from = Some (ZMQMessageEnvCopy E to from, rest) \<and>
    [] \<notin> set (ZMQMessageEnvCopy E [] from) \<and>
    (if [] \<in> set from then from = ZMQMessageEnvCopy E [] from @ [] # rest
     else ZMQMessageEnvCopy E [] from = from \<and> rest = [])"
proof (intro exI conjI)
  show "ZMQMessageEnvMove E to from = Some (ZMQMessageEnvCopy E to from, after_envelope from)"
    using assms by (simp add: ZMQMessageEnvMove_def ZMQMessageEnvMove_loop_eq ZMQMessageEnvCopy_eq)
  show "[] \<notin> set (ZMQMessageEnvCopy E [] from)"
    using assms envelope_nonempty by (fastforce simp: ZMQMessageEnvCopy_eq)
  have "envelope from = from \<and> after_envelope from = []" if "[] \<notin> set from"
    using that by (induction "from") (auto simp: envelope_def after_envelope_def)
  then show "if [] \<in> set from then from = ZMQMessageEnvCopy E [] from @ [] # after_envelope from
     else ZMQMessageEnvCopy E [] from = from \<and> after_envelope from = []"
    using assms delimited_split[of "from"] by (simp add: ZMQMessageEnvCopy_eq delimited_def)
qed

lemma envelope_move_is_copy_witness:
  "ZMQMessageEnvMove (ref_env (\<lambda>_ _. False)) [[1]] [[2], [3], [], [4], []] = Some ([[1], [2], [3]], [[4], []])"
  using envelope_move_is_copy[of "ref_env (\<lambda>_ _. False)" "[[1]]" "[[2], [3], [], [4], []]"]
  by (simp add: ZMQMessageEnvCopy_eq envelope_def)

section \<open>Protocol versions\<close>

definition version_number :: "LHCVersion \<Rightarrow> nat" where
  "version_number v = unat (lhcmajor v) * 2 ^ 16 + unat (lhcminor v)"

lemma unat_less_16: "unat (x :: 16 word) < 65536"
  using unsigned_less[of x, where 'a = nat] by simp

lemma version_number_less: "version_number a < version_number b \<longleftrightarrow>
    lhcmajor a < lhcmajor b \<or> (lhcmajor a = lhcmajor b \<and> lhcminor a < lhcminor b)"
proof -
  have m: "unat (lhcminor a) < 65536" "unat (lhcminor b) < 65536"
    by (simp_all add: unat_less_16)
  show ?thesis
    using m by (auto simp: version_number_def word_less_nat_alt word_unat_eq_iff)
qed

lemma version_number_eq: "version_number a = version_number b \<longleftrightarrow> a = b"
  by (metis LHCVersion.expand linorder_less_linear nat_neq_iff version_number_less)

text \<open>
  The four comparison operators of protocol versions agree with the order of one 32-bit
  number, the major version in its high half; \<open>operator>\<close> and \<open>operator>=\<close> are the converses of
  \<open>operator<\<close> and \<open>operator<=\<close>.
\<close>

theorem version_order_is_numeric:
  "(a < b \<longleftrightarrow> version_number a < version_number b) \<and> (a \<le> b \<longleftrightarrow> version_number a \<le> version_number b) \<and>
   (LHCVersion_gt a b \<longleftrightarrow> version_number b < version_number a) \<and> (LHCVersion_ge a b \<longleftrightarrow> version_number b \<le> version_number a)"
proof (intro conjI)
  show lt: "x < y \<longleftrightarrow> version_number x < version_number y" for x y :: LHCVersion
    by (simp add: LHCVersion_order version_number_less)
  show le: "x \<le> y \<longleftrightarrow> version_number x \<le> version_number y" for x y :: LHCVersion
    by (metis lt le_less version_number_eq)
  show "LHCVersion_gt a b \<longleftrightarrow> version_number b < version_number a"
    by (auto simp: LHCVersion_gt_def version_number_less)
  show "LHCVersion_ge a b \<longleftrightarrow> version_number b \<le> version_number a"
    unfolding le[symmetric] by (auto simp: LHCVersion_ge_def LHCVersion_order)
qed

section \<open>Who is alive\<close>

text \<open>
  C33: For a last activity that is not before the epoch: with a death delay from 0 to 2^31 - 61
  seconds a worker is alive exactly until that long after its last activity. The seconds of the minute are an int, to which the 64-bit delay is
  added: a delay of 2^31 - 1 wraps, and a worker whose last activity was not at the full minute
  is dead at once.
\<close>

theorem alive_within_delay:
  assumes "0 \<le> wi_workerLastActive wi"
  shows "(0 \<le> d \<and> d < 2 ^ 31 - 60 \<longrightarrow> IsAliveAsOf wi t d = (t < wi_workerLastActive wi + d)) \<and>
    (d = 2 ^ 31 - 1 \<and> wi_workerLastActive wi mod 60 \<noteq> 0 \<and> wi_workerLastActive wi \<le> t \<longrightarrow> \<not> IsAliveAsOf wi t d)"
proof (intro conjI impI)
  assume "0 \<le> d \<and> d < 2 ^ 31 - 60"
  then show "IsAliveAsOf wi t d = (t < wi_workerLastActive wi + d)" by (simp add: IsAliveAsOf_def tm_sec_plus_eq)
next
  assume a: "d = 2 ^ 31 - 1 \<and> wi_workerLastActive wi mod 60 \<noteq> 0 \<and> wi_workerLastActive wi \<le> t"
  let ?s = "wi_workerLastActive wi mod 60"
  have s: "0 < ?s" "?s < 60" using a by (simp_all add: order.not_eq_order_implies_strict)
  have "sint (word_of_int (?s + d) :: 32 word) = sint (word_of_int (?s + d - 2 ^ 32) :: 32 word)"
    by (rule arg_cong[where f = sint]) (simp add: word_of_int_minus)
  also have "\<dots> = ?s + d - 2 ^ 32" by (rule sint_small) (use s a in simp_all)
  finally have "sint (word_of_int (?s + d) :: 32 word) = ?s + d - 2 ^ 32" .
  then have "tm_sec_plus (wi_workerLastActive wi) d = wi_workerLastActive wi + d - 2 ^ 32" by (simp only: tm_sec_plus_def)
  then show "\<not> IsAliveAsOf wi t d" using a by (simp add: IsAliveAsOf_def)
qed

lemma alive_within_delay_witness:
  "IsAliveAsOf (WorkerInfo_new [7] 100 1 [1] 5 LHCVersionFlags_default) 119 20 \<and>
   \<not> IsAliveAsOf (WorkerInfo_new [7] 100 1 [1] 5 LHCVersionFlags_default) 120 20 \<and>
   \<not> IsAliveAsOf (WorkerInfo_new [7] 100 1 [1] 5 LHCVersionFlags_default) 100 (2 ^ 31 - 1)"
  using alive_within_delay[of "WorkerInfo_new [7] 100 1 [1] 5 LHCVersionFlags_default" 20 119]
    alive_within_delay[of "WorkerInfo_new [7] 100 1 [1] 5 LHCVersionFlags_default" 20 120]
    alive_within_delay[of "WorkerInfo_new [7] 100 1 [1] 5 LHCVersionFlags_default" "2 ^ 31 - 1" 100]
  by (simp add: WorkerInfo_new_def)

end
