(* ===== verification/ClientRequestBuffer.thy ===== *)
theory ClientRequestBuffer
  imports Handlers
begin

text \<open>
  \<open>ClientRequestBuffer\<close> (clientrequestbuffer.h, .cxx): the requests a proxy may have to send again.
  It is a \<open>std::map\<close>, hence a list sorted by key. The key has the \<open>ZMQFrame*\<close> of the identity in it, and
  the tuple's \<open>operator<\<close> compares that pointer, not the frame it points to: an address of the model
  stands for it, drawn anew for every message.
\<close>

type_synonym frame_ptr = nat
type_synonym ClientRequestBufferKey = "RequestType \<times> RequestId \<times> frame_ptr"
type_synonym ClientRequestBufferValue = "LHCVersionFlags \<times> MessageFlags \<times> zmsg"
type_synonym ClientRequestBuffer = "(ClientRequestBufferKey \<times> ClientRequestBufferValue) list"

fun key_less :: "ClientRequestBufferKey \<Rightarrow> ClientRequestBufferKey \<Rightarrow> bool" where
  "key_less (t, i, a) (t', i', a') \<longleftrightarrow> t < t' \<or> (t = t' \<and> (i < i' \<or> (i = i' \<and> a < a')))"

text \<open>\<open>emplace\<close>, and the value written either way.\<close>

fun buffer_put :: "ClientRequestBufferKey \<Rightarrow> ClientRequestBufferValue \<Rightarrow> ClientRequestBuffer \<Rightarrow> ClientRequestBuffer" where
  "buffer_put k v [] = [(k, v)]"
| "buffer_put k v ((k', v') # xs) =
     (if key_less k k' then (k, v) # (k', v') # xs
      else if k = k' then (k, v) # xs
      else (k', v') # buffer_put k v xs)"

definition Add :: "RequestType \<Rightarrow> RequestId \<Rightarrow> frame_ptr \<Rightarrow> LHCVersionFlags \<Rightarrow> zmsg \<Rightarrow> ClientRequestBuffer \<Rightarrow> ClientRequestBuffer" where
  "Add requestType requestId identity vfs request_msg buffer =
     buffer_put (requestType, requestId, identity) (vfs, flags vfs, request_msg) buffer"

definition drop_receipt :: "32 word \<Rightarrow> MessageFlags \<Rightarrow> MessageFlags" where
  "drop_receipt receiptType currentFlags =
     (if receiptType = ClusterMessage_value BrokerReceivedReceipt then currentFlags AND NOT ReceiptOnReceive
      else if receiptType = ClusterMessage_value BrokerSentReceipt then currentFlags AND NOT ReceiptOnSend
      else currentFlags)"

definition Erase :: "RequestType \<Rightarrow> RequestId \<Rightarrow> frame_ptr \<Rightarrow> ClientRequestBuffer \<Rightarrow> ClientRequestBuffer" where
  "Erase requestType requestId identity buffer = filter (\<lambda>p. fst p \<noteq> (requestType, requestId, identity)) buffer"

definition EraseIfLastReceipt ::
    "32 word \<Rightarrow> RequestType \<Rightarrow> RequestId \<Rightarrow> frame_ptr \<Rightarrow> ClientRequestBuffer \<Rightarrow> ClientRequestBuffer" where
  "EraseIfLastReceipt receiptType requestType requestId identity buffer =
     (let k = (requestType, requestId, identity) in
      case map_of buffer k of
        None \<Rightarrow> buffer
      | Some (vfs, currentFlags, msg) \<Rightarrow>
          (let currentFlags = drop_receipt receiptType currentFlags
           in if currentFlags AND (ReceiptOnSend OR ReceiptOnReceive) = 0 then filter (\<lambda>p. fst p \<noteq> k) buffer
              else map (\<lambda>p. if fst p = k then (k, vfs, currentFlags, msg) else p) buffer))"

section \<open>The map behind the list\<close>

lemma key_less_irrefl: "\<not> key_less k k"
  by (cases k) simp

lemma map_of_buffer_put: "map_of (buffer_put k v xs) = (map_of xs)(k \<mapsto> v)"
  by (induction k v xs rule: buffer_put.induct) (auto simp: fun_eq_iff key_less_irrefl)

lemma buffer_put_keys: "fst ` set (buffer_put k v xs) = insert k (fst ` set xs)"
  by (induction k v xs rule: buffer_put.induct) auto

lemma buffer_put_set: "k \<notin> fst ` set xs \<Longrightarrow> set (buffer_put k v xs) = insert (k, v) (set xs)"
  by (induction k v xs rule: buffer_put.induct) auto

lemma Erase_absent: "(t, i, a) \<notin> fst ` set buffer \<Longrightarrow> Erase t i a buffer = buffer"
  by (force simp: Erase_def filter_id_conv)

lemma EraseIfLastReceipt_absent: "(t, i, a) \<notin> fst ` set buffer \<Longrightarrow> EraseIfLastReceipt r t i a buffer = buffer"
proof -
  assume "(t, i, a) \<notin> fst ` set buffer"
  then have "map_of buffer (t, i, a) = None" by (simp add: map_of_eq_None_iff)
  then show ?thesis by (simp add: EraseIfLastReceipt_def)
qed

end
