(* ===== verification/ClientProxy.thy ===== *)
theory ClientProxy
  imports ClientRequestBuffer WorkerInfo
begin

text \<open>
  \<open>ClientProxy\<close> (clientproxy.h, .cxx): its state and its message handlers. Clients reach it through a
  ROUTER socket, the \<open>Frontend\<close> of the model, and it reaches the broker through a DEALER, the
  \<open>Backend\<close>. A handler cannot go wrong but by the exception of a frame that does not parse, so it
  returns an outcome and the state. The message in hand is an argument: a handler ends by sending or
  destroying it. The return values of \<open>setup...\<close> and the like are in theory ClientProxyLifecycle.
\<close>

section \<open>State\<close>

datatype ClientProxyExitState = CP_None | CP_GracefulStop | CP_BrokerDied | CP_StartFailed

record ClientProxy =
  requestsBuffer :: ClientRequestBuffer
  exitState :: ClientProxyExitState
  cp_currentTime :: time_t
  brokerHeartbeatDelay :: Delay
  cp_selfHeartbeatDelay :: Delay
  brokerPulseDelay :: Delay
  brokerDeathDelay :: Delay
  brokerLastActive :: time_t
  clientLastActive :: time_t
  nextFrame :: frame_ptr        \<comment> \<open>the next address CZMQ gives a frame\<close>
  cp_sends :: "send_record list"

definition ClientProxy_new :: "Delay \<Rightarrow> Delay \<Rightarrow> Delay \<Rightarrow> ClientProxy" where
  "ClientProxy_new selfDelay initialBrokerHeartbeatDelay pulseDelay = \<lparr>
     requestsBuffer = [], exitState = CP_None, cp_currentTime = 0,
     brokerHeartbeatDelay = initialBrokerHeartbeatDelay, cp_selfHeartbeatDelay = selfDelay,
     brokerPulseDelay = pulseDelay, brokerDeathDelay = 2 * selfDelay,
     brokerLastActive = 0, clientLastActive = 0, nextFrame = 0, cp_sends = [] \<rparr>"

abbreviation clientMessagingSocket :: sock where "clientMessagingSocket \<equiv> Frontend"
abbreviation brokerMessagingSocket :: sock where "brokerMessagingSocket \<equiv> Backend"

definition setExitState :: "ClientProxyExitState \<Rightarrow> ClientProxy \<Rightarrow> ClientProxy" where
  "setExitState s p = p\<lparr>exitState := s\<rparr>"

definition cp_updateCurrentTime :: "time_t \<Rightarrow> ClientProxy \<Rightarrow> ClientProxy" where
  "cp_updateCurrentTime now p = p\<lparr>cp_currentTime := now\<rparr>"

definition updateClientLastActive :: "time_t \<Rightarrow> ClientProxy \<Rightarrow> ClientProxy" where
  "updateClientLastActive lastActive p = p\<lparr>clientLastActive := lastActive\<rparr>"

definition updateBrokerLastActive :: "time_t \<Rightarrow> ClientProxy \<Rightarrow> ClientProxy" where
  "updateBrokerLastActive lastActive p = p\<lparr>brokerLastActive := lastActive\<rparr>"

definition heartbeatNeededAsOf :: "time_t \<Rightarrow> ClientProxy \<Rightarrow> bool" where
  "heartbeatNeededAsOf time_asof p \<longleftrightarrow> tm_sec_plus (clientLastActive p) (brokerHeartbeatDelay p) \<le> time_asof"

definition isBrokerAliveAsOf :: "time_t \<Rightarrow> ClientProxy \<Rightarrow> bool" where
  "isBrokerAliveAsOf asOfTime p \<longleftrightarrow> tm_sec_plus (brokerLastActive p) (brokerDeathDelay p) \<ge> asOfTime"

section \<open>Sending\<close>

definition cp_Send :: "env \<Rightarrow> sock \<Rightarrow> zmsg \<Rightarrow> ClientProxy \<Rightarrow> int \<times> ClientProxy" where
  "cp_Send E socket m p = (case Send E (cp_sends p) socket m of (ret, m', h) \<Rightarrow> (ret, p\<lparr>cp_sends := h\<rparr>))"

definition cp_sendBrokerHeartbeat :: "env \<Rightarrow> time_t \<Rightarrow> ClientProxy \<Rightarrow> int \<times> ClientProxy" where
  "cp_sendBrokerHeartbeat E now p = (let p = cp_updateCurrentTime now p in
     if heartbeatNeededAsOf (cp_currentTime p) p then
       (let (ret, m', h) = SendHeartbeat E (cp_sends p) brokerMessagingSocket (cp_currentTime p) (cp_selfHeartbeatDelay p)
              (ClusterMessage_value ClientHeartbeat) (zmsg_new E);
            p = p\<lparr>cp_sends := h\<rparr>
        in (ret, updateClientLastActive (cp_currentTime p) p))
     else (0, p))"

section \<open>Messages from clients\<close>

text \<open>\<open>zmsg_next\<close> and the test that the frame is the delimiter.\<close>

fun next_delimiter :: "int \<Rightarrow> frame list \<Rightarrow> frame list parsed" where
  "next_delimiter code [] = Malformed code"
| "next_delimiter code (f # fs) = (if f = [] then Parsed fs else Malformed code)"

text \<open>The message type after the delimiter is skipped unread, and may be missing.\<close>

definition cp_parseClientRequest :: "env \<Rightarrow> frame list \<Rightarrow> (LHCVersionFlags \<times> RequestType \<times> RequestId) parsed" where
  "cp_parseClientRequest E fs =
     and_then (next_delimiter 1 fs) (\<lambda>fs.
     and_then (next_value 1 (get_vfs E) (tl fs)) (\<lambda>(vfs, fs).
     and_then (next_value 1 (get_u32 E) fs) (\<lambda>(requestType, fs).
     and_then (next_value 2 (get_u64 E) fs) (\<lambda>(requestId, fs).
     Parsed (vfs, requestType, requestId)))))"

definition cp_handleClientRequest :: "env \<Rightarrow> zmsg \<Rightarrow> ClientProxy \<Rightarrow> outcome \<times> ClientProxy" where
  "cp_handleClientRequest E requestMsg p =
     (case cp_parseClientRequest E (tl (zmsg_frames E requestMsg)) of
        Malformed n \<Rightarrow> (Returns n, p)
      | Throws \<Rightarrow> (Thrown, p)
      | Parsed (vfs, requestType, requestId) \<Rightarrow>
          (let p = (if hasAny vfs (ReceiptOnReceive OR ReceiptOnSend)
                    then p\<lparr>requestsBuffer := Add requestType requestId (nextFrame p) vfs (zmsg_dup E requestMsg) (requestsBuffer p),
                           nextFrame := Suc (nextFrame p)\<rparr>
                    else p);
               (ret, p) = cp_Send E brokerMessagingSocket requestMsg p
           in (Returns ret, p)))"

definition handleClientMessage_msg :: "env \<Rightarrow> zmsg \<Rightarrow> ClientProxy \<Rightarrow> outcome \<times> ClientProxy" where
  "handleClientMessage_msg E routerMsg p =
     (case zmsg_frames E routerMsg of
        [] \<Rightarrow> (Returns 0, p)
      | frame # _ \<Rightarrow>
          (if frame = [] then (Returns 0, p)
           else (case cp_handleClientRequest E routerMsg p of (res, p) \<Rightarrow> (only_negative res, p))))"

definition handleClientMessage :: "env \<Rightarrow> time_t \<Rightarrow> zmsg option \<Rightarrow> ClientProxy \<Rightarrow> outcome \<times> ClientProxy" where
  "handleClientMessage E now received p = (let p = cp_updateCurrentTime now p in
     case received of
       None \<Rightarrow> (Returns 0, p)
     | Some routerMsg \<Rightarrow> (case handleClientMessage_msg E routerMsg p of (res, p) \<Rightarrow> (only_negative res, p)))"

section \<open>Messages from the broker\<close>

definition parseBrokerReceipt :: "env \<Rightarrow> frame list \<Rightarrow> (RequestType \<times> RequestId) parsed" where
  "parseBrokerReceipt E fs =
     and_then (next_value 1 Some fs) (\<lambda>(identity, fs).
     and_then (next_delimiter 1 fs) (\<lambda>fs.
     and_then (next_value 1 (get_u32 E) fs) (\<lambda>(requestType, fs).
     and_then (next_value 1 (get_u64 E) fs) (\<lambda>(requestId, fs).
     Parsed (requestType, requestId)))))"

text \<open>
  The receipt is destroyed before the buffer is searched with the address its identity frame had.
\<close>

definition handleBrokerReceipt :: "env \<Rightarrow> 32 word \<Rightarrow> zmsg \<Rightarrow> ClientProxy \<Rightarrow> outcome \<times> ClientProxy" where
  "handleBrokerReceipt E receiptType receiptMsg p =
     (case parseBrokerReceipt E (zmsg_frames E receiptMsg) of
        Malformed n \<Rightarrow> (Returns n, p)
      | Throws \<Rightarrow> (Thrown, p)
      | Parsed (requestType, requestId) \<Rightarrow>
          (Returns 0, p\<lparr>requestsBuffer := EraseIfLastReceipt receiptType requestType requestId (nextFrame p) (requestsBuffer p),
                        nextFrame := Suc (nextFrame p)\<rparr>))"

definition parseBrokerResponse :: "env \<Rightarrow> frame list \<Rightarrow> (LHCVersionFlags \<times> RequestType \<times> RequestId) parsed" where
  "parseBrokerResponse E fs =
     and_then (next_value 1 Some fs) (\<lambda>(identity, fs).
     and_then (next_delimiter 1 fs) (\<lambda>fs.
     and_then (next_value 1 (get_vfs E) fs) (\<lambda>(vfs, fs).
     and_then (next_value 1 (get_u32 E) fs) (\<lambda>(requestType, fs).
     and_then (next_value 1 (get_u64 E) fs) (\<lambda>(requestId, fs).
     Parsed (vfs, requestType, requestId))))))"

definition handleBrokerResponse :: "env \<Rightarrow> zmsg \<Rightarrow> ClientProxy \<Rightarrow> outcome \<times> ClientProxy" where
  "handleBrokerResponse E responseMsg p =
     (case parseBrokerResponse E (zmsg_frames E responseMsg) of
        Malformed n \<Rightarrow> (Returns n, p)
      | Throws \<Rightarrow> (Thrown, p)
      | Parsed (vfs, requestType, requestId) \<Rightarrow>
          (let p = p\<lparr>requestsBuffer := Erase requestType requestId (nextFrame p) (requestsBuffer p),
                     nextFrame := Suc (nextFrame p)\<rparr>;
               (ret, p) = cp_Send E clientMessagingSocket responseMsg p
           in (Returns ret, p)))"

text \<open>Delimiter, time of sending, delay: popped, the time unread, the delay read as an \<open>int\<close>.\<close>

definition handleBrokerHeartbeat :: "env \<Rightarrow> zmsg \<Rightarrow> ClientProxy \<Rightarrow> outcome \<times> ClientProxy" where
  "handleBrokerHeartbeat E heartbeatMsg p =
     (case zmsg_pop E heartbeatMsg of
        (Some [], heartbeatMsg) \<Rightarrow>
          (case zmsg_pop E heartbeatMsg of
             (Some (_ # _), heartbeatMsg) \<Rightarrow>
               (case zmsg_pop E heartbeatMsg of
                  (Some (x # xs), _) \<Rightarrow>
                    (case get_i32 E (x # xs) of
                       None \<Rightarrow> (Thrown, p)
                     | Some newHeartbeatSendDelay \<Rightarrow> (Returns 0, p\<lparr>brokerHeartbeatDelay := newHeartbeatSendDelay\<rparr>))
                | _ \<Rightarrow> (Returns 2, p))
           | _ \<Rightarrow> (Returns 1, p))
      | _ \<Rightarrow> (Returns 1, p))"

definition dispatchBrokerMessage :: "env \<Rightarrow> 32 word \<Rightarrow> zmsg \<Rightarrow> ClientProxy \<Rightarrow> outcome \<times> ClientProxy" where
  "dispatchBrokerMessage E messageType dealerMsg p =
     (if messageType = ClusterMessage_value BrokerSentReceipt \<or> messageType = ClusterMessage_value BrokerReceivedReceipt
      then handleBrokerReceipt E messageType dealerMsg p
      else if messageType = ClusterMessage_value BrokerResponse then handleBrokerResponse E dealerMsg p
      else if messageType = ClusterMessage_value BrokerHeartbeat then handleBrokerHeartbeat E dealerMsg p
      else (Returns 0, p))"

definition handleBrokerMessage_msg :: "env \<Rightarrow> zmsg \<Rightarrow> ClientProxy \<Rightarrow> outcome \<times> ClientProxy" where
  "handleBrokerMessage_msg E dealerMsg p =
     (let fs = zmsg_frames E dealerMsg in
      case skip_envelope 0 fs of
        Parsed (f # rest) \<Rightarrow>
          (if f = [] then (Returns 0, p)
           else (case get_u32 E f of
                   None \<Rightarrow> (Thrown, p)
                 | Some messageType \<Rightarrow>
                     dispatchBrokerMessage E messageType (zmsg_remove E dealerMsg (length fs - length rest - 1)) p))
      | _ \<Rightarrow> (Returns 0, p))"

text \<open>The code that comes back is overwritten with 0; an exception is not.\<close>

definition handleBrokerMessage :: "env \<Rightarrow> time_t \<Rightarrow> zmsg option \<Rightarrow> ClientProxy \<Rightarrow> outcome \<times> ClientProxy" where
  "handleBrokerMessage E now received p = (let p = cp_updateCurrentTime now p in
     case received of
       None \<Rightarrow> (Returns 0, p)
     | Some dealerMsg \<Rightarrow>
         (case handleBrokerMessage_msg E dealerMsg (updateBrokerLastActive (cp_currentTime p) p) of
            (res, p) \<Rightarrow> (case res of Returns _ \<Rightarrow> Returns 0 | Thrown \<Rightarrow> Thrown, p)))"

definition checkBrokerPulse :: "time_t \<Rightarrow> ClientProxy \<Rightarrow> int \<times> ClientProxy" where
  "checkBrokerPulse now p = (let p = cp_updateCurrentTime now p in
     if \<not> isBrokerAliveAsOf (cp_currentTime p) p then (-1, setExitState CP_BrokerDied p) else (0, p))"

section \<open>Commands\<close>

datatype ClientCommand = CC_None | CC_Start | CC_Stop

primrec ClientCommand_value :: "ClientCommand \<Rightarrow> 32 word" where
  "ClientCommand_value CC_None = 0"
| "ClientCommand_value CC_Start = 1"
| "ClientCommand_value CC_Stop = 2"

definition clientPrimaryControllerReactor :: "env \<Rightarrow> zmsg option \<Rightarrow> ClientProxy \<Rightarrow> int \<times> ClientProxy" where
  "clientPrimaryControllerReactor E received p =
     (case received of
        None \<Rightarrow> (0, p)
      | Some signalMsg \<Rightarrow>
          (case fst (zmsg_pop E signalMsg) of
             None \<Rightarrow> (0, p)
           | Some commandFrame \<Rightarrow>
               (if commandFrame = [] then (0, p)
                else (case get_u32 E commandFrame of
                        None \<Rightarrow> (-1, p)
                      | Some command \<Rightarrow>
                          (if command = ClientCommand_value CC_Stop then (-1, setExitState CP_GracefulStop p)
                           else (0, p))))))"

section \<open>Callbacks\<close>

definition code_of :: "outcome \<Rightarrow> int" where
  "code_of res = (case res of Returns ret \<Rightarrow> ret | Thrown \<Rightarrow> -1)"

definition clientClientMessagingReactor :: "env \<Rightarrow> time_t \<Rightarrow> zmsg option \<Rightarrow> ClientProxy \<Rightarrow> int \<times> ClientProxy" where
  "clientClientMessagingReactor E now received p = apfst code_of (handleClientMessage E now received p)"

definition clientBrokerMessagingReactor :: "env \<Rightarrow> time_t \<Rightarrow> zmsg option \<Rightarrow> ClientProxy \<Rightarrow> int \<times> ClientProxy" where
  "clientBrokerMessagingReactor E now received p = apfst code_of (handleBrokerMessage E now received p)"

definition clientHeartbeatBrokerReactor :: "env \<Rightarrow> time_t \<Rightarrow> ClientProxy \<Rightarrow> int \<times> ClientProxy" where
  "clientHeartbeatBrokerReactor E now p = cp_sendBrokerHeartbeat E now p"

definition client_check_pulse_broker_reactor :: "time_t \<Rightarrow> ClientProxy \<Rightarrow> int \<times> ClientProxy" where
  "client_check_pulse_broker_reactor now p = checkBrokerPulse now p"

text \<open>The counters are not part of the state.\<close>

definition dumpStatsClientProxyReactor :: "time_t \<Rightarrow> ClientProxy \<Rightarrow> int \<times> ClientProxy" where
  "dumpStatsClientProxyReactor now p = (0, cp_updateCurrentTime now p)"

datatype proxy_event =
    ClientReadable time_t "zmsg option"
  | BrokerReadable time_t "zmsg option"
  | HeartbeatDue time_t
  | PulseDue time_t
  | DumpStatsDue time_t
  | CommandReadable "zmsg option"

fun proxy_step :: "env \<Rightarrow> proxy_event \<Rightarrow> ClientProxy \<Rightarrow> int \<times> ClientProxy" where
  "proxy_step E (ClientReadable now m) p = clientClientMessagingReactor E now m p"
| "proxy_step E (BrokerReadable now m) p = clientBrokerMessagingReactor E now m p"
| "proxy_step E (HeartbeatDue now) p = clientHeartbeatBrokerReactor E now p"
| "proxy_step E (PulseDue now) p = client_check_pulse_broker_reactor now p"
| "proxy_step E (DumpStatsDue now) p = dumpStatsClientProxyReactor now p"
| "proxy_step E (CommandReadable m) p = clientPrimaryControllerReactor E m p"

text \<open>\<open>zloop_start\<close>: callbacks until one returns \<open>-1\<close>; the first component tells whether one did.\<close>

fun proxy_loop :: "env \<Rightarrow> proxy_event list \<Rightarrow> ClientProxy \<Rightarrow> bool \<times> ClientProxy" where
  "proxy_loop E [] p = (False, p)"
| "proxy_loop E (e # es) p = (case proxy_step E e p of (ret, p) \<Rightarrow>
     if ret = -1 then (True, p) else proxy_loop E es p)"

end
