(* ===== verification/ClientProxyLifecycle.thy ===== *)
theory ClientProxyLifecycle
  imports ClientProxy Host
begin

text \<open>
  The life of a \<open>ClientProxy\<close> around its handlers (clientproxy.cxx): sockets, callbacks, the thread,
  and the loop of \<open>StartAsPrimary\<close> that connects again when the broker died.
\<close>

datatype proxy_socket = CP_client | CP_broker | CP_listener | CP_signaler

datatype proxy_timer = CP_heartbeatBroker | CP_checkPulseBroker | CP_dumpStats

type_synonym proxy_hosting = "(proxy_socket, proxy_timer) host_env"
type_synonym 'a proxy_hosted = "(proxy_socket, proxy_timer, 'a) hosted"
type_synonym proxy_host = "(proxy_socket, proxy_timer) host"

record ClientProxyEndpoints =
  cp_selfClientMessagingEndpoint :: endpoint
  cp_selfBrokerMessagingEndpoint :: endpoint
  cp_brokerMessagingEndpoint :: endpoint
  cp_selfControllerEndpoint :: endpoint

section \<open>Construction\<close>

definition ClientProxy_construct :: "proxy_hosting \<Rightarrow> bool proxy_hosted" where
  "ClientProxy_construct H = do {
     factory_create H CP_client Router;
     factory_create H CP_broker Dealer;
     factory_create H CP_listener Pair;
     factory_create H CP_signaler Pair;
     reactor_create H;
     h \<leftarrow> State_Monad.get;
     State_Monad.return ({CP_client, CP_broker, CP_listener, CP_signaler} \<subseteq> present h \<and> has_reactor h)
   }"

section \<open>Sockets and callbacks\<close>

definition cp_activateControllerSockets :: "proxy_hosting \<Rightarrow> ClientProxyEndpoints \<Rightarrow> int proxy_hosted" where
  "cp_activateControllerSockets H eps = do {
     ret \<leftarrow> invoke H (Bind CP_listener (cp_selfControllerEndpoint eps));
     ret1 \<leftarrow> invoke H (Connect CP_signaler (cp_selfControllerEndpoint eps));
     State_Monad.return (failed ret + failed ret1)
   }"

definition activateClientMessagingSockets :: "proxy_hosting \<Rightarrow> ClientProxyEndpoints \<Rightarrow> int proxy_hosted" where
  "activateClientMessagingSockets H eps = do {
     ret \<leftarrow> invoke H (Bind CP_client (cp_selfClientMessagingEndpoint eps));
     State_Monad.return (failed ret)
   }"

definition deactivateClientMessagingSockets :: "proxy_hosting \<Rightarrow> ClientProxyEndpoints \<Rightarrow> int proxy_hosted" where
  "deactivateClientMessagingSockets H eps = invoke H (UnBind CP_client (cp_selfClientMessagingEndpoint eps))"

text \<open>It also records the broker as active now, see \<open>connecting\<close> below.\<close>

definition activateBrokerMessagingSockets :: "proxy_hosting \<Rightarrow> ClientProxyEndpoints \<Rightarrow> int proxy_hosted" where
  "activateBrokerMessagingSockets H eps = do {
     ret \<leftarrow> invoke H (Bind CP_broker (cp_selfBrokerMessagingEndpoint eps));
     ret1 \<leftarrow> invoke H (Connect CP_broker (cp_brokerMessagingEndpoint eps));
     State_Monad.return (failed ret + failed ret1)
   }"

definition cp_teardownControllerCallbacks :: "proxy_hosting \<Rightarrow> int proxy_hosted" where
  "cp_teardownControllerCallbacks H = do {
     _ \<leftarrow> invoke H (zloop_reader_end CP_listener);
     State_Monad.return 0
   }"

definition cp_setupControllerCallbacks :: "proxy_hosting \<Rightarrow> int proxy_hosted" where
  "cp_setupControllerCallbacks H = invoke H (zloop_reader CP_listener)"

definition setupClientMessagingCallbacks :: "proxy_hosting \<Rightarrow> int proxy_hosted" where
  "setupClientMessagingCallbacks H = invoke H (zloop_reader CP_client)"

definition teardownClientMessagingCallbacks :: "proxy_hosting \<Rightarrow> int proxy_hosted" where
  "teardownClientMessagingCallbacks H = do {
     _ \<leftarrow> invoke H (zloop_reader_end CP_client);
     State_Monad.return 0
   }"

definition setupBrokerMessagingCallbacks :: "proxy_hosting \<Rightarrow> ClientProxy \<Rightarrow> int proxy_hosted" where
  "setupBrokerMessagingCallbacks H p = do {
     ret \<leftarrow> invoke H (zloop_reader CP_broker);
     _ \<leftarrow> invoke H (zloop_timer CP_checkPulseBroker (1000 * brokerPulseDelay p));
     _ \<leftarrow> invoke H (zloop_timer CP_heartbeatBroker (1000 * brokerHeartbeatDelay p));
     _ \<leftarrow> invoke H (zloop_timer CP_dumpStats 5000);
     State_Monad.return ret
   }"

definition teardownBrokerMessagingCallbacks :: "proxy_hosting \<Rightarrow> int proxy_hosted" where
  "teardownBrokerMessagingCallbacks H = do {
     _ \<leftarrow> invoke H (zloop_reader_end CP_broker);
     _ \<leftarrow> invoke H (zloop_timer_end CP_heartbeatBroker);
     _ \<leftarrow> invoke H (zloop_timer_end CP_checkPulseBroker);
     _ \<leftarrow> invoke H (zloop_timer_end CP_dumpStats);
     State_Monad.return 0
   }"

definition deactivateBrokerMessagingSockets :: "proxy_hosting \<Rightarrow> ClientProxyEndpoints \<Rightarrow> int proxy_hosted" where
  "deactivateBrokerMessagingSockets H eps = do {
     ret \<leftarrow> invoke H (DisConnect CP_broker (cp_brokerMessagingEndpoint eps));
     ret1 \<leftarrow> invoke H (UnBind CP_broker (cp_selfBrokerMessagingEndpoint eps));
     State_Monad.return (ret + ret1)
   }"

definition cp_deactivateControllerSockets :: "proxy_hosting \<Rightarrow> ClientProxyEndpoints \<Rightarrow> int proxy_hosted" where
  "cp_deactivateControllerSockets H eps = do {
     ret \<leftarrow> invoke H (DisConnect CP_signaler (cp_selfControllerEndpoint eps));
     ret1 \<leftarrow> invoke H (UnBind CP_listener (cp_selfControllerEndpoint eps));
     ret2 \<leftarrow> RefreshSocket H CP_signaler Pair;
     ret3 \<leftarrow> RefreshSocket H CP_listener Pair;
     State_Monad.return (ret + ret1 + ret2 + ret3)
   }"

section \<open>Start and stop\<close>

text \<open>\<open>False\<close>: the constructor of the thread threw, and what is activated stays so.\<close>

definition ClientProxy_Start :: "proxy_hosting \<Rightarrow> ClientProxyEndpoints \<Rightarrow> bool proxy_hosted" where
  "ClientProxy_Start H eps = do {
     _ \<leftarrow> cp_activateControllerSockets H eps;
     _ \<leftarrow> cp_setupControllerCallbacks H;
     new_thread H
   }"

text \<open>The stop command goes to the thread as a message on the signaler.\<close>

definition stop_message :: "env \<Rightarrow> zmsg" where
  "stop_message E = add_u32 E (ClientCommand_value CC_Stop) (zmsg_new E)"

definition ClientProxy_Stop :: "env \<Rightarrow> proxy_hosting \<Rightarrow> ClientProxyEndpoints \<Rightarrow> unit proxy_hosted" where
  "ClientProxy_Stop E H eps = do {
     h \<leftarrow> State_Monad.get;
     _ \<leftarrow> (if reactorThread h then do {
         _ \<leftarrow> invoke H (SendOn CP_signaler (stop_message E));
         _ \<leftarrow> invoke H JoinThread;
         State_Monad.update (\<lambda>h. h\<lparr>reactorThread := False\<rparr>)
       } else State_Monad.return ());
     _ \<leftarrow> cp_teardownControllerCallbacks H;
     _ \<leftarrow> cp_deactivateControllerSockets H eps;
     State_Monad.return ()
   }"

definition ClientProxy_destroy :: "env \<Rightarrow> proxy_hosting \<Rightarrow> ClientProxyEndpoints \<Rightarrow> unit proxy_hosted" where
  "ClientProxy_destroy E H eps = do {
     ClientProxy_Stop E H eps;
     destroy_reactor H;
     destroy_present H CP_client;
     destroy_present H CP_broker;
     destroy_present H CP_signaler;
     destroy_present H CP_listener
   }"

section \<open>Connecting, and connecting again\<close>

text \<open>Every buffered request is sent again, and waits for its receipts anew.\<close>

fun resend :: "env \<Rightarrow> ClientRequestBuffer \<Rightarrow> ClientProxy \<Rightarrow> ClientRequestBuffer \<times> ClientProxy" where
  "resend E [] p = ([], p)"
| "resend E ((k, vfs, currentFlags, msg) # rest) p =
     (case cp_Send E brokerMessagingSocket (zmsg_dup E msg) p of (ret, p) \<Rightarrow>
      case resend E rest p of (rest, p) \<Rightarrow> ((k, vfs, flags vfs, msg) # rest, p))"

definition resendBuffered :: "env \<Rightarrow> ClientProxy \<Rightarrow> ClientProxy" where
  "resendBuffered E p = (case resend E (requestsBuffer p) p of (buffer, p) \<Rightarrow> p\<lparr>requestsBuffer := buffer\<rparr>)"

definition connecting :: "time_t \<Rightarrow> ClientProxy \<Rightarrow> ClientProxy" where
  "connecting now p = (let p = cp_updateCurrentTime now (setExitState CP_None p)
     in updateBrokerLastActive (cp_currentTime p) p)"

definition cp_before_loop :: "proxy_hosting \<Rightarrow> ClientProxyEndpoints \<Rightarrow> ClientProxy \<Rightarrow> int proxy_hosted" where
  "cp_before_loop H eps p = do {
     ret \<leftarrow> activateBrokerMessagingSockets H eps;
     ret1 \<leftarrow> setupBrokerMessagingCallbacks H p;
     ret2 \<leftarrow> activateClientMessagingSockets H eps;
     ret3 \<leftarrow> setupClientMessagingCallbacks H;
     State_Monad.return (int (length (filter (\<lambda>r. r \<noteq> 0) [ret, ret1, ret2, ret3])))
   }"

definition cp_after_loop :: "proxy_hosting \<Rightarrow> ClientProxyEndpoints \<Rightarrow> unit proxy_hosted" where
  "cp_after_loop H eps = do {
     _ \<leftarrow> teardownClientMessagingCallbacks H;
     _ \<leftarrow> deactivateClientMessagingSockets H eps;
     _ \<leftarrow> teardownBrokerMessagingCallbacks H;
     _ \<leftarrow> deactivateBrokerMessagingSockets H eps;
     State_Monad.return ()
   }"

text \<open>
  One turn of the \<open>do ... while ( true )\<close>: the clock at its begin and end, and the events of the
  reactor loop in between. The first component is \<open>None\<close> while the reactor loop still runs, and
  then tells whether the proxy goes on with another turn.
\<close>

type_synonym proxy_turn = "time_t \<times> proxy_event list \<times> time_t"

definition goes_on :: "ClientProxyExitState \<Rightarrow> bool" where
  "goes_on s \<longleftrightarrow> s = CP_BrokerDied \<or> s = CP_StartFailed"

definition proxy_turn_of ::
    "proxy_hosting \<Rightarrow> ClientProxyEndpoints \<Rightarrow> env \<Rightarrow> proxy_turn \<Rightarrow> proxy_host \<times> ClientProxy
      \<Rightarrow> bool option \<times> proxy_host \<times> ClientProxy" where
  "proxy_turn_of H eps E turn s = (case (turn, s) of ((now0, es, now1), (h, p)) \<Rightarrow>
     let p = connecting now0 p;
         (runningRet, h) = run_state (cp_before_loop H eps p) h;
         p = resendBuffered E p;
         ((ended, p), h) = (if runningRet = 0 then (proxy_loop E es p, h)
           else ((True, setExitState CP_StartFailed p), snd (run_state (invoke H (SleepFor 1000)) h)))
     in if ended then
          (let p = cp_updateCurrentTime now1 p
           in (Some (goes_on (exitState p)), snd (run_state (cp_after_loop H eps) h), p))
        else (None, h, p))"

fun ClientProxy_StartAsPrimary ::
    "proxy_hosting \<Rightarrow> ClientProxyEndpoints \<Rightarrow> env \<Rightarrow> proxy_turn list \<Rightarrow> proxy_host \<times> ClientProxy
      \<Rightarrow> bool option \<times> proxy_host \<times> ClientProxy" where
  "ClientProxy_StartAsPrimary H eps E [] s = (None, s)"
| "ClientProxy_StartAsPrimary H eps E (turn # turns) s =
     (case proxy_turn_of H eps E turn s of (again, s) \<Rightarrow>
        if again = Some True then ClientProxy_StartAsPrimary H eps E turns s else (again, s))"

lemmas proxy_host_defs = cp_activateControllerSockets_def activateClientMessagingSockets_def
  deactivateClientMessagingSockets_def activateBrokerMessagingSockets_def cp_teardownControllerCallbacks_def
  cp_setupControllerCallbacks_def setupClientMessagingCallbacks_def teardownClientMessagingCallbacks_def
  setupBrokerMessagingCallbacks_def teardownBrokerMessagingCallbacks_def deactivateBrokerMessagingSockets_def
  cp_deactivateControllerSockets_def ClientProxy_Start_def ClientProxy_Stop_def cp_before_loop_def cp_after_loop_def

end
