(* ===== verification/ClientProxyProps.thy ===== *)
theory ClientProxyProps
  imports ClientProxyLifecycle BrokerExamples "HOL-Library.Sublist"
begin

text \<open>
  Properties of the client proxy: what it forwards, what it keeps, when it connects again, and a
  request and its answer on their way through proxy and broker.
\<close>

section \<open>The states of a proxy\<close>

text \<open>No buffered key has an address that is still to be given out.\<close>

definition buffer_ok :: "ClientProxy \<Rightarrow> bool" where
  "buffer_ok p \<longleftrightarrow> (\<forall>k \<in> fst ` set (requestsBuffer p). snd (snd k) < nextFrame p)"

inductive proxy_reachable :: "env \<Rightarrow> ClientProxy \<Rightarrow> bool" for E where
  constructed: "proxy_reachable E (ClientProxy_new selfDelay initialDelay pulseDelay)"
| callback: "proxy_reachable E p \<Longrightarrow> proxy_step E e p = (ret, p') \<Longrightarrow> proxy_reachable E p'"
| reconnected: "proxy_reachable E p \<Longrightarrow> proxy_reachable E (resendBuffered E (connecting now p))"
| stopped: "proxy_reachable E p \<Longrightarrow> proxy_reachable E (setExitState s p)"

text \<open>\<open>buffered_in p p'\<close>: whatever \<open>p\<close> has in its buffer, \<open>p'\<close> has with the same flags and message.\<close>

definition entry_of :: "ClientRequestBufferKey \<times> ClientRequestBufferValue \<Rightarrow> ClientRequestBufferKey \<times> LHCVersionFlags \<times> zmsg" where
  "entry_of x = (fst x, fst (snd x), snd (snd (snd x)))"

definition entries :: "ClientProxy \<Rightarrow> (ClientRequestBufferKey \<times> LHCVersionFlags \<times> zmsg) set" where
  "entries p = entry_of ` set (requestsBuffer p)"

definition grows :: "ClientProxy \<Rightarrow> ClientProxy \<Rightarrow> bool" where
  "grows p p' \<longleftrightarrow> entries p \<subseteq> entries p' \<and> (buffer_ok p \<longrightarrow> buffer_ok p') \<and> prefix (cp_sends p) (cp_sends p')"

lemma grows_same: "requestsBuffer p' = requestsBuffer p \<Longrightarrow> nextFrame p \<le> nextFrame p' \<Longrightarrow> prefix (cp_sends p) (cp_sends p') \<Longrightarrow> grows p p'"
  unfolding grows_def entries_def buffer_ok_def by (auto intro: less_le_trans)

lemma grows_trans: "grows a b \<Longrightarrow> grows b c \<Longrightarrow> grows a c"
  by (auto simp: grows_def intro: prefix_order.trans)

lemma fresh_key: "buffer_ok p \<Longrightarrow> (t, i, nextFrame p) \<notin> fst ` set (requestsBuffer p)"
  by (fastforce simp: buffer_ok_def)

lemma cp_Send_fields: "cp_Send E s m p = (ret, p') \<Longrightarrow> requestsBuffer p' = requestsBuffer p \<and> nextFrame p' = nextFrame p \<and>
    exitState p' = exitState p \<and> cp_sends p' = cp_sends p @ [(s, m, ret)]"
  by (auto simp: cp_Send_def Send_def split: prod.splits)

lemma request_grows:
  assumes ok: "buffer_ok p" and r: "cp_handleClientRequest E m p = (res, p')"
  shows "grows p p'"
proof (cases "cp_parseClientRequest E (tl (zmsg_frames E m))")
  case (Parsed x)
  obtain vfs t i where x: "x = (vfs, t, i)" by (cases x)
  let ?p = "p\<lparr>requestsBuffer := Add t i (nextFrame p) vfs (zmsg_dup E m) (requestsBuffer p), nextFrame := Suc (nextFrame p)\<rparr>"
  have "grows p ?p"
    using fresh_key[OF ok, of t i] ok
    by (auto simp: grows_def entries_def buffer_ok_def Add_def buffer_put_set buffer_put_keys less_Suc_eq)
  moreover have "grows q p'" if "cp_Send E brokerMessagingSocket m q = (ret, p')" for q ret
    by (rule grows_same) (use cp_Send_fields[OF that] in simp_all)
  ultimately show ?thesis
    using r Parsed x by (auto simp: cp_handleClientRequest_def Let_def split: prod.splits if_splits intro: grows_trans)
qed (use r in \<open>auto simp: cp_handleClientRequest_def intro: grows_same\<close>)

lemma broker_message_grows:
  assumes ok: "buffer_ok p" and r: "dispatchBrokerMessage E ty m p = (res, p')"
  shows "grows p p'"
proof -
  note absent = Erase_absent[OF fresh_key[OF ok]] EraseIfLastReceipt_absent[OF fresh_key[OF ok]]
  have a: "grows p p'" if "handleBrokerReceipt E ty m p = (res, p')"
    using that by (auto simp: handleBrokerReceipt_def absent split: parsed.splits prod.splits intro!: grows_same)
  have b: "grows p p'" if "handleBrokerResponse E m p = (res, p')"
    using that by (auto simp: handleBrokerResponse_def absent Let_def split: parsed.splits prod.splits
        intro!: grows_same dest!: cp_Send_fields)
  have c: "grows p p'" if "handleBrokerHeartbeat E m p = (res, p')"
    using that by (auto simp: handleBrokerHeartbeat_def split: prod.splits option.splits list.splits intro!: grows_same)
  show ?thesis using r a b c by (auto simp: dispatchBrokerMessage_def grows_same split: if_splits)
qed

lemma SendHeartbeat_sends: "SendHeartbeat E h socket sentAt delay header m = (ret, left, h') \<Longrightarrow> prefix h h'"
  by (auto simp: SendHeartbeat_def Send_def Let_def split: prod.splits)

lemma step_grows:
  assumes ok: "buffer_ok p" and s: "proxy_step E e p = (ret, p')"
  shows "grows p p'"
proof -
  have upd: "grows p (cp_updateCurrentTime n p)" "grows p (updateBrokerLastActive n p)" for n p
    by (simp_all add: grows_same cp_updateCurrentTime_def updateBrokerLastActive_def)
  have ok': "buffer_ok (cp_updateCurrentTime n p)" "buffer_ok (updateBrokerLastActive n' (cp_updateCurrentTime n p))" for n n'
    using ok upd by (auto simp: grows_def)
  have q: "grows p (updateBrokerLastActive n' (cp_updateCurrentTime n p))" for n n' by (rule grows_trans[OF upd])
  show ?thesis
  proof (cases e)
    case (ClientReadable now m)
    obtain res where r: "handleClientMessage E now m p = (res, p')"
      using s ClientReadable by (cases "handleClientMessage E now m p") (simp add: clientClientMessagingReactor_def)
    show ?thesis
    proof (cases m)
      case None
      then show ?thesis using r upd by (auto simp: handleClientMessage_def Let_def)
    next
      case (Some msg)
      then obtain res' where "handleClientMessage_msg E msg (cp_updateCurrentTime now p) = (res', p')"
        using r by (auto simp: handleClientMessage_def Let_def split: prod.splits)
      then have "grows (cp_updateCurrentTime now p) p'"
        using request_grows[OF ok'(1)]
        by (auto simp: handleClientMessage_msg_def grows_same split: list.splits if_splits prod.splits)
      with upd(1) show ?thesis by (rule grows_trans)
    qed
  next
    case (BrokerReadable now m)
    obtain res where r: "handleBrokerMessage E now m p = (res, p')"
      using s BrokerReadable by (cases "handleBrokerMessage E now m p") (simp add: clientBrokerMessagingReactor_def)
    show ?thesis
    proof (cases m)
      case None
      then show ?thesis using r upd by (auto simp: handleBrokerMessage_def Let_def)
    next
      case (Some msg)
      let ?q = "updateBrokerLastActive (cp_currentTime (cp_updateCurrentTime now p)) (cp_updateCurrentTime now p)"
      obtain res' where "handleBrokerMessage_msg E msg ?q = (res', p')"
        using r Some by (auto simp: handleBrokerMessage_def Let_def split: prod.splits)
      then have "grows ?q p'"
        using broker_message_grows[OF ok'(2)]
        by (auto simp: handleBrokerMessage_msg_def Let_def grows_same split: parsed.splits list.splits if_splits option.splits)
      with q show ?thesis by (rule grows_trans)
    qed
  qed (use s in \<open>auto simp: clientHeartbeatBrokerReactor_def cp_sendBrokerHeartbeat_def
      client_check_pulse_broker_reactor_def checkBrokerPulse_def clientPrimaryControllerReactor_def Let_def
      dumpStatsClientProxyReactor_def cp_updateCurrentTime_def updateClientLastActive_def setExitState_def intro!: grows_same
      dest: SendHeartbeat_sends split: prod.splits if_splits option.splits\<close>)
qed

definition resent :: "env \<Rightarrow> ClientRequestBufferKey \<times> ClientRequestBufferValue \<Rightarrow> int \<Rightarrow> send_record" where
  "resent E x r = (brokerMessagingSocket, zmsg_dup E (snd (snd (snd x))), r)"

lemma resend_fields:
  "resend E buffer p = (buffer', p') \<Longrightarrow> map fst buffer' = map fst buffer \<and>
    entry_of ` set buffer' = entry_of ` set buffer \<and>
    nextFrame p' = nextFrame p \<and> exitState p' = exitState p \<and> requestsBuffer p' = requestsBuffer p \<and>
    (\<exists>rets. length rets = length buffer \<and>
      cp_sends p' = cp_sends p @ map2 (resent E) buffer rets)"
proof (induction buffer arbitrary: p buffer' p')
  case Nil
  then show ?case by simp
next
  case (Cons x buffer)
  obtain k vfs fl m where x: "x = (k, vfs, fl, m)" by (cases x)
  obtain ret p1 where s: "cp_Send E brokerMessagingSocket (zmsg_dup E m) p = (ret, p1)" by fastforce
  obtain b2 p2 where r: "resend E buffer p1 = (b2, p2)" by fastforce
  from Cons.prems x s r have e: "buffer' = (k, vfs, flags vfs, m) # b2" "p' = p2" by simp_all
  from Cons.IH[OF r] obtain rets where rets: "length rets = length buffer"
    "cp_sends p2 = cp_sends p1 @ map2 (resent E) buffer rets" by blast
  then have "cp_sends p' = cp_sends p @ map2 (resent E) (x # buffer) (ret # rets)"
    using cp_Send_fields[OF s] e(2) x by (simp add: resent_def)
  with rets(1) have "\<exists>rets. length rets = length (x # buffer) \<and>
      cp_sends p' = cp_sends p @ map2 (resent E) (x # buffer) rets"
    by (intro exI[of _ "ret # rets"]) simp
  then show ?case using Cons.IH[OF r] cp_Send_fields[OF s] e x by (simp add: entry_of_def)
qed

lemma resendBuffered_fields:
  "entries (resendBuffered E p) = entries p" "fst ` set (requestsBuffer (resendBuffered E p)) = fst ` set (requestsBuffer p)"
  "nextFrame (resendBuffered E p) = nextFrame p" "exitState (resendBuffered E p) = exitState p"
  "\<exists>rets. length rets = length (requestsBuffer p) \<and> cp_sends (resendBuffered E p) = cp_sends p @
      map2 (resent E) (requestsBuffer p) rets"
proof -
  obtain b q where r: "resend E (requestsBuffer p) p = (b, q)" by fastforce
  note f = resend_fields[OF r]
  have "fst ` set b = fst ` set (requestsBuffer p)" using f by (metis image_set)
  with f r show "entries (resendBuffered E p) = entries p" "fst ` set (requestsBuffer (resendBuffered E p)) = fst ` set (requestsBuffer p)"
    "nextFrame (resendBuffered E p) = nextFrame p" "exitState (resendBuffered E p) = exitState p"
    "\<exists>rets. length rets = length (requestsBuffer p) \<and> cp_sends (resendBuffered E p) = cp_sends p @
      map2 (resent E) (requestsBuffer p) rets"
    by (simp_all add: resendBuffered_def entries_def)
qed

lemma resend_delay: "brokerDeathDelay (resendBuffered E p) = brokerDeathDelay p"
proof -
  have "brokerDeathDelay (snd (resend E b q)) = brokerDeathDelay q" for b q
    by (induction E b q rule: resend.induct) (simp_all add: cp_Send_def Send_def case_prod_unfold)
  then show ?thesis by (simp add: resendBuffered_def case_prod_unfold)
qed

lemma connecting_fields [simp]: "requestsBuffer (connecting now p) = requestsBuffer p"
  "nextFrame (connecting now p) = nextFrame p" "cp_sends (connecting now p) = cp_sends p" "exitState (connecting now p) = CP_None"
  by (simp_all add: connecting_def Let_def cp_updateCurrentTime_def setExitState_def updateBrokerLastActive_def)

lemma proxy_reachable_ok: "proxy_reachable E p \<Longrightarrow> buffer_ok p"
proof (induction rule: proxy_reachable.induct)
  case (callback p e ret p')
  then show ?case using step_grows by (auto simp: grows_def)
next
  case (reconnected p now)
  then show ?case unfolding buffer_ok_def by (simp add: resendBuffered_fields)
qed (simp_all add: buffer_ok_def ClientProxy_new_def setExitState_def)

definition example_proxy :: ClientProxy where
  "example_proxy = ClientProxy_new 10 5 3"

definition example_proxy_endpoints :: ClientProxyEndpoints where
  "example_proxy_endpoints = \<lparr> cp_selfClientMessagingEndpoint = ''c'', cp_selfBrokerMessagingEndpoint = ''s'',
     cp_brokerMessagingEndpoint = ''b'', cp_selfControllerEndpoint = ''x'' \<rparr>"

lemma example_proxy_fields [simp]:
  "requestsBuffer example_proxy = []" "nextFrame example_proxy = 0" "cp_sends example_proxy = []"
  "proxy_reachable E example_proxy"
  by (simp_all add: example_proxy_def proxy_reachable.constructed) (simp_all add: ClientProxy_new_def)

lemma example_backend_send: "fst (zmsg_send good_env h Backend m) = 0"
  using example_envs(2) by (simp add: backend_ok_def)

section \<open>Forwarding\<close>

lemma client_request_step:
  assumes E: "env_ok E" and c: "client \<noteq> []" and m: "m = client_request E [client] vfs t i body"
    and r: "ret = fst (zmsg_send E (cp_sends p) brokerMessagingSocket m)"
  shows "clientClientMessagingReactor E now (Some m) p = (if ret < 0 then ret else 0,
    p\<lparr>cp_currentTime := now,
      requestsBuffer := (if hasAny vfs (ReceiptOnReceive OR ReceiptOnSend)
        then buffer_put (t, i, nextFrame p) (vfs, flags vfs, m) (requestsBuffer p) else requestsBuffer p),
      nextFrame := (if hasAny vfs (ReceiptOnReceive OR ReceiptOnSend) then Suc (nextFrame p) else nextFrame p),
      cp_sends := cp_sends p @ [(brokerMessagingSocket, m, ret)]\<rparr>)"
proof -
  have ne: "enc_vfs E vfs \<noteq> []" "enc_u32 E t \<noteq> []" "enc_u64 E i \<noteq> []"
    using enc_nonempty[OF env_okD(2)[OF E]] by simp_all
  have "cp_parseClientRequest E (tl m) = Parsed (vfs, t, i)"
    using E ne by (simp add: m client_request_def cp_parseClientRequest_def env_laws)
  moreover have "(case m of [] \<Rightarrow> x | f # fs \<Rightarrow> if f = [] then y else z) = z" for x y z :: "outcome \<times> ClientProxy"
    using c by (simp add: m client_request_def)
  moreover have "cp_Send E brokerMessagingSocket m q = (ret, q\<lparr>cp_sends := cp_sends p @ [(brokerMessagingSocket, m, ret)]\<rparr>)"
    if "cp_sends q = cp_sends p" for q :: ClientProxy
    using that r by (simp add: cp_Send_def Send_def case_prod_unfold)
  ultimately show ?thesis
    using E by (simp add: clientClientMessagingReactor_def handleClientMessage_def handleClientMessage_msg_def
        cp_handleClientRequest_def cp_updateCurrentTime_def only_negative_def code_of_def Add_def env_laws Let_def)
qed

text \<open>
  C16: A well-formed request of a client goes to the broker as it came. If it asks for a receipt it is
  put into the buffer, before it is sent and whether or not the send succeeds; otherwise it is not.
  If the send fails with a negative code, as \<open>-1\<close>, the result of \<open>zmsg_send\<close>, the callback returns that
  code, and \<open>-1\<close> ends the proxy's loop; a request without a receipt is then lost.
\<close>

theorem client_request_forwarded:
  assumes E: "env_ok E" and c: "client \<noteq> []" and m: "m = client_request E [client] vfs t i body"
    and r: "ret = fst (zmsg_send E (cp_sends p) brokerMessagingSocket m)"
  shows "clientClientMessagingReactor E now (Some m) p = (if ret < 0 then ret else 0,
    p\<lparr>cp_currentTime := now,
      requestsBuffer := (if hasAny vfs (ReceiptOnReceive OR ReceiptOnSend)
        then buffer_put (t, i, nextFrame p) (vfs, flags vfs, m) (requestsBuffer p) else requestsBuffer p),
      nextFrame := (if hasAny vfs (ReceiptOnReceive OR ReceiptOnSend) then Suc (nextFrame p) else nextFrame p),
      cp_sends := cp_sends p @ [(brokerMessagingSocket, m, ret)]\<rparr>)"
  by (rule client_request_step[OF assms])

lemma client_request_forwarded_witness:
  "\<exists>p'. clientClientMessagingReactor good_env 100 (Some (client_request good_env [[7]] (flagged ReceiptOnSend) 1 5 [])) example_proxy = (0, p') \<and>
    cp_sends p' = [(brokerMessagingSocket, client_request good_env [[7]] (flagged ReceiptOnSend) 1 5 [], 0)]"
  using client_request_forwarded[of good_env "[7]" _ "flagged ReceiptOnSend" 1 5 "[]" _ example_proxy 100]
  by (simp add: example_backend_send)


definition answer_frames :: "env \<Rightarrow> frame \<Rightarrow> LHCVersionFlags \<Rightarrow> RequestType \<Rightarrow> RequestId \<Rightarrow> zmsg \<Rightarrow> zmsg" where
  "answer_frames E client vfs t i body = client # [] # enc_vfs E vfs # enc_u32 E t # enc_u64 E i # body"

lemma broker_response_step:
  assumes E: "env_ok E" and p: "proxy_reachable E p" and c: "client \<noteq> []"
  shows "clientBrokerMessagingReactor E now (Some (response_payload E [client] vfs t i body)) p = (0,
    p\<lparr>cp_currentTime := now, brokerLastActive := now, nextFrame := Suc (nextFrame p),
      cp_sends := cp_sends p @ [(clientMessagingSocket, answer_frames E client vfs t i body, 0)]\<rparr>)"
proof -
  let ?m = "response_payload E [client] vfs t i body"
  have ne: "enc_vfs E vfs \<noteq> []" "enc_u32 E v \<noteq> []" "enc_u64 E i \<noteq> []" for v
    using enc_nonempty[OF env_okD(2)[OF E]] by simp_all
  have "is_envelope [client]" using c by (simp add: is_envelope_def)
  note split = envelope_split[OF this]
  have skip: "skip_envelope 0 (zmsg_frames E ?m) = Parsed (enc_u32 E (ClusterMessage_value BrokerResponse) #
      enc_vfs E vfs # enc_u32 E t # enc_u64 E i # body)"
    using split by (simp add: response_payload_def skip_envelope_eq env_laws[OF E])
  have rem: "zmsg_remove E ?m 2 = answer_frames E client vfs t i body"
    by (simp add: response_payload_def answer_frames_def env_laws[OF E] numeral_2_eq_2)
  have parse: "parseBrokerResponse E (zmsg_frames E (answer_frames E client vfs t i body)) = Parsed (vfs, t, i)"
    using c ne by (simp add: answer_frames_def parseBrokerResponse_def env_laws[OF E])
  have send: "cp_Send E clientMessagingSocket m q = (0, q\<lparr>cp_sends := cp_sends q @ [(clientMessagingSocket, m, 0)]\<rparr>)" for m q
    by (simp add: cp_Send_def Send_front[OF E])
  have len: "length (zmsg_frames E ?m) - length (enc_vfs E vfs # enc_u32 E t # enc_u64 E i # body) - 1 = 2"
    by (simp add: response_payload_def env_laws[OF E])
  note absent = Erase_absent[OF fresh_key[OF proxy_reachable_ok[OF p]]]
  show ?thesis
    using skip ne len rem parse
    by (simp add: clientBrokerMessagingReactor_def handleBrokerMessage_def handleBrokerMessage_msg_def env_laws[OF E]
        dispatchBrokerMessage_def handleBrokerResponse_def send absent cp_updateCurrentTime_def updateBrokerLastActive_def
        code_of_def Let_def)
qed

text \<open>
  A broker's response goes to the client it names without the message type, and counts as a
  sign of life of the broker; the buffer keeps the request all the same.
\<close>

theorem broker_response_forwarded:
  assumes E: "env_ok E" and p: "proxy_reachable E p" and c: "client \<noteq> []"
  shows "clientBrokerMessagingReactor E now (Some (response_payload E [client] vfs t i body)) p = (0,
    p\<lparr>cp_currentTime := now, brokerLastActive := now, nextFrame := Suc (nextFrame p),
      cp_sends := cp_sends p @ [(clientMessagingSocket, answer_frames E client vfs t i body, 0)]\<rparr>)"
  by (rule broker_response_step[OF assms])

lemma broker_response_forwarded_witness:
  "\<exists>p'. clientBrokerMessagingReactor good_env 102 (Some (response_payload good_env [[7]] plain 1 5 [[3]])) example_proxy = (0, p') \<and>
    cp_sends p' = [(clientMessagingSocket, answer_frames good_env [7] plain 1 5 [[3]], 0)]"
  using broker_response_forwarded[of good_env example_proxy "[7]" 102 plain 1 5 "[[3]]"]
  by (simp add: example_proxy_def proxy_reachable.constructed) (simp add: ClientProxy_new_def)


section \<open>Requests that were answered\<close>

lemma loop_grows: "buffer_ok p \<Longrightarrow> proxy_loop E es p = (ended, p') \<Longrightarrow> grows p p'"
proof (induction es arbitrary: p)
  case Nil
  then show ?case by (simp add: grows_def)
next
  case (Cons e es)
  obtain ret p1 where s: "proxy_step E e p = (ret, p1)" by fastforce
  note g = step_grows[OF Cons.prems(1) s]
  then have "buffer_ok p1" using Cons.prems(1) by (simp add: grows_def)
  from Cons.IH[OF this] g Cons.prems(2) s show ?case by (auto split: if_splits intro: grows_trans)
qed

lemma resend_grows: "buffer_ok p \<Longrightarrow> grows p (resendBuffered E (connecting now p))"
  using resendBuffered_fields(5)[of "connecting now p" E]
  by (auto simp: grows_def buffer_ok_def resendBuffered_fields(2,3)) (auto simp: entries_def resendBuffered_fields(1)[unfolded entries_def])

text \<open>How often a message was sent to the broker, and how many turns of its main loop a proxy begins.\<close>

definition times_sent :: "zmsg \<Rightarrow> ClientProxy \<Rightarrow> nat" where
  "times_sent m p = length (filter (\<lambda>(s, x, _). s = brokerMessagingSocket \<and> x = m) (cp_sends p))"

fun turns_begun :: "proxy_hosting \<Rightarrow> ClientProxyEndpoints \<Rightarrow> env \<Rightarrow> proxy_turn list \<Rightarrow> proxy_host \<times> ClientProxy \<Rightarrow> nat" where
  "turns_begun H eps E [] s = 0"
| "turns_begun H eps E (turn # turns) s =
     (case proxy_turn_of H eps E turn s of (again, s) \<Rightarrow> Suc (if again = Some True then turns_begun H eps E turns s else 0))"

lemma times_sent_prefix: "prefix (cp_sends p) (cp_sends p') \<Longrightarrow> times_sent m p \<le> times_sent m p'"
  by (auto simp: times_sent_def prefix_def)

lemma resent_once:
  assumes E: "env_ok E" and m: "(k, vfs, m) \<in> entries p"
  shows "times_sent m p < times_sent m (resendBuffered E (connecting now p))"
proof -
  let ?q = "connecting now p"
  obtain x where x: "x \<in> set (requestsBuffer ?q)" "snd (snd (snd x)) = m" using m by (auto simp: entries_def entry_of_def)
  from resendBuffered_fields(5)[of ?q E] obtain rets where l: "length rets = length (requestsBuffer ?q)"
    and s: "cp_sends (resendBuffered E ?q) = cp_sends p @ map2 (resent E) (requestsBuffer ?q) rets" by auto
  from x(1) l obtain r where "(x, r) \<in> set (zip (requestsBuffer ?q) rets)"
    by (metis in_set_impl_in_set_zip1)
  then have "resent E x r \<in> set (map2 (resent E) (requestsBuffer ?q) rets)" by force
  moreover have "resent E x r = (brokerMessagingSocket, m, r)" using x(2) E by (simp add: resent_def env_laws)
  ultimately have "(brokerMessagingSocket, m, r) \<in> set (filter (\<lambda>(s, x, _). s = brokerMessagingSocket \<and> x = m)
      (map2 (resent E) (requestsBuffer ?q) rets))"
    by simp
  then have "0 < length (filter (\<lambda>(s, x, _). s = brokerMessagingSocket \<and> x = m) (map2 (resent E) (requestsBuffer ?q) rets))"
    by (rule length_pos_if_in_set)
  then show ?thesis by (simp only: times_sent_def s filter_append length_append)
qed

text \<open>A turn sends it once more, and leaves it in the buffer.\<close>

lemma turn_resends:
  assumes E: "env_ok E" and p: "buffer_ok p" "(k, vfs, m) \<in> entries p"
    and t: "proxy_turn_of H eps E turn (h, p) = (again, h', p')"
  shows "buffer_ok p' \<and> (k, vfs, m) \<in> entries p' \<and> times_sent m p < times_sent m p'"
proof -
  obtain now0 es now1 where turn: "turn = (now0, es, now1)" by (cases turn)
  let ?q = "resendBuffered E (connecting now0 p)"
  have g: "grows p ?q" by (rule resend_grows[OF p(1)])
  then have q: "buffer_ok ?q" using p(1) by (simp add: grows_def)
  obtain ended u where l: "proxy_loop E es ?q = (ended, u)" by fastforce
  have "p' = u \<or> p' = cp_updateCurrentTime now1 u \<or> p' = cp_updateCurrentTime now1 (setExitState CP_StartFailed ?q)"
    using t turn l by (auto simp: proxy_turn_of_def Let_def split: prod.splits if_splits)
  moreover have "grows v (cp_updateCurrentTime n v)" "grows v (setExitState x v)" for v n x
    by (simp_all add: grows_same cp_updateCurrentTime_def setExitState_def)
  ultimately have "grows ?q p'" using loop_grows[OF q l] grows_trans by blast
  then show ?thesis
    using g p resent_once[OF E p(2), of now0] times_sent_prefix[of ?q p' m] by (auto simp: grows_def)
qed

text \<open>
  C19: No receipt and no response ever takes a request out of the proxy's buffer, because the key has
  the address of a frame in it and the receipt's frame has another one. Whatever reaches a proxy
  over any number of turns of its main loop, a request it had buffered is still in the buffer
  with its flags and its message, and was sent to the broker again in every turn that began: with
  every reconnection.
\<close>

theorem answered_requests_are_resent:
  assumes E: "env_ok E" and p: "proxy_reachable E p" and buffered: "(k, vfs, currentFlags, m) \<in> set (requestsBuffer p)"
    and run: "ClientProxy_StartAsPrimary H eps E turns (h, p) = (again, h', p')"
  shows "(\<exists>currentFlags'. (k, vfs, currentFlags', m) \<in> set (requestsBuffer p')) \<and>
    times_sent m p + turns_begun H eps E turns (h, p) \<le> times_sent m p'"
proof -
  have "(k, vfs, m) \<in> entries p" using buffered by (force simp: entries_def entry_of_def)
  then have "(k, vfs, m) \<in> entries p' \<and> times_sent m p + turns_begun H eps E turns (h, p) \<le> times_sent m p'"
    using run proxy_reachable_ok[OF p]
  proof (induction turns arbitrary: h p)
    case Nil
    then show ?case by simp
  next
    case (Cons turn turns)
    obtain a h1 p1 where t: "proxy_turn_of H eps E turn (h, p) = (a, h1, p1)" by (metis prod_cases3)
    note r = turn_resends[OF E Cons.prems(3,1) t]
    show ?case
    proof (cases "a = Some True")
      case True
      then have "ClientProxy_StartAsPrimary H eps E turns (h1, p1) = (again, h', p')" using Cons.prems(2) t by simp
      from Cons.IH[OF _ this] r True t show ?thesis by simp
    next
      case False
      then show ?thesis using Cons.prems(2) t r by simp
    qed
  qed
  then show ?thesis by (auto simp: entries_def entry_of_def)
qed

lemma answered_requests_are_resent_witness:
  "\<exists>p h' p' again. let es = [BrokerReadable 101 (Some (response_payload good_env [[7]] (flagged ReceiptOnSend) 1 5 [[3]])), PulseDue 200];
      m = client_request good_env [[7]] (flagged ReceiptOnSend) 1 5 [] in
    ClientProxy_StartAsPrimary (\<lambda>_ _. 0) example_proxy_endpoints good_env [(100, es, 201), (201, [], 202)] (new_host, p) = (again, h', p') \<and>
    times_sent m p = 1 \<and> 3 \<le> times_sent m p'"
proof -
  let ?m = "client_request good_env [[7]] (flagged ReceiptOnSend) 1 5 []"
  let ?es = "[BrokerReadable 101 (Some (response_payload good_env [[7]] (flagged ReceiptOnSend) 1 5 [[3]])), PulseDue 200]"
  let ?turns = "[(100, ?es, 201), (201, [], 202)]"
  obtain p where p: "proxy_step good_env (ClientReadable 100 (Some ?m)) example_proxy = (0, p)"
    "((1, 5, 0), flagged ReceiptOnSend, flags (flagged ReceiptOnSend), ?m) \<in> set (requestsBuffer p)"
    "cp_sends p = [(brokerMessagingSocket, ?m, 0)]" "brokerDeathDelay p = 20"
    using client_request_step[of good_env "[7]" ?m "flagged ReceiptOnSend" 1 5 "[]" _ example_proxy 100]
    by (simp add: example_backend_send hasAny_or flag_defs(5)) (simp add: example_proxy_def ClientProxy_new_def)
  have r: "proxy_reachable good_env p" by (rule proxy_reachable.callback[OF _ p(1)]) simp
  let ?q = "resendBuffered good_env (connecting 100 p)"
  have q: "proxy_reachable good_env ?q" by (rule proxy_reachable.reconnected[OF r])
  have d: "brokerDeathDelay ?q = 20" using p(4) resend_delay[of good_env "connecting 100 p"]
    by (simp add: connecting_def Let_def cp_updateCurrentTime_def updateBrokerLastActive_def setExitState_def)
  obtain q' where l: "proxy_loop good_env ?es ?q = (True, q')" "exitState q' = CP_BrokerDied"
    using broker_response_step[OF _ q, of "[7]" 101 "flagged ReceiptOnSend" 1 5 "[[3]]"] d
    by (simp add: client_check_pulse_broker_reactor_def checkBrokerPulse_def isBrokerAliveAsOf_def Let_def
        cp_updateCurrentTime_def setExitState_def tm_sec_plus_eq)
  obtain h0 where c: "run_state (cp_before_loop (\<lambda>_ _. 0) example_proxy_endpoints (connecting 100 p)) new_host = (0, h0)"
    by (simp add: proxy_host_defs failed_def)
  have t: "fst (proxy_turn_of (\<lambda>_ _. 0) example_proxy_endpoints good_env (100, ?es, 201) (new_host, p)) = Some True"
    using c l by (simp add: proxy_turn_of_def Let_def goes_on_def cp_updateCurrentTime_def)
  then have n: "turns_begun (\<lambda>_ _. 0) example_proxy_endpoints good_env ?turns (new_host, p) = 2"
    by (simp add: case_prod_unfold)
  obtain again h' p' where run: "ClientProxy_StartAsPrimary (\<lambda>_ _. 0) example_proxy_endpoints good_env ?turns (new_host, p) = (again, h', p')"
    by (metis prod_cases3)
  have one: "times_sent ?m p = 1" by (simp add: times_sent_def p(3))
  have "env_ok good_env" by simp
  from answered_requests_are_resent[OF this r p(2) run] n one have "3 \<le> times_sent ?m p'" by linarith
  with run one show ?thesis by (simp add: Let_def) blast
qed


section \<open>Connecting again\<close>

lemma step_exit:
  assumes "proxy_step E e p = (ret, p')" "exitState p = CP_None"
  shows "(goes_on (exitState p') \<longleftrightarrow> (\<exists>now. e = PulseDue now \<and> \<not> isBrokerAliveAsOf now p)) \<and>
    (ret \<noteq> -1 \<longrightarrow> exitState p' = CP_None)"
proof -
  have same: "exitState q = CP_None" if "cp_Send E s m p0 = (r, q)" "exitState p0 = CP_None" for s m p0 r q
    using cp_Send_fields[OF that(1)] that(2) by simp
  have c: "exitState p1 = CP_None" if "handleClientMessage E now m q = (res, p1)" "exitState q = CP_None" for now m res q p1
    using that by (auto simp: handleClientMessage_def handleClientMessage_msg_def cp_handleClientRequest_def Let_def
        cp_updateCurrentTime_def split: option.splits prod.splits list.splits if_splits parsed.splits dest: same)
  have b: "exitState p1 = CP_None" if "handleBrokerMessage E now m q = (res, p1)" "exitState q = CP_None" for now m res q p1
    using that by (auto simp: handleBrokerMessage_def handleBrokerMessage_msg_def dispatchBrokerMessage_def Let_def
        handleBrokerReceipt_def handleBrokerResponse_def handleBrokerHeartbeat_def cp_updateCurrentTime_def updateBrokerLastActive_def
        split: option.splits prod.splits list.splits if_splits parsed.splits dest: same)
  have alive: "isBrokerAliveAsOf now (cp_updateCurrentTime now p) = isBrokerAliveAsOf now p" for now
    by (simp add: isBrokerAliveAsOf_def cp_updateCurrentTime_def)
  show ?thesis
  proof (cases e)
    case (ClientReadable now m)
    then have "exitState p' = CP_None"
      using c[of now m p] assms by (cases "handleClientMessage E now m p") (auto simp: clientClientMessagingReactor_def)
    then show ?thesis using ClientReadable by (simp add: goes_on_def)
  next
    case (BrokerReadable now m)
    then have "exitState p' = CP_None"
      using b[of now m p] assms by (cases "handleBrokerMessage E now m p") (auto simp: clientBrokerMessagingReactor_def)
    then show ?thesis using BrokerReadable by (simp add: goes_on_def)
  next
    case (HeartbeatDue now)
    then have "exitState p' = CP_None"
      using assms by (auto simp: clientHeartbeatBrokerReactor_def cp_sendBrokerHeartbeat_def Let_def cp_updateCurrentTime_def
          updateClientLastActive_def split: prod.splits if_splits)
    then show ?thesis using HeartbeatDue by (simp add: goes_on_def)
  next
    case (PulseDue now)
    then show ?thesis
      using assms alive by (auto simp: client_check_pulse_broker_reactor_def checkBrokerPulse_def Let_def goes_on_def
          setExitState_def cp_updateCurrentTime_def split: if_splits)
  next
    case (DumpStatsDue now)
    then show ?thesis
      using assms by (auto simp: dumpStatsClientProxyReactor_def cp_updateCurrentTime_def goes_on_def)
  next
    case (CommandReadable m)
    then show ?thesis
      using assms by (auto simp: clientPrimaryControllerReactor_def goes_on_def setExitState_def
          split: option.splits if_splits)
  qed
qed

text \<open>\<open>ends_with_death\<close>: the events up to the pulse check that found the broker dead.\<close>

definition ends_with_death :: "env \<Rightarrow> proxy_event list \<Rightarrow> ClientProxy \<Rightarrow> bool" where
  "ends_with_death E es p \<longleftrightarrow> (\<exists>before now after q. es = before @ PulseDue now # after \<and>
     proxy_loop E before p = (False, q) \<and> \<not> isBrokerAliveAsOf now q)"

lemma loop_exit:
  "proxy_loop E es p = (True, p') \<Longrightarrow> exitState p = CP_None \<Longrightarrow> goes_on (exitState p') \<longleftrightarrow> ends_with_death E es p"
proof (induction es arbitrary: p)
  case Nil
  then show ?case by simp
next
  case (Cons e es)
  obtain ret p1 where s: "proxy_step E e p = (ret, p1)" by fastforce
  note x = step_exit[OF s Cons.prems(2)]
  show ?case
  proof (cases "ret = -1")
    case True
    then have "p' = p1" using Cons.prems(1) s by simp
    moreover have "ends_with_death E (e # es) p \<longleftrightarrow> (\<exists>now. e = PulseDue now \<and> \<not> isBrokerAliveAsOf now p)"
    proof
      assume "ends_with_death E (e # es) p"
      then obtain before now after q where d: "e # es = before @ PulseDue now # after" "proxy_loop E before p = (False, q)"
        "\<not> isBrokerAliveAsOf now q" by (auto simp: ends_with_death_def)
      with s True have "before = []" by (cases before) auto
      with d show "\<exists>now. e = PulseDue now \<and> \<not> isBrokerAliveAsOf now p" by auto
    next
      assume "\<exists>now. e = PulseDue now \<and> \<not> isBrokerAliveAsOf now p"
      then show "ends_with_death E (e # es) p"
        unfolding ends_with_death_def by (metis append_Nil proxy_loop.simps(1))
    qed
    ultimately show ?thesis using x by simp
  next
    case False
    then have n: "exitState p1 = CP_None" using x by simp
    then have alive: "\<not> (\<exists>now. e = PulseDue now \<and> \<not> isBrokerAliveAsOf now p)" using x by (auto simp: goes_on_def)
    have "goes_on (exitState p') \<longleftrightarrow> ends_with_death E es p1"
      using Cons.IH[OF _ n] Cons.prems(1) s False by simp
    also have "\<dots> \<longleftrightarrow> ends_with_death E (e # es) p"
    proof
      assume "ends_with_death E es p1"
      then obtain before now after q where d: "es = before @ PulseDue now # after" "proxy_loop E before p1 = (False, q)"
        "\<not> isBrokerAliveAsOf now q" by (auto simp: ends_with_death_def)
      then show "ends_with_death E (e # es) p"
        unfolding ends_with_death_def using s False
        by (intro exI[of _ "e # before"] exI[of _ now] exI[of _ after] exI[of _ q]) simp
    next
      assume "ends_with_death E (e # es) p"
      then obtain before now after q where d: "e # es = before @ PulseDue now # after" "proxy_loop E before p = (False, q)"
        "\<not> isBrokerAliveAsOf now q" by (auto simp: ends_with_death_def)
      show "ends_with_death E es p1"
      proof (cases before)
        case Nil
        then show ?thesis using d alive by auto
      next
        case (Cons e' before')
        then show ?thesis using d s False unfolding ends_with_death_def
          by (intro exI[of _ before'] exI[of _ now] exI[of _ after] exI[of _ q]) simp
      qed
    qed
    finally show ?thesis .
  qed
qed

text \<open>
  C34: When a turn of the proxy's main loop is over, the proxy connects again exactly in two cases:
  its sockets or callbacks could not be set up, or the callback that ended the reactor loop was
  the pulse check and had found the broker dead. In every other case, the stop command but also a
  failed send or a message that does not parse, it does not, and stays stopped.
\<close>

theorem proxy_reconnects_after_death_only:
  assumes turn: "proxy_turn_of H eps E (now0, es, now1) (h, p) = (Some again, h', p')"
    and started: "run_state (cp_before_loop H eps (connecting now0 p)) h = (failures, h0)"
  shows "again \<longleftrightarrow> failures \<noteq> 0 \<or> ends_with_death E es (resendBuffered E (connecting now0 p))"
proof (cases "failures = 0")
  case True
  let ?p = "resendBuffered E (connecting now0 p)"
  obtain ended q where l: "proxy_loop E es ?p = (ended, q)" by fastforce
  have e: "ended" "again = goes_on (exitState (cp_updateCurrentTime now1 q))"
    using turn started True l by (auto simp: proxy_turn_of_def Let_def split: if_splits)
  have "exitState ?p = CP_None" by (simp add: resendBuffered_fields)
  from loop_exit[OF _ this] l e True show ?thesis by (simp add: cp_updateCurrentTime_def)
next
  case False
  then show ?thesis
    using turn started by (auto simp: proxy_turn_of_def Let_def goes_on_def setExitState_def cp_updateCurrentTime_def)
qed

lemma proxy_reconnects_after_death_only_witness:
  "\<exists>h' p'. proxy_turn_of (\<lambda>_ _. 0) example_proxy_endpoints good_env (100, [PulseDue 110, PulseDue 121], 121) (new_host, example_proxy) =
    (Some True, h', p')"
proof -
  let ?p = "connecting 100 example_proxy"
  have f: "brokerLastActive ?p = 100" "brokerDeathDelay ?p = 20" "requestsBuffer ?p = []"
    by (simp_all add: connecting_def example_proxy_def ClientProxy_new_def cp_updateCurrentTime_def
        updateBrokerLastActive_def setExitState_def)
  have rs: "resendBuffered good_env ?p = ?p" by (simp add: resendBuffered_def)
  obtain h0 where c: "run_state (cp_before_loop (\<lambda>_ _. 0) example_proxy_endpoints ?p) new_host = (0, h0)"
    by (simp add: proxy_host_defs failed_def)
  have l: "\<exists>q. proxy_loop good_env [PulseDue 110, PulseDue 121] ?p = (True, q)"
    by (simp add: client_check_pulse_broker_reactor_def checkBrokerPulse_def isBrokerAliveAsOf_def Let_def
        cp_updateCurrentTime_def f tm_sec_plus_eq)
  have d: "ends_with_death good_env [PulseDue 110, PulseDue 121] ?p"
    unfolding ends_with_death_def
    by (rule exI[of _ "[PulseDue 110]"], rule exI[of _ 121], rule exI[of _ "[]"])
      (simp add: client_check_pulse_broker_reactor_def checkBrokerPulse_def isBrokerAliveAsOf_def Let_def
        cp_updateCurrentTime_def f tm_sec_plus_eq)
  obtain again h' p' where t: "proxy_turn_of (\<lambda>_ _. 0) example_proxy_endpoints good_env (100, [PulseDue 110, PulseDue 121], 121)
      (new_host, example_proxy) = (Some again, h', p')"
    using c l rs by (auto simp: proxy_turn_of_def Let_def)
  from proxy_reconnects_after_death_only[OF t c] d rs t show ?thesis by auto
qed


section \<open>Heartbeats of the broker\<close>

definition heartbeat_of :: "env \<Rightarrow> time_t \<Rightarrow> Delay \<Rightarrow> zmsg" where
  "heartbeat_of E sentAt delay = [[], enc_u32 E (ClusterMessage_value BrokerHeartbeat), enc_time E sentAt, enc_time E delay]"

text \<open>
  Whatever delay the broker asks for in its heartbeat, the proxy takes it to be zero; from then
  on it sends a heartbeat at every tick of its timer, and when it connects again that timer has a
  period of zero milliseconds.
\<close>

theorem broker_heartbeat_delay_is_lost:
  assumes E: "env_ok E" and w: "wire_types_ok E"
  shows "\<exists>p'. clientBrokerMessagingReactor E now (Some (heartbeat_of E sentAt delay)) p = (0, p') \<and>
    brokerHeartbeatDelay p' = 0 \<and> (\<forall>later. clientLastActive p' \<le> later \<longrightarrow> heartbeatNeededAsOf later p') \<and>
    zloop_timer CP_heartbeatBroker 0 \<in> set (calls (snd (run_state (cp_before_loop H eps p') h)))"
proof -
  let ?m = "heartbeat_of E sentAt delay"
  let ?q = "updateBrokerLastActive now (cp_updateCurrentTime now p)"
  have ne: "enc_u32 E v \<noteq> []" "enc_time E n \<noteq> []" for v n using enc_nonempty[OF env_okD(2)[OF E]] by simp_all
  have "pb_ser_time E (True, delay) = Some (enc_time E delay)"
    using env_okD(2)[OF E] by (simp add: pb_ser_Some)
  then have d: "get_i32 E (enc_time E delay) = Some 0" using w by (simp add: wire_types_ok_def read_defs)
  obtain x xs where delay: "enc_time E delay = x # xs" using ne by (cases "enc_time E delay") auto
  obtain y ys where sent: "enc_time E sentAt = y # ys" using ne by (cases "enc_time E sentAt") auto
  have skip: "skip_envelope 0 (zmsg_frames E ?m) = Parsed [enc_u32 E (ClusterMessage_value BrokerHeartbeat), enc_time E sentAt, enc_time E delay]"
    by (simp add: heartbeat_of_def env_laws[OF E] skip_envelope_def)
  have "handleBrokerMessage_msg E ?m ?q = (Returns 0, ?q\<lparr>brokerHeartbeatDelay := 0\<rparr>)"
    using skip ne(1) d delay sent
    by (simp add: handleBrokerMessage_msg_def env_laws[OF E] dispatchBrokerMessage_def Let_def)
      (simp add: heartbeat_of_def handleBrokerHeartbeat_def env_laws[OF E])
  then have run: "clientBrokerMessagingReactor E now (Some ?m) p = (0, ?q\<lparr>brokerHeartbeatDelay := 0\<rparr>)"
    by (simp add: clientBrokerMessagingReactor_def handleBrokerMessage_def code_of_def cp_updateCurrentTime_def Let_def)
  show ?thesis
    by (rule exI[of _ "?q\<lparr>brokerHeartbeatDelay := 0\<rparr>"], intro conjI allI impI)
      (simp_all add: run heartbeatNeededAsOf_def tm_sec_plus_eq proxy_host_defs)
qed

lemma broker_heartbeat_delay_is_lost_witness:
  "\<exists>p'. clientBrokerMessagingReactor (typed_env (\<lambda>_ _. False)) 105 (Some (heartbeat_of (typed_env (\<lambda>_ _. False)) 104 10)) example_proxy = (0, p') \<and>
    brokerHeartbeatDelay p' = 0"
  using broker_heartbeat_delay_is_lost[of "typed_env (\<lambda>_ _. False)" 105 104 10 example_proxy] by simp blast


section \<open>Through proxy and broker\<close>

text \<open>
  A request and its answer. The proxy's DEALER puts a client's request on the wire, the broker's ROUTER
  adds the identity of the proxy; the broker gives the request to an available worker with both
  identities as its envelope; the worker answers under that envelope; the broker sends the answer to
  the proxy, which hands the client the answer under the client's identity.
\<close>

lemma through_proxy_and_broker:
  assumes E: "env_ok E" "backend_ok E" and ids: "client \<noteq> []" "proxy \<noteq> []" "ident \<noteq> []"
    and p: "proxy_reachable E p" and b: "reachable E b"
    and c: "requestTypeContextLookup b t = Some c" "ctx_requests c i = None" "GetNextAvailableWorker c = Some w"
    and w: "LookupWorkerInfo (workerInfoLookup b) ident = Some w" "workerHeap b w = Some wi" "wi_identity wi = ident"
    and cap: "0 < FreeCapacity wi" and idle: "nothing_pending (wi_supportedRequestTypes wi) b"
    and f: "flags_ok vfs" "\<not> hasAny vfs Asynchronous"
  shows "\<exists>request p1 b1 answer b2 p2.
    clientClientMessagingReactor E now1 (Some (client_request E [client] vfs t i body)) p = (0, p1) \<and>
    last (cp_sends p1) = (brokerMessagingSocket, request, 0) \<and>
    frontendMessagingReactor E now2 (Some (proxy # request)) b = Some (0, b1) \<and>
    (Backend, ident # [] # enc_u32 E (ClusterMessage_value BrokerNewRequest) #
      request_frames E [proxy, client] vfs t i body, 0) \<in> set (sends b1) \<and>
    backendMessagingReactor E now3 (Some (worker_message E ident WorkerFinished
      (response_payload E [proxy, client] vfs t i result))) b1 = Some (0, b2) \<and>
    last (sends b2) = (Frontend, proxy # answer, 0) \<and>
    clientBrokerMessagingReactor E now4 (Some answer) p1 = (0, p2) \<and>
    last (cp_sends p2) = (clientMessagingSocket, answer_frames E client vfs t i result, 0)"
proof -
  let ?request = "client_request E [client] vfs t i body"
  have zero: "fst (zmsg_send E h Backend m) = 0" for h m using E(2) by (simp add: backend_ok_def)
  obtain p1 where p1: "clientClientMessagingReactor E now1 (Some ?request) p = (0, p1)"
    "last (cp_sends p1) = (brokerMessagingSocket, ?request, 0)"
    using client_request_step[OF E(1) ids(1) refl refl, of now1 vfs t i body p] zero by auto
  then have p1r: "proxy_reachable E p1" using proxy_reachable.callback[OF p, of "ClientReadable now1 (Some ?request)"] by simp
  let ?m = "request_frames E [proxy, client] vfs t i body"
  have env: "is_envelope [proxy, client]" using ids by (simp add: is_envelope_def)
  have m: "proxy # ?request = client_request E [proxy, client] vfs t i body" by (simp add: client_request_def)
  let ?b = "receiving now2 ?m b"
  define b1 where "b1 = new_request_sent E w wi c vfs t i ?m ?b"
  have "send_ret E wi ?m ?b = 0" by (simp add: send_ret_def zero)
  then have run1: "frontendMessagingReactor E now2 (Some (proxy # ?request)) b = Some (0, b1)"
    using dispatch_sent[OF E(1), of ?b ?m t c i w wi vfs] c w(2) frontend_request[OF E(1) env, of now2 vfs t i body b] m
    by (simp add: b1_def)
  have sent: "(Backend, ident # [] # enc_u32 E (ClusterMessage_value BrokerNewRequest) # ?m, 0) \<in> set (sends b1)"
    using w(3) by (simp add: b1_def new_request_sent_def toWorker_def Let_def)
  have tr: "trusted_event E (FrontendReadable now2 (Some (proxy # ?request))) b"
    unfolding m by (rule trusted_request[OF E(1) env f(1)])
  have b1r: "reachable E b1" by (rule reachable.callback[OF b tr]) (simp add: run1)
  let ?wi = "loaded t i (nextAddr b) now2 wi"
  have cap1: "FreeCapacity ?wi = FreeCapacity wi - 1" by (rule FreeCapacity_dec) (use cap in simp_all)
  have lt: "FreeCapacity wi < 2 ^ 31" using sint_lt[of "wi_freeCapacity wi"] by (simp add: FreeCapacity_def)
  have w1: "LookupWorkerInfo (workerInfoLookup b1) ident = Some w" "workerHeap b1 w = Some ?wi"
    using w by (simp_all add: b1_def new_request_sent_def Let_def)
  have held: "(i, nextAddr b) \<in> set (in_progress ?wi t)"
  proof -
    have "\<not> (\<exists>r. (i, r) \<in> set (in_progress wi t))"
    proof
      assume "\<exists>r. (i, r) \<in> set (in_progress wi t)"
      then obtain r where "(w, t, i, r) \<in> held b" using w(2) by (auto simp: held_def)
      moreover have "broker_inv (held b) b" using reachable_ok[OF b E(1)] by (simp add: system_ok_def broker_ok_def)
      ultimately have "holding_ok (serving b t) (requestHeap b) (of_type (held b) t) c w i r"
        using ctx_okD(8)[OF invD(4)[OF _ c(1)]] by (simp add: of_type_def)
      then show False using c(2) by (simp add: holding_ok_def)
    qed
    then have "i \<notin> fst ` set (in_progress wi t)" by force
    then show ?thesis by (simp add: loaded_def set_emplace)
  qed
  have idle1: "nothing_pending (wi_supportedRequestTypes ?wi) b1"
    using idle c(1) by (auto simp: nothing_pending_def b1_def new_request_sent_def Let_def withdrawn_def
        split: if_splits)
  from finished_held[OF E(1) b1r ids(3) env _ w1 held _ _ idle1, of now3 vfs result] cap1 cap lt f(2) obtain b2 where
    run2: "backendMessagingReactor E now3 (Some (worker_message E ident WorkerFinished
      (response_payload E [proxy, client] vfs t i result))) b1 = Some (0, b2)" and
    out: "sends b2 = sends b1 @ [(Frontend, response_payload E [proxy, client] vfs t i result, 0)]" by auto
  have a: "last (sends b2) = (Frontend, proxy # response_payload E [client] vfs t i result, 0)"
    by (simp add: out response_payload_def)
  obtain p2 where p2: "clientBrokerMessagingReactor E now4 (Some (response_payload E [client] vfs t i result)) p1 = (0, p2)"
    "last (cp_sends p2) = (clientMessagingSocket, answer_frames E client vfs t i result, 0)"
    using broker_response_step[OF E(1) p1r ids(1), of now4 vfs t i result] by auto
  from p1 run1 sent run2 a p2 show ?thesis by blast
qed

end
