(* ===== verification/WorkerContexts.thy ===== *)
theory WorkerContexts
  imports Handlers "HOL-Library.AList"
begin

text \<open>
  What a worker keeps: \<open>WorkerRequestTypeContext\<close> (workerrequesttypecontext.h, .cxx), the requests of
  one type in progress, and \<open>ClientRequestContext\<close> (clientrequestcontext.h, .cxx), the envelope and
  flags of one request. The first live in a \<open>std::map\<close> that is iterated over, here a list sorted by
  type; its \<open>unordered_set\<close> is a set. Destructors free the frames of an envelope; they have no
  other effect, and moved-from objects are not used again.
\<close>

section \<open>\<open>std::map::insert\<close>\<close>

fun map_insert :: "'k :: linorder \<Rightarrow> 'v \<Rightarrow> ('k \<times> 'v) list \<Rightarrow> ('k \<times> 'v) list" where
  "map_insert k v [] = [(k, v)]"
| "map_insert k v ((k', v') # xs) =
     (if k < k' then (k, v) # (k', v') # xs
      else if k = k' then (k', v') # xs
      else (k', v') # map_insert k v xs)"

lemma map_insert_keys [simp]: "fst ` set (map_insert k v xs) = insert k (fst ` set xs)"
  by (induction k v xs rule: map_insert.induct) auto

lemma map_insert_sorted: "sorted_wrt (<) (map fst xs) \<Longrightarrow> sorted_wrt (<) (map fst (map_insert k v xs))"
proof (induction k v xs rule: map_insert.induct)
  case (2 k v k' v' xs)
  have "\<forall>x \<in> set (map fst (map_insert k v xs)). k' < x" if "k' < k"
    using 2(2) that map_insert_keys[of k v xs] by auto
  then show ?case using 2 by auto
qed simp

lemma map_of_map_insert:
  "sorted_wrt (<) (map fst xs) \<Longrightarrow> map_of (map_insert k v xs) = (case map_of xs k of None \<Rightarrow> (map_of xs)(k \<mapsto> v) | Some _ \<Rightarrow> map_of xs)"
proof (induction k v xs rule: map_insert.induct)
  case (2 k v k' v' xs)
  have "k \<notin> fst ` set xs" if "k < k'" using 2(2) that by auto
  then have "map_of xs k = None" if "k < k'" using that by (simp add: map_of_eq_None_iff)
  then show ?case using 2 by (auto split: option.splits)
qed simp

section \<open>Requests of one type\<close>

record WorkerRequestTypeContext =
  wrtc_requestType :: RequestType
  wrtc_inProgressRequests :: "RequestId set"

definition WorkerRequestTypeContext_new :: "RequestType \<Rightarrow> WorkerRequestTypeContext" where
  "WorkerRequestTypeContext_new requestType = \<lparr> wrtc_requestType = requestType, wrtc_inProgressRequests = {} \<rparr>"

definition AddInProgress :: "RequestId \<Rightarrow> WorkerRequestTypeContext \<Rightarrow> WorkerRequestTypeContext" where
  "AddInProgress requestId c = c\<lparr>wrtc_inProgressRequests := insert requestId (wrtc_inProgressRequests c)\<rparr>"

definition RequestHasFinished :: "RequestId \<Rightarrow> WorkerRequestTypeContext \<Rightarrow> WorkerRequestTypeContext" where
  "RequestHasFinished requestId c = c\<lparr>wrtc_inProgressRequests := wrtc_inProgressRequests c - {requestId}\<rparr>"

section \<open>One request\<close>

record ClientRequestContext =
  crc_type :: RequestType
  crc_id :: RequestId
  crc_vfs :: LHCVersionFlags
  crc_envelope :: "frame list"

definition ClientRequestContext_new :: ClientRequestContext where
  "ClientRequestContext_new = \<lparr> crc_type = 0, crc_id = 0, crc_vfs = LHCVersionFlags_default, crc_envelope = [] \<rparr>"

definition ClientRequestContext_of :: "RequestType \<Rightarrow> RequestId \<Rightarrow> LHCVersionFlags \<Rightarrow> frame list \<Rightarrow> ClientRequestContext" where
  "ClientRequestContext_of requestType requestId vfs clientEnv =
     \<lparr> crc_type = requestType, crc_id = requestId, crc_vfs = vfs, crc_envelope = clientEnv \<rparr>"

text \<open>\<open>operator<\<close> and \<open>operator==\<close> compare type and id only.\<close>

definition ClientRequestContext_less :: "ClientRequestContext \<Rightarrow> ClientRequestContext \<Rightarrow> bool" where
  "ClientRequestContext_less a b =
     (if crc_type a < crc_type b then True else if crc_type a = crc_type b then crc_id a < crc_id b else False)"

definition ClientRequestContext_eq :: "ClientRequestContext \<Rightarrow> ClientRequestContext \<Rightarrow> bool" where
  "ClientRequestContext_eq a b \<longleftrightarrow> crc_type a = crc_type b \<and> crc_id a = crc_id b"

definition SetVersionMessageFlags :: "LHCVersionFlags \<Rightarrow> ClientRequestContext \<Rightarrow> ClientRequestContext" where
  "SetVersionMessageFlags vfs c = c\<lparr>crc_vfs := vfs\<rparr>"

definition UpdateEnvelope :: "ClientRequestContext \<Rightarrow> ClientRequestContext \<Rightarrow> ClientRequestContext" where
  "UpdateEnvelope other c = c\<lparr>crc_envelope := crc_envelope other\<rparr>"

lemmas wctx_defs = WorkerRequestTypeContext_new_def AddInProgress_def RequestHasFinished_def
  ClientRequestContext_new_def ClientRequestContext_of_def SetVersionMessageFlags_def UpdateEnvelope_def

lemma ClientRequestContext_order:
  "ClientRequestContext_less a b \<longleftrightarrow> \<not> ClientRequestContext_less b a \<and> \<not> ClientRequestContext_eq a b"
  by (auto simp: ClientRequestContext_less_def ClientRequestContext_eq_def)

end
