(* ===== verification/Worker.thy ===== *)
theory Worker
  imports WorkerContexts WorkerInfo
begin

text \<open>
  \<open>Worker\<close> (worker.h, worker.cxx): its state and its message handlers. Its DEALER to the broker is the
  socket \<open>Backend\<close> of the model, its PAIR to the request processor the socket \<open>Processor\<close>. A handler
  returns an outcome and the state; \<open>None\<close> would be a loop that does not end, of which there is one,
  over the frames of an envelope. What the request handler supports is part of the state: it never
  changes. \<open>zmsg_new\<close> does not return \<open>NULL\<close>.
\<close>

section \<open>State\<close>

datatype WorkerExitState =
    WE_None | WE_GracefulStop | WE_BrokerDied | WE_ProcessorInaccessable
  | WE_ReceivedUnsupportedRequest | WE_ProcessorFatalError | WE_StartFailed

record Worker =
  capacity :: "32 word"
  wk_exitState :: WorkerExitState
  wk_currentTime :: time_t
  wk_brokerHeartbeatDelay :: Delay
  wk_selfHeartbeatDelay :: Delay
  wk_brokerPulseDelay :: Delay
  wk_brokerDeathDelay :: Delay
  wk_brokerLastActive :: time_t
  workerLastActive :: time_t
  requestTypeContexts :: "(RequestType \<times> WorkerRequestTypeContext) list"
  requestContexts :: "RequestType \<times> RequestId \<rightharpoonup> ClientRequestContext"
  supportedRequestTypes :: "RequestType list"     \<comment> \<open>\<open>requestProcessor.SupportedRequestTypes()\<close>\<close>
  wk_sends :: "send_record list"

abbreviation messagingSocket :: sock where "messagingSocket \<equiv> Backend"
abbreviation requestProcessorMessagingSocket :: sock where "requestProcessorMessagingSocket \<equiv> Processor"

primrec initializeRequestTypeContexts ::
    "RequestType list \<Rightarrow> (RequestType \<times> WorkerRequestTypeContext) list \<Rightarrow> (RequestType \<times> WorkerRequestTypeContext) list" where
  "initializeRequestTypeContexts [] contexts = contexts"
| "initializeRequestTypeContexts (t # ts) contexts =
     initializeRequestTypeContexts ts (map_insert t (WorkerRequestTypeContext_new t) contexts)"

definition Worker_new :: "Delay \<Rightarrow> Delay \<Rightarrow> Delay \<Rightarrow> RequestType list \<Rightarrow> Worker" where
  "Worker_new selfDelay initialBrokerHeartbeatDelay pulseDelay types = \<lparr>
     capacity = 1, wk_exitState = WE_None, wk_currentTime = 0,
     wk_brokerHeartbeatDelay = initialBrokerHeartbeatDelay, wk_selfHeartbeatDelay = selfDelay,
     wk_brokerPulseDelay = pulseDelay, wk_brokerDeathDelay = 2 * selfDelay,
     wk_brokerLastActive = 0, workerLastActive = 0,
     requestTypeContexts = initializeRequestTypeContexts types [], requestContexts = Map.empty,
     supportedRequestTypes = types, wk_sends = [] \<rparr>"

definition wk_setExitState :: "WorkerExitState \<Rightarrow> Worker \<Rightarrow> Worker" where
  "wk_setExitState s w = w\<lparr>wk_exitState := s\<rparr>"

definition wk_updateCurrentTime :: "time_t \<Rightarrow> Worker \<Rightarrow> Worker" where
  "wk_updateCurrentTime now w = w\<lparr>wk_currentTime := now\<rparr>"

definition wk_updateWorkerLastActive :: "time_t \<Rightarrow> Worker \<Rightarrow> Worker" where
  "wk_updateWorkerLastActive lastActive w = w\<lparr>workerLastActive := lastActive\<rparr>"

definition wk_updateBrokerLastActive :: "time_t \<Rightarrow> Worker \<Rightarrow> Worker" where
  "wk_updateBrokerLastActive lastActive w = w\<lparr>wk_brokerLastActive := lastActive\<rparr>"

definition wk_heartbeatNeededAsOf :: "time_t \<Rightarrow> Worker \<Rightarrow> bool" where
  "wk_heartbeatNeededAsOf timeAsOf w \<longleftrightarrow> tm_sec_plus (workerLastActive w) (wk_brokerHeartbeatDelay w) \<le> timeAsOf"

definition wk_isBrokerAliveAsOf :: "time_t \<Rightarrow> Worker \<Rightarrow> bool" where
  "wk_isBrokerAliveAsOf asOfTime w \<longleftrightarrow> tm_sec_plus (wk_brokerLastActive w) (wk_brokerDeathDelay w) \<ge> asOfTime"

text \<open>What is done to the context of one type in place, if there is one.\<close>

definition withTypeContext :: "RequestType \<Rightarrow> (WorkerRequestTypeContext \<Rightarrow> WorkerRequestTypeContext) \<Rightarrow> Worker \<Rightarrow> Worker" where
  "withTypeContext type f w = w\<lparr>requestTypeContexts := AList.map_entry type f (requestTypeContexts w)\<rparr>"

section \<open>Sending\<close>

definition wk_Send :: "env \<Rightarrow> sock \<Rightarrow> zmsg \<Rightarrow> Worker \<Rightarrow> int \<times> Worker" where
  "wk_Send E socket m w = (case Send E (wk_sends w) socket m of (ret, m', h) \<Rightarrow> (ret, w\<lparr>wk_sends := h\<rparr>))"

definition wk_sendBrokerHeartbeat :: "env \<Rightarrow> Worker \<Rightarrow> int \<times> Worker" where
  "wk_sendBrokerHeartbeat E w =
     (if wk_heartbeatNeededAsOf (wk_currentTime w) w then
        (let (ret, m', h) = SendHeartbeat E (wk_sends w) messagingSocket (wk_currentTime w) (wk_selfHeartbeatDelay w)
               (ClusterMessage_value WorkerHeartbeat) (zmsg_new E);
             w = w\<lparr>wk_sends := h\<rparr>
         in (0, if ret \<noteq> 0 then w else wk_updateWorkerLastActive (wk_currentTime w) w))
      else (0, w))"

text \<open>\<open>unsigned int -= size_t\<close> wraps.\<close>

definition announcedCapacity :: "Worker \<Rightarrow> 32 word" where
  "announcedCapacity w = fold (\<lambda>(t, c) freeCapacity. freeCapacity - of_nat (card (wrtc_inProgressRequests c)))
     (requestTypeContexts w) (capacity w)"

definition readyMessage :: "env \<Rightarrow> Worker \<Rightarrow> zmsg" where
  "readyMessage E w =
     (let readyMsg = zmsg_append E (zmsg_new E) [];
          readyMsg = add_u32 E (ClusterMessage_value WorkerReady) readyMsg;
          readyMsg = add_vfs E LHCVersionFlags_default readyMsg;
          readyMsg = add_u32 E (announcedCapacity w) readyMsg;
          readyMsg = add_time E (wk_selfHeartbeatDelay w) readyMsg
      in fold (\<lambda>t readyMsg. add_u32 E t readyMsg) (supportedRequestTypes w) readyMsg)"

definition sendBrokerReadyMessage :: "env \<Rightarrow> Worker \<Rightarrow> int \<times> Worker" where
  "sendBrokerReadyMessage E w =
     (case wk_Send E messagingSocket (readyMessage E w) w of (ret, w) \<Rightarrow>
        (ret, if ret = 0 then wk_updateWorkerLastActive (wk_currentTime w) w else w))"

section \<open>Answers of the request processor\<close>

text \<open>The handler is written with afterwards, so it is part of the result.\<close>

definition parseProcessorMessage ::
    "env \<Rightarrow> frame list \<Rightarrow> (ZMQFrameHandler \<times> RequestType \<times> RequestId \<times> 32 word) parsed" where
  "parseProcessorMessage E fs =
     and_then (next_value 1 (read_with (get_frame_value_LHCVersionFlags E) ZMQFrameHandler_new) fs) (\<lambda>((vfs, h), fs).
     and_then (next_value 1 (read_with (get_frame_value_uint32 E) h) fs) (\<lambda>((requestType, h), fs).
     and_then (next_value 1 (read_with (get_frame_value_uint64 E) h) fs) (\<lambda>((requestId, h), fs).
     and_then (next_value 1 (read_with (get_frame_value_uint32 E) h) fs) (\<lambda>((requestStatus, h), fs).
     Parsed (h, requestType, requestId, requestStatus)))))"

text \<open>The loop from \<open>rbegin\<close> to \<open>rend\<close>: it takes the last frame of the envelope and prepends it.\<close>

fun prependEnvelope :: "env \<Rightarrow> frame list \<Rightarrow> zmsg \<Rightarrow> zmsg" where
  "prependEnvelope E env processorMessage =
     (if env = [] then processorMessage
      else prependEnvelope E (butlast env) (zmsg_prepend E processorMessage (last env)))"

declare prependEnvelope.simps [simp del]

definition finishedMessage :: "env \<Rightarrow> ZMQFrameHandler \<Rightarrow> frame list \<Rightarrow> zmsg \<Rightarrow> zmsg" where
  "finishedMessage E h env processorMessage =
     (let ((_, m), h) = prepend_message_value_uint32 E h processorMessage (ClusterMessage_value BrokerResponse);
          m = zmsg_prepend E m [];
          m = prependEnvelope E env m;
          ((_, m), h) = prepend_message_value_uint32 E h m (ClusterMessage_value WorkerFinished)
      in zmsg_prepend E m [])"

text \<open>A request in progress whose context is known: the answer goes to the broker.\<close>

definition forwardAnswer ::
    "env \<Rightarrow> ZMQFrameHandler \<Rightarrow> RequestType \<Rightarrow> RequestId \<Rightarrow> 32 word \<Rightarrow> ClientRequestContext \<Rightarrow> zmsg \<Rightarrow> Worker \<Rightarrow> int \<times> Worker" where
  "forwardAnswer E h requestType requestId requestStatus requestContext processorMessage w =
     (let (ret, w) = wk_Send E messagingSocket (finishedMessage E h (crc_envelope requestContext) processorMessage) w;
          w = (if ret \<noteq> 0 then w else wk_updateWorkerLastActive (wk_currentTime w) w);
          w = withTypeContext requestType (RequestHasFinished requestId) w
      in if requestStatus = RequestStatus_value RS_FatalError
         then (-1, wk_setExitState WE_ProcessorFatalError w) else (ret, w))"

definition eraseRequestContext :: "RequestType \<Rightarrow> RequestId \<Rightarrow> Worker \<Rightarrow> Worker" where
  "eraseRequestContext requestType requestId w = w\<lparr>requestContexts := (requestContexts w)((requestType, requestId) := None)\<rparr>"

definition handleProcessorMessage_msg :: "env \<Rightarrow> zmsg \<Rightarrow> Worker \<Rightarrow> outcome \<times> Worker" where
  "handleProcessorMessage_msg E processorMessage w =
     (case parseProcessorMessage E (zmsg_frames E processorMessage) of
        Malformed n \<Rightarrow> (Returns n, w)
      | Throws \<Rightarrow> (Thrown, w)
      | Parsed (h, requestType, requestId, requestStatus) \<Rightarrow>
          (case map_of (requestTypeContexts w) requestType of
             None \<Rightarrow> (Returns 0, eraseRequestContext requestType requestId w)
           | Some requestTypeContext \<Rightarrow>
               (case requestContexts w (requestType, requestId) of
                  None \<Rightarrow> (Returns 0, withTypeContext requestType (RequestHasFinished requestId) w)
                | Some requestContext \<Rightarrow>
                    (let (ret, w) = (if requestId \<notin> wrtc_inProgressRequests requestTypeContext then (0, w)
                           else forwardAnswer E h requestType requestId requestStatus requestContext processorMessage w)
                     in (Returns ret, eraseRequestContext requestType requestId w)))))"

definition wk_handleProcessorMessage :: "env \<Rightarrow> time_t \<Rightarrow> zmsg option \<Rightarrow> Worker \<Rightarrow> outcome \<times> Worker" where
  "wk_handleProcessorMessage E now received w = (let w = wk_updateCurrentTime now w in
     case received of
       None \<Rightarrow> (Returns 0, w)
     | Some processorMessage \<Rightarrow>
         (case handleProcessorMessage_msg E processorMessage w of (res, w) \<Rightarrow> (only_negative res, w)))"

section \<open>New requests\<close>

text \<open>The frames of the envelope up to the delimiter; the last frame popped, \<open>NULL\<close> if there is none.\<close>

partial_function (option) popEnvelope ::
    "env \<Rightarrow> frame list \<Rightarrow> frame option \<times> zmsg \<Rightarrow> (frame list \<times> frame option \<times> zmsg) option" where
  "popEnvelope E clientEnv popped =
     (case popped of
        (Some frame, newRequestMsg) \<Rightarrow>
          (if frame \<noteq> [] then popEnvelope E (clientEnv @ [frame]) (zmsg_pop E newRequestMsg)
           else Some (clientEnv, Some frame, newRequestMsg))
      | (None, newRequestMsg) \<Rightarrow> Some (clientEnv, None, newRequestMsg))"

definition parseEnvelope :: "env \<Rightarrow> zmsg \<Rightarrow> (frame list \<times> zmsg) parsed option" where
  "parseEnvelope E newRequestMsg =
     (case zmsg_pop E newRequestMsg of
        (Some (x # xs), newRequestMsg) \<Rightarrow> do {
          (clientEnv, frame, newRequestMsg) \<leftarrow> popEnvelope E [x # xs] (zmsg_pop E newRequestMsg);
          Some (case frame of None \<Rightarrow> Malformed 1 | Some _ \<Rightarrow> Parsed (clientEnv, newRequestMsg))
        }
      | _ \<Rightarrow> Some (Malformed 1))"

text \<open>The frame is kept for the receipt.\<close>

definition frame_and_value :: "(frame \<Rightarrow> 'v option) \<Rightarrow> frame \<Rightarrow> (frame \<times> 'v) option" where
  "frame_and_value get frame = map_option (Pair frame) (get frame)"

definition receivedReceipt :: "env \<Rightarrow> frame list \<Rightarrow> frame \<Rightarrow> frame \<Rightarrow> zmsg" where
  "receivedReceipt E clientEnv typeFrame idFrame =
     (let receiptMsg = fold (\<lambda>frame receiptMsg. zmsg_append E receiptMsg frame) clientEnv (zmsg_new E);
          receiptMsg = zmsg_append E receiptMsg [];
          receiptMsg = add_u32 E (ClusterMessage_value BrokerReceivedReceipt) receiptMsg;
          receiptMsg = push_u32 E (ClusterMessage_value WorkerReceipt) receiptMsg;
          receiptMsg = zmsg_prepend E receiptMsg [];
          receiptMsg = zmsg_append E receiptMsg typeFrame
      in zmsg_append E receiptMsg idFrame)"

definition sendReceivedReceipt :: "env \<Rightarrow> zmsg option \<Rightarrow> Worker \<Rightarrow> Worker" where
  "sendReceivedReceipt E receipt w =
     (case receipt of None \<Rightarrow> w | Some receiptMsg \<Rightarrow> snd (wk_Send E messagingSocket receiptMsg w))"

definition requestRedirected :: "ClientRequestContext \<Rightarrow> Worker \<Rightarrow> bool \<times> Worker" where
  "requestRedirected requestContext w =
     (let k = (crc_type requestContext, crc_id requestContext) in
      case requestContexts w k of
        None \<Rightarrow> (False, w)
      | Some known \<Rightarrow> (True, w\<lparr>requestContexts := (requestContexts w)(k \<mapsto>
          SetVersionMessageFlags (crc_vfs requestContext) (UpdateEnvelope requestContext known))\<rparr>))"

text \<open>\<open>insert\<close> into the map of contexts leaves an entry that exists.\<close>

definition addRequestContext :: "ClientRequestContext \<Rightarrow> Worker \<Rightarrow> Worker" where
  "addRequestContext c w = (let k = (crc_type c, crc_id c) in
     case requestContexts w k of
       None \<Rightarrow> w\<lparr>requestContexts := (requestContexts w)(k \<mapsto> c)\<rparr>
     | Some _ \<Rightarrow> w)"

definition forwardToProcessor :: "env \<Rightarrow> ClientRequestContext \<Rightarrow> zmsg option \<Rightarrow> zmsg \<Rightarrow> Worker \<Rightarrow> int \<times> Worker" where
  "forwardToProcessor E newRequestContext receipt newRequestMsg w =
     (case wk_Send E requestProcessorMessagingSocket newRequestMsg w of (ret, w) \<Rightarrow>
        if ret \<noteq> 0 then (-1, wk_setExitState WE_ProcessorInaccessable w)
        else (0, sendReceivedReceipt E receipt
          (addRequestContext newRequestContext
            (withTypeContext (crc_type newRequestContext) (AddInProgress (crc_id newRequestContext)) w))))"

definition parseFlagsAndType :: "env \<Rightarrow> frame list \<Rightarrow> (LHCVersionFlags \<times> frame \<times> RequestType \<times> frame list) parsed" where
  "parseFlagsAndType E fs =
     and_then (next_value 1 (get_vfs E) fs) (\<lambda>(vfs, fs).
     and_then (next_value 1 (frame_and_value (get_u32 E)) fs) (\<lambda>((typeFrame, requestType), fs).
     Parsed (vfs, typeFrame, requestType, fs)))"

definition acceptNewRequest ::
    "env \<Rightarrow> frame list \<Rightarrow> LHCVersionFlags \<Rightarrow> frame \<Rightarrow> RequestType \<Rightarrow> frame list \<Rightarrow> zmsg \<Rightarrow> Worker \<Rightarrow> outcome \<times> Worker" where
  "acceptNewRequest E clientEnv vfs typeFrame requestType fs newRequestMsg w =
     (case next_value 1 (frame_and_value (get_u64 E)) fs of
        Malformed n \<Rightarrow> (Returns n, w)
      | Throws \<Rightarrow> (Thrown, w)
      | Parsed ((idFrame, requestId), _) \<Rightarrow>
          (let newRequestContext = ClientRequestContext_of requestType requestId vfs clientEnv;
               receipt = (if hasAny vfs ReceiptOnReceive then Some (receivedReceipt E clientEnv typeFrame idFrame) else None);
               (redirected, w) = requestRedirected newRequestContext w
           in if redirected then (Returns 0, sendReceivedReceipt E receipt w)
              else apfst Returns (forwardToProcessor E newRequestContext receipt newRequestMsg w)))"

definition handleBrokerNewRequest :: "env \<Rightarrow> zmsg \<Rightarrow> Worker \<Rightarrow> (outcome \<times> Worker) option" where
  "handleBrokerNewRequest E newRequestMsg w = do {
     p \<leftarrow> parseEnvelope E newRequestMsg;
     Some (case p of
       Malformed n \<Rightarrow> (Returns n, w)
     | Throws \<Rightarrow> (Thrown, w)
     | Parsed (clientEnv, newRequestMsg) \<Rightarrow>
         (case parseFlagsAndType E (zmsg_frames E newRequestMsg) of
            Malformed n \<Rightarrow> (Returns n, w)
          | Throws \<Rightarrow> (Thrown, w)
          | Parsed (vfs, typeFrame, requestType, fs) \<Rightarrow>
              (if map_of (requestTypeContexts w) requestType = None
               then (Returns (-1), wk_setExitState WE_ReceivedUnsupportedRequest w)
               else acceptNewRequest E clientEnv vfs typeFrame requestType fs newRequestMsg w)))
   }"

section \<open>Messages of the broker\<close>

text \<open>Time of sending and delay are popped, the time unread, the delay read as an \<open>int\<close>.\<close>

definition wk_handleBrokerHeartbeat :: "env \<Rightarrow> zmsg \<Rightarrow> Worker \<Rightarrow> outcome \<times> Worker" where
  "wk_handleBrokerHeartbeat E heartbeatMsg w =
     (case zmsg_pop E heartbeatMsg of
        (Some (_ # _), heartbeatMsg) \<Rightarrow>
          (case zmsg_pop E heartbeatMsg of
             (Some (x # xs), _) \<Rightarrow>
               (case get_i32 E (x # xs) of
                  None \<Rightarrow> (Thrown, w)
                | Some newHeartbeatSendDelay \<Rightarrow> (Returns 0, w\<lparr>wk_brokerHeartbeatDelay := newHeartbeatSendDelay\<rparr>))
           | _ \<Rightarrow> (Returns 2, w))
      | _ \<Rightarrow> (Returns 1, w))"

definition dispatchToWorker :: "env \<Rightarrow> 32 word \<Rightarrow> zmsg \<Rightarrow> Worker \<Rightarrow> (outcome \<times> Worker) option" where
  "dispatchToWorker E messageType dealerMessage w =
     (if messageType = ClusterMessage_value BrokerNewRequest then handleBrokerNewRequest E dealerMessage w
      else if messageType = ClusterMessage_value BrokerHeartbeat then Some (wk_handleBrokerHeartbeat E dealerMessage w)
      else if messageType = ClusterMessage_value BrokerShuttingDown then Some (Returns (-1), wk_setExitState WE_GracefulStop w)
      else Some (Returns 3, w))"

definition wk_handleBrokerMessage_msg :: "env \<Rightarrow> zmsg \<Rightarrow> Worker \<Rightarrow> (outcome \<times> Worker) option" where
  "wk_handleBrokerMessage_msg E dealerMessage w =
     (case zmsg_pop E dealerMessage of
        (Some [], dealerMessage) \<Rightarrow>
          (case zmsg_pop E dealerMessage of
             (Some (x # xs), dealerMessage) \<Rightarrow>
               (case get_u32 E (x # xs) of
                  None \<Rightarrow> Some (Thrown, w)
                | Some messageType \<Rightarrow> dispatchToWorker E messageType dealerMessage w)
           | _ \<Rightarrow> Some (Returns 2, w))
      | _ \<Rightarrow> Some (Returns 1, w))"

text \<open>An exception leaves the function before the broker is noted as active.\<close>

definition wk_handleBrokerMessage :: "env \<Rightarrow> time_t \<Rightarrow> zmsg option \<Rightarrow> Worker \<Rightarrow> (outcome \<times> Worker) option" where
  "wk_handleBrokerMessage E now received w = (let w = wk_updateCurrentTime now w in
     case received of
       None \<Rightarrow> Some (Returns 0, w)
     | Some dealerMessage \<Rightarrow> do {
         (res, w) \<leftarrow> wk_handleBrokerMessage_msg E dealerMessage w;
         Some (case res of
           Thrown \<Rightarrow> (Thrown, w)
         | Returns ret \<Rightarrow> (Returns (if ret > 0 then 0 else ret), wk_updateBrokerLastActive (wk_currentTime w) w))
       })"

definition wk_checkBrokerPulse :: "Worker \<Rightarrow> int \<times> Worker" where
  "wk_checkBrokerPulse w =
     (if \<not> wk_isBrokerAliveAsOf (wk_currentTime w) w then (-1, wk_setExitState WE_BrokerDied w) else (0, w))"

text \<open>Called by nothing in the repository.\<close>

definition addNewInProgressRequest :: "RequestType \<Rightarrow> RequestId \<Rightarrow> Worker \<Rightarrow> Worker" where
  "addNewInProgressRequest type requestId w = withTypeContext type (AddInProgress requestId) w"

section \<open>Callbacks\<close>

definition requestProcessorReactor :: "env \<Rightarrow> time_t \<Rightarrow> zmsg option \<Rightarrow> Worker \<Rightarrow> (int \<times> Worker) option" where
  "requestProcessorReactor E now received w = catching (Some (wk_handleProcessorMessage E now received w))"

definition heartbeatBrokerReactor :: "env \<Rightarrow> time_t \<Rightarrow> Worker \<Rightarrow> (int \<times> Worker) option" where
  "heartbeatBrokerReactor E now w = Some (wk_sendBrokerHeartbeat E (wk_updateCurrentTime now w))"

definition brokerMessagingReactor :: "env \<Rightarrow> time_t \<Rightarrow> zmsg option \<Rightarrow> Worker \<Rightarrow> (int \<times> Worker) option" where
  "brokerMessagingReactor E now received w = catching (wk_handleBrokerMessage E now received w)"

definition workerPrimaryControllerReactor :: "Worker \<Rightarrow> (int \<times> Worker) option" where
  "workerPrimaryControllerReactor w = Some (-1, wk_setExitState WE_GracefulStop w)"

definition checkPulseBrokerReactor :: "time_t \<Rightarrow> Worker \<Rightarrow> (int \<times> Worker) option" where
  "checkPulseBrokerReactor now w = Some (wk_checkBrokerPulse (wk_updateCurrentTime now w))"

text \<open>The counters are not part of the state.\<close>

definition dumpStatsWorkerReactor :: "time_t \<Rightarrow> Worker \<Rightarrow> (int \<times> Worker) option" where
  "dumpStatsWorkerReactor now w = Some (0, wk_updateCurrentTime now w)"

datatype worker_event =
    WkBrokerReadable time_t "zmsg option"
  | WkProcessorReadable time_t "zmsg option"
  | WkHeartbeatDue time_t
  | WkPulseDue time_t
  | WkDumpStatsDue time_t
  | WkStopSignalled

fun worker_step :: "env \<Rightarrow> worker_event \<Rightarrow> Worker \<Rightarrow> (int \<times> Worker) option" where
  "worker_step E (WkBrokerReadable now m) w = brokerMessagingReactor E now m w"
| "worker_step E (WkProcessorReadable now m) w = requestProcessorReactor E now m w"
| "worker_step E (WkHeartbeatDue now) w = heartbeatBrokerReactor E now w"
| "worker_step E (WkPulseDue now) w = checkPulseBrokerReactor now w"
| "worker_step E (WkDumpStatsDue now) w = dumpStatsWorkerReactor now w"
| "worker_step E WkStopSignalled w = workerPrimaryControllerReactor w"

text \<open>\<open>zloop_start\<close>: callbacks until one returns \<open>-1\<close>; the first component tells whether one did.\<close>

fun worker_loop :: "env \<Rightarrow> worker_event list \<Rightarrow> Worker \<Rightarrow> (bool \<times> Worker) option" where
  "worker_loop E [] w = Some (False, w)"
| "worker_loop E (e # es) w = do {
     (ret, w) \<leftarrow> worker_step E e w;
     if ret = -1 then Some (True, w) else worker_loop E es w
   }"

end
