(* ===== verification/RequestProcessor.thy ===== *)
theory RequestProcessor
  imports Handlers Host
begin

text \<open>
  \<open>RequestProcessor\<close> (requestprocessor.h, .cxx): the thread in which a worker runs the user's
  \<open>IRequestHandler\<close>. What \<open>Process\<close> does is a parameter: it returns a status and a message, or throws
  (\<open>None\<close>); a null message is allowed by its type but dereferenced by the caller. Its socket to the
  worker is the socket \<open>Processor\<close> of the model.
\<close>

section \<open>Requests\<close>

type_synonym request_handler =
  "LHCVersionFlags \<Rightarrow> RequestType \<Rightarrow> RequestId \<Rightarrow> zmsg \<Rightarrow> (RequestStatus \<times> zmsg option) option"

record RequestProcessor =
  rp_sends :: "send_record list"

definition RequestProcessor_new :: RequestProcessor where
  "RequestProcessor_new = \<lparr> rp_sends = [] \<rparr>"

definition popHeaderFrames :: "env \<Rightarrow> zmsg \<Rightarrow> (frame \<times> frame \<times> frame \<times> zmsg) parsed" where
  "popHeaderFrames E msg =
     (case zmsg_pop E msg of
        (Some (v # vs), msg) \<Rightarrow>
          (case zmsg_pop E msg of
             (Some (t # ts), msg) \<Rightarrow>
               (case zmsg_pop E msg of
                  (Some (i # is), msg) \<Rightarrow> Parsed (v # vs, t # ts, i # is, msg)
                | _ \<Rightarrow> Malformed 2)
           | _ \<Rightarrow> Malformed 1)
      | _ \<Rightarrow> Malformed 1)"

text \<open>The arguments of \<open>Process\<close>; each type has a buffer of its own, so their order does not matter.\<close>

definition parseHeaderFrames ::
    "env \<Rightarrow> frame \<Rightarrow> frame \<Rightarrow> frame \<Rightarrow> (LHCVersionFlags \<times> RequestType \<times> RequestId \<times> ZMQFrameHandler) option" where
  "parseHeaderFrames E vfsFrame requestTypeFrame requestIdFrame = do {
     (vfs, h) \<leftarrow> read_with (get_frame_value_LHCVersionFlags E) ZMQFrameHandler_new vfsFrame;
     (requestType, h) \<leftarrow> read_with (get_frame_value_uint32 E) h requestTypeFrame;
     (requestId, h) \<leftarrow> read_with (get_frame_value_uint64 E) h requestIdFrame;
     Some (vfs, requestType, requestId, h)
   }"

definition processorResponse :: "env \<Rightarrow> ZMQFrameHandler \<Rightarrow> frame \<Rightarrow> frame \<Rightarrow> frame \<Rightarrow> RequestStatus \<Rightarrow> zmsg \<Rightarrow> zmsg" where
  "processorResponse E h vfsFrame requestTypeFrame requestIdFrame status m =
     (let m = snd (fst (prepend_message_value_uint32 E h m (RequestStatus_value status)));
          m = zmsg_prepend E m requestIdFrame;
          m = zmsg_prepend E m requestTypeFrame
      in zmsg_prepend E m vfsFrame)"

definition handleRequest_msg ::
    "env \<Rightarrow> request_handler \<Rightarrow> zmsg \<Rightarrow> RequestProcessor \<Rightarrow> (outcome \<times> RequestProcessor) option" where
  "handleRequest_msg E process requestMsg p =
     (case popHeaderFrames E requestMsg of
        Malformed n \<Rightarrow> Some (Returns n, p)
      | Throws \<Rightarrow> Some (Thrown, p)
      | Parsed (vfsFrame, requestTypeFrame, requestIdFrame, msg) \<Rightarrow>
          (case parseHeaderFrames E vfsFrame requestTypeFrame requestIdFrame of
             None \<Rightarrow> Some (Thrown, p)
           | Some (vfs, requestType, requestId, h) \<Rightarrow>
               (case process vfs requestType requestId msg of
                  None \<Rightarrow> Some (Thrown, p)
                | Some (status, None) \<Rightarrow> None
                | Some (status, Some m) \<Rightarrow>
                    (case Send E (rp_sends p) Processor
                        (processorResponse E h vfsFrame requestTypeFrame requestIdFrame status m) of
                       (ret, m', sent) \<Rightarrow> Some (Returns ret, p\<lparr>rp_sends := sent\<rparr>)))))"

definition handleRequest ::
    "env \<Rightarrow> request_handler \<Rightarrow> zmsg option \<Rightarrow> RequestProcessor \<Rightarrow> (outcome \<times> RequestProcessor) option" where
  "handleRequest E process received p =
     (case received of
        None \<Rightarrow> Some (Returns 1, p)
      | Some msg \<Rightarrow> map_option (apfst only_negative) (handleRequest_msg E process msg p))"

definition workerMessagingReactor ::
    "env \<Rightarrow> request_handler \<Rightarrow> zmsg option \<Rightarrow> RequestProcessor \<Rightarrow> (int \<times> RequestProcessor) option" where
  "workerMessagingReactor E process received p = catching (handleRequest E process received p)"

definition handlerPrimaryControllerReactor :: "RequestProcessor \<Rightarrow> int \<times> RequestProcessor" where
  "handlerPrimaryControllerReactor p = (-1, p)"

text \<open>
  \<open>zloop_start\<close> on the requests that come in before the command to stop, which ends it at the latest.
\<close>

fun rp_loop :: "env \<Rightarrow> request_handler \<Rightarrow> zmsg option list \<Rightarrow> RequestProcessor \<Rightarrow> RequestProcessor option" where
  "rp_loop E process [] p = Some (snd (handlerPrimaryControllerReactor p))"
| "rp_loop E process (m # ms) p = do {
     (ret, p) \<leftarrow> workerMessagingReactor E process m p;
     if ret = -1 then Some p else rp_loop E process ms p
   }"

section \<open>Sockets and callbacks\<close>

datatype processor_socket = RP_messaging | RP_secondary | RP_primary

type_synonym processor_hosting = "(processor_socket, unit) host_env"
type_synonym 'a processor_hosted = "(processor_socket, unit, 'a) hosted"
type_synonym processor_host = "(processor_socket, unit) host"

record RequestProcessorEndpoints =
  rp_selfMessagingEndpoint :: endpoint
  rp_selfControllerEndpoint :: endpoint

definition RequestProcessor_construct :: "processor_hosting \<Rightarrow> bool processor_hosted" where
  "RequestProcessor_construct H = do {
     factory_create H RP_messaging Pair;
     reactor_create H;
     factory_create H RP_secondary Pair;
     factory_create H RP_primary Pair;
     h \<leftarrow> State_Monad.get;
     State_Monad.return ({RP_messaging, RP_secondary, RP_primary} \<subseteq> present h \<and> has_reactor h)
   }"

text \<open>Both activations throw \<open>RequestProcessorActivateFailed\<close> (\<open>None\<close>) on a socket that is null.\<close>

definition rp_activateMessagingSockets :: "processor_hosting \<Rightarrow> RequestProcessorEndpoints \<Rightarrow> int option processor_hosted" where
  "rp_activateMessagingSockets H eps = do {
     h \<leftarrow> State_Monad.get;
     if RP_messaging \<notin> present h then State_Monad.return None
     else do {
       ret \<leftarrow> invoke H (Bind RP_messaging (rp_selfMessagingEndpoint eps));
       State_Monad.return (Some (failed ret))
     }
   }"

definition rp_deactivateMessagingSockets :: "processor_hosting \<Rightarrow> RequestProcessorEndpoints \<Rightarrow> int processor_hosted" where
  "rp_deactivateMessagingSockets H eps = do {
     ret \<leftarrow> invoke H (UnBind RP_messaging (rp_selfMessagingEndpoint eps));
     ret1 \<leftarrow> RefreshSocket H RP_messaging Pair;
     State_Monad.return (ret + ret1)
   }"

definition rp_activateControllerSockets :: "processor_hosting \<Rightarrow> RequestProcessorEndpoints \<Rightarrow> int option processor_hosted" where
  "rp_activateControllerSockets H eps = do {
     h \<leftarrow> State_Monad.get;
     if \<not> {RP_secondary, RP_primary} \<subseteq> present h then State_Monad.return None
     else do {
       ret \<leftarrow> invoke H (Bind RP_secondary (rp_selfControllerEndpoint eps));
       ret1 \<leftarrow> invoke H (Connect RP_primary (rp_selfControllerEndpoint eps));
       State_Monad.return (Some (failed ret + failed ret1))
     }
   }"

text \<open>Each code overwrites the one before.\<close>

definition rp_deactivateControllerSockets :: "processor_hosting \<Rightarrow> RequestProcessorEndpoints \<Rightarrow> int processor_hosted" where
  "rp_deactivateControllerSockets H eps = do {
     _ \<leftarrow> invoke H (DisConnect RP_primary (rp_selfControllerEndpoint eps));
     _ \<leftarrow> invoke H (UnBind RP_secondary (rp_selfControllerEndpoint eps));
     _ \<leftarrow> RefreshSocket H RP_primary Pair;
     RefreshSocket H RP_secondary Pair
   }"

definition rp_setupControllerCallbacks :: "processor_hosting \<Rightarrow> int processor_hosted" where
  "rp_setupControllerCallbacks H = invoke H (zloop_reader RP_secondary)"

definition rp_setupMessagingCallbacks :: "processor_hosting \<Rightarrow> int processor_hosted" where
  "rp_setupMessagingCallbacks H = invoke H (zloop_reader RP_messaging)"

definition rp_teardownControllerCallbacks :: "processor_hosting \<Rightarrow> int processor_hosted" where
  "rp_teardownControllerCallbacks H = do {
     _ \<leftarrow> invoke H (zloop_reader_end RP_secondary);
     State_Monad.return 0
   }"

definition rp_teardownMessagingCallbacks :: "processor_hosting \<Rightarrow> int processor_hosted" where
  "rp_teardownMessagingCallbacks H = do {
     _ \<leftarrow> invoke H (zloop_reader_end RP_messaging);
     State_Monad.return 0
   }"

section \<open>Start, run, stop\<close>

text \<open>The result is \<open>False\<close> if an activation or the constructor of the thread threw.\<close>

definition RequestProcessor_Start :: "processor_hosting \<Rightarrow> RequestProcessorEndpoints \<Rightarrow> bool processor_hosted" where
  "RequestProcessor_Start H eps = do {
     ret \<leftarrow> rp_activateControllerSockets H eps;
     if ret = None then State_Monad.return False
     else do {
       _ \<leftarrow> rp_setupControllerCallbacks H;
       new_thread H
     }
   }"

definition rp_after_loop :: "processor_hosting \<Rightarrow> RequestProcessorEndpoints \<Rightarrow> unit processor_hosted" where
  "rp_after_loop H eps = do {
     _ \<leftarrow> rp_teardownMessagingCallbacks H;
     _ \<leftarrow> rp_deactivateMessagingSockets H eps;
     State_Monad.return ()
   }"

text \<open>The thread. \<open>None\<close>: an exception left it, which terminates the program, or undefined behaviour.\<close>

definition RequestProcessor_StartAsPrimary ::
    "processor_hosting \<Rightarrow> RequestProcessorEndpoints \<Rightarrow> env \<Rightarrow> request_handler \<Rightarrow> zmsg option list \<Rightarrow>
      processor_host \<times> RequestProcessor \<Rightarrow> (processor_host \<times> RequestProcessor) option" where
  "RequestProcessor_StartAsPrimary H eps E process ms s = (case s of (h, p) \<Rightarrow>
     (case run_state (rp_activateMessagingSockets H eps) h of (ret, h) \<Rightarrow>
        if ret = None then None
        else do {
          let (_, h) = run_state (rp_setupMessagingCallbacks H) h;
          p \<leftarrow> rp_loop E process ms p;
          Some (snd (run_state (rp_after_loop H eps) h), p)
        }))"

text \<open>
  \<open>Stop\<close> signals the thread and joins it. The thread uses other sockets than its controller, so its
  calls are placed together, before the join; \<open>ms\<close> are the requests it takes.
\<close>

definition RequestProcessor_Stop ::
    "processor_hosting \<Rightarrow> RequestProcessorEndpoints \<Rightarrow> env \<Rightarrow> request_handler \<Rightarrow> zmsg option list \<Rightarrow>
      processor_host \<times> RequestProcessor \<Rightarrow> (processor_host \<times> RequestProcessor) option" where
  "RequestProcessor_Stop H eps E process ms s = do {
     (h, p) \<leftarrow> (case s of (h, p) \<Rightarrow>
       if reactorThread h then do {
         (h, p) \<leftarrow> RequestProcessor_StartAsPrimary H eps E process ms
           (snd (run_state (invoke H (SignalOn RP_primary 0)) h), p);
         let (_, h) = run_state (invoke H JoinThread) h;
         Some (h\<lparr>reactorThread := False\<rparr>, p)
       } else Some (h, p));
     let (_, h) = run_state (rp_teardownControllerCallbacks H) h;
     let (_, h) = run_state (rp_deactivateControllerSockets H eps) h;
     Some (h, p)
   }"

definition RequestProcessor_destroy ::
    "processor_hosting \<Rightarrow> RequestProcessorEndpoints \<Rightarrow> env \<Rightarrow> request_handler \<Rightarrow> zmsg option list \<Rightarrow>
      processor_host \<times> RequestProcessor \<Rightarrow> (processor_host \<times> RequestProcessor) option" where
  "RequestProcessor_destroy H eps E process ms s = do {
     (h, p) \<leftarrow> RequestProcessor_Stop H eps E process ms s;
     let (_, h) = run_state (do {
       destroy_reactor H;
       destroy_present H RP_messaging;
       destroy_present H RP_primary;
       destroy_present H RP_secondary
     }) h;
     Some (h, p)
   }"

lemmas rp_host_defs = rp_activateMessagingSockets_def rp_deactivateMessagingSockets_def rp_activateControllerSockets_def
  rp_deactivateControllerSockets_def rp_setupControllerCallbacks_def rp_setupMessagingCallbacks_def
  rp_teardownControllerCallbacks_def rp_teardownMessagingCallbacks_def RequestProcessor_Start_def rp_after_loop_def

end
