(* ===== verification/WorkerLifecycle.thy ===== *)
theory WorkerLifecycle
  imports Worker RequestProcessor
begin

text \<open>
  The life of a \<open>Worker\<close> around its handlers (worker.cxx): its sockets and callbacks, the thread, and
  the loop of \<open>StartAsPrimary\<close>, which starts the request processor, announces the worker, runs the
  reactor, stops the processor and, when the broker died, does it all again.
\<close>

datatype worker_socket = WK_messaging | WK_listener | WK_signaler | WK_processor

datatype worker_timer = WK_heartbeatBroker | WK_checkPulseBroker | WK_dumpStats

type_synonym worker_hosting = "(worker_socket, worker_timer) host_env"
type_synonym 'a worker_hosted = "(worker_socket, worker_timer, 'a) hosted"
type_synonym worker_host = "(worker_socket, worker_timer) host"

record WorkerEndpoints =
  wk_selfMessagingEndpoint :: endpoint
  wk_brokerMessagingEndpoint :: endpoint
  wk_selfControllerEndpoint :: endpoint
  wk_processorEndpoints :: RequestProcessorEndpoints

section \<open>Construction\<close>

text \<open>The constructor throws also when the request handler supports no type.\<close>

definition Worker_construct :: "worker_hosting \<Rightarrow> RequestType list \<Rightarrow> bool worker_hosted" where
  "Worker_construct H types = do {
     factory_create H WK_messaging Dealer;
     factory_create H WK_listener Pair;
     factory_create H WK_signaler Pair;
     factory_create H WK_processor Pair;
     reactor_create H;
     h \<leftarrow> State_Monad.get;
     State_Monad.return ({WK_messaging, WK_listener, WK_signaler, WK_processor} \<subseteq> present h \<and> has_reactor h \<and> types \<noteq> [])
   }"

section \<open>Sockets and callbacks\<close>

definition wk_activateControllerSockets :: "worker_hosting \<Rightarrow> WorkerEndpoints \<Rightarrow> int worker_hosted" where
  "wk_activateControllerSockets H eps = do {
     ret \<leftarrow> invoke H (Bind WK_listener (wk_selfControllerEndpoint eps));
     ret1 \<leftarrow> invoke H (Connect WK_signaler (wk_selfControllerEndpoint eps));
     State_Monad.return (failed ret + failed ret1)
   }"

text \<open>It also records the broker as active now, see \<open>wk_connecting\<close> below.\<close>

definition wk_activateMessagingSockets :: "worker_hosting \<Rightarrow> WorkerEndpoints \<Rightarrow> int worker_hosted" where
  "wk_activateMessagingSockets H eps = do {
     ret \<leftarrow> invoke H (Bind WK_messaging (wk_selfMessagingEndpoint eps));
     ret1 \<leftarrow> invoke H (Connect WK_messaging (wk_brokerMessagingEndpoint eps));
     ret2 \<leftarrow> invoke H (Connect WK_processor (rp_selfMessagingEndpoint (wk_processorEndpoints eps)));
     State_Monad.return (failed ret + failed ret1 + failed ret2)
   }"

definition wk_setupProcessorCallbacks :: "worker_hosting \<Rightarrow> int worker_hosted" where
  "wk_setupProcessorCallbacks H = invoke H (zloop_reader WK_processor)"

definition wk_teardownControllerCallbacks :: "worker_hosting \<Rightarrow> int worker_hosted" where
  "wk_teardownControllerCallbacks H = do {
     _ \<leftarrow> invoke H (zloop_reader_end WK_listener);
     State_Monad.return 0
   }"

definition wk_setupControllerCallbacks :: "worker_hosting \<Rightarrow> int worker_hosted" where
  "wk_setupControllerCallbacks H = invoke H (zloop_reader WK_listener)"

definition wk_setupMessagingCallbacks :: "worker_hosting \<Rightarrow> Worker \<Rightarrow> int worker_hosted" where
  "wk_setupMessagingCallbacks H w = do {
     ret \<leftarrow> invoke H (zloop_reader WK_messaging);
     _ \<leftarrow> invoke H (zloop_timer WK_checkPulseBroker (1000 * wk_brokerPulseDelay w));
     _ \<leftarrow> invoke H (zloop_timer WK_heartbeatBroker (1000 * wk_brokerHeartbeatDelay w));
     _ \<leftarrow> invoke H (zloop_timer WK_dumpStats 5000);
     State_Monad.return ret
   }"

definition wk_teardownProcessorCallbacks :: "worker_hosting \<Rightarrow> int worker_hosted" where
  "wk_teardownProcessorCallbacks H = do {
     _ \<leftarrow> invoke H (zloop_reader_end WK_processor);
     State_Monad.return 0
   }"

definition wk_teardownMessagingCallbacks :: "worker_hosting \<Rightarrow> int worker_hosted" where
  "wk_teardownMessagingCallbacks H = do {
     _ \<leftarrow> invoke H (zloop_reader_end WK_messaging);
     _ \<leftarrow> invoke H (zloop_timer_end WK_heartbeatBroker);
     _ \<leftarrow> invoke H (zloop_timer_end WK_checkPulseBroker);
     _ \<leftarrow> invoke H (zloop_timer_end WK_dumpStats);
     State_Monad.return 0
   }"

text \<open>The processor's socket is disconnected from the worker's own endpoint, to which it never was.\<close>

definition wk_deactivateMessagingSockets :: "worker_hosting \<Rightarrow> WorkerEndpoints \<Rightarrow> int worker_hosted" where
  "wk_deactivateMessagingSockets H eps = do {
     ret \<leftarrow> invoke H (DisConnect WK_messaging (wk_brokerMessagingEndpoint eps));
     ret1 \<leftarrow> invoke H (UnBind WK_messaging (wk_selfMessagingEndpoint eps));
     ret2 \<leftarrow> invoke H (DisConnect WK_processor (wk_selfMessagingEndpoint eps));
     ret3 \<leftarrow> RefreshSocket H WK_processor Pair;
     State_Monad.return (ret + ret1 + ret2 + ret3)
   }"

definition wk_deactivateControllerSockets :: "worker_hosting \<Rightarrow> WorkerEndpoints \<Rightarrow> int worker_hosted" where
  "wk_deactivateControllerSockets H eps = do {
     ret \<leftarrow> invoke H (DisConnect WK_signaler (wk_selfControllerEndpoint eps));
     ret1 \<leftarrow> invoke H (UnBind WK_listener (wk_selfControllerEndpoint eps));
     ret2 \<leftarrow> RefreshSocket H WK_signaler Pair;
     ret3 \<leftarrow> RefreshSocket H WK_listener Pair;
     State_Monad.return (ret + ret1 + ret2 + ret3)
   }"

section \<open>Start and stop\<close>

text \<open>\<open>False\<close>: the constructor of the thread threw, and what is activated stays so.\<close>

definition Worker_Start :: "worker_hosting \<Rightarrow> WorkerEndpoints \<Rightarrow> bool worker_hosted" where
  "Worker_Start H eps = do {
     _ \<leftarrow> wk_activateControllerSockets H eps;
     _ \<leftarrow> wk_setupControllerCallbacks H;
     new_thread H
   }"

definition Worker_Stop :: "worker_hosting \<Rightarrow> WorkerEndpoints \<Rightarrow> unit worker_hosted" where
  "Worker_Stop H eps = do {
     h \<leftarrow> State_Monad.get;
     _ \<leftarrow> (if reactorThread h then do {
         _ \<leftarrow> invoke H (SignalOn WK_signaler 0);
         _ \<leftarrow> invoke H JoinThread;
         State_Monad.update (\<lambda>h. h\<lparr>reactorThread := False\<rparr>)
       } else State_Monad.return ());
     _ \<leftarrow> wk_teardownControllerCallbacks H;
     _ \<leftarrow> wk_deactivateControllerSockets H eps;
     State_Monad.return ()
   }"

definition Worker_destroy :: "worker_hosting \<Rightarrow> WorkerEndpoints \<Rightarrow> unit worker_hosted" where
  "Worker_destroy H eps = do {
     Worker_Stop H eps;
     destroy_reactor H;
     destroy_present H WK_processor;
     destroy_present H WK_messaging;
     destroy_present H WK_signaler;
     destroy_present H WK_listener
   }"

section \<open>Connecting, and connecting again\<close>

definition wk_connecting :: "time_t \<Rightarrow> Worker \<Rightarrow> Worker" where
  "wk_connecting now w = (let w = wk_updateCurrentTime now (wk_setExitState WE_None w)
     in wk_updateBrokerLastActive (wk_currentTime w) w)"

definition wk_before_processor :: "worker_hosting \<Rightarrow> WorkerEndpoints \<Rightarrow> Worker \<Rightarrow> int worker_hosted" where
  "wk_before_processor H eps w = do {
     ret \<leftarrow> wk_activateMessagingSockets H eps;
     ret1 \<leftarrow> wk_setupMessagingCallbacks H w;
     State_Monad.return (int (length (filter (\<lambda>r. r \<noteq> 0) [ret, ret1])))
   }"

definition wk_after_processor :: "worker_hosting \<Rightarrow> WorkerEndpoints \<Rightarrow> unit worker_hosted" where
  "wk_after_processor H eps = do {
     _ \<leftarrow> wk_teardownMessagingCallbacks H;
     _ \<leftarrow> wk_deactivateMessagingSockets H eps;
     State_Monad.return ()
   }"

text \<open>
  What is outside during one turn of the \<open>do ... while ( true )\<close>: the clock when it begins, when the
  ready message goes out and when the reactor has ended; the events of the reactor; the requests
  that reach the processor's thread.
\<close>

record worker_turn =
  turn_begins :: time_t
  turn_announces :: time_t
  turn_ends :: time_t
  turn_events :: "worker_event list"
  turn_requests :: "zmsg option list"

text \<open>What is outside for good: the calls of both factories and reactors, addresses, \<open>Process\<close>.\<close>

record worker_world =
  world_host :: worker_hosting
  world_processor_host :: processor_hosting
  world_endpoints :: WorkerEndpoints
  world_process :: request_handler

record WorkerThread =
  th_host :: worker_host
  th_processor_host :: processor_host
  th_processor :: RequestProcessor
  th_worker :: Worker

definition wk_goes_on :: "WorkerExitState \<Rightarrow> bool" where
  "wk_goes_on s \<longleftrightarrow> s = WE_BrokerDied \<or> s = WE_StartFailed"

text \<open>Up to the ready message; \<open>None\<close> if \<open>RequestProcessor::Start\<close> throws. The number is \<open>runningRet\<close>.\<close>

definition wk_begin_turn :: "worker_world \<Rightarrow> env \<Rightarrow> worker_turn \<Rightarrow> WorkerThread \<Rightarrow> (int \<times> WorkerThread) option" where
  "wk_begin_turn W E turn s =
     (let H = world_host W; eps = world_endpoints W;
          w = wk_connecting (turn_begins turn) (th_worker s);
          (runningRet, h) = run_state (wk_before_processor H eps w) (th_host s);
          (started, hp) = run_state (RequestProcessor_Start (world_processor_host W) (wk_processorEndpoints eps)) (th_processor_host s)
      in if \<not> started then None
         else (let (ret, h) = run_state (wk_setupProcessorCallbacks H) h;
                   runningRet = runningRet + (if ret \<noteq> 0 then 1 else 0);
                   w = wk_updateCurrentTime (turn_announces turn) w;
                   (ret, w) = sendBrokerReadyMessage E w;
                   runningRet = runningRet + (if ret \<noteq> 0 then 1 else 0)
               in Some (runningRet, s\<lparr>th_host := h, th_processor_host := hp, th_worker := w\<rparr>)))"

definition wk_end_turn :: "worker_world \<Rightarrow> env \<Rightarrow> worker_turn \<Rightarrow> WorkerThread \<Rightarrow> WorkerThread option" where
  "wk_end_turn W E turn s =
     (let H = world_host W; eps = world_endpoints W;
          (_, h) = run_state (wk_teardownProcessorCallbacks H) (th_host s)
      in do {
        (hp, p) \<leftarrow> RequestProcessor_Stop (world_processor_host W) (wk_processorEndpoints eps) E (world_process W)
          (turn_requests turn) (th_processor_host s, th_processor s);
        let (_, h) = run_state (wk_after_processor H eps) h;
        Some (s\<lparr>th_host := h, th_processor_host := hp, th_processor := p\<rparr>)
      })"

text \<open>
  The first component is \<open>None\<close> while the reactor loop still runs, and then tells whether the worker
  goes on with another turn.
\<close>

definition worker_turn_of :: "worker_world \<Rightarrow> env \<Rightarrow> worker_turn \<Rightarrow> WorkerThread \<Rightarrow> (bool option \<times> WorkerThread) option" where
  "worker_turn_of W E turn s = do {
     (runningRet, s) \<leftarrow> wk_begin_turn W E turn s;
     (ended, s) \<leftarrow> (if runningRet = 0 then do {
         (ended, w) \<leftarrow> worker_loop E (turn_events turn) (th_worker s);
         Some (ended, s\<lparr>th_worker := if ended then wk_updateCurrentTime (turn_ends turn) w else w\<rparr>)
       } else Some (True, s\<lparr>th_worker := wk_setExitState WE_StartFailed (th_worker s),
           th_host := snd (run_state (invoke (world_host W) (SleepFor 1000)) (th_host s))\<rparr>));
     if ended then do {
       s \<leftarrow> wk_end_turn W E turn s;
       Some (Some (wk_goes_on (wk_exitState (th_worker s))), s)
     } else Some (None, s)
   }"

fun Worker_StartAsPrimary :: "worker_world \<Rightarrow> env \<Rightarrow> worker_turn list \<Rightarrow> WorkerThread \<Rightarrow> (bool option \<times> WorkerThread) option" where
  "Worker_StartAsPrimary W E [] s = Some (None, s)"
| "Worker_StartAsPrimary W E (turn # turns) s = do {
     (again, s) \<leftarrow> worker_turn_of W E turn s;
     if again = Some True then Worker_StartAsPrimary W E turns s else Some (again, s)
   }"

lemmas worker_host_defs = wk_activateControllerSockets_def wk_activateMessagingSockets_def wk_setupProcessorCallbacks_def
  wk_teardownControllerCallbacks_def wk_setupControllerCallbacks_def wk_setupMessagingCallbacks_def
  wk_teardownProcessorCallbacks_def wk_teardownMessagingCallbacks_def wk_deactivateMessagingSockets_def
  wk_deactivateControllerSockets_def wk_before_processor_def wk_after_processor_def

end
