(* ===== verification/WorkerInv.thy ===== *)
theory WorkerInv
  imports Worker SafeMachine
begin

text \<open>
  Closed forms of the worker's messages, and the invariant of its state: the requests in progress
  per type are exactly those whose context is known, each under its own type and identifier and
  with an envelope to answer to.
\<close>

section \<open>Messages\<close>

lemma popEnvelope_eq:
  assumes "czmq_ok E"
  shows "popEnvelope E env (zmsg_pop E m) =
    Some (env @ envelope m, if delimited m then Some [] else None, after_envelope m)"
proof (induction m arbitrary: env)
  case Nil
  then show ?case
    by (subst popEnvelope.simps) (simp add: czmq_laws[OF assms] envelope_def after_envelope_def delimited_def)
next
  case (Cons f fs)
  then show ?case
    by (subst popEnvelope.simps) (simp add: czmq_laws[OF assms] envelope_def after_envelope_def delimited_def)
qed

lemma parseEnvelope_eq:
  assumes "czmq_ok E"
  shows "parseEnvelope E m = Some (if envelope m \<noteq> [] \<and> delimited m then Parsed (envelope m, after_envelope m) else Malformed 1)"
proof (cases m)
  case Nil
  then show ?thesis by (simp add: parseEnvelope_def czmq_laws[OF assms] envelope_def)
next
  case (Cons f fs)
  then show ?thesis
    using popEnvelope_eq[OF assms, of "[f]" fs]
    by (cases f) (simp_all add: parseEnvelope_def czmq_laws[OF assms] envelope_def after_envelope_def delimited_def)
qed

lemma prependEnvelope_eq: "czmq_ok E \<Longrightarrow> prependEnvelope E env m = env @ m"
proof (induction env arbitrary: m rule: rev_induct)
  case Nil
  then show ?case by (simp add: prependEnvelope.simps)
next
  case (snoc f env)
  then show ?case by (subst prependEnvelope.simps) (simp add: czmq_laws)
qed

lemma finishedMessage_eq:
  assumes "czmq_ok E" "protobuf_ok E" "fst (frameUInt32 h)"
  shows "finishedMessage E h env m = [] # enc_u32 E (ClusterMessage_value WorkerFinished) # env @ [] #
    enc_u32 E (ClusterMessage_value BrokerResponse) # m"
  using assms by (simp add: finishedMessage_def prepend_kept prependEnvelope_eq czmq_laws Let_def)

lemma receivedReceipt_eq:
  assumes "czmq_ok E" "protobuf_ok E"
  shows "receivedReceipt E env typeFrame idFrame = [] # enc_u32 E (ClusterMessage_value WorkerReceipt) # env @ [] #
    [enc_u32 E (ClusterMessage_value BrokerReceivedReceipt), typeFrame, idFrame]"
proof -
  have "fold (\<lambda>frame m. zmsg_append E m frame) env m = m @ env" for m
    using assms(1) by (induction env arbitrary: m) (simp_all add: czmq_laws)
  then show ?thesis using assms by (simp add: receivedReceipt_def ext_laws Let_def)
qed

lemma readyMessage_eq:
  assumes "czmq_ok E" "protobuf_ok E"
  shows "readyMessage E w = [] # enc_u32 E (ClusterMessage_value WorkerReady) # enc_vfs E LHCVersionFlags_default #
    enc_u32 E (announcedCapacity w) # enc_time E (wk_selfHeartbeatDelay w) # map (enc_u32 E) (supportedRequestTypes w)"
proof -
  have "fold (\<lambda>t m. add_u32 E t m) ts m = m @ map (enc_u32 E) ts" for ts m
    using assms by (induction ts arbitrary: m) (simp_all add: ext_laws)
  then show ?thesis using assms by (simp add: readyMessage_def ext_laws Let_def)
qed

section \<open>The invariant\<close>

text \<open>The requests a type's context has in progress.\<close>

definition progress :: "Worker \<Rightarrow> RequestType \<Rightarrow> RequestId set" where
  "progress w t = (case map_of (requestTypeContexts w) t of None \<Rightarrow> {} | Some c \<Rightarrow> wrtc_inProgressRequests c)"

definition context_ok :: "Worker \<Rightarrow> RequestType \<times> RequestId \<Rightarrow> ClientRequestContext \<Rightarrow> bool" where
  "context_ok w k c \<longleftrightarrow> fst k \<in> set (supportedRequestTypes w) \<and> (crc_type c, crc_id c) = k \<and>
     crc_envelope c \<noteq> [] \<and> [] \<notin> set (crc_envelope c)"

definition worker_wf :: "Worker \<Rightarrow> bool" where
  "worker_wf w \<longleftrightarrow>
     sorted_wrt (<) (map fst (requestTypeContexts w)) \<and>
     fst ` set (requestTypeContexts w) = set (supportedRequestTypes w) \<and>
     (\<forall>t. finite (progress w t)) \<and>
     (\<forall>t i. i \<in> progress w t \<longleftrightarrow> requestContexts w (t, i) \<noteq> None) \<and>
     (\<forall>k c. requestContexts w k = Some c \<longrightarrow> context_ok w k c)"

lemma worker_wfD:
  assumes "worker_wf w"
  shows "sorted_wrt (<) (map fst (requestTypeContexts w))"
    "fst ` set (requestTypeContexts w) = set (supportedRequestTypes w)"
    "finite (progress w t)" "i \<in> progress w t \<longleftrightarrow> requestContexts w (t, i) \<noteq> None"
    "requestContexts w k = Some c \<Longrightarrow> context_ok w k c"
  using assms unfolding worker_wf_def by blast+

lemma supported_context: "worker_wf w \<Longrightarrow> map_of (requestTypeContexts w) t = None \<longleftrightarrow> t \<notin> set (supportedRequestTypes w)"
  using worker_wfD(2) by (simp add: map_of_eq_None_iff)

text \<open>Fields a step may change without touching the invariant.\<close>

definition same_tables :: "Worker \<Rightarrow> Worker \<Rightarrow> bool" where
  "same_tables w w' \<longleftrightarrow> requestTypeContexts w' = requestTypeContexts w \<and> requestContexts w' = requestContexts w \<and>
     supportedRequestTypes w' = supportedRequestTypes w"

lemma same_tables_ok: "same_tables w w' \<Longrightarrow> worker_wf w' \<longleftrightarrow> worker_wf w"
  by (simp add: same_tables_def worker_wf_def progress_def context_ok_def)

lemma same_tables_refl [simp]: "same_tables w w"
  by (simp add: same_tables_def)

lemma same_tables_trans: "same_tables a b \<Longrightarrow> same_tables b c \<Longrightarrow> same_tables a c"
  by (simp add: same_tables_def)

lemma wk_Send_fields:
  "wk_Send E s m w = (fst (zmsg_send E (wk_sends w) s m), w\<lparr>wk_sends := wk_sends w @ [(s, m, fst (zmsg_send E (wk_sends w) s m))]\<rparr>)"
  by (simp add: wk_Send_def Send_def case_prod_unfold)

lemmas wk_upd_defs = wk_setExitState_def wk_updateCurrentTime_def wk_updateWorkerLastActive_def wk_updateBrokerLastActive_def

lemma same_tables_upd [simp]:
  "same_tables w (wk_setExitState s w)" "same_tables w (wk_updateCurrentTime n w)"
  "same_tables w (wk_updateWorkerLastActive n w)" "same_tables w (wk_updateBrokerLastActive n w)"
  "same_tables w (snd (wk_Send E s' m w))" "same_tables w (w\<lparr>wk_brokerHeartbeatDelay := d\<rparr>)"
  "same_tables w (sendReceivedReceipt E receipt w)"
  by (simp_all add: same_tables_def wk_upd_defs wk_Send_fields sendReceivedReceipt_def split: option.splits)

lemma worker_wf_upd [simp]:
  "worker_wf (wk_setExitState s w) \<longleftrightarrow> worker_wf w" "worker_wf (wk_updateCurrentTime n w) \<longleftrightarrow> worker_wf w"
  "worker_wf (wk_updateWorkerLastActive n w) \<longleftrightarrow> worker_wf w" "worker_wf (wk_updateBrokerLastActive n w) \<longleftrightarrow> worker_wf w"
  "worker_wf (snd (wk_Send E s' m w)) \<longleftrightarrow> worker_wf w" "worker_wf (w\<lparr>wk_brokerHeartbeatDelay := d\<rparr>) \<longleftrightarrow> worker_wf w"
  "worker_wf (sendReceivedReceipt E receipt w) \<longleftrightarrow> worker_wf w" "worker_wf (w\<lparr>wk_sends := h\<rparr>) \<longleftrightarrow> worker_wf w"
  by (rule same_tables_ok, simp)+ (simp add: same_tables_ok[of w "w\<lparr>wk_sends := h\<rparr>"] same_tables_def)

section \<open>The tables\<close>

lemma keys_map_entry: "map fst (AList.map_entry k f xs) = map fst xs"
  by (induction xs) auto

lemma withTypeContext_fields [simp]:
  "requestContexts (withTypeContext t f w) = requestContexts w" "wk_sends (withTypeContext t f w) = wk_sends w"
  "supportedRequestTypes (withTypeContext t f w) = supportedRequestTypes w"
  "map fst (requestTypeContexts (withTypeContext t f w)) = map fst (requestTypeContexts w)"
  "fst ` set (requestTypeContexts (withTypeContext t f w)) = fst ` set (requestTypeContexts w)"
  by (simp_all add: withTypeContext_def keys_map_entry AList.dom_map_entry)

lemma map_of_with: "map_of (requestTypeContexts (withTypeContext t f w)) t' =
    (if t' = t then map_option f (map_of (requestTypeContexts w) t) else map_of (requestTypeContexts w) t')"
  by (simp add: withTypeContext_def AList.map_of_map_entry split: option.splits)

lemma progress_add:
  "map_of (requestTypeContexts w) t \<noteq> None \<Longrightarrow>
    progress (withTypeContext t (AddInProgress i) w) t' = (if t' = t then insert i (progress w t) else progress w t')"
  by (auto simp: progress_def map_of_with AddInProgress_def)

lemma progress_drop:
  "progress (withTypeContext t (RequestHasFinished i) w) t' = (if t' = t then progress w t - {i} else progress w t')"
  by (auto simp: progress_def map_of_with RequestHasFinished_def split: option.splits)

lemma progress_contexts [simp]:
  "progress (w\<lparr>requestContexts := r\<rparr>) t = progress w t" "progress (w\<lparr>wk_sends := h\<rparr>) t = progress w t"
  "progress (eraseRequestContext t' i w) t = progress w t"
  by (simp_all add: progress_def eraseRequestContext_def)

text \<open>A request is taken into both tables, or dropped from both.\<close>

lemma worker_wf_take:
  assumes w: "worker_wf w" and t: "map_of (requestTypeContexts w) (crc_type c) \<noteq> None"
    and new: "requestContexts w (crc_type c, crc_id c) = None" and c: "crc_envelope c \<noteq> []" "[] \<notin> set (crc_envelope c)"
  shows "worker_wf (addRequestContext c (withTypeContext (crc_type c) (AddInProgress (crc_id c)) w))"
proof -
  have "crc_type c \<in> set (supportedRequestTypes w)" using t supported_context[OF w, of "crc_type c"] by simp
  then show ?thesis
    using worker_wfD[OF w] t new c
    by (auto simp: worker_wf_def addRequestContext_def progress_add context_ok_def)
qed

lemma worker_wf_drop:
  assumes w: "worker_wf w"
  shows "worker_wf (eraseRequestContext t i (withTypeContext t (RequestHasFinished i) w))"
  using worker_wfD[OF w]
  by (auto simp: worker_wf_def progress_drop eraseRequestContext_def context_ok_def)

lemma worker_wf_contexts:
  assumes w: "worker_wf w" and d: "\<And>k. rc k = None \<longleftrightarrow> requestContexts w k = None"
    and c: "\<And>k c. rc k = Some c \<Longrightarrow> context_ok w k c"
  shows "worker_wf (w\<lparr>requestContexts := rc\<rparr>)"
proof -
  have "context_ok (w\<lparr>requestContexts := rc\<rparr>) k c \<longleftrightarrow> context_ok w k c" for k c by (simp add: context_ok_def)
  then show ?thesis using w c d unfolding worker_wf_def by simp
qed

lemma worker_wf_redirect:
  assumes w: "worker_wf w" and c: "crc_envelope c \<noteq> []" "[] \<notin> set (crc_envelope c)"
    and r: "requestRedirected c w = (redirected, w')"
  shows "worker_wf w'"
proof (cases "requestContexts w (crc_type c, crc_id c)")
  case None
  then show ?thesis using r w by (simp add: requestRedirected_def)
next
  case (Some known)
  have "context_ok w (crc_type c, crc_id c) known" by (rule worker_wfD(5)[OF w Some])
  then have k: "context_ok w (crc_type c, crc_id c) (SetVersionMessageFlags (crc_vfs c) (UpdateEnvelope c known))"
    using c by (simp add: context_ok_def SetVersionMessageFlags_def UpdateEnvelope_def)
  have "w' = w\<lparr>requestContexts := (requestContexts w)((crc_type c, crc_id c) \<mapsto>
      SetVersionMessageFlags (crc_vfs c) (UpdateEnvelope c known))\<rparr>"
    using r Some by (simp add: requestRedirected_def Let_def)
  moreover have "worker_wf (w\<lparr>requestContexts := (requestContexts w)((crc_type c, crc_id c) \<mapsto>
      SetVersionMessageFlags (crc_vfs c) (UpdateEnvelope c known))\<rparr>)"
    by (rule worker_wf_contexts[OF w]) (use k worker_wfD(5)[OF w] Some in \<open>auto split: if_splits\<close>)
  ultimately show ?thesis by simp
qed

lemma eraseRequestContext_absent: "requestContexts w (t, i) = None \<Longrightarrow> eraseRequestContext t i w = w"
  by (auto simp: eraseRequestContext_def fun_upd_idem)

section \<open>Every callback keeps the invariant\<close>

lemma processor_message_ok:
  assumes w: "worker_wf w" and r: "handleProcessorMessage_msg E m w = (res, w')"
  shows "worker_wf w'"
proof (cases "parseProcessorMessage E (zmsg_frames E m)")
  case (Parsed x)
  obtain h t i st where x: "x = (h, t, i, st)" by (cases x)
  show ?thesis
  proof (cases "map_of (requestTypeContexts w) t")
    case None
    then have "requestContexts w (t, i) = None"
      using worker_wfD(4)[OF w, of i t] by (simp add: progress_def)
    then show ?thesis using r Parsed x None w by (auto simp: handleProcessorMessage_msg_def eraseRequestContext_absent)
  next
    case (Some c)
    show ?thesis
    proof (cases "requestContexts w (t, i)")
      case None
      have "worker_wf (withTypeContext t (RequestHasFinished i) w)"
        using worker_wf_drop[OF w, of t i] None by (simp add: eraseRequestContext_absent)
      then show ?thesis using r Parsed x Some None by (auto simp: handleProcessorMessage_msg_def)
    next
      case (Some rc)
      have "i \<in> wrtc_inProgressRequests c"
        using worker_wfD(4)[OF w, of i t] Some \<open>map_of (requestTypeContexts w) t = Some c\<close> by (simp add: progress_def)
      moreover obtain ret w1 where f: "forwardAnswer E h t i st rc m w = (ret, w1)" by fastforce
      moreover have "worker_wf (eraseRequestContext t i w1)"
      proof -
        define v where "v = (let (ret, w) = wk_Send E messagingSocket (finishedMessage E h (crc_envelope rc) m) w
           in if ret \<noteq> 0 then w else wk_updateWorkerLastActive (wk_currentTime w) w)"
        have v: "worker_wf v" using w by (simp add: v_def wk_Send_fields Let_def)
        have "w1 = withTypeContext t (RequestHasFinished i) v \<or>
            w1 = wk_setExitState WE_ProcessorFatalError (withTypeContext t (RequestHasFinished i) v)"
          using f by (auto simp: forwardAnswer_def v_def Let_def split: if_splits prod.splits)
        moreover have "eraseRequestContext t i (wk_setExitState s u) = wk_setExitState s (eraseRequestContext t i u)" for s u
          by (simp add: eraseRequestContext_def wk_setExitState_def)
        ultimately show ?thesis using worker_wf_drop[OF v, of t i] by auto
      qed
      ultimately show ?thesis
        using r Parsed x Some \<open>map_of (requestTypeContexts w) t = Some c\<close> by (auto simp: handleProcessorMessage_msg_def)
    qed
  qed
qed (use r w in \<open>auto simp: handleProcessorMessage_msg_def\<close>)

lemma new_request_ok:
  assumes E: "czmq_ok E" and w: "worker_wf w"
  shows "\<exists>res w'. handleBrokerNewRequest E m w = Some (res, w') \<and> worker_wf w'"
proof -
  let ?p = "if envelope m \<noteq> [] \<and> delimited m then Parsed (envelope m, after_envelope m) else Malformed 1"
  have acc: "worker_wf w'" if "acceptNewRequest E env vfs tf t fs msg w = (res, w')"
    "map_of (requestTypeContexts w) t \<noteq> None" "env \<noteq> []" "[] \<notin> set env" for env vfs tf t fs msg res w'
  proof (cases "next_value 1 (frame_and_value (get_u64 E)) fs")
    case (Parsed x)
    obtain idf i rest where x: "x = ((idf, i), rest)" by (metis prod.exhaust)
    define c where "c = ClientRequestContext_of t i vfs env"
    have c: "crc_type c = t" "crc_id c = i" "crc_envelope c = env" by (simp_all add: c_def ClientRequestContext_of_def)
    obtain red w1 where red: "requestRedirected c w = (red, w1)" by fastforce
    have w1: "worker_wf w1" by (rule worker_wf_redirect[OF w _ _ red]) (simp_all add: c that)
    show ?thesis
    proof (cases red)
      case True
      then show ?thesis using that(1) Parsed x red w1 c_def by (auto simp: acceptNewRequest_def Let_def)
    next
      case False
      then have nw: "w1 = w" "requestContexts w (t, i) = None"
        using red c by (auto simp: requestRedirected_def Let_def split: option.splits)
      let ?w = "snd (wk_Send E Processor msg w)"
      have "worker_wf (addRequestContext c (withTypeContext (crc_type c) (AddInProgress (crc_id c)) ?w))"
        by (rule worker_wf_take) (use w that nw in \<open>simp_all add: c wk_Send_fields\<close>)
      then have "worker_wf (snd (forwardToProcessor E c rc msg w))" for rc
        using w by (simp add: forwardToProcessor_def case_prod_unfold)
      then show ?thesis
        using that(1) Parsed x red nw(1) False unfolding c_def
        by (simp add: acceptNewRequest_def Let_def apfst_def map_prod_def case_prod_unfold del: One_nat_def) fastforce
    qed
  qed (use that w in \<open>auto simp: acceptNewRequest_def\<close>)
  have "\<exists>res w'. acceptNewRequest E (envelope m) vfs tf t fs msg w = (res, w') \<and> worker_wf w'"
    if "map_of (requestTypeContexts w) t = Some tc" "envelope m \<noteq> []" for vfs tf t tc fs msg
    using acc[OF surjective_pairing, of t "envelope m" vfs tf fs msg] envelope_nonempty that
    by (cases "acceptNewRequest E (envelope m) vfs tf t fs msg w") auto
  then show ?thesis
    using w by (auto simp: handleBrokerNewRequest_def parseEnvelope_eq[OF E] split: parsed.splits)
qed

lemma broker_message_ok:
  assumes E: "czmq_ok E" and w: "worker_wf w"
  shows "\<exists>res w'. wk_handleBrokerMessage_msg E m w = Some (res, w') \<and> worker_wf w'"
proof -
  have hb: "worker_wf (snd (wk_handleBrokerHeartbeat E m w))" for m
    using w by (auto simp: wk_handleBrokerHeartbeat_def split: prod.splits option.splits list.splits)
  have "\<exists>res w'. dispatchToWorker E ty m w = Some (res, w') \<and> worker_wf w'" for ty m
    using new_request_ok[OF E w, of m] hb[of m] w by (cases "wk_handleBrokerHeartbeat E m w") (auto simp: dispatchToWorker_def)
  then show ?thesis
    using w by (auto simp: wk_handleBrokerMessage_msg_def split: prod.splits option.splits list.splits)
qed

lemma worker_step_good:
  assumes E: "czmq_ok E" and w: "worker_wf w"
  shows "\<exists>ret w'. worker_step E e w = Some (ret, w') \<and> worker_wf w'"
proof (cases e)
  case (WkBrokerReadable now received)
  show ?thesis
  proof (cases received)
    case None
    then show ?thesis using WkBrokerReadable w
      by (simp add: brokerMessagingReactor_def wk_handleBrokerMessage_def catching_def Let_def)
  next
    case (Some m)
    obtain res w' where "wk_handleBrokerMessage_msg E m (wk_updateCurrentTime now w) = Some (res, w')" "worker_wf w'"
      using broker_message_ok[OF E, of "wk_updateCurrentTime now w" m] w by auto
    then show ?thesis using WkBrokerReadable Some
      by (cases res) (simp_all add: brokerMessagingReactor_def wk_handleBrokerMessage_def catching_def Let_def)
  qed
next
  case (WkProcessorReadable now received)
  show ?thesis
  proof (cases received)
    case None
    then show ?thesis using WkProcessorReadable w
      by (simp add: requestProcessorReactor_def wk_handleProcessorMessage_def catching_def Let_def)
  next
    case (Some m)
    obtain res w' where r: "handleProcessorMessage_msg E m (wk_updateCurrentTime now w) = (res, w')" by fastforce
    from processor_message_ok[OF _ r] w have "worker_wf w'" by simp
    then show ?thesis using WkProcessorReadable Some r
      by (simp add: requestProcessorReactor_def wk_handleProcessorMessage_def catching_def Let_def)
  qed
qed (use w in \<open>auto simp: heartbeatBrokerReactor_def wk_sendBrokerHeartbeat_def workerPrimaryControllerReactor_def dumpStatsWorkerReactor_def
      checkPulseBrokerReactor_def wk_checkBrokerPulse_def Let_def split: prod.splits\<close>)

interpretation worker: safe_machine "worker_step E" "\<lambda>w. czmq_ok E \<and> worker_wf w" "\<lambda>e w. True" for E
  by unfold_locales (use worker_step_good in blast)

lemma worker_loop_machine: "worker_loop E es w = worker.machine_run E es w"
  by (induction es arbitrary: w) (auto split: option.splits bind_splits)

lemma worker_trusted: "worker.trusted_along E es w"
  by (induction es arbitrary: w) (auto split: option.splits)

section \<open>Construction\<close>

lemma initializeRequestTypeContexts_ok:
  assumes "sorted_wrt (<) (map fst xs)" "\<forall>(t, c) \<in> set xs. wrtc_inProgressRequests c = {}"
  shows "sorted_wrt (<) (map fst (initializeRequestTypeContexts ts xs)) \<and>
    fst ` set (initializeRequestTypeContexts ts xs) = set ts \<union> fst ` set xs \<and>
    (\<forall>(t, c) \<in> set (initializeRequestTypeContexts ts xs). wrtc_inProgressRequests c = {})"
  using assms
proof (induction ts arbitrary: xs)
  case (Cons t ts)
  have "set (map_insert k v xs) \<subseteq> insert (k, v) (set xs)" for k and v :: WorkerRequestTypeContext and xs
    by (induction k v xs rule: map_insert.induct) auto
  then have "\<forall>(t, c) \<in> set (map_insert t (WorkerRequestTypeContext_new t) xs). wrtc_inProgressRequests c = {}"
    using Cons.prems(2) by (fastforce simp: WorkerRequestTypeContext_new_def)
  from Cons.IH[OF map_insert_sorted[OF Cons.prems(1)] this] show ?case by auto
qed simp

lemma Worker_new_ok: "worker_wf (Worker_new d i p types)"
proof -
  note i = initializeRequestTypeContexts_ok[of "[]" types]
  have "progress (Worker_new d i p types) t = {}" for t
    using i by (fastforce simp: progress_def Worker_new_def dest: map_of_SomeD split: option.splits)
  then show ?thesis using i by (simp add: worker_wf_def Worker_new_def)
qed

end
