(* ===== verification/WorkerRequests.thy ===== *)
theory WorkerRequests
  imports WorkerLifecycle WorkerInv BrokerBackend
begin

text \<open>
  What a worker and its processor do with the frames that broker and processor put on the wire, in
  closed form.
\<close>

section \<open>A request from the broker\<close>

text \<open>A broker's message as it reaches the DEALER: the ROUTER has taken the identity off.\<close>

definition to_worker :: "env \<Rightarrow> ClusterMessage \<Rightarrow> zmsg \<Rightarrow> zmsg" where
  "to_worker E type payload = [] # enc_u32 E (ClusterMessage_value type) # payload"

text \<open>What the processor gets of a request, and the receipt the worker sends if asked.\<close>

definition job_frames :: "env \<Rightarrow> LHCVersionFlags \<Rightarrow> RequestType \<Rightarrow> RequestId \<Rightarrow> zmsg \<Rightarrow> zmsg" where
  "job_frames E vfs t i body = enc_vfs E vfs # enc_u32 E t # enc_u64 E i # body"

definition worker_receipt :: "env \<Rightarrow> frame list \<Rightarrow> RequestType \<Rightarrow> RequestId \<Rightarrow> zmsg" where
  "worker_receipt E sender t i = [] # enc_u32 E (ClusterMessage_value WorkerReceipt) # sender @ [] #
     [enc_u32 E (ClusterMessage_value BrokerReceivedReceipt), enc_u32 E t, enc_u64 E i]"

lemma broker_message_to_worker:
  assumes E: "env_ok E"
  shows "brokerMessagingReactor E now (Some (to_worker E type payload)) w = catching (do {
     (res, w) \<leftarrow> dispatchToWorker E (ClusterMessage_value type) payload (wk_updateCurrentTime now w);
     Some (case res of
       Thrown \<Rightarrow> (Thrown, w)
     | Returns ret \<Rightarrow> (Returns (if ret > 0 then 0 else ret), wk_updateBrokerLastActive (wk_currentTime w) w))
   })"
proof -
  have "enc_u32 E (ClusterMessage_value type) \<noteq> []" using enc_nonempty[OF env_okD(2)[OF E]] by simp
  then obtain x xs where f: "enc_u32 E (ClusterMessage_value type) = x # xs" by (cases "enc_u32 E (ClusterMessage_value type)") auto
  then have "get_u32 E (x # xs) = Some (ClusterMessage_value type)"
    using get_enc(1)[OF env_okD(2)[OF E], of "ClusterMessage_value type"] by simp
  then show ?thesis
    using f by (simp add: brokerMessagingReactor_def wk_handleBrokerMessage_def wk_handleBrokerMessage_msg_def
        to_worker_def env_laws[OF E] Let_def)
qed

lemma parse_job:
  assumes E: "env_ok E"
  shows "parseFlagsAndType E (job_frames E vfs t i body) = Parsed (vfs, enc_u32 E t, t, enc_u64 E i # body)"
    "next_value 1 (frame_and_value (get_u64 E)) (enc_u64 E i # body) = Parsed ((enc_u64 E i, i), body)"
  using enc_nonempty[OF env_okD(2)[OF E]] E
  by (simp_all add: parseFlagsAndType_def job_frames_def frame_and_value_def env_laws)

lemma new_request_dispatch:
  assumes E: "env_ok E" and s: "is_envelope sender" "sender \<noteq> []" and t: "map_of (requestTypeContexts w) t \<noteq> None"
  shows "dispatchToWorker E (ClusterMessage_value BrokerNewRequest) (request_frames E sender vfs t i body) w =
    Some (acceptNewRequest E sender vfs (enc_u32 E t) t (enc_u64 E i # body) (job_frames E vfs t i body) w)"
proof -
  let ?m = "request_frames E sender vfs t i body"
  have split: "envelope ?m = sender" "after_envelope ?m = job_frames E vfs t i body" "delimited ?m"
    using envelope_split[OF s(1)] by (simp_all add: request_frames_def job_frames_def)
  obtain tc where "map_of (requestTypeContexts w) t = Some tc" using t by blast
  then show ?thesis
    using s(2) split E
    by (simp add: dispatchToWorker_def handleBrokerNewRequest_def parseEnvelope_eq[OF env_okD(1)[OF E]] env_laws parse_job)
qed

text \<open>A request the worker does not have yet.\<close>

definition taken :: "env \<Rightarrow> frame list \<Rightarrow> LHCVersionFlags \<Rightarrow> RequestType \<Rightarrow> RequestId \<Rightarrow> Worker \<Rightarrow> Worker" where
  "taken E sender vfs t i w = w\<lparr>
     requestTypeContexts := AList.map_entry t (AddInProgress i) (requestTypeContexts w),
     requestContexts := (requestContexts w)((t, i) \<mapsto> ClientRequestContext_of t i vfs sender)\<rparr>"

lemma accept_new:
  assumes E: "env_ok E" and new: "requestContexts w (t, i) = None"
    and r: "ret = fst (zmsg_send E (wk_sends w) Processor (job_frames E vfs t i body))"
  defines "w1 \<equiv> w\<lparr>wk_sends := wk_sends w @ [(Processor, job_frames E vfs t i body, ret)]\<rparr>"
  shows "acceptNewRequest E sender vfs (enc_u32 E t) t (enc_u64 E i # body) (job_frames E vfs t i body) w =
    (if ret = 0 then (Returns 0, sendReceivedReceipt E
        (if hasAny vfs ReceiptOnReceive then Some (worker_receipt E sender t i) else None) (taken E sender vfs t i w1))
     else (Returns (-1), wk_setExitState WE_ProcessorInaccessable w1))"
proof -
  have k: "crc_type (ClientRequestContext_of t i vfs sender) = t" "crc_id (ClientRequestContext_of t i vfs sender) = i"
    by (simp_all add: ClientRequestContext_of_def)
  have "addRequestContext (ClientRequestContext_of t i vfs sender) (withTypeContext t (AddInProgress i) w1) = taken E sender vfs t i w1"
    using new k by (simp add: addRequestContext_def withTypeContext_def taken_def w1_def)
  moreover have "wk_Send E Processor (job_frames E vfs t i body) w = (ret, w1)"
    by (simp add: wk_Send_fields r w1_def)
  moreover have "receivedReceipt E sender (enc_u32 E t) (enc_u64 E i) = worker_receipt E sender t i"
    using receivedReceipt_eq env_okD[OF E] by (simp add: worker_receipt_def)
  moreover have "requestRedirected (ClientRequestContext_of t i vfs sender) w = (False, w)"
    using new k by (simp add: requestRedirected_def)
  ultimately show ?thesis
    using k by (simp add: acceptNewRequest_def parse_job[OF E] forwardToProcessor_def Let_def del: next_value.simps)
qed

lemma accept_known:
  assumes E: "env_ok E" and known: "requestContexts w (t, i) = Some c"
  shows "acceptNewRequest E sender vfs (enc_u32 E t) t (enc_u64 E i # body) (job_frames E vfs t i body) w =
    (Returns 0, sendReceivedReceipt E (if hasAny vfs ReceiptOnReceive then Some (worker_receipt E sender t i) else None)
       (w\<lparr>requestContexts := (requestContexts w)((t, i) \<mapsto> c\<lparr>crc_envelope := sender, crc_vfs := vfs\<rparr>)\<rparr>))"
proof -
  have "receivedReceipt E sender (enc_u32 E t) (enc_u64 E i) = worker_receipt E sender t i"
    using receivedReceipt_eq env_okD[OF E] by (simp add: worker_receipt_def)
  moreover have "requestRedirected (ClientRequestContext_of t i vfs sender) w = (True,
      w\<lparr>requestContexts := (requestContexts w)((t, i) \<mapsto> c\<lparr>crc_envelope := sender, crc_vfs := vfs\<rparr>)\<rparr>)"
    using known by (simp add: requestRedirected_def ClientRequestContext_of_def SetVersionMessageFlags_def UpdateEnvelope_def)
  ultimately show ?thesis by (simp add: acceptNewRequest_def parse_job[OF E] Let_def del: next_value.simps)
qed

section \<open>The processor\<close>

definition answer_of_processor :: "env \<Rightarrow> LHCVersionFlags \<Rightarrow> RequestType \<Rightarrow> RequestId \<Rightarrow> RequestStatus \<Rightarrow> zmsg \<Rightarrow> zmsg" where
  "answer_of_processor E vfs t i status reply = job_frames E vfs t i (enc_u32 E (RequestStatus_value status) # reply)"

lemma processor_handles:
  assumes E: "env_ok E" and p: "process vfs t i body = Some (status, Some reply)"
    and r: "ret = fst (zmsg_send E (rp_sends p) Processor (answer_of_processor E vfs t i status reply))"
  shows "workerMessagingReactor E process (Some (job_frames E vfs t i body)) p =
    Some (if ret < 0 then ret else 0, p\<lparr>rp_sends := rp_sends p @ [(Processor, answer_of_processor E vfs t i status reply, ret)]\<rparr>)"
proof -
  have ne: "enc_vfs E vfs \<noteq> []" "enc_u32 E t \<noteq> []" "enc_u64 E i \<noteq> []"
    using enc_nonempty[OF env_okD(2)[OF E]] by simp_all
  have "popHeaderFrames E (job_frames E vfs t i body) = Parsed (enc_vfs E vfs, enc_u32 E t, enc_u64 E i, body)"
    using ne E by (auto simp: popHeaderFrames_def job_frames_def env_laws neq_Nil_conv)
  moreover have "parseHeaderFrames E (enc_vfs E vfs) (enc_u32 E t) (enc_u64 E i) = Some (vfs, t, i,
      ZMQFrameHandler_new\<lparr>frameVersionFlags := (True, ucast (lhcmajor (version vfs)), ucast (lhcminor (version vfs)), flags vfs),
        frameUInt32 := (True, t), frameUInt64 := (True, i)\<rparr>)" (is "_ = Some (_, _, _, ?h)")
    by (simp add: parseHeaderFrames_def read_with_enc[OF env_okD(2)[OF E]])
  moreover have "processorResponse E ?h (enc_vfs E vfs) (enc_u32 E t) (enc_u64 E i) status reply =
      answer_of_processor E vfs t i status reply"
    using E by (simp add: processorResponse_def prepend_kept[OF env_okD(1,2)[OF E]] env_laws answer_of_processor_def job_frames_def)
  ultimately show ?thesis
    using p r by (simp add: workerMessagingReactor_def handleRequest_def handleRequest_msg_def Send_def catching_def
        only_negative_def case_prod_unfold)
qed

section \<open>An answer of the processor\<close>

definition finished_frames :: "env \<Rightarrow> frame list \<Rightarrow> LHCVersionFlags \<Rightarrow> RequestType \<Rightarrow> RequestId \<Rightarrow> RequestStatus \<Rightarrow> zmsg \<Rightarrow> zmsg" where
  "finished_frames E sender vfs t i status reply = to_worker E WorkerFinished
     (response_payload E sender vfs t i (enc_u32 E (RequestStatus_value status) # reply))"

lemma parse_answer:
  assumes E: "env_ok E"
  shows "\<exists>h. parseProcessorMessage E (answer_of_processor E vfs t i status reply) = Parsed (h, t, i, RequestStatus_value status) \<and>
    fst (frameUInt32 h)"
  using enc_nonempty[OF env_okD(2)[OF E]] E
  by (simp add: parseProcessorMessage_def answer_of_processor_def job_frames_def read_with_enc env_okD(2))

definition dropped :: "RequestType \<Rightarrow> RequestId \<Rightarrow> Worker \<Rightarrow> Worker" where
  "dropped t i w = w\<lparr>requestTypeContexts := AList.map_entry t (RequestHasFinished i) (requestTypeContexts w),
     requestContexts := (requestContexts w)((t, i) := None)\<rparr>"

lemma answer_forwarded:
  fixes now :: time_t
  assumes E: "env_ok E" and w: "worker_wf w" and c: "requestContexts w (t, i) = Some c"
    and r: "ret = fst (zmsg_send E (wk_sends w) Backend (finished_frames E (crc_envelope c) vfs t i status reply))"
  defines "w1 \<equiv> w\<lparr>wk_currentTime := now, wk_sends := wk_sends w @ [(Backend, finished_frames E (crc_envelope c) vfs t i status reply, ret)],
    workerLastActive := if ret = 0 then now else workerLastActive w\<rparr>"
  shows "requestProcessorReactor E now (Some (answer_of_processor E vfs t i status reply)) w =
    Some (if status = RS_FatalError then (-1, wk_setExitState WE_ProcessorFatalError (dropped t i w1))
          else (if ret < 0 then ret else 0, dropped t i w1))"
proof -
  obtain h where h: "parseProcessorMessage E (answer_of_processor E vfs t i status reply) = Parsed (h, t, i, RequestStatus_value status)"
    "fst (frameUInt32 h)" using parse_answer[OF E] by blast
  let ?w = "wk_updateCurrentTime now w"
  have "i \<in> progress w t" using worker_wfD(4)[OF w, of i t] c by simp
  then obtain tc where tc: "map_of (requestTypeContexts w) t = Some tc" "i \<in> wrtc_inProgressRequests tc"
    by (auto simp: progress_def split: option.splits)
  have fin: "finishedMessage E h (crc_envelope c) (answer_of_processor E vfs t i status reply) = finished_frames E (crc_envelope c) vfs t i status reply"
    using finishedMessage_eq[OF env_okD(1,2)[OF E] h(2)]
    by (simp add: finished_frames_def to_worker_def response_payload_def answer_of_processor_def job_frames_def)
  have st: "RequestStatus_value status = 5 \<longleftrightarrow> status = RS_FatalError"
    by (cases status) simp_all
  have "wk_Send E Backend (finished_frames E (crc_envelope c) vfs t i status reply) ?w =
      (ret, ?w\<lparr>wk_sends := wk_sends w @ [(Backend, finished_frames E (crc_envelope c) vfs t i status reply, ret)]\<rparr>)"
    by (simp add: wk_Send_fields r wk_updateCurrentTime_def)
  then have "forwardAnswer E h t i (RequestStatus_value status) c (answer_of_processor E vfs t i status reply) ?w =
      (let v = withTypeContext t (RequestHasFinished i) w1 in
       if status = RS_FatalError then (-1, wk_setExitState WE_ProcessorFatalError v) else (ret, v))"
    by (cases "ret = 0") (simp_all add: forwardAnswer_def fin w1_def wk_updateCurrentTime_def wk_updateWorkerLastActive_def st Let_def)
  moreover have "eraseRequestContext t i (withTypeContext t (RequestHasFinished i) w1) = dropped t i w1"
    "eraseRequestContext t i (wk_setExitState s v) = wk_setExitState s (eraseRequestContext t i v)" for s v
    by (simp_all add: eraseRequestContext_def withTypeContext_def dropped_def w1_def wk_setExitState_def)
  ultimately have "handleProcessorMessage_msg E (answer_of_processor E vfs t i status reply) ?w =
      (if status = RS_FatalError then (Returns (-1), wk_setExitState WE_ProcessorFatalError (dropped t i w1))
       else (Returns ret, dropped t i w1))"
    using h(1) tc c E by (simp add: handleProcessorMessage_msg_def env_laws wk_updateCurrentTime_def Let_def)
  then show ?thesis
    by (simp add: requestProcessorReactor_def wk_handleProcessorMessage_def catching_def only_negative_def Let_def)
qed

end
