(* ===== verification/WorkerTally.thy ===== *)
theory WorkerTally
  imports WorkerRequests
begin

text \<open>
  The worker's books: every request it gave its processor is still known to it, was answered to the
  broker, or its answer was lost in a send that failed. All is read off the history of sends.
\<close>

section \<open>Reading the history\<close>

text \<open>The request that flags, type and identifier at the head of some frames name.\<close>

definition job_of :: "env \<Rightarrow> frame list \<Rightarrow> (RequestType \<times> RequestId) option" where
  "job_of E fs = (case fs of
     v # t # i # _ \<Rightarrow> do { t \<leftarrow> get_u32 E t; i \<leftarrow> get_u64 E i; Some (t, i) }
   | _ \<Rightarrow> None)"

definition given_job :: "env \<Rightarrow> send_record \<Rightarrow> (RequestType \<times> RequestId) option" where
  "given_job E x = (case x of (socket, m, ret) \<Rightarrow> if socket = Processor \<and> ret = 0 then job_of E m else None)"

text \<open>An answer is a message \<open>[] | WorkerFinished | envelope | [] | BrokerResponse | flags | type | id\<close>.\<close>

definition answered_job :: "env \<Rightarrow> send_record \<Rightarrow> (RequestType \<times> RequestId) option" where
  "answered_job E x = (case x of (socket, m, ret) \<Rightarrow>
     if socket = Backend \<and> 1 < length m \<and> get_u32 E (m ! 1) = Some (ClusterMessage_value WorkerFinished)
     then job_of E (tl (after_envelope (drop 2 m))) else None)"

text \<open>The answer of a send that fails is lost: the worker forgets the request and does not send again.\<close>

definition times_given :: "env \<Rightarrow> RequestType \<times> RequestId \<Rightarrow> Worker \<Rightarrow> nat" where
  "times_given E k w = length (filter (\<lambda>x. given_job E x = Some k) (wk_sends w))"

definition times_finished :: "env \<Rightarrow> RequestType \<times> RequestId \<Rightarrow> Worker \<Rightarrow> nat" where
  "times_finished E k w = length (filter (\<lambda>x. answered_job E x = Some k) (wk_sends w))"

definition times_answered :: "env \<Rightarrow> RequestType \<times> RequestId \<Rightarrow> Worker \<Rightarrow> nat" where
  "times_answered E k w = length (filter (\<lambda>x. answered_job E x = Some k \<and> snd (snd x) = 0) (wk_sends w))"

definition times_lost :: "env \<Rightarrow> RequestType \<times> RequestId \<Rightarrow> Worker \<Rightarrow> nat" where
  "times_lost E k w = length (filter (\<lambda>x. answered_job E x = Some k \<and> snd (snd x) \<noteq> 0) (wk_sends w))"

lemma finished_answered_or_lost: "times_finished E k w = times_answered E k w + times_lost E k w"
proof -
  have "length (filter P xs) = length (filter (\<lambda>x. P x \<and> Q x) xs) + length (filter (\<lambda>x. P x \<and> \<not> Q x) xs)"
    for P Q and xs :: "send_record list" by (induction xs) auto
  then show ?thesis unfolding times_finished_def times_answered_def times_lost_def .
qed

definition balanced :: "env \<Rightarrow> Worker \<Rightarrow> bool" where
  "balanced E w \<longleftrightarrow> (\<forall>k. times_given E k w = times_finished E k w + (if k \<in> dom (requestContexts w) then 1 else 0))"

lemmas tally_defs = balanced_def times_given_def times_finished_def

lemma balanced_cong: "wk_sends w' = wk_sends w \<Longrightarrow> dom (requestContexts w') = dom (requestContexts w) \<Longrightarrow> balanced E w' \<longleftrightarrow> balanced E w"
  unfolding tally_defs by simp

lemma balanced_upd [simp]:
  "balanced E (wk_setExitState s w) \<longleftrightarrow> balanced E w" "balanced E (wk_updateCurrentTime n w) \<longleftrightarrow> balanced E w"
  "balanced E (wk_updateWorkerLastActive n w) \<longleftrightarrow> balanced E w" "balanced E (wk_updateBrokerLastActive n w) \<longleftrightarrow> balanced E w"
  "balanced E (w\<lparr>wk_brokerHeartbeatDelay := d\<rparr>) \<longleftrightarrow> balanced E w" "balanced E (withTypeContext t f w) \<longleftrightarrow> balanced E w"
  by (rule balanced_cong; simp add: wk_upd_defs)+

text \<open>What a worker sends that is neither a request given nor an answer.\<close>

definition quiet :: "env \<Rightarrow> sock \<Rightarrow> zmsg \<Rightarrow> bool" where
  "quiet E s m \<longleftrightarrow> (\<forall>ret. answered_job E (s, m, ret) = None \<and> given_job E (s, m, ret) = None)"

lemma quiet_type:
  assumes "czmq_ok E" "protobuf_ok E" "type \<noteq> WorkerFinished"
  shows "quiet E Backend ([] # enc_u32 E (ClusterMessage_value type) # rest)"
  using assms get_enc(1) by (simp add: quiet_def answered_job_def given_job_def del: ClusterMessage_value.simps)

lemma balanced_quiet: "quiet E s m \<Longrightarrow> balanced E (snd (wk_Send E s m w)) \<longleftrightarrow> balanced E w"
  by (simp add: quiet_def tally_defs wk_Send_fields)

lemma balanced_given:
  assumes "balanced E w" "job_of E m = Some k" "requestContexts w k = None" "fst (zmsg_send E (wk_sends w) Processor m) = 0"
  shows "balanced E ((snd (wk_Send E Processor m w))\<lparr>requestContexts := (requestContexts w)(k \<mapsto> c)\<rparr>)"
  using assms by (auto simp: tally_defs wk_Send_fields given_job_def answered_job_def)

lemma balanced_not_given:
  assumes "balanced E w" "fst (zmsg_send E (wk_sends w) Processor m) \<noteq> 0"
  shows "balanced E (snd (wk_Send E Processor m w))"
  using assms by (simp add: tally_defs wk_Send_fields given_job_def answered_job_def)

lemma balanced_answered:
  assumes "balanced E w" "\<And>ret. answered_job E (Backend, m, ret) = Some k" "requestContexts w k \<noteq> None"
  shows "balanced E ((snd (wk_Send E Backend m w))\<lparr>requestContexts := (requestContexts w)(k := None)\<rparr>)"
  using assms by (auto simp: tally_defs wk_Send_fields given_job_def)

section \<open>Every callback keeps the books\<close>

lemma read_with_value:
  "read_with (get_frame_value_uint32 E) h f = Some (v, h') \<Longrightarrow> get_u32 E f = Some v"
  "read_with (get_frame_value_uint64 E) h f = Some (i, h') \<Longrightarrow> get_u64 E f = Some i"
  by (auto simp: read_with_def read_defs split: prod.splits option.splits)

lemma prepend_any:
  assumes "czmq_ok E" "protobuf_ok E"
  shows "\<exists>f. prepend_message_value_uint32 E h m v = ((0, f # m), h\<lparr>frameUInt32 := (fst (frameUInt32 h), v)\<rparr>) \<and> get_u32 E f = Some v"
proof -
  have "codec_ok (pb_ser_uint32 E) (pb_parse_uint32 E) fst" using assms(2) by (simp add: protobuf_ok_def)
  then obtain f where "pb_ser_uint32 E (fst (frameUInt32 h), v) = Some f" "pb_parse_uint32 E f = Some (fst (frameUInt32 h), v)"
    by (rule codec_okE[where x = "(fst (frameUInt32 h), v)"])
  then show ?thesis using assms(1) by (intro exI[of _ f]) (simp add: write_defs read_defs czmq_laws)
qed

lemma finishedMessage_answers:
  assumes E: "czmq_ok E" "protobuf_ok E" and env: "[] \<notin> set env"
  shows "answered_job E (Backend, finishedMessage E h env m, ret) = job_of E m"
proof -
  obtain f2 where f2: "prepend_message_value_uint32 E h m (ClusterMessage_value BrokerResponse) =
      ((0, f2 # m), h\<lparr>frameUInt32 := (fst (frameUInt32 h), ClusterMessage_value BrokerResponse)\<rparr>)"
    using prepend_any[OF E] by blast
  obtain f1 h' where f1: "prepend_message_value_uint32 E (h\<lparr>frameUInt32 := (fst (frameUInt32 h), ClusterMessage_value BrokerResponse)\<rparr>)
      (env @ [] # f2 # m) (ClusterMessage_value WorkerFinished) = ((0, f1 # env @ [] # f2 # m), h')"
      "get_u32 E f1 = Some (ClusterMessage_value WorkerFinished)"
    using prepend_any[OF E] by blast
  have "after_envelope (env @ [] # f2 # m) = f2 # m" using envelope_split(3) env by (simp add: is_envelope_def)
  then show ?thesis
    using f1 f2 by (simp add: answered_job_def finishedMessage_def prependEnvelope_eq[OF E(1)] czmq_laws[OF E(1)] Let_def
        del: ClusterMessage_value.simps)
qed

lemma parsed_answer_job:
  assumes "parseProcessorMessage E fs = Parsed (h, t, i, st)"
  shows "job_of E fs = Some (t, i)"
  using assms by (auto simp: parseProcessorMessage_def and_then_Parsed next_value_Parsed job_of_def dest!: read_with_value)

lemma processor_message_balanced:
  assumes E: "czmq_ok E" "protobuf_ok E" and w: "worker_wf w" "balanced E w" and r: "handleProcessorMessage_msg E m w = (res, w')"
  shows "balanced E w'"
proof (cases "parseProcessorMessage E (zmsg_frames E m)")
  case (Parsed x)
  obtain h t i st where x: "x = (h, t, i, st)" by (cases x)
  have job: "job_of E m = Some (t, i)" using parsed_answer_job Parsed x E(1) by (simp add: czmq_laws)
  show ?thesis
  proof (cases "requestContexts w (t, i)")
    case None
    then show ?thesis using r Parsed x w(2)
      by (auto simp: handleProcessorMessage_msg_def eraseRequestContext_absent split: option.splits)
  next
    case (Some c)
    have "i \<in> progress w t" using worker_wfD(4)[OF w(1), of i t] Some by simp
    then obtain tc where tc: "map_of (requestTypeContexts w) t = Some tc" "i \<in> wrtc_inProgressRequests tc"
      by (auto simp: progress_def split: option.splits)
    have env: "[] \<notin> set (crc_envelope c)" using worker_wfD(5)[OF w(1) Some] by (simp add: context_ok_def)
    let ?m = "finishedMessage E h (crc_envelope c) m"
    let ?v = "(snd (wk_Send E Backend ?m w))\<lparr>requestContexts := (requestContexts w)((t, i) := None)\<rparr>"
    have v: "balanced E ?v"
      by (rule balanced_answered[OF w(2)]) (simp_all add: finishedMessage_answers[OF E env] job Some)
    have "wk_sends w' = wk_sends ?v \<and> requestContexts w' = requestContexts ?v"
      using r Parsed x tc Some
      by (auto simp: handleProcessorMessage_msg_def forwardAnswer_def wk_Send_fields eraseRequestContext_def wk_upd_defs Let_def
          split: if_splits)
    then show ?thesis using v balanced_cong[of w' ?v] by simp
  qed
qed (use r w in \<open>auto simp: handleProcessorMessage_msg_def\<close>)

lemma receipt_balanced:
  assumes "czmq_ok E" "protobuf_ok E"
  shows "balanced E (sendReceivedReceipt E (if p then Some (receivedReceipt E env tf idf) else None) w) \<longleftrightarrow> balanced E w"
  using balanced_quiet[OF quiet_type[OF assms, of WorkerReceipt]]
  by (simp add: sendReceivedReceipt_def receivedReceipt_eq[OF assms])

lemma accept_balanced:
  assumes E: "czmq_ok E" "protobuf_ok E" and w: "balanced E w" and m: "zmsg_frames E m = v # typeFrame # fs" "get_u32 E typeFrame = Some t"
    and r: "acceptNewRequest E env vfs typeFrame t fs m w = (res, w')"
  shows "balanced E w'"
proof (cases "next_value 1 (frame_and_value (get_u64 E)) fs")
  case (Parsed x)
  obtain idf i rest where x: "x = ((idf, i), rest)" by (metis prod.exhaust)
  let ?c = "ClientRequestContext_of t i vfs env"
  have c: "crc_type ?c = t" "crc_id ?c = i" "crc_vfs ?c = vfs" by (simp_all add: ClientRequestContext_of_def)
  have "fs = idf # rest" "get_u64 E idf = Some i"
    using Parsed x by (auto simp: next_value_Parsed frame_and_value_def)
  then have job: "job_of E m = Some (t, i)" using m E(1) by (simp add: job_of_def czmq_laws)
  show ?thesis
  proof (cases "requestContexts w (t, i)")
    case (Some known)
    let ?v = "w\<lparr>requestContexts := (requestContexts w)((t, i) \<mapsto> SetVersionMessageFlags vfs (UpdateEnvelope ?c known))\<rparr>"
    have "dom (requestContexts ?v) = dom (requestContexts w)" using Some by auto
    then have "balanced E ?v" using w balanced_cong[of ?v w] by simp
    moreover have "w' = sendReceivedReceipt E (if hasAny vfs ReceiptOnReceive then Some (receivedReceipt E env typeFrame idf) else None) ?v"
      using r Parsed x Some c by (simp add: acceptNewRequest_def requestRedirected_def Let_def)
    ultimately show ?thesis using receipt_balanced[OF E] by simp
  next
    case None
    then have run: "(res, w') = apfst Returns (forwardToProcessor E ?c
        (if hasAny vfs ReceiptOnReceive then Some (receivedReceipt E env typeFrame idf) else None) m w)"
      using r Parsed x c by (simp add: acceptNewRequest_def requestRedirected_def Let_def)
    let ?ret = "fst (zmsg_send E (wk_sends w) Processor m)"
    show ?thesis
    proof (cases "?ret = 0")
      case False
      then show ?thesis using run balanced_not_given[OF w False]
        by (simp add: forwardToProcessor_def wk_Send_fields)
    next
      case True
      let ?v = "addRequestContext ?c (withTypeContext t (AddInProgress i) (snd (wk_Send E Processor m w)))"
      have "balanced E ((snd (wk_Send E Processor m w))\<lparr>requestContexts := (requestContexts w)((t, i) \<mapsto> ?c)\<rparr>)"
        by (rule balanced_given[OF w job None True])
      then have "balanced E ?v"
        using None c by (simp add: addRequestContext_def wk_Send_fields) (simp add: tally_defs)
      moreover have "w' = sendReceivedReceipt E (if hasAny vfs ReceiptOnReceive then Some (receivedReceipt E env typeFrame idf) else None) ?v"
        using run True c by (simp add: forwardToProcessor_def wk_Send_fields)
      ultimately show ?thesis using receipt_balanced[OF E] by simp
    qed
  qed
qed (use r w in \<open>auto simp: acceptNewRequest_def\<close>)

lemma new_request_balanced:
  assumes E: "czmq_ok E" "protobuf_ok E" and w: "balanced E w" and r: "handleBrokerNewRequest E m w = Some (res, w')"
  shows "balanced E w'"
proof -
  have a: "balanced E w'" if p: "parseFlagsAndType E (zmsg_frames E m') = Parsed (vfs, tf, t, fs)"
    "acceptNewRequest E env vfs tf t fs m' w = (res, w')" for env vfs tf t fs m'
  proof -
    from p(1) obtain v where "zmsg_frames E m' = v # tf # fs" "get_u32 E tf = Some t"
      by (auto simp: parseFlagsAndType_def and_then_Parsed next_value_Parsed frame_and_value_def)
    from accept_balanced[OF E w this p(2)] show ?thesis .
  qed
  show ?thesis
    using r w a by (auto simp: handleBrokerNewRequest_def parseEnvelope_eq[OF E(1)] split: if_splits parsed.splits prod.splits)
qed

definition wk_beat :: "env \<Rightarrow> Worker \<Rightarrow> zmsg" where
  "wk_beat E w = [] # enc_u32 E (ClusterMessage_value WorkerHeartbeat) # [enc_time E (wk_currentTime w), enc_time E (wk_selfHeartbeatDelay w)]"

lemma wk_sendBrokerHeartbeat_eq:
  assumes "czmq_ok E" "protobuf_ok E"
  shows "wk_sendBrokerHeartbeat E w = (0, if wk_heartbeatNeededAsOf (wk_currentTime w) w
    then (let (ret, v) = wk_Send E Backend (wk_beat E w) w in if ret \<noteq> 0 then v else wk_updateWorkerLastActive (wk_currentTime v) v) else w)"
  using assms by (simp add: wk_sendBrokerHeartbeat_def SendHeartbeat_eq wk_beat_def Send_def czmq_laws wk_Send_fields Let_def case_prod_unfold
      del: ClusterMessage_value.simps)

lemma worker_step_balanced:
  assumes E: "czmq_ok E" "protobuf_ok E" and w: "worker_wf w" "balanced E w" and r: "worker_step E e w = Some (ret, w')"
  shows "balanced E w'"
proof (cases e)
  case (WkBrokerReadable now received)
  show ?thesis
  proof (cases received)
    case None
    then show ?thesis using r WkBrokerReadable w by (auto simp: brokerMessagingReactor_def wk_handleBrokerMessage_def catching_def Let_def)
  next
    case (Some m)
    have hb: "balanced E w'" if "wk_handleBrokerHeartbeat E m v = (res, w')" "balanced E v" for m v res w'
      using that by (auto simp: wk_handleBrokerHeartbeat_def split: prod.splits option.splits list.splits)
    have d: "balanced E v'" if "dispatchToWorker E ty m v = Some (res, v')" "balanced E v" for ty m v res v'
      using that new_request_balanced[OF E that(2)] hb[OF _ that(2)]
      by (auto simp: dispatchToWorker_def split: if_splits)
    obtain res v where v: "wk_handleBrokerMessage_msg E m (wk_updateCurrentTime now w) = Some (res, v)"
      using broker_message_ok[OF E(1), of "wk_updateCurrentTime now w" m] w by auto
    have w': "w' = v \<or> w' = wk_updateBrokerLastActive (wk_currentTime v) v"
      using r WkBrokerReadable Some v
      by (cases res) (simp_all add: brokerMessagingReactor_def wk_handleBrokerMessage_def catching_def Let_def)
    have "balanced E v"
      using v w(2) by (auto simp: wk_handleBrokerMessage_msg_def split: prod.splits option.splits list.splits dest!: d)
    then show ?thesis using w' by auto
  qed
next
  case (WkProcessorReadable now received)
  show ?thesis
  proof (cases received)
    case None
    then show ?thesis using r WkProcessorReadable w
      by (auto simp: requestProcessorReactor_def wk_handleProcessorMessage_def catching_def Let_def)
  next
    case (Some m)
    obtain res v where v: "handleProcessorMessage_msg E m (wk_updateCurrentTime now w) = (res, v)" by fastforce
    have "balanced E v" by (rule processor_message_balanced[OF E _ _ v]) (simp_all add: w)
    then show ?thesis using r WkProcessorReadable Some v
      by (auto simp: requestProcessorReactor_def wk_handleProcessorMessage_def catching_def Let_def)
  qed
next
  case (WkHeartbeatDue now)
  let ?w = "wk_updateCurrentTime now w"
  have "balanced E (snd (wk_Send E Backend (wk_beat E ?w) ?w))"
    using balanced_quiet[OF quiet_type[OF E, of WorkerHeartbeat]] w(2) by (simp add: wk_beat_def)
  moreover obtain ret v where "wk_Send E Backend (wk_beat E ?w) ?w = (ret, v)" by fastforce
  ultimately have "balanced E (snd (wk_sendBrokerHeartbeat E ?w))"
    using w(2) by (simp add: wk_sendBrokerHeartbeat_eq[OF E])
  then show ?thesis using r WkHeartbeatDue by (simp add: heartbeatBrokerReactor_def)
qed (use r w in \<open>auto simp: workerPrimaryControllerReactor_def dumpStatsWorkerReactor_def checkPulseBrokerReactor_def wk_checkBrokerPulse_def split: if_splits\<close>)

section \<open>The states a worker reaches\<close>

text \<open>Callbacks, the ready message of a new turn, and what a turn does to the state besides.\<close>

inductive worker_reachable :: "env \<Rightarrow> Worker \<Rightarrow> bool" for E where
  constructed: "worker_reachable E (Worker_new selfDelay initialDelay pulseDelay types)"
| callback: "worker_reachable E w \<Longrightarrow> worker_step E e w = Some (ret, w') \<Longrightarrow> worker_reachable E w'"
| announced: "worker_reachable E w \<Longrightarrow>
    sendBrokerReadyMessage E (wk_updateCurrentTime later (wk_connecting now w)) = (ret, w') \<Longrightarrow> worker_reachable E w'"
| left_loop: "worker_reachable E w \<Longrightarrow> worker_reachable E (wk_updateCurrentTime now w)"
| not_started: "worker_reachable E w \<Longrightarrow> worker_reachable E (wk_setExitState WE_StartFailed w)"

lemma ready_keeps:
  assumes E: "czmq_ok E" "protobuf_ok E" and r: "sendBrokerReadyMessage E w = (ret, w')"
  shows "worker_wf w' \<longleftrightarrow> worker_wf w" "balanced E w' \<longleftrightarrow> balanced E w" "capacity w' = capacity w"
    "requestContexts w' = requestContexts w" "ret = fst (zmsg_send E (wk_sends w) Backend (readyMessage E w))"
    "wk_sends w' = wk_sends w @ [(Backend, readyMessage E w, ret)]"
proof -
  have q: "balanced E (snd (wk_Send E Backend (readyMessage E w) w)) \<longleftrightarrow> balanced E w"
    by (simp add: readyMessage_eq[OF E] balanced_quiet quiet_type[OF E] del: ClusterMessage_value.simps)
  have "(ret, w') = (fst (wk_Send E Backend (readyMessage E w) w), let v = snd (wk_Send E Backend (readyMessage E w) w) in
      if ret = 0 then wk_updateWorkerLastActive (wk_currentTime v) v else v)"
    using r by (auto simp: sendBrokerReadyMessage_def split: prod.splits)
  then have w': "ret = fst (wk_Send E Backend (readyMessage E w) w)"
    "w' = (if ret = 0 then wk_updateWorkerLastActive (wk_currentTime (snd (wk_Send E Backend (readyMessage E w) w)))
        (snd (wk_Send E Backend (readyMessage E w) w)) else snd (wk_Send E Backend (readyMessage E w) w))"
    by (simp_all add: Let_def)
  show "worker_wf w' \<longleftrightarrow> worker_wf w" "balanced E w' \<longleftrightarrow> balanced E w" using w' q by auto
  show "capacity w' = capacity w" "requestContexts w' = requestContexts w"
    "ret = fst (zmsg_send E (wk_sends w) Backend (readyMessage E w))"
    "wk_sends w' = wk_sends w @ [(Backend, readyMessage E w, ret)]"
    using w' by (simp_all add: wk_Send_fields wk_updateWorkerLastActive_def)
qed

lemma worker_new_balanced: "balanced E (Worker_new d i p types)"
  by (simp add: tally_defs Worker_new_def)

section \<open>What never changes\<close>

definition same_worker :: "Worker \<Rightarrow> Worker \<Rightarrow> bool" where
  "same_worker w w' \<longleftrightarrow> capacity w' = capacity w \<and> supportedRequestTypes w' = supportedRequestTypes w \<and>
     wk_selfHeartbeatDelay w' = wk_selfHeartbeatDelay w"

lemma same_worker_trans: "same_worker a b \<Longrightarrow> same_worker b c \<Longrightarrow> same_worker a c"
  by (simp add: same_worker_def)

lemma same_worker_upd [simp]:
  "same_worker u (wk_setExitState s w) \<longleftrightarrow> same_worker u w" "same_worker u (wk_updateCurrentTime n w) \<longleftrightarrow> same_worker u w"
  "same_worker u (wk_updateWorkerLastActive n w) \<longleftrightarrow> same_worker u w" "same_worker u (wk_updateBrokerLastActive n w) \<longleftrightarrow> same_worker u w"
  "same_worker u (w\<lparr>wk_brokerHeartbeatDelay := d\<rparr>) \<longleftrightarrow> same_worker u w" "same_worker u (withTypeContext t f w) \<longleftrightarrow> same_worker u w"
  "same_worker u (eraseRequestContext t i w) \<longleftrightarrow> same_worker u w" "same_worker u (addRequestContext c w) \<longleftrightarrow> same_worker u w"
  "same_worker u (snd (wk_Send E k m w)) \<longleftrightarrow> same_worker u w" "same_worker u (sendReceivedReceipt E rc w) \<longleftrightarrow> same_worker u w"
  "same_worker u (snd (requestRedirected c w)) \<longleftrightarrow> same_worker u w" "same_worker u (w\<lparr>wk_sends := h\<rparr>) \<longleftrightarrow> same_worker u w"
  "same_worker w w"
  by (simp_all add: same_worker_def wk_upd_defs withTypeContext_def eraseRequestContext_def addRequestContext_def wk_Send_fields
      sendReceivedReceipt_def requestRedirected_def Let_def split: option.splits)

lemma broker_message_same:
  assumes "wk_handleBrokerMessage_msg E m w = Some (res, w')"
  shows "same_worker w w'"
proof -
  have f: "same_worker u (snd (forwardToProcessor E c rc m w))" if "same_worker u w" for u c rc m w
    using that by (simp add: forwardToProcessor_def case_prod_unfold)
  have a: "same_worker w (snd (acceptNewRequest E env vfs tf t fs m w))" for env vfs tf t fs m w
    using f by (simp add: acceptNewRequest_def Let_def case_prod_unfold apfst_def map_prod_def split: parsed.splits)
  have h: "same_worker w (snd (wk_handleBrokerHeartbeat E m w))" for m w
    by (simp add: wk_handleBrokerHeartbeat_def split: prod.splits option.splits list.splits)
  have n: "same_worker w w'" if "handleBrokerNewRequest E m w = Some (res, w')" for m w res w'
    using that a by (auto simp: handleBrokerNewRequest_def split: bind_splits parsed.splits prod.splits if_splits) (metis snd_conv)+
  have "same_worker w w'" if "dispatchToWorker E ty m w = Some (res, w')" for ty m w res w'
    using that n h[of w m] by (auto simp: dispatchToWorker_def split: if_splits)
  then show ?thesis
    using assms by (auto simp: wk_handleBrokerMessage_msg_def split: prod.splits option.splits list.splits)
qed

lemma processor_message_same: "same_worker w (snd (handleProcessorMessage_msg E m w))"
  by (simp add: handleProcessorMessage_msg_def forwardAnswer_def Let_def case_prod_unfold split: parsed.splits option.splits)

lemma worker_step_same:
  assumes E: "czmq_ok E" and w: "worker_wf w" and r: "worker_step E e w = Some (ret, w')"
  shows "same_worker w w'"
proof (cases e)
  case (WkBrokerReadable now received)
  show ?thesis
  proof (cases received)
    case None
    then show ?thesis using r WkBrokerReadable by (auto simp: brokerMessagingReactor_def wk_handleBrokerMessage_def catching_def Let_def)
  next
    case (Some m)
    obtain res v where v: "wk_handleBrokerMessage_msg E m (wk_updateCurrentTime now w) = Some (res, v)"
      using broker_message_ok[OF E, of "wk_updateCurrentTime now w" m] w by auto
    have "same_worker w v" using broker_message_same[OF v] by (simp add: same_worker_def wk_updateCurrentTime_def)
    then show ?thesis using r WkBrokerReadable Some v
      by (cases res) (auto simp: brokerMessagingReactor_def wk_handleBrokerMessage_def catching_def Let_def)
  qed
next
  case (WkProcessorReadable now received)
  have p: "same_worker w (snd (handleProcessorMessage_msg E m (wk_updateCurrentTime now w)))" for m
    using processor_message_same[of "wk_updateCurrentTime now w" E m] by (simp add: same_worker_def wk_updateCurrentTime_def)
  show ?thesis
    using r WkProcessorReadable p
    by (cases received) (auto simp: requestProcessorReactor_def wk_handleProcessorMessage_def catching_def Let_def case_prod_unfold)
qed (use r in \<open>auto simp: heartbeatBrokerReactor_def wk_sendBrokerHeartbeat_def workerPrimaryControllerReactor_def dumpStatsWorkerReactor_def
      checkPulseBrokerReactor_def wk_checkBrokerPulse_def Let_def case_prod_unfold split: if_splits\<close>)

lemma worker_reachable_ok:
  assumes E: "czmq_ok E" "protobuf_ok E" and w: "worker_reachable E w"
  shows "worker_wf w \<and> balanced E w \<and> capacity w = 1"
  using w
proof (induction rule: worker_reachable.induct)
  case (constructed d i p types)
  then show ?case using Worker_new_ok worker_new_balanced by (simp add: Worker_new_def)
next
  case (callback w e ret w')
  then show ?case
    using worker_step_good[OF E(1), of w e] worker_step_balanced[OF E, of w e ret w'] worker_step_same[OF E(1), of w e ret w']
    by (auto simp: same_worker_def)
next
  case (announced w later now ret w')
  then show ?case
    using ready_keeps[OF E announced.hyps(2)] by (simp add: wk_connecting_def Let_def) (simp add: wk_upd_defs)
next
  case (left_loop w now)
  then show ?case by simp (simp add: wk_upd_defs)
next
  case (not_started w)
  then show ?case by simp (simp add: wk_upd_defs)
qed

section \<open>Capacity\<close>

text \<open>What a worker announces is its capacity less the requests it knows of.\<close>

lemma announced_fold:
  "fold (\<lambda>(t, c) free. free - of_nat (card (wrtc_inProgressRequests c))) xs (a :: 32 word) =
    a - of_nat (\<Sum>(t, c) \<leftarrow> xs. card (wrtc_inProgressRequests c))"
  by (induction xs arbitrary: a) auto

lemma dom_contexts:
  assumes w: "worker_wf w"
  shows "dom (requestContexts w) = (SIGMA t : set (supportedRequestTypes w). progress w t)" "finite (dom (requestContexts w))"
proof -
  show dom: "dom (requestContexts w) = (SIGMA t : set (supportedRequestTypes w). progress w t)"
    using worker_wfD(4,5)[OF w] by (auto simp: context_ok_def)
  show "finite (dom (requestContexts w))" unfolding dom using worker_wfD(3)[OF w] by (simp add: finite_SigmaI)
qed

lemma announcedCapacity_eq:
  assumes w: "worker_wf w"
  shows "announcedCapacity w = capacity w - of_nat (card (dom (requestContexts w)))"
proof -
  let ?xs = "requestTypeContexts w" and ?ts = "set (supportedRequestTypes w)"
  note wf = worker_wfD[OF w]
  have d: "distinct (map fst ?xs)" using wf(1) by (simp add: strict_sorted_iff)
  have "(\<Sum>(t, c) \<leftarrow> ?xs. card (wrtc_inProgressRequests c)) = (\<Sum>t \<leftarrow> map fst ?xs. card (progress w t))"
  proof -
    have "\<forall>(t, c) \<in> set ?xs. card (wrtc_inProgressRequests c) = card (progress w t)"
      using d by (auto simp: progress_def)
    then show ?thesis by (auto simp: o_def case_prod_unfold intro!: arg_cong[where f = sum_list])
  qed
  also have "\<dots> = (\<Sum>t \<in> ?ts. card (progress w t))"
    unfolding sum_list_distinct_conv_sum_set[OF d] using wf(2) by simp
  also have "\<dots> = card (SIGMA t : ?ts. progress w t)"
    using wf(3) by (simp add: card_SigmaI)
  also have "(SIGMA t : ?ts. progress w t) = dom (requestContexts w)" using dom_contexts(1)[OF w] ..
  finally show ?thesis by (simp add: announcedCapacity_def announced_fold)
qed

end
