(* ===== verification/WorkerProps.thy ===== *)
theory WorkerProps
  imports WorkerTally BrokerExamples
begin

text \<open>
  The properties of a worker's handlers: what it does with requests and answers, and its books.
\<close>

section \<open>Small workers\<close>

text \<open>A worker for type 1, new, and with request 5 of client 9 in the processor.\<close>

definition idle_worker :: Worker where
  "idle_worker = Worker_new 10 3 7 [1]"

lemma idle_worker_fields [simp]:
  "requestContexts idle_worker = Map.empty" "supportedRequestTypes idle_worker = [1]" "wk_sends idle_worker = []"
  "wk_selfHeartbeatDelay idle_worker = 10" "worker_reachable E idle_worker"
  by (simp_all add: idle_worker_def worker_reachable.constructed) (simp_all add: Worker_new_def)

definition example_context :: ClientRequestContext where
  "example_context = ClientRequestContext_of 1 5 plain [[9]]"

lemma supports:
  assumes E: "env_ok E" and w: "worker_reachable E w"
  shows "worker_wf w" "t \<in> set (supportedRequestTypes w) \<Longrightarrow> map_of (requestTypeContexts w) t \<noteq> None"
  using worker_reachable_ok[OF env_okD(1,2)[OF E] w] supported_context by blast+

section \<open>Requests\<close>

text \<open>What the broker gets for a request that asks for a receipt.\<close>

definition receipts :: "env \<Rightarrow> frame list \<Rightarrow> LHCVersionFlags \<Rightarrow> RequestType \<Rightarrow> RequestId \<Rightarrow> send_record list \<Rightarrow> send_record list" where
  "receipts E sender vfs t i h = (if hasAny vfs ReceiptOnReceive
     then [(Backend, worker_receipt E sender t i, fst (zmsg_send E h Backend (worker_receipt E sender t i)))] else [])"

lemma sendReceivedReceipt_eq:
  "sendReceivedReceipt E (if hasAny vfs ReceiptOnReceive then Some (worker_receipt E sender t i) else None) w =
    w\<lparr>wk_sends := wk_sends w @ receipts E sender vfs t i (wk_sends w)\<rparr>"
  by (simp add: sendReceivedReceipt_def receipts_def wk_Send_fields)

lemma request_run:
  fixes now :: time_t
  assumes E: "env_ok E" and s: "is_envelope sender" "sender \<noteq> []"
    and w: "worker_reachable E w" and t: "t \<in> set (supportedRequestTypes w)"
  shows "\<exists>ret w'. brokerMessagingReactor E now (Some (to_worker E BrokerNewRequest (request_frames E sender vfs t i body))) w =
      Some (ret, w') \<and>
    (case requestContexts w (t, i) of
       Some c \<Rightarrow> ret = 0 \<and> wk_sends w' = wk_sends w @ receipts E sender vfs t i (wk_sends w) \<and>
         requestContexts w' = (requestContexts w)((t, i) \<mapsto> c\<lparr>crc_envelope := sender, crc_vfs := vfs\<rparr>)
     | None \<Rightarrow>
         (let job = job_frames E vfs t i body; given = fst (zmsg_send E (wk_sends w) Processor job);
              h = wk_sends w @ [(Processor, job, given)] in
          if given = 0 then ret = 0 \<and> wk_sends w' = h @ receipts E sender vfs t i h \<and>
            requestContexts w' = (requestContexts w)((t, i) \<mapsto> ClientRequestContext_of t i vfs sender)
          else ret = -1 \<and> wk_sends w' = h \<and> requestContexts w' = requestContexts w \<and>
            wk_exitState w' = WE_ProcessorInaccessable))"
proof -
  let ?w = "wk_updateCurrentTime now w"
  have same: "requestContexts ?w = requestContexts w" "wk_sends ?w = wk_sends w" "requestTypeContexts ?w = requestTypeContexts w"
    by (simp_all add: wk_updateCurrentTime_def)
  have d: "dispatchToWorker E (ClusterMessage_value BrokerNewRequest) (request_frames E sender vfs t i body) ?w =
    Some (acceptNewRequest E sender vfs (enc_u32 E t) t (enc_u64 E i # body) (job_frames E vfs t i body) ?w)"
    by (rule new_request_dispatch[OF E s]) (use supports[OF E w] t same in simp)
  show ?thesis
  proof (cases "requestContexts w (t, i)")
    case (Some c)
    then show ?thesis
      using accept_known[OF E, of ?w t i c sender vfs body] d same
      by (simp add: broker_message_to_worker[OF E] catching_def sendReceivedReceipt_eq wk_updateBrokerLastActive_def
          del: ClusterMessage_value.simps)
  next
    case None
    then show ?thesis
      using accept_new[OF E, of ?w t i _ vfs body sender, OF _ refl] d same
      by (simp add: broker_message_to_worker[OF E] catching_def sendReceivedReceipt_eq wk_updateBrokerLastActive_def
          taken_def wk_setExitState_def Let_def del: ClusterMessage_value.simps)
  qed
qed

lemma good_env_processor [simp]: "processor_ok good_env"
  by (simp add: good_env_def)

lemma good_env_sends [simp]: "fst (zmsg_send good_env h s m) = 0"
  by (simp add: good_env_def ref_env_def)

text \<open>A new worker that has been given one request.\<close>

lemma busy_worker:
  assumes E: "env_ok E" "processor_ok E"
  obtains w where "worker_reachable E w" "requestContexts w = [(1, 5) \<mapsto> example_context]"
    "supportedRequestTypes w = [1]" "wk_sends w = [(Processor, job_frames E plain 1 5 [], 0)]"
proof -
  let ?m = "to_worker E BrokerNewRequest (request_frames E [[9]] plain 1 5 [])"
  have "\<not> hasAny plain ReceiptOnReceive" by (simp add: hasAny_def plain_def flag_defs)
  then obtain w where w: "worker_step E (WkBrokerReadable 100 (Some ?m)) idle_worker = Some (0, w)"
    "requestContexts w = [(1, 5) \<mapsto> example_context]" "wk_sends w = [(Processor, job_frames E plain 1 5 [], 0)]"
    using request_run[OF E(1), of "[[9]]" idle_worker 1 100 plain 5 "[]"] E(2)
    by (auto simp: Let_def receipts_def example_context_def is_envelope_def processor_ok_def)
  have "same_worker idle_worker w"
    by (rule worker_step_same[OF _ _ w(1)]) (simp_all add: env_okD supports(1)[OF E(1)] E(1))
  then show ?thesis
    using that[OF worker_reachable.callback[OF _ w(1)]] w by (simp add: same_worker_def)
qed



section \<open>Answers\<close>

lemma answer_run:
  fixes now :: time_t
  assumes E: "env_ok E" and w: "worker_reachable E w"
  shows "\<exists>ret w'. requestProcessorReactor E now (Some (answer_of_processor E vfs t i status reply)) w = Some (ret, w') \<and>
    requestContexts w' = (requestContexts w)((t, i) := None) \<and>
    (case requestContexts w (t, i) of
       None \<Rightarrow> ret = 0 \<and> wk_sends w' = wk_sends w
     | Some c \<Rightarrow>
         (let m = finished_frames E (crc_envelope c) vfs t i status reply; sent = fst (zmsg_send E (wk_sends w) Backend m) in
          wk_sends w' = wk_sends w @ [(Backend, m, sent)] \<and>
          (if status = RS_FatalError then ret = -1 \<and> wk_exitState w' = WE_ProcessorFatalError
           else ret = (if sent < 0 then sent else 0))))"
proof (cases "requestContexts w (t, i)")
  case (Some c)
  note answer_forwarded[OF E supports(1)[OF E w] Some refl, of now vfs status reply]
  then show ?thesis using Some by (simp add: dropped_def wk_setExitState_def Let_def)
next
  case None
  obtain h where h: "parseProcessorMessage E (answer_of_processor E vfs t i status reply) = Parsed (h, t, i, RequestStatus_value status)"
    using parse_answer[OF E] by blast
  then show ?thesis
    using None E by (cases "map_of (requestTypeContexts w) t")
      (auto simp: requestProcessorReactor_def wk_handleProcessorMessage_def handleProcessorMessage_msg_def env_laws
        wk_updateCurrentTime_def withTypeContext_def eraseRequestContext_def catching_def only_negative_def)
qed

text \<open>
  C11: What a worker does with an answer of its processor. If it knows the request, the answer goes to
  the broker under the envelope kept for it, and the request is forgotten, also when the answer
  cannot be sent; a fatal status, or a failed send, then stops the worker. An answer to a request
  it does not know is dropped.
\<close>

theorem worker_answers_request:
  fixes now :: time_t
  assumes E: "env_ok E" and w: "worker_reachable E w"
  shows "\<exists>ret w'. requestProcessorReactor E now (Some (answer_of_processor E vfs t i status reply)) w = Some (ret, w') \<and>
    requestContexts w' = (requestContexts w)((t, i) := None) \<and>
    (case requestContexts w (t, i) of
       None \<Rightarrow> ret = 0 \<and> wk_sends w' = wk_sends w
     | Some c \<Rightarrow>
         (let m = finished_frames E (crc_envelope c) vfs t i status reply; sent = fst (zmsg_send E (wk_sends w) Backend m) in
          wk_sends w' = wk_sends w @ [(Backend, m, sent)] \<and>
          (if status = RS_FatalError then ret = -1 \<and> wk_exitState w' = WE_ProcessorFatalError
           else ret = (if sent < 0 then sent else 0))))"
  by (rule answer_run[OF assms])

lemma worker_answers_request_witness:
  "\<exists>w w'. worker_reachable good_env w \<and> requestContexts w (1, 5) = Some example_context \<and>
    requestProcessorReactor good_env 120 (Some (answer_of_processor good_env plain 1 5 RS_FatalError [[3]])) w = Some (-1, w') \<and>
    requestContexts w' = Map.empty \<and> wk_exitState w' = WE_ProcessorFatalError \<and>
    wk_sends w' = wk_sends w @ [(Backend, finished_frames good_env [[9]] plain 1 5 RS_FatalError [[3]], 0)]"
proof -
  obtain w where w: "worker_reachable good_env w" "requestContexts w = [(1, 5) \<mapsto> example_context]" by (rule busy_worker[of good_env]) simp_all
  have "requestContexts w (1, 5) = Some example_context" "crc_envelope example_context = [[9]]"
    by (simp_all add: w(2)) (simp add: example_context_def ClientRequestContext_of_def)
  with worker_answers_request[OF _ w(1), of 120 plain 1 5 RS_FatalError "[[3]]"] w show ?thesis
    by (auto simp: Let_def)
qed

section \<open>The books\<close>

text \<open>
  C6: Every request is settled once. At any point of a worker's life, over all its turns, a request was
  given to the processor as often as an answer to it was sent to the broker or was lost in a send
  that failed, and once more exactly if the worker still keeps its envelope.
\<close>

theorem every_request_settled_once:
  assumes E: "env_ok E" and w: "worker_reachable E w"
  shows "times_given E k w = times_answered E k w + times_lost E k w + (if k \<in> dom (requestContexts w) then 1 else 0)"
  using worker_reachable_ok[OF env_okD(1,2)[OF E] w] unfolding balanced_def finished_answered_or_lost by blast

lemma every_request_settled_once_witness:
  "\<exists>w. worker_reachable good_env w \<and> (1, 5) \<in> dom (requestContexts w) \<and> times_answered good_env (1, 5) w = 0 \<and>
    times_lost good_env (1, 5) w = 0 \<and> times_given good_env (1, 5) w = 1"
proof -
  obtain w where w: "worker_reachable good_env w" "requestContexts w = [(1, 5) \<mapsto> example_context]"
      "wk_sends w = [(Processor, job_frames good_env plain 1 5 [], 0)]"
    by (rule busy_worker[of good_env]) simp_all
  have "times_answered good_env (1, 5) w = 0" "times_lost good_env (1, 5) w = 0"
    by (simp_all add: w(3) times_answered_def times_lost_def answered_job_def)
  with every_request_settled_once[OF _ w(1), of "(1, 5)"] w(1,2) show ?thesis by (intro exI[of _ w]) simp
qed

text \<open>
  C7: The worker's tables fit together. Whatever reaches a worker, in whatever order, none of its
  callbacks fails to return or reads outside its tables, and afterwards the contexts stand in the
  order of their types, one for every type the request handler supports and no other; a request is
  in progress in the context of its type exactly if its envelope is kept; that envelope is not
  empty and has no empty frame.
\<close>

theorem worker_tables_fit:
  assumes E: "env_ok E" and w: "worker_reachable E w"
  shows "\<exists>ret w'. worker_step E e w = Some (ret, w') \<and>
    sorted_wrt (<) (map fst (requestTypeContexts w')) \<and>
    fst ` set (requestTypeContexts w') = set (supportedRequestTypes w) \<and>
    (\<forall>t i. (\<exists>c. map_of (requestTypeContexts w') t = Some c \<and> i \<in> wrtc_inProgressRequests c) \<longleftrightarrow> (t, i) \<in> dom (requestContexts w')) \<and>
    (\<forall>k c. requestContexts w' k = Some c \<longrightarrow> (crc_type c, crc_id c) = k \<and> crc_envelope c \<noteq> [] \<and> [] \<notin> set (crc_envelope c))"
proof -
  obtain ret w' where r: "worker_step E e w = Some (ret, w')" "worker_wf w'"
    using worker_step_good[OF env_okD(1)[OF E] supports(1)[OF E w]] by blast
  have "supportedRequestTypes w' = supportedRequestTypes w"
    using worker_step_same[OF env_okD(1)[OF E] supports(1)[OF E w] r(1)] by (simp add: same_worker_def)
  note wf = worker_wfD[OF r(2), unfolded this]
  have "(\<exists>c. map_of (requestTypeContexts w') t = Some c \<and> i \<in> wrtc_inProgressRequests c) \<longleftrightarrow> i \<in> progress w' t" for t i
    by (auto simp: progress_def split: option.splits)
  then show ?thesis
    by (intro exI[of _ ret] exI[of _ w'] conjI allI impI; use r(1) wf in \<open>auto simp: context_ok_def\<close>)
qed

lemma worker_tables_fit_witness:
  "\<exists>w ret w'. worker_reachable good_env w \<and> (1, 5) \<in> dom (requestContexts w) \<and>
    worker_step good_env (WkProcessorReadable 120 (Some [[], [4]])) w = Some (ret, w') \<and>
    fst ` set (requestTypeContexts w') = {1}"
proof -
  obtain w where w: "worker_reachable good_env w" "requestContexts w = [(1, 5) \<mapsto> example_context]" "supportedRequestTypes w = [1]"
    by (rule busy_worker[of good_env]) simp_all
  from worker_tables_fit[OF _ w(1), of "WkProcessorReadable 120 (Some [[], [4]])"] w(3)
  obtain ret w' where r: "worker_step good_env (WkProcessorReadable 120 (Some [[], [4]])) w = Some (ret, w')"
    "fst ` set (requestTypeContexts w') = {1}" by auto
  have "(1, 5) \<in> dom (requestContexts w)" by (simp add: w(2))
  then show ?thesis using w(1) r by blast
qed

end
