(* ===== verification/WorkerLifecycleProps.thy ===== *)
theory WorkerLifecycleProps
  imports WorkerProps
begin

text \<open>
  The properties of a worker's turns: what it announces to a broker, also after the first broker has
  died, and that it releases what it takes.
\<close>

section \<open>Joining a broker\<close>

lemma announced:
  assumes E: "env_ok E" and w: "worker_reachable E w"
  shows "announcedCapacity w = 1 - of_nat (card (dom (requestContexts w)))"
  using announcedCapacity_eq worker_reachable_ok[OF env_okD(1,2)[OF E] w] by simp

text \<open>A worker's announcement read by the broker: the type of a number on the wire is not checked.\<close>

lemma parse_announcement:
  assumes E: "env_ok E" and wire: "wire_types_ok E" and n: "0 \<le> sint cap" "types \<noteq> []"
  shows "parseWorkerReady E (enc_vfs E vfs # enc_u32 E cap # enc_time E delay # map (enc_u32 E) types) =
    Parsed (vfs, sint cap, 0, types)"
proof -
  have ne: "enc_vfs E vfs \<noteq> []" "enc_u32 E n \<noteq> []" "enc_time E delay \<noteq> []" for n
    using enc_nonempty[OF env_okD(2)[OF E]] by simp_all
  have "pb_ser_time E (True, delay) = Some (enc_time E delay)" "pb_ser_uint32 E (True, cap) = Some (enc_u32 E cap)"
    using env_okD(2)[OF E] by (simp_all add: pb_ser_Some)
  then have "get_i32 E (enc_time E delay) = Some 0" "get_i32 E (enc_u32 E cap) = Some (sint cap)"
    using wire by (simp_all add: wire_types_ok_def read_defs)
  then show ?thesis
    using E ne n by (cases types) (simp_all add: parseWorkerReady_def env_laws parseRequestTypes_enc)
qed

lemma joins:
  assumes E: "env_ok E" and wire: "wire_types_ok E" and i: "ident \<noteq> []"
    and w: "worker_reachable E w" "card (dom (requestContexts w)) \<le> 1"
    and ts: "supportedRequestTypes w \<noteq> []" "distinct (supportedRequestTypes w)"
    and b: "LookupWorkerInfo (workerInfoLookup b) ident = None" "nothing_pending (supportedRequestTypes w) b"
  shows "\<exists>b' wi. backendMessagingReactor E now (Some (ident # readyMessage E w)) b = Some (0, b') \<and>
    workerInfoLookup b' = workerInfoLookup b @ [(ident, nextAddr b)] \<and> workerHeap b' (nextAddr b) = Some wi \<and>
    wi_supportedRequestTypes wi = supportedRequestTypes w \<and> wi_heartbeatSendDelay wi = 0 \<and>
    FreeCapacity wi = 1 - int (card (dom (requestContexts w))) \<and>
    (\<forall>t \<in> set (supportedRequestTypes w). \<exists>c'. requestTypeContextLookup b' t = Some c' \<and>
      set (ctx_availableWorkers c') = (if requestContexts w = Map.empty then {nextAddr b} else {}) \<union>
        (case requestTypeContextLookup b t of None \<Rightarrow> {} | Some c \<Rightarrow> set (ctx_availableWorkers c)))"
proof -
  let ?n = "card (dom (requestContexts w))" and ?ts = "supportedRequestTypes w"
  define wi where "wi = WorkerInfo_new ident now (word_of_int (sint (1 - of_nat ?n :: 32 word))) ?ts 0 LHCVersionFlags_default"
  let ?b = "(with_worker wi (updateCurrentTime now b))\<lparr>inbox := None\<rparr>"
  have n: "sint (1 - of_nat ?n :: 32 word) = 1 - int ?n" and n0: "0 \<le> sint (1 - of_nat ?n :: 32 word)"
    using w(2) by (auto simp: le_Suc_eq)
  have m: "ident # readyMessage E w = worker_message E ident WorkerReady
      (enc_vfs E LHCVersionFlags_default # enc_u32 E (1 - of_nat ?n) # enc_time E (wk_selfHeartbeatDelay w) # map (enc_u32 E) ?ts)"
    by (simp add: readyMessage_eq[OF env_okD(1,2)[OF E]] worker_message_def announced[OF E w(1)])
  have run: "backendMessagingReactor E now (Some (ident # readyMessage E w)) b = Some (0, ?b)"
    unfolding m wi_def by (rule ready_idle_parsed[OF E i b(1) parse_announcement[OF E wire n0 ts(1)] ts(2) b(2)])
  have cap: "FreeCapacity wi = 1 - int ?n" using n by (simp add: FreeCapacity_def WorkerInfo_new_def wi_def)
  have free: "0 < FreeCapacity wi \<longleftrightarrow> requestContexts w = Map.empty"
    unfolding cap using dom_contexts(2)[OF supports(1)[OF E w(1)]] w(2) by (auto simp: le_Suc_eq)
  have fields: "wi_supportedRequestTypes wi = ?ts" "wi_heartbeatSendDelay wi = 0" "wi_identity wi = ident"
    by (simp_all add: WorkerInfo_new_def wi_def)
  show ?thesis
  proof (intro exI[of _ ?b] exI[of _ wi] conjI ballI)
    fix t assume "t \<in> set ?ts"
    then show "\<exists>c'. requestTypeContextLookup ?b t = Some c' \<and>
      set (ctx_availableWorkers c') = (if requestContexts w = Map.empty then {nextAddr b} else {}) \<union>
        (case requestTypeContextLookup b t of None \<Rightarrow> {} | Some c \<Rightarrow> set (ctx_availableWorkers c))"
      by (cases "requestTypeContextLookup b t")
        (simp_all add: with_worker_def joined_def updateCurrentTime_def free fields AddAvailableWorker_def
          IncrementNumWorkers_def BrokerRequestTypeContext_new_def insert_absorb)
  qed (simp_all add: run with_worker_def updateCurrentTime_def cap fields)
qed

text \<open>
  C17: A worker that has at most one request joins a broker that does not know it and has nothing
  waiting for its types. From the worker's ready message the broker reads its types and the
  capacity it has left, and offers it for those types exactly if it is idle. The delay between its
  heartbeats, which the worker sends as a time, the broker takes to be zero.
\<close>

theorem worker_joins_broker:
  assumes E: "env_ok E" and wire: "wire_types_ok E" and i: "ident \<noteq> []"
    and w: "worker_reachable E w" "card (dom (requestContexts w)) \<le> 1"
    and ts: "supportedRequestTypes w \<noteq> []" "distinct (supportedRequestTypes w)"
    and b: "LookupWorkerInfo (workerInfoLookup b) ident = None" "nothing_pending (supportedRequestTypes w) b"
  shows "\<exists>b' wi. backendMessagingReactor E now (Some (ident # readyMessage E w)) b = Some (0, b') \<and>
    workerInfoLookup b' = workerInfoLookup b @ [(ident, nextAddr b)] \<and> workerHeap b' (nextAddr b) = Some wi \<and>
    wi_supportedRequestTypes wi = supportedRequestTypes w \<and> wi_heartbeatSendDelay wi = 0 \<and>
    FreeCapacity wi = 1 - int (card (dom (requestContexts w))) \<and>
    (\<forall>t \<in> set (supportedRequestTypes w). \<exists>c'. requestTypeContextLookup b' t = Some c' \<and>
      set (ctx_availableWorkers c') = (if requestContexts w = Map.empty then {nextAddr b} else {}) \<union>
        (case requestTypeContextLookup b t of None \<Rightarrow> {} | Some c \<Rightarrow> set (ctx_availableWorkers c)))"
  by (rule joins[OF assms])

lemma worker_joins_broker_witness:
  "\<exists>b' wi. backendMessagingReactor (typed_env (\<lambda>_ _. False)) 100 (Some ([7] # readyMessage (typed_env (\<lambda>_ _. False)) idle_worker)) fresh_broker =
      Some (0, b') \<and> workerHeap b' 0 = Some wi \<and> FreeCapacity wi = 1 \<and> wi_heartbeatSendDelay wi = 0 \<and> wk_selfHeartbeatDelay idle_worker = 10"
  using worker_joins_broker[of "typed_env (\<lambda>_ _. False)" "[7]" idle_worker fresh_broker 100]
  by (simp add: LookupWorkerInfo_def nothing_pending_def) blast

section \<open>After the death of a broker\<close>

lemma begin_keeps:
  assumes E: "env_ok E" and r: "wk_begin_turn W E turn s = Some (n, s')"
  shows "requestContexts (th_worker s') = requestContexts (th_worker s)"
    "\<exists>ret. wk_sends (th_worker s') = wk_sends (th_worker s) @ [(Backend, readyMessage E (th_worker s), ret)]"
    "worker_reachable E (th_worker s) \<Longrightarrow> worker_reachable E (th_worker s')"
proof -
  let ?w = "wk_updateCurrentTime (turn_announces turn) (wk_connecting (turn_begins turn) (th_worker s))"
  have same: "readyMessage E ?w = readyMessage E (th_worker s)" "requestContexts ?w = requestContexts (th_worker s)"
    "wk_sends ?w = wk_sends (th_worker s)"
    by (simp_all add: readyMessage_def announcedCapacity_def wk_connecting_def wk_upd_defs)
  obtain ret w' where w': "sendBrokerReadyMessage E ?w = (ret, w')" by fastforce
  have "th_worker s' = w'" using r w' by (auto simp: wk_begin_turn_def Let_def split: prod.splits if_splits)
  then show "requestContexts (th_worker s') = requestContexts (th_worker s)"
    "\<exists>ret. wk_sends (th_worker s') = wk_sends (th_worker s) @ [(Backend, readyMessage E (th_worker s), ret)]"
    "worker_reachable E (th_worker s) \<Longrightarrow> worker_reachable E (th_worker s')"
    using ready_keeps(4,6)[OF env_okD(1,2)[OF E] w'] same worker_reachable.announced[OF _ w'] by auto
qed

lemma end_keeps:
  assumes "wk_end_turn W E turn s = Some s'"
  shows "th_worker s' = th_worker s" "Destroy WK_processor \<in> set (drop (length (calls (th_host s))) (calls (th_host s')))"
  using assms by (auto simp: wk_end_turn_def Let_def worker_host_defs host_defs split: bind_splits)

text \<open>
  C18: A request that is with the processor when a worker loses its broker costs the worker its capacity
  for good. The worker ends its turn, which destroys the socket the answer would arrive on, and in
  its next turn announces itself, still counting the request: a broker that does not know it
  registers it without any capacity and offers it for no type.
\<close>

theorem lost_request_fills_worker:
  assumes E: "env_ok E" and wire: "wire_types_ok E" and i: "ident \<noteq> []"
    and w: "worker_reachable E (th_worker s)" "requestContexts (th_worker s) = [k \<mapsto> c]"
    and ts: "supportedRequestTypes (th_worker s) \<noteq> []" "distinct (supportedRequestTypes (th_worker s))"
    and turns: "wk_end_turn W E turn s = Some s1" "wk_begin_turn W E turn' s1 = Some (n, s2)"
    and b: "LookupWorkerInfo (workerInfoLookup b) ident = None" "nothing_pending (supportedRequestTypes (th_worker s)) b"
  shows "requestContexts (th_worker s2) = [k \<mapsto> c] \<and>
    Destroy WK_processor \<in> set (drop (length (calls (th_host s))) (calls (th_host s1))) \<and>
    (\<exists>m ret b' wi. wk_sends (th_worker s2) = wk_sends (th_worker s) @ [(Backend, m, ret)] \<and>
      backendMessagingReactor E now (Some (ident # m)) b = Some (0, b') \<and>
      workerHeap b' (nextAddr b) = Some wi \<and> FreeCapacity wi = 0 \<and>
      (\<forall>t \<in> set (supportedRequestTypes (th_worker s)). \<exists>c'. requestTypeContextLookup b' t = Some c' \<and>
        set (ctx_availableWorkers c') = (case requestTypeContextLookup b t of None \<Rightarrow> {} | Some c \<Rightarrow> set (ctx_availableWorkers c))))"
proof -
  have "card (dom (requestContexts (th_worker s))) = 1" "requestContexts (th_worker s) \<noteq> Map.empty" using w(2) by simp_all
  with joins[OF E wire i w(1) _ ts b, of now] begin_keeps(1,2)[OF E turns(2)] end_keeps[OF turns(1)] w(2)
  show ?thesis by (simp del: fun_upd_apply) blast
qed

text \<open>Every call outside succeeds.\<close>

fun all_succeeds :: "('s, 't) host_env" where
  "all_succeeds h (Create s type) = 1"
| "all_succeeds h zloop_new = 1"
| "all_succeeds h NewThread = 1"
| "all_succeeds h c = 0"

definition good_world :: worker_world where
  "good_world = \<lparr> world_host = all_succeeds, world_processor_host = all_succeeds,
     world_endpoints = \<lparr> wk_selfMessagingEndpoint = ''w'', wk_brokerMessagingEndpoint = ''b'', wk_selfControllerEndpoint = ''c'',
       wk_processorEndpoints = \<lparr> rp_selfMessagingEndpoint = ''p'', rp_selfControllerEndpoint = ''q'' \<rparr> \<rparr>,
     world_process = (\<lambda>_ _ _ body. Some (RS_Succeeded, Some body)) \<rparr>"

definition example_turn :: worker_turn where
  "example_turn = \<lparr> turn_begins = 100, turn_announces = 101, turn_ends = 130, turn_events = [WkPulseDue 130], turn_requests = [] \<rparr>"

lemma lost_request_fills_worker_witness:
  "\<exists>s s1 s2 n b' m wi. requestContexts (th_worker s) = [(1, 5) \<mapsto> example_context] \<and>
    wk_end_turn good_world (typed_env (\<lambda>_ _. False)) example_turn s = Some s1 \<and>
    wk_begin_turn good_world (typed_env (\<lambda>_ _. False)) example_turn s1 = Some (n, s2) \<and>
    backendMessagingReactor (typed_env (\<lambda>_ _. False)) 100 (Some ([7] # m)) fresh_broker = Some (0, b') \<and>
    workerHeap b' 0 = Some wi \<and> FreeCapacity wi = 0"
proof -
  let ?E = "typed_env (\<lambda>_ _. False)"
  obtain w where w: "worker_reachable ?E w" "requestContexts w = [(1, 5) \<mapsto> example_context]" "supportedRequestTypes w = [1]"
    by (rule busy_worker[of ?E]) simp_all
  let ?s = "\<lparr> th_host = new_host, th_processor_host = new_host, th_processor = RequestProcessor_new, th_worker = w \<rparr>"
  obtain s1 where s1: "wk_end_turn good_world ?E example_turn ?s = Some s1" "present (th_processor_host s1) = {RP_primary, RP_secondary}"
    by (simp add: wk_end_turn_def Let_def case_prod_unfold RequestProcessor_Stop_def rp_host_defs host_defs good_world_def new_host_def) blast
  obtain n s2 where s2: "wk_begin_turn good_world ?E example_turn s1 = Some (n, s2)"
    using s1(2) by (simp add: wk_begin_turn_def Let_def case_prod_unfold rp_host_defs host_defs good_world_def)
  have b: "LookupWorkerInfo (workerInfoLookup fresh_broker) [7] = None" "nothing_pending [1] fresh_broker"
    by (simp_all add: LookupWorkerInfo_def nothing_pending_def)
  have "worker_reachable ?E (th_worker ?s)" "requestContexts (th_worker ?s) = [(1, 5) \<mapsto> example_context]"
    "supportedRequestTypes (th_worker ?s) = [1]" using w by simp_all
  with lost_request_fills_worker[of ?E "[7]" ?s "(1, 5)" example_context, OF _ _ _ _ _ _ _ s1(1) s2, of fresh_broker 100] b
  obtain m b' wi where "backendMessagingReactor ?E 100 (Some ([7] # m)) fresh_broker = Some (0, b')"
    "workerHeap b' 0 = Some wi" "FreeCapacity wi = 0"
    by fastforce
  with s1(1) s2 w(2) show ?thesis by (intro exI conjI) simp_all
qed

section \<open>Resources\<close>

text \<open>While its thread runs, a worker listens for the command to stop.\<close>

definition wk_listening :: "WorkerEndpoints \<Rightarrow> (worker_socket, worker_timer) resources" where
  "wk_listening eps = \<lparr> bound = {(WK_listener, wk_selfControllerEndpoint eps)},
     connected = {(WK_signaler, wk_selfControllerEndpoint eps)}, reading = {WK_listener}, ticking = {} \<rparr>"

definition rp_listening :: "RequestProcessorEndpoints \<Rightarrow> (processor_socket, unit) resources" where
  "rp_listening eps = \<lparr> bound = {(RP_secondary, rp_selfControllerEndpoint eps)},
     connected = {(RP_primary, rp_selfControllerEndpoint eps)}, reading = {RP_secondary}, ticking = {} \<rparr>"

text \<open>A processor that is started asks for what it hears the command to stop with.\<close>

lemma processor_start_asks:
  assumes "run_state (RequestProcessor_Start H eps) h = (True, h')"
  shows "asked_for h = no_resources \<Longrightarrow> asked_for h' = rp_listening eps" "reactorThread h'"
    "calls h' = calls h @ [Bind RP_secondary (rp_selfControllerEndpoint eps), Connect RP_primary (rp_selfControllerEndpoint eps),
      zloop_reader RP_secondary, NewThread]"
  using assms by (auto simp: rp_host_defs host_defs resources_eq_iff rp_listening_def split: if_splits)

lemma processor_stop_calls:
  assumes h: "reactorThread h" and r: "RequestProcessor_Stop H eps E process ms (h, p) = Some (h', p')"
  shows "calls h' = calls h @ [SignalOn RP_primary 0, Bind RP_messaging (rp_selfMessagingEndpoint eps), zloop_reader RP_messaging,
      zloop_reader_end RP_messaging, UnBind RP_messaging (rp_selfMessagingEndpoint eps), Destroy RP_messaging, Create RP_messaging Pair,
      JoinThread, zloop_reader_end RP_secondary, DisConnect RP_primary (rp_selfControllerEndpoint eps),
      UnBind RP_secondary (rp_selfControllerEndpoint eps), Destroy RP_primary, Create RP_primary Pair, Destroy RP_secondary,
      Create RP_secondary Pair]" "\<not> reactorThread h'"
proof -
  let ?h = "snd (run_state (invoke H (SignalOn RP_primary 0)) h)"
  obtain h1 p1 where t: "RequestProcessor_StartAsPrimary H eps E process ms (?h, p) = Some (h1, p1)"
    using r h by (auto simp: RequestProcessor_Stop_def split: bind_splits)
  have "RP_messaging \<in> present ?h"
    using t by (rule contrapos_pp) (simp add: RequestProcessor_StartAsPrimary_def rp_activateMessagingSockets_def)
  moreover have "h1 = snd (run_state (rp_after_loop H eps) (snd (run_state (rp_setupMessagingCallbacks H)
      (snd (run_state (rp_activateMessagingSockets H eps) ?h)))))"
    using t by (auto simp: RequestProcessor_StartAsPrimary_def Let_def split: prod.splits if_splits bind_splits)
  ultimately have h1: "calls h1 = calls h @ [SignalOn RP_primary 0, Bind RP_messaging (rp_selfMessagingEndpoint eps), zloop_reader RP_messaging,
      zloop_reader_end RP_messaging, UnBind RP_messaging (rp_selfMessagingEndpoint eps), Destroy RP_messaging, Create RP_messaging Pair]"
    by (simp add: rp_host_defs host_defs)
  let ?h1 = "(snd (run_state (invoke H JoinThread) h1))\<lparr>reactorThread := False\<rparr>"
  have "h' = snd (run_state (rp_deactivateControllerSockets H eps) (snd (run_state (rp_teardownControllerCallbacks H) ?h1)))"
    using r h t by (simp add: RequestProcessor_Stop_def Let_def case_prod_unfold)
  then show "calls h' = calls h @ [SignalOn RP_primary 0, Bind RP_messaging (rp_selfMessagingEndpoint eps), zloop_reader RP_messaging,
      zloop_reader_end RP_messaging, UnBind RP_messaging (rp_selfMessagingEndpoint eps), Destroy RP_messaging, Create RP_messaging Pair,
      JoinThread, zloop_reader_end RP_secondary, DisConnect RP_primary (rp_selfControllerEndpoint eps),
      UnBind RP_secondary (rp_selfControllerEndpoint eps), Destroy RP_primary, Create RP_primary Pair, Destroy RP_secondary,
      Create RP_secondary Pair]" "\<not> reactorThread h'"
    by (simp_all add: rp_host_defs host_defs h1)
qed

text \<open>A turn of the processor's host: whatever its calls answer, its sockets are destroyed at the end.\<close>

lemma processor_turn_releases:
  assumes "granted H h = no_resources" "run_state (RequestProcessor_Start H eps) h = (True, h1)"
    and "RequestProcessor_Stop H eps E process ms (h1, p) = Some (h', p')"
  shows "granted H h' = no_resources \<and> \<not> reactorThread h'"
proof -
  note start = processor_start_asks(2,3)[OF assms(2)]
  note stop = processor_stop_calls[OF start(1) assms(3)]
  have "within (granted H h) no_resources" using assms(1) by simp
  from granted_at_most[OF stop(1) granted_at_most[OF start(2) this]] stop(2) show ?thesis
    by (auto simp: within_def resources_eq_iff)
qed

lemma turn_hosts:
  assumes "wk_begin_turn W E turn s = Some (n, s1)"
  defines "H \<equiv> world_host W" and "eps \<equiv> world_endpoints W"
  shows "\<exists>w. th_host s1 = snd (run_state (wk_setupProcessorCallbacks H) (snd (run_state (wk_before_processor H eps w) (th_host s))))"
    "run_state (RequestProcessor_Start (world_processor_host W) (wk_processorEndpoints eps)) (th_processor_host s) = (True, th_processor_host s1)"
proof -
  let ?start = "run_state (RequestProcessor_Start (world_processor_host W) (wk_processorEndpoints eps)) (th_processor_host s)"
  from assms(1) have "fst ?start \<and> th_processor_host s1 = snd ?start"
    by (auto simp: wk_begin_turn_def Let_def eps_def split: prod.splits if_splits)
  then show "?start = (True, th_processor_host s1)" by (cases ?start) simp
  show "\<exists>w. th_host s1 = snd (run_state (wk_setupProcessorCallbacks H) (snd (run_state (wk_before_processor H eps w) (th_host s))))"
    using assms(1)
    by (intro exI[of _ "wk_connecting (turn_begins turn) (th_worker s)"])
      (auto simp: wk_begin_turn_def Let_def H_def eps_def split: prod.splits if_splits)
qed

lemma end_hosts:
  assumes "wk_end_turn W E turn s = Some s'"
  defines "H \<equiv> world_host W" and "eps \<equiv> world_endpoints W"
  shows "th_host s' = snd (run_state (wk_after_processor H eps) (snd (run_state (wk_teardownProcessorCallbacks H) (th_host s))))"
    "RequestProcessor_Stop (world_processor_host W) (wk_processorEndpoints eps) E (world_process W) (turn_requests turn)
      (th_processor_host s, th_processor s) = Some (th_processor_host s', th_processor s')"
  using assms(1) by (auto simp: wk_end_turn_def Let_def H_def eps_def split: prod.splits bind_splits)

text \<open>
  What the thread of a worker may hold at most between two turns: what it listens with, and the
  addresses of its messaging socket, which it does not destroy.
\<close>

definition wk_between_turns :: "WorkerEndpoints \<Rightarrow> (worker_socket, worker_timer) resources" where
  "wk_between_turns eps = \<lparr> bound = {(WK_listener, wk_selfControllerEndpoint eps), (WK_messaging, wk_selfMessagingEndpoint eps)},
     connected = {(WK_signaler, wk_selfControllerEndpoint eps), (WK_messaging, wk_brokerMessagingEndpoint eps)},
     reading = {WK_listener}, ticking = UNIV \<rparr>"

lemma worker_host_turn:
  assumes "h1 = snd (run_state (wk_setupProcessorCallbacks H) (snd (run_state (wk_before_processor H eps w) h)))"
    and "h2 = h1 \<or> h2 = snd (run_state (invoke H (SleepFor d)) h1)"
    and "h' = snd (run_state (wk_after_processor H eps) (snd (run_state (wk_teardownProcessorCallbacks H) h2)))"
  shows "asked_for h = wk_listening eps \<Longrightarrow> asked_for h' = wk_listening eps"
    "within (granted H h) (wk_between_turns eps) \<Longrightarrow> within (granted H h') (wk_between_turns eps)"
proof -
  show "asked_for h = wk_listening eps \<Longrightarrow> asked_for h' = wk_listening eps"
    using assms(2) unfolding assms(3,1)
    by (elim disjE; simp add: worker_host_defs host_defs resources_eq_iff) (auto simp: wk_listening_def)
  assume w: "within (granted H h) (wk_between_turns eps)"
  have c1: "calls h1 = calls h @ [Bind WK_messaging (wk_selfMessagingEndpoint eps), Connect WK_messaging (wk_brokerMessagingEndpoint eps),
      Connect WK_processor (rp_selfMessagingEndpoint (wk_processorEndpoints eps)), zloop_reader WK_messaging,
      zloop_timer WK_checkPulseBroker (1000 * wk_brokerPulseDelay w), zloop_timer WK_heartbeatBroker (1000 * wk_brokerHeartbeatDelay w),
      zloop_timer WK_dumpStats 5000, zloop_reader WK_processor]"
    by (simp add: assms(1) worker_host_defs)
  obtain cs where c2: "calls h2 = calls h1 @ cs" "set cs \<subseteq> {SleepFor d}" using assms(2) by auto
  have c3: "calls h' = calls h2 @ [zloop_reader_end WK_processor, zloop_reader_end WK_messaging, zloop_timer_end WK_heartbeatBroker,
      zloop_timer_end WK_checkPulseBroker, zloop_timer_end WK_dumpStats, DisConnect WK_messaging (wk_brokerMessagingEndpoint eps),
      UnBind WK_messaging (wk_selfMessagingEndpoint eps), DisConnect WK_processor (wk_selfMessagingEndpoint eps),
      Destroy WK_processor, Create WK_processor Pair]"
    by (simp add: assms(3) worker_host_defs host_defs)
  have "fold at_most cs R = R" for R :: "(worker_socket, worker_timer) resources"
    using c2(2) by (induction cs arbitrary: R) auto
  with granted_at_most[OF c3 granted_at_most[OF c2(1) granted_at_most[OF c1 w]]]
  show "within (granted H h') (wk_between_turns eps)" by (auto simp: within_def wk_between_turns_def)
qed

lemma turn_parts:
  assumes "worker_turn_of W E turn s = Some (Some g, s')"
  shows "\<exists>n s1 s2. wk_begin_turn W E turn s = Some (n, s1) \<and> wk_end_turn W E turn s2 = Some s' \<and>
    th_processor_host s2 = th_processor_host s1 \<and>
    (th_host s2 = th_host s1 \<or> th_host s2 = snd (run_state (invoke (world_host W) (SleepFor 1000)) (th_host s1))) \<and>
    g = wk_goes_on (wk_exitState (th_worker s'))"
proof -
  obtain n s1 where s1: "wk_begin_turn W E turn s = Some (n, s1)"
    using assms by (auto simp: worker_turn_of_def split: bind_splits)
  then show ?thesis
    using assms by (cases "n = 0") (auto simp: worker_turn_of_def split: bind_splits if_splits)
qed

text \<open>What every turn keeps, and the worker's thread begins with.\<close>

definition turn_inv :: "worker_world \<Rightarrow> WorkerThread \<Rightarrow> bool" where
  "turn_inv W s \<longleftrightarrow> asked_for (th_host s) = wk_listening (world_endpoints W) \<and>
     within (granted (world_host W) (th_host s)) (wk_between_turns (world_endpoints W)) \<and>
     granted (world_processor_host W) (th_processor_host s) = no_resources"

lemma turn_releases:
  assumes t: "worker_turn_of W E turn s = Some (Some g, s')" and i: "turn_inv W s"
  shows "turn_inv W s' \<and> \<not> reactorThread (th_processor_host s') \<and> g = wk_goes_on (wk_exitState (th_worker s'))"
proof -
  obtain n s1 s2 where s1: "wk_begin_turn W E turn s = Some (n, s1)"
    and s2: "wk_end_turn W E turn s2 = Some s'" "th_processor_host s2 = th_processor_host s1"
    "th_host s2 = th_host s1 \<or> th_host s2 = snd (run_state (invoke (world_host W) (SleepFor 1000)) (th_host s1))"
    "g = wk_goes_on (wk_exitState (th_worker s'))"
    using turn_parts[OF t] by blast
  note b = turn_hosts[OF s1] and e = end_hosts[OF s2(1)]
  obtain w where w: "th_host s1 = snd (run_state (wk_setupProcessorCallbacks (world_host W))
      (snd (run_state (wk_before_processor (world_host W) (world_endpoints W) w) (th_host s))))" using b(1) by blast
  show ?thesis
    using worker_host_turn[OF w s2(3) e(1)] processor_turn_releases[OF _ b(2) e(2)[unfolded s2(2)]] i s2(4)
    by (simp add: turn_inv_def)
qed

lemma worker_turns_inv:
  assumes "Worker_StartAsPrimary W E turns s = Some (Some g, s')" "turn_inv W s"
  shows "turn_inv W s' \<and> \<not> reactorThread (th_processor_host s') \<and> wk_exitState (th_worker s') \<notin> {WE_BrokerDied, WE_StartFailed}"
  using assms
proof (induction turns arbitrary: s)
  case (Cons turn turns)
  then obtain r s1 where t: "worker_turn_of W E turn s = Some (r, s1)" by (auto split: bind_splits)
  show ?case
  proof (cases "r = Some True")
    case True
    have "Worker_StartAsPrimary W E turns s1 = Some (Some g, s')" using Cons.prems(1) t True by simp
    from Cons.IH[OF this] turn_releases[of W E turn s True s1] t True Cons.prems(2) show ?thesis by blast
  next
    case False
    then have "r = Some False" "s1 = s'" using Cons.prems(1) t by auto
    with turn_releases[of W E turn s False s'] t Cons.prems(2) show ?thesis by (auto simp: wk_goes_on_def)
  qed
qed simp

lemma worker_stop_calls:
  "\<exists>cs. set cs \<subseteq> {SignalOn WK_signaler 0, JoinThread} \<and> calls (snd (run_state (Worker_Stop H eps) h)) = calls h @ cs @
    [zloop_reader_end WK_listener, DisConnect WK_signaler (wk_selfControllerEndpoint eps), UnBind WK_listener (wk_selfControllerEndpoint eps),
     Destroy WK_signaler, Create WK_signaler Pair, Destroy WK_listener, Create WK_listener Pair]"
  by (rule exI[of _ "if reactorThread h then [SignalOn WK_signaler 0, JoinThread] else []"])
    (auto simp: Worker_Stop_def worker_host_defs host_defs)

lemma worker_stop_releases:
  assumes "asked_for h = wk_listening eps" "within (granted H h) (wk_between_turns eps)"
  defines "h' \<equiv> snd (run_state (Worker_Stop H eps) h)"
  shows "asked_for h' = no_resources" "within (granted H h') \<lparr> bound = {(WK_messaging, wk_selfMessagingEndpoint eps)},
    connected = {(WK_messaging, wk_brokerMessagingEndpoint eps)}, reading = {}, ticking = UNIV \<rparr>"
proof -
  show "asked_for h' = no_resources"
    using assms(1) unfolding h'_def by (simp add: Worker_Stop_def worker_host_defs host_defs resources_eq_iff) (auto simp: wk_listening_def)
  obtain cs where c: "set cs \<subseteq> {SignalOn WK_signaler 0, JoinThread}" "calls h' = calls h @ cs @
    [zloop_reader_end WK_listener, DisConnect WK_signaler (wk_selfControllerEndpoint eps), UnBind WK_listener (wk_selfControllerEndpoint eps),
     Destroy WK_signaler, Create WK_signaler Pair, Destroy WK_listener, Create WK_listener Pair]"
    using worker_stop_calls unfolding h'_def by blast
  have "fold at_most cs R = R" for R :: "(worker_socket, worker_timer) resources"
    using c(1) by (induction cs arbitrary: R) auto
  with granted_at_most[OF c(2) assms(2)]
  show "within (granted H h') \<lparr> bound = {(WK_messaging, wk_selfMessagingEndpoint eps)},
    connected = {(WK_messaging, wk_brokerMessagingEndpoint eps)}, reading = {}, ticking = UNIV \<rparr>"
    by (auto simp: within_def wk_between_turns_def)
qed

text \<open>
  C35: A worker's thread releases what it takes, however many turns it makes. When it ends, the
  processor's thread has ended and the processor holds nothing, whatever its calls answered, and
  once the worker is stopped it has no reader; what it may still hold are the two addresses of its
  messaging socket, which it does not destroy, and its timers, and of these only what a call failed
  to release. The thread does not end because the broker died or because a turn could not start.
\<close>

theorem worker_turns_release_all:
  assumes run: "Worker_StartAsPrimary W E turns s = Some (Some g, s')"
    and "asked_for (th_host s) = wk_listening (world_endpoints W)"
    and "within (granted (world_host W) (th_host s)) (wk_listening (world_endpoints W))"
    and "granted (world_processor_host W) (th_processor_host s) = no_resources"
    and h: "h = snd (run_state (Worker_Stop (world_host W) (world_endpoints W)) (th_host s'))"
  shows "granted (world_processor_host W) (th_processor_host s') = no_resources \<and> \<not> reactorThread (th_processor_host s') \<and>
    bound (granted (world_host W) h) \<subseteq> {x \<in> {(WK_messaging, wk_selfMessagingEndpoint (world_endpoints W))}.
      refused (world_host W) h (UnBind (fst x) (snd x))} \<and>
    connected (granted (world_host W) h) \<subseteq> {x \<in> {(WK_messaging, wk_brokerMessagingEndpoint (world_endpoints W))}.
      refused (world_host W) h (DisConnect (fst x) (snd x))} \<and>
    reading (granted (world_host W) h) = {} \<and>
    ticking (granted (world_host W) h) \<subseteq> {t. refused (world_host W) h (zloop_timer_end t)} \<and>
    wk_exitState (th_worker s') \<notin> {WE_BrokerDied, WE_StartFailed}"
proof -
  have "turn_inv W s" using assms(2-4) by (auto simp: turn_inv_def within_def wk_between_turns_def wk_listening_def)
  from worker_turns_inv[OF run this] have i: "asked_for (th_host s') = wk_listening (world_endpoints W)"
    "within (granted (world_host W) (th_host s')) (wk_between_turns (world_endpoints W))"
    "granted (world_processor_host W) (th_processor_host s') = no_resources" "\<not> reactorThread (th_processor_host s')"
    "wk_exitState (th_worker s') \<notin> {WE_BrokerDied, WE_StartFailed}"
    by (simp_all add: turn_inv_def)
  note stop = worker_stop_releases[OF i(1,2), folded h]
  show ?thesis
    using stop asked_or_refused[of "world_host W" h] i(3-5) unfolding all_asked_or_refused_def within_def by auto
qed

lemma good_begin:
  assumes "{RP_primary, RP_secondary, RP_messaging} \<subseteq> present (th_processor_host s)"
  shows "\<exists>s1. wk_begin_turn good_world good_env turn s = Some (0, s1) \<and>
    {RP_primary, RP_secondary, RP_messaging} \<subseteq> present (th_processor_host s1)"
proof -
  have p: "fst (run_state (RequestProcessor_Start all_succeeds eps) h) \<and>
      present h \<subseteq> present (snd (run_state (RequestProcessor_Start all_succeeds eps) h))"
    if "{RP_primary, RP_secondary, RP_messaging} \<subseteq> present h" for h eps
    using that by (simp add: rp_host_defs host_defs)
  have w: "fst (run_state (wk_before_processor all_succeeds eps w) h) = 0" "fst (run_state (wk_setupProcessorCallbacks all_succeeds) h) = 0"
    for eps w h by (simp_all add: worker_host_defs failed_def)
  have r: "fst (sendBrokerReadyMessage good_env w) = 0" for w
    by (simp add: sendBrokerReadyMessage_def wk_Send_fields)
  show ?thesis
    using p[OF assms] assms by (simp add: wk_begin_turn_def Let_def case_prod_unfold w r good_world_def) (meson subsetD)
qed

lemma good_end:
  assumes "{RP_primary, RP_secondary, RP_messaging} \<subseteq> present (th_processor_host s)" "turn_requests turn = []"
  shows "\<exists>s1. wk_end_turn good_world good_env turn s = Some s1 \<and> th_worker s1 = th_worker s"
proof -
  let ?eps = "wk_processorEndpoints (world_endpoints good_world)"
  have "RP_messaging \<in> present (th_processor_host s)" using assms(1) by simp
  then obtain h p where "RequestProcessor_Stop all_succeeds ?eps good_env (world_process good_world) [] (th_processor_host s, th_processor s) = Some (h, p)"
    by (cases "reactorThread (th_processor_host s)")
      (simp_all add: RequestProcessor_Stop_def RequestProcessor_StartAsPrimary_def Let_def case_prod_unfold rp_activateMessagingSockets_def)
  moreover have "world_processor_host good_world = all_succeeds" by (simp add: good_world_def)
  ultimately show ?thesis
    using assms(2) by (simp add: wk_end_turn_def Let_def case_prod_unfold)
qed

lemma worker_turns_release_all_witness:
  "\<exists>s g s'. Worker_StartAsPrimary good_world good_env [example_turn\<lparr>turn_events := [WkStopSignalled]\<rparr>] s = Some (Some g, s') \<and>
    granted (world_host good_world) (snd (run_state (Worker_Stop (world_host good_world) (world_endpoints good_world)) (th_host s'))) = no_resources"
proof -
  define h where "h = snd (run_state (Worker_Start all_succeeds (world_endpoints good_world)) new_host)"
  let ?s = "\<lparr> th_host = h, th_processor_host = new_host\<lparr>present := {RP_primary, RP_secondary, RP_messaging}\<rparr>,
    th_processor = RequestProcessor_new, th_worker = idle_worker \<rparr>"
  let ?t = "example_turn\<lparr>turn_events := [WkStopSignalled]\<rparr>"
  have a: "asked_for (th_host ?s) = wk_listening (world_endpoints good_world)"
    by (simp add: h_def Worker_Start_def worker_host_defs host_defs resources_eq_iff wk_listening_def)
  have "granted (world_host good_world) h = wk_listening (world_endpoints good_world)"
    by (simp add: h_def Worker_Start_def worker_host_defs host_defs granted_def grant_def resources_eq_iff wk_listening_def good_world_def new_host_def)
  then have g: "within (granted (world_host good_world) (th_host ?s)) (wk_listening (world_endpoints good_world))"
    "granted (world_processor_host good_world) (th_processor_host ?s) = no_resources" by simp_all
  obtain s1 where s1: "wk_begin_turn good_world good_env ?t ?s = Some (0, s1)"
    "{RP_primary, RP_secondary, RP_messaging} \<subseteq> present (th_processor_host s1)"
    using good_begin[of ?s ?t] by auto
  let ?s1 = "s1\<lparr>th_worker := wk_updateCurrentTime 130 (wk_setExitState WE_GracefulStop (th_worker s1))\<rparr>"
  obtain s' where "wk_end_turn good_world good_env ?t ?s1 = Some s'" "th_worker s' = th_worker ?s1"
    using good_end[of ?s1 ?t] s1(2) by (auto simp: example_turn_def)
  then have "Worker_StartAsPrimary good_world good_env [?t] ?s = Some (Some False, s')"
    by (simp add: worker_turn_of_def s1(1) workerPrimaryControllerReactor_def) (simp add: example_turn_def wk_goes_on_def wk_upd_defs)
  from worker_turns_release_all[OF this a g refl] this show ?thesis
    by (auto simp: refused_def resources_eq_iff good_world_def)
qed

end
