(* ===== verification/RequestResponse.thy ===== *)
theory RequestResponse
  imports Handlers
begin

text \<open>
  \<open>RequestResponse\<close> (requestresponse.h, .cxx): what a client gets for a request. A response as the
  proxy sends it is \<open>[] | flags | type | id | status | ...\<close>. The status is kept as the number it is
  on the wire, which the code casts to the enumeration unchecked. Constructor and \<open>FillFromMessage\<close>
  throw on anything else; they take frames off the message as they go, so what is thrown comes with
  what is left of the message, which stays with the caller.
\<close>

datatype response_error = BadRequestResponse string | Unreadable

record RequestResponse =
  rr_id :: RequestId
  rr_type :: RequestType
  rr_status :: "32 word"
  rr_message :: "zmsg option"
  rr_vfs :: LHCVersionFlags

definition RequestResponse_new :: RequestResponse where
  "RequestResponse_new = \<lparr> rr_id = 0, rr_type = 0, rr_status = RequestStatus_value RS_None, rr_message = None,
     rr_vfs = LHCVersionFlags_default \<rparr>"

definition RequestResponse_of ::
    "RequestId \<Rightarrow> RequestType \<Rightarrow> 32 word \<Rightarrow> zmsg option \<Rightarrow> LHCVersionFlags \<Rightarrow> RequestResponse \<times> zmsg option" where
  "RequestResponse_of rid t status message vfs =
     (\<lparr> rr_id = rid, rr_type = t, rr_status = status, rr_message = message, rr_vfs = vfs \<rparr>, None)"

section \<open>From a message\<close>

definition pop_field :: "env \<Rightarrow> string \<Rightarrow> (frame \<Rightarrow> 'v option) \<Rightarrow> zmsg \<Rightarrow> (response_error + 'v) \<times> zmsg" where
  "pop_field E what get fullResponse =
     (case zmsg_pop E fullResponse of
        (Some (x # xs), m) \<Rightarrow> (case get (x # xs) of None \<Rightarrow> (Inl Unreadable, m) | Some v \<Rightarrow> (Inr v, m))
      | (_, m) \<Rightarrow> (Inl (BadRequestResponse what), m))"

text \<open>What it throws, if it does, and the members it has assigned by then.\<close>

definition FillFromMessage :: "env \<Rightarrow> zmsg \<Rightarrow> RequestResponse \<Rightarrow> (response_error \<times> zmsg) option \<times> RequestResponse" where
  "FillFromMessage E fullResponse r =
     (case zmsg_pop E fullResponse of
        (Some [], m) \<Rightarrow>
     (case pop_field E ''missing version and flags'' (get_vfs E) m of
        (Inl e, m) \<Rightarrow> (Some (e, m), r)
      | (Inr vfs, m) \<Rightarrow> let r = r\<lparr>rr_vfs := vfs\<rparr> in
     (case pop_field E ''missing type'' (get_u32 E) m of
        (Inl e, m) \<Rightarrow> (Some (e, m), r)
      | (Inr t, m) \<Rightarrow> let r = r\<lparr>rr_type := t\<rparr> in
     (case pop_field E ''missing id'' (get_u64 E) m of
        (Inl e, m) \<Rightarrow> (Some (e, m), r)
      | (Inr i, m) \<Rightarrow> let r = r\<lparr>rr_id := i\<rparr> in
     (case pop_field E ''missing status'' (get_u32 E) m of
        (Inl e, m) \<Rightarrow> (Some (e, m), r)
      | (Inr status, m) \<Rightarrow> (None, r\<lparr>rr_status := status, rr_message := Some m\<rparr>)))))
      | (_, m) \<Rightarrow> (Some (BadRequestResponse ''empty or malformed response'', m), r))"

text \<open>The constructor has the same text; the members it starts from are all assigned when it returns.\<close>

definition RequestResponse_parse :: "env \<Rightarrow> zmsg \<Rightarrow> (response_error \<times> zmsg) + RequestResponse" where
  "RequestResponse_parse E fullResponse =
     (case FillFromMessage E fullResponse RequestResponse_new of
        (Some thrown, _) \<Rightarrow> Inl thrown
      | (None, r) \<Rightarrow> Inr r)"

section \<open>Copies\<close>

definition RequestResponse_copy :: "env \<Rightarrow> RequestResponse \<Rightarrow> RequestResponse" where
  "RequestResponse_copy E other = other\<lparr>rr_message := map_option (zmsg_dup E) (rr_message other)\<rparr>"

text \<open>What is moved from has no message any more.\<close>

definition RequestResponse_move :: "RequestResponse \<Rightarrow> RequestResponse \<times> RequestResponse" where
  "RequestResponse_move other = (other, other\<lparr>rr_message := None\<rparr>)"

definition swap_responses :: "RequestResponse \<Rightarrow> RequestResponse \<Rightarrow> RequestResponse \<times> RequestResponse" where
  "swap_responses a b =
     (a\<lparr>rr_vfs := rr_vfs b, rr_type := rr_type b, rr_id := rr_id b, rr_status := rr_status b, rr_message := rr_message b\<rparr>,
      b\<lparr>rr_vfs := rr_vfs a, rr_type := rr_type a, rr_id := rr_id a, rr_status := rr_status a, rr_message := rr_message a\<rparr>)"

text \<open>Assignment takes a copy of the other and swaps with it; the copy dies with the old members.\<close>

definition RequestResponse_assign :: "env \<Rightarrow> RequestResponse \<Rightarrow> RequestResponse \<Rightarrow> RequestResponse" where
  "RequestResponse_assign E other self = fst (swap_responses self (RequestResponse_copy E other))"

text \<open>\<open>zmsg_eq\<close> compares the frames and is false if a message is null.\<close>

definition zmsg_eq :: "zmsg option \<Rightarrow> zmsg option \<Rightarrow> bool" where
  "zmsg_eq a b = (case (a, b) of (Some m, Some m') \<Rightarrow> m = m' | _ \<Rightarrow> False)"

definition RequestResponse_eq :: "RequestResponse \<Rightarrow> RequestResponse \<Rightarrow> bool" where
  "RequestResponse_eq a b \<longleftrightarrow> rr_id a = rr_id b \<and> rr_type a = rr_type b \<and> rr_status a = rr_status b \<and>
     zmsg_eq (rr_message a) (rr_message b) \<and> rr_vfs a = rr_vfs b"

section \<open>What they do\<close>

definition response_frames :: "env \<Rightarrow> LHCVersionFlags \<Rightarrow> RequestType \<Rightarrow> RequestId \<Rightarrow> 32 word \<Rightarrow> zmsg \<Rightarrow> zmsg" where
  "response_frames E vfs t i status body = [] # enc_vfs E vfs # enc_u32 E t # enc_u64 E i # enc_u32 E status # body"

lemma pop_field_enc:
  assumes "env_ok E" "f \<noteq> []" "get f = Some v"
  shows "pop_field E what get (f # m) = (Inr v, m)"
  using assms by (cases f) (simp_all add: pop_field_def env_laws)

lemma response_parse:
  assumes E: "env_ok E"
  shows "RequestResponse_parse E (response_frames E vfs t i status body) =
    Inr \<lparr> rr_id = i, rr_type = t, rr_status = status, rr_message = Some body, rr_vfs = vfs \<rparr>"
  using enc_nonempty[OF env_okD(2)[OF E]] E
  by (simp add: RequestResponse_parse_def FillFromMessage_def response_frames_def pop_field_enc env_laws RequestResponse_new_def)

text \<open>A copy is the same response; only a response that has a message equals itself.\<close>

lemma copy_same: "env_ok E \<Longrightarrow> RequestResponse_copy E r = r"
  by (cases "rr_message r") (simp_all add: RequestResponse_copy_def env_laws)

lemma assign_same: "env_ok E \<Longrightarrow> RequestResponse_assign E other self = other"
  by (simp add: RequestResponse_assign_def swap_responses_def copy_same)

lemma eq_iff: "RequestResponse_eq a b \<longleftrightarrow> a = b \<and> rr_message a \<noteq> None"
  by (cases a; cases b) (auto simp: RequestResponse_eq_def zmsg_eq_def split: option.splits)

end
