(* ===== verification/Client.thy ===== *)
theory Client
  imports RequestResponse Host
begin

text \<open>
  \<open>Client\<close> (client.h, client.cxx), the library an application links: it sends requests on a DEALER to
  its client proxy and collects the responses from it. That DEALER is the socket \<open>Backend\<close> of the
  model. \<open>zmsg_new\<close> does not return \<open>NULL\<close>.
\<close>

section \<open>The socket\<close>

datatype client_socket = CL_messaging

type_synonym client_hosting = "(client_socket, unit) host_env"
type_synonym 'a client_hosted = "(client_socket, unit, 'a) hosted"

record ClientEndpoints =
  clientMessagingEndpoint :: endpoint
  clientProxyMessagingEndpoint :: endpoint

definition Client_construct :: "client_hosting \<Rightarrow> bool client_hosted" where
  "Client_construct H = do {
     factory_create H CL_messaging Dealer;
     h \<leftarrow> State_Monad.get;
     if CL_messaging \<notin> present h then State_Monad.return False
     else do {
       poller_create H CL_messaging;
       h \<leftarrow> State_Monad.get;
       State_Monad.return (has_poller h)
     }
   }"

definition Client_Activate :: "client_hosting \<Rightarrow> ClientEndpoints \<Rightarrow> int client_hosted" where
  "Client_Activate H eps = do {
     ret \<leftarrow> invoke H (Bind CL_messaging (clientMessagingEndpoint eps));
     ret1 \<leftarrow> invoke H (Connect CL_messaging (clientProxyMessagingEndpoint eps));
     State_Monad.return (failed ret + failed ret1)
   }"

text \<open>The first code is overwritten.\<close>

definition Client_Deactivate :: "client_hosting \<Rightarrow> ClientEndpoints \<Rightarrow> int client_hosted" where
  "Client_Deactivate H eps = do {
     _ \<leftarrow> invoke H (DisConnect CL_messaging (clientProxyMessagingEndpoint eps));
     invoke H (UnBind CL_messaging (clientMessagingEndpoint eps))
   }"

definition Client_destroy :: "client_hosting \<Rightarrow> ClientEndpoints \<Rightarrow> unit client_hosted" where
  "Client_destroy H eps = do {
     destroy_poller H;
     h \<leftarrow> State_Monad.get;
     if CL_messaging \<in> present h then do {
       _ \<leftarrow> Client_Deactivate H eps;
       factory_destroy H CL_messaging
     } else State_Monad.return ()
   }"

section \<open>Requests\<close>

record Client =
  cl_sends :: "send_record list"
  cl_inbox :: "zmsg option list"      \<comment> \<open>what is waiting on the socket; \<open>None\<close> is an interrupted receive\<close>

definition Client_new :: Client where
  "Client_new = \<lparr> cl_sends = [], cl_inbox = [] \<rparr>"

text \<open>One frame handler writes all; the code and what the caller's pointer is left with.\<close>

definition with_header :: "env \<Rightarrow> RequestType \<Rightarrow> RequestId \<Rightarrow> MessageFlags \<Rightarrow> zmsg \<Rightarrow> zmsg" where
  "with_header E requestType requestId messageFlags zmqMessage =
     (let h = ZMQFrameHandler_new; vfs = LHCVersionFlags LHCVersion_default messageFlags;
          ((_, m), h) = prepend_message_value_uint64 E h zmqMessage requestId;
          ((_, m), h) = prepend_message_value_uint32 E h m requestType;
          ((_, m), h) = prepend_message_value_LHCVersionFlags E h m vfs;
          ((_, m), h) = prepend_message_value_uint32 E h m (ClusterMessage_value ClientNewRequest)
      in zmsg_prepend E m [])"

definition SendRequest_msg ::
    "env \<Rightarrow> RequestType \<Rightarrow> RequestId \<Rightarrow> MessageFlags \<Rightarrow> zmsg \<Rightarrow> Client \<Rightarrow> int \<times> zmsg option \<times> Client" where
  "SendRequest_msg E requestType requestId messageFlags zmqMessage c =
     (case Send E (cl_sends c) Backend (with_header E requestType requestId messageFlags zmqMessage) of
        (ret, m, h) \<Rightarrow> (ret, m, c\<lparr>cl_sends := h\<rparr>))"

text \<open>What is left of the message if it is not sent is destroyed.\<close>

definition SendRequest :: "env \<Rightarrow> RequestType \<Rightarrow> RequestId \<Rightarrow> MessageFlags \<Rightarrow> Client \<Rightarrow> int \<times> Client" where
  "SendRequest E requestType requestId messageFlags c =
     (case SendRequest_msg E requestType requestId messageFlags (zmsg_new E) c of (ret, m, c) \<Rightarrow> (ret, c))"

definition SendAsynchronousRequest :: "env \<Rightarrow> RequestType \<Rightarrow> RequestId \<Rightarrow> Client \<Rightarrow> int \<times> Client" where
  "SendAsynchronousRequest E requestType requestId c = SendRequest E requestType requestId Asynchronous c"

definition SendSynchronousRequest :: "env \<Rightarrow> RequestType \<Rightarrow> RequestId \<Rightarrow> Client \<Rightarrow> int \<times> Client" where
  "SendSynchronousRequest E requestType requestId c = SendRequest E requestType requestId MF_None c"

definition SendAsynchronousRequest_msg ::
    "env \<Rightarrow> RequestType \<Rightarrow> RequestId \<Rightarrow> zmsg \<Rightarrow> Client \<Rightarrow> int \<times> zmsg option \<times> Client" where
  "SendAsynchronousRequest_msg E requestType requestId m c = SendRequest_msg E requestType requestId Asynchronous m c"

definition SendSynchronousRequest_msg ::
    "env \<Rightarrow> RequestType \<Rightarrow> RequestId \<Rightarrow> zmsg \<Rightarrow> Client \<Rightarrow> int \<times> zmsg option \<times> Client" where
  "SendSynchronousRequest_msg E requestType requestId m c = SendRequest_msg E requestType requestId MF_None m c"

section \<open>Responses\<close>

text \<open>
  How a call of \<open>RetrieveResponses\<close> ends: it returns the number it received, or an exception leaves it,
  or the time passes that is given to it; \<open>None\<close> in what follows is a null message handed to the
  constructor of a response, which dereferences it.
\<close>

datatype retrieval = Retrieved int | Threw response_error | StillWaiting

text \<open>
  The inner loop. \<open>zpoller_wait\<close> gives the socket exactly if a message is waiting. A message that does
  not parse is off the socket and in nobody's hands.
\<close>

fun receive_waiting ::
    "env \<Rightarrow> int \<Rightarrow> zmsg option list \<Rightarrow> int \<Rightarrow> RequestResponse list \<Rightarrow> (retrieval \<times> RequestResponse list \<times> zmsg option list) option" where
  "receive_waiting E responseLimit [] numReceived requestResponses = Some (Retrieved numReceived, requestResponses, [])"
| "receive_waiting E responseLimit (received # inbox) numReceived requestResponses = do {
     responseMessage \<leftarrow> received;
     case RequestResponse_parse E responseMessage of
       Inl (e, _) \<Rightarrow> Some (Threw e, requestResponses, inbox)
     | Inr r \<Rightarrow>
         (let requestResponses = requestResponses @ [r]; numReceived = numReceived + 1 in
          if numReceived < responseLimit then receive_waiting E responseLimit inbox numReceived requestResponses
          else Some (Retrieved numReceived, requestResponses, inbox))
   }"

text \<open>
  The outer loop. What is outside: the messages that arrive while one \<open>zpoller_wait\<close> waits, and the
  milliseconds until the clock is read after it. When these are used up the call still waits.
\<close>

fun RetrieveResponses ::
    "env \<Rightarrow> int \<Rightarrow> int \<Rightarrow> (zmsg option list \<times> int) list \<Rightarrow> int \<Rightarrow> RequestResponse list \<Rightarrow> Client \<Rightarrow>
      (retrieval \<times> RequestResponse list \<times> Client) option" where
  "RetrieveResponses E responseLimit timeRemaining [] numReceived requestResponses c =
     Some (StillWaiting, requestResponses, c)"
| "RetrieveResponses E responseLimit timeRemaining ((arrived, elapsed) # outside) numReceived requestResponses c = do {
     (res, requestResponses, inbox) \<leftarrow> receive_waiting E responseLimit (cl_inbox c @ arrived) numReceived requestResponses;
     let c = c\<lparr>cl_inbox := inbox\<rparr>;
     case res of
       Retrieved numReceived \<Rightarrow>
         (let timeRemaining = timeRemaining - elapsed in
          if numReceived < responseLimit \<and> timeRemaining > 0
          then RetrieveResponses E responseLimit timeRemaining outside numReceived requestResponses c
          else Some (Retrieved numReceived, requestResponses, c))
     | _ \<Rightarrow> Some (res, requestResponses, c)
   }"

definition RetrieveResponses_ms where
  "RetrieveResponses_ms E responseLimit timeout_ms outside requestResponses c =
     RetrieveResponses E responseLimit timeout_ms outside 0 requestResponses c"

definition RetrieveResponses_s where
  "RetrieveResponses_s E responseLimit timeout_s outside requestResponses c =
     RetrieveResponses_ms E responseLimit (1000 * timeout_s) outside requestResponses c"

definition RetrieveResponses_now where
  "RetrieveResponses_now E responseLimit outside requestResponses c =
     RetrieveResponses_ms E responseLimit 0 outside requestResponses c"

end
