(* ===== verification/ClientProps.thy ===== *)
theory ClientProps
  imports Client BrokerExamples
begin

text \<open>The properties of the client library: what it sends, and how it collects responses.\<close>

section \<open>Requests\<close>

lemma with_header_eq:
  assumes E: "env_ok E"
  shows "with_header E t i messageFlags m = client_request E [] (LHCVersionFlags LHCVersion_default messageFlags) t i m"
  using pb_ser_Some(2)[OF env_okD(2)[OF E], of i] pb_ser_Some(1)[OF env_okD(2)[OF E]]
    pb_ser_Some(4)[OF env_okD(2)[OF E], of "LHCVersionFlags LHCVersion_default messageFlags"]
  by (simp add: with_header_def client_request_def write_defs ZMQFrameHandler_new_def env_laws[OF E])

lemma SendRequest_run:
  assumes E: "env_ok E" and h: "h = client_request E [] (LHCVersionFlags LHCVersion_default messageFlags) t i m"
  shows "SendRequest_msg E t i messageFlags m c =
    (let ret = fst (zmsg_send E (cl_sends c) Backend h) in
     (ret, if ret = 0 then None else Some h, c\<lparr>cl_sends := cl_sends c @ [(Backend, h, ret)]\<rparr>))"
proof -
  have "snd (zmsg_send E (cl_sends c) Backend h) = (if fst (zmsg_send E (cl_sends c) Backend h) = 0 then None else Some h)"
    using env_okD(3)[OF E] unfolding send_ok_def by blast
  then show ?thesis
    by (simp add: SendRequest_msg_def with_header_eq[OF E] Send_def case_prod_unfold Let_def h)
qed

text \<open>
  A request whose send fails stays with the caller with the header in front of it: sending it again
  sends the header twice, so that the worker gets the first header as the body of the request.
\<close>

theorem resent_request_has_two_headers:
  assumes E: "env_ok E" and fails: "fst (zmsg_send E (cl_sends c) Backend m) \<noteq> 0"
    and m: "m = client_request E [] (LHCVersionFlags LHCVersion_default messageFlags) t i body"
  shows "\<exists>ret c'. SendRequest_msg E t i messageFlags body c = (ret, Some m, c') \<and> ret \<noteq> 0 \<and>
    last (cl_sends (snd (snd (SendRequest_msg E t i messageFlags m c')))) =
      (Backend, client_request E [] (LHCVersionFlags LHCVersion_default messageFlags) t i m,
       fst (zmsg_send E (cl_sends c') Backend
         (client_request E [] (LHCVersionFlags LHCVersion_default messageFlags) t i m)))"
  using fails unfolding SendRequest_run[OF E refl] Let_def m by simp

lemma resent_request_has_two_headers_witness:
  "\<exists>ret c' m. SendRequest_msg failing_env 1 5 Asynchronous [[2]] Client_new = (ret, Some m, c') \<and> ret \<noteq> 0 \<and> [2] \<in> set m \<and> length m = 6"
  using resent_request_has_two_headers[of failing_env Client_new
      "client_request failing_env [] (LHCVersionFlags LHCVersion_default Asynchronous) 1 5 [[2]]" Asynchronous 1 5 "[[2]]"]
  by (auto simp: client_request_def)

section \<open>Responses\<close>

text \<open>A message that parses, and the response it is.\<close>

definition is_response :: "env \<Rightarrow> zmsg option \<Rightarrow> bool" where
  "is_response E m \<longleftrightarrow> (\<exists>x r. m = Some x \<and> RequestResponse_parse E x = Inr r)"

definition response :: "env \<Rightarrow> zmsg option \<Rightarrow> RequestResponse" where
  "response E m = projr (RequestResponse_parse E (the m))"

lemma receive_waiting_eq:
  "\<forall>m \<in> set q. is_response E m \<Longrightarrow>
    receive_waiting E limit q n rs =
      (let k = min (length q) (nat (max 1 (limit - n))) in
       Some (Retrieved (n + int k), rs @ map (response E) (take k q), drop k q))"
proof (induction q arbitrary: n rs)
  case (Cons m q)
  then obtain x r where m: "m = Some x" "RequestResponse_parse E x = Inr r" "response E m = r"
    by (auto simp: is_response_def response_def)
  show ?case
  proof (cases "n + 1 < limit")
    case True
    then have "nat (max 1 (limit - n)) = Suc (nat (max 1 (limit - (n + 1))))" by simp
    then show ?thesis using Cons.IH[of "n + 1" "rs @ [r]"] Cons.prems m True by (simp add: Let_def)
  next
    case False
    then have "nat (max 1 (limit - n)) = 1" by simp
    then show ?thesis using m False by (simp add: Let_def)
  qed
qed simp

text \<open>The messages that arrive in the first \<open>k\<close> rounds, and how long these take.\<close>

definition arrivals :: "(zmsg option list \<times> int) list \<Rightarrow> zmsg option list" where
  "arrivals outside = concat (map fst outside)"

definition time_passed :: "(zmsg option list \<times> int) list \<Rightarrow> int" where
  "time_passed outside = sum_list (map snd outside)"

lemma retrieve_run:
  "\<forall>m \<in> set (cl_inbox c @ arrivals outside). is_response E m \<Longrightarrow>
   \<exists>res rs c' k. RetrieveResponses E limit timeout outside n old c = Some (res, old @ rs, c') \<and>
     k \<le> length outside \<and> map (response E) (cl_inbox c @ arrivals (take k outside)) = rs @ map (response E) (cl_inbox c') \<and>
     (n < limit \<longrightarrow> n + int (length rs) \<le> limit) \<and> (limit \<le> n \<longrightarrow> length rs \<le> 1) \<and> cl_sends c' = cl_sends c \<and>
     (case res of
        Retrieved got \<Rightarrow> got = n + int (length rs) \<and> 0 < k \<and>
          (got < limit \<longrightarrow> timeout \<le> time_passed (take k outside) \<and> cl_inbox c' = [])
      | Threw e \<Rightarrow> False
      | StillWaiting \<Rightarrow> k = length outside \<and> (outside \<noteq> [] \<longrightarrow> n + int (length rs) < limit \<and> time_passed outside < timeout))"
proof (induction outside arbitrary: n old c timeout)
  case Nil
  then show ?case by (intro exI[of _ StillWaiting] exI[of _ "[]"] exI[of _ c] exI[of _ 0]) (simp add: arrivals_def)
next
  case (Cons o1 outside)
  obtain arrived elapsed where o: "o1 = (arrived, elapsed)" by fastforce
  let ?q = "cl_inbox c @ arrived"
  define j where "j = min (length ?q) (nat (max 1 (limit - n)))"
  define rs1 where "rs1 = map (response E) (take j ?q)"
  define c1 where "c1 = c\<lparr>cl_inbox := drop j ?q\<rparr>"
  let ?got = "n + int (length rs1)"
  have q: "\<forall>m \<in> set ?q. is_response E m" using Cons.prems o by (auto simp: arrivals_def)
  have "length rs1 = j" by (simp add: rs1_def j_def del: take_append)
  moreover have "n < limit \<Longrightarrow> n + int j \<le> limit" "limit \<le> n \<Longrightarrow> j \<le> 1" "n + int j < limit \<Longrightarrow> drop j ?q = []"
    by (auto simp: j_def simp del: drop_append length_append)
  ultimately have j: "j = length rs1" "n < limit \<Longrightarrow> ?got \<le> limit" "limit \<le> n \<Longrightarrow> length rs1 \<le> 1" "?got < limit \<Longrightarrow> cl_inbox c1 = []"
    by (simp_all add: c1_def del: drop_append)
  have run: "receive_waiting E limit ?q n old = Some (Retrieved ?got, old @ rs1, cl_inbox c1)"
    using receive_waiting_eq[OF q, of limit n old, folded j_def, unfolded Let_def, folded rs1_def]
    unfolding j(1)[symmetric] c1_def by simp
  have c1: "c\<lparr>cl_inbox := cl_inbox c1\<rparr> = c1" "cl_sends c1 = cl_sends c" by (simp_all add: c1_def)
  have parts: "map (response E) ?q = rs1 @ map (response E) (cl_inbox c1)"
    unfolding rs1_def c1_def map_append[symmetric] by (simp del: take_append drop_append map_append)
  have step: "RetrieveResponses E limit timeout (o1 # outside) n old c =
      (if ?got < limit \<and> timeout - elapsed > 0 then RetrieveResponses E limit (timeout - elapsed) outside ?got (old @ rs1) c1
       else Some (Retrieved ?got, old @ rs1, c1))"
    by (simp only: o RetrieveResponses.simps run) (simp add: c1 Let_def)
  show ?case
  proof (cases "?got < limit \<and> timeout - elapsed > 0")
    case False
    have "map (response E) (cl_inbox c @ arrivals (take 1 (o1 # outside))) = rs1 @ map (response E) (cl_inbox c1)"
      using parts o by (simp add: arrivals_def)
    moreover have "?got < limit \<longrightarrow> timeout \<le> time_passed (take 1 (o1 # outside))" using False o by (auto simp: time_passed_def)
    ultimately show ?thesis
      using step[unfolded if_not_P[OF False]] j(2-4) c1(2)
      by (intro exI[of _ "Retrieved ?got"] exI[of _ rs1] exI[of _ c1] exI[of _ 1] conjI) simp_all
  next
    case True
    have "\<forall>m \<in> set (cl_inbox c1 @ arrivals outside). is_response E m"
      using Cons.prems o by (auto simp: arrivals_def c1_def dest: in_set_dropD)
    from Cons.IH[OF this, of "timeout - elapsed" ?got "old @ rs1"] obtain res rs c' k where IH:
      "RetrieveResponses E limit (timeout - elapsed) outside ?got (old @ rs1) c1 = Some (res, (old @ rs1) @ rs, c')"
      "k \<le> length outside" "map (response E) (cl_inbox c1 @ arrivals (take k outside)) = rs @ map (response E) (cl_inbox c')"
      "?got < limit \<longrightarrow> ?got + int (length rs) \<le> limit" "cl_sends c' = cl_sends c1"
      "case res of
        Retrieved got \<Rightarrow> got = ?got + int (length rs) \<and> 0 < k \<and>
          (got < limit \<longrightarrow> timeout - elapsed \<le> time_passed (take k outside) \<and> cl_inbox c' = [])
      | Threw e \<Rightarrow> False
      | StillWaiting \<Rightarrow> k = length outside \<and> (outside \<noteq> [] \<longrightarrow> ?got + int (length rs) < limit \<and> time_passed outside < timeout - elapsed)"
      by blast
    have n: "n < limit" using True by simp
    have m: "map (response E) (cl_inbox c @ arrivals (take (Suc k) (o1 # outside))) = (rs1 @ rs) @ map (response E) (cl_inbox c')"
    proof -
      have "map (response E) (cl_inbox c @ arrivals (take (Suc k) (o1 # outside))) =
          map (response E) ?q @ map (response E) (arrivals (take k outside))"
        using o by (simp add: arrivals_def)
      also have "\<dots> = rs1 @ map (response E) (cl_inbox c1 @ arrivals (take k outside))" unfolding parts by simp
      finally show ?thesis unfolding IH(3) by simp
    qed
    have t: "time_passed (take (Suc k) (o1 # outside)) = elapsed + time_passed (take k outside)"
      "time_passed (o1 # outside) = elapsed + time_passed outside" using o by (simp_all add: time_passed_def)
    have res: "case res of
        Retrieved got \<Rightarrow> got = n + int (length (rs1 @ rs)) \<and> 0 < Suc k \<and>
          (got < limit \<longrightarrow> timeout \<le> time_passed (take (Suc k) (o1 # outside)) \<and> cl_inbox c' = [])
      | Threw e \<Rightarrow> False
      | StillWaiting \<Rightarrow> Suc k = length (o1 # outside) \<and> (o1 # outside \<noteq> [] \<longrightarrow>
          n + int (length (rs1 @ rs)) < limit \<and> time_passed (o1 # outside) < timeout)"
    proof -
      have "outside = [] \<Longrightarrow> rs = []" using IH(2,3) j(4) True by (simp add: arrivals_def)
      then show ?thesis using IH(6) True unfolding t by (cases res; cases outside) (auto simp: time_passed_def)
    qed
    show ?thesis
      using step[unfolded if_P[OF True]] True IH(1,2,4,5) m n c1(2) res
      by (intro exI[of _ res] exI[of _ "rs1 @ rs"] exI[of _ c'] exI[of _ "Suc k"] conjI) simp_all
  qed
qed

text \<open>
  C20: A client collects its responses in the order in which they arrived, none twice and none lost:
  those a call adds, followed by those it leaves on the socket, are those that were or came there
  while it ran. A call adds at most as many as asked for, but one even if none is asked for; it
  returns how many; and it returns fewer than asked for only once its time is up and the socket is
  empty.
\<close>

theorem responses_in_order:
  assumes "\<forall>m \<in> set (cl_inbox c @ arrivals outside). is_response E m"
  shows "\<exists>res rs c' k. RetrieveResponses_ms E limit timeout outside old c = Some (res, old @ rs, c') \<and> k \<le> length outside \<and>
     map (response E) (cl_inbox c @ arrivals (take k outside)) = rs @ map (response E) (cl_inbox c') \<and>
     int (length rs) \<le> max 1 limit \<and>
     (case res of
        Retrieved got \<Rightarrow> got = int (length rs) \<and>
          (got < limit \<longrightarrow> timeout \<le> time_passed (take k outside) \<and> cl_inbox c' = [])
      | Threw e \<Rightarrow> False
      | StillWaiting \<Rightarrow> k = length outside \<and> (outside \<noteq> [] \<longrightarrow> time_passed outside < timeout))"
proof -
  obtain res rs c' k where *: "RetrieveResponses E limit timeout outside 0 old c = Some (res, old @ rs, c')"
    "k \<le> length outside" "map (response E) (cl_inbox c @ arrivals (take k outside)) = rs @ map (response E) (cl_inbox c')"
    "0 < limit \<longrightarrow> 0 + int (length rs) \<le> limit" "limit \<le> 0 \<longrightarrow> length rs \<le> 1"
    "case res of
        Retrieved got \<Rightarrow> got = 0 + int (length rs) \<and> 0 < k \<and>
          (got < limit \<longrightarrow> timeout \<le> time_passed (take k outside) \<and> cl_inbox c' = [])
      | Threw e \<Rightarrow> False
      | StillWaiting \<Rightarrow> k = length outside \<and> (outside \<noteq> [] \<longrightarrow> 0 + int (length rs) < limit \<and> time_passed outside < timeout)"
    using retrieve_run[OF assms, of limit timeout 0 old] by blast
  have "int (length rs) \<le> max 1 limit" using *(4,5) by (cases "0 < limit") auto
  with *(1-3,6) show ?thesis
    unfolding RetrieveResponses_ms_def by (intro exI[of _ res] exI[of _ rs] exI[of _ c'] exI[of _ k]) (auto split: retrieval.splits)
qed

lemma plain_response [simp]:
  "is_response good_env (Some (response_frames good_env vfs t i status body))"
  "response good_env (Some (response_frames good_env vfs t i status body)) =
    \<lparr> rr_id = i, rr_type = t, rr_status = status, rr_message = Some body, rr_vfs = vfs \<rparr>"
  by (simp_all add: is_response_def response_def response_parse)

lemma responses_in_order_witness:
  "\<exists>res rs c' k. RetrieveResponses_ms good_env 0 20 [([Some (response_frames good_env plain 1 5 3 [[2]])], 7)] [] Client_new =
      Some (res, rs, c') \<and> int (length rs) \<le> 1 \<and> k \<le> (1 :: nat)"
  using responses_in_order[of Client_new "[([Some (response_frames good_env plain 1 5 3 [[2]])], 7)]" good_env 0 20 "[]"]
  by (auto simp: Client_new_def arrivals_def)

text \<open>
  A response that does not parse leaves the call as an exception: the responses before it stay
  with the application, which is not told how many they are; the message itself is off the socket
  and lost, and those behind it wait for the next call.
\<close>

theorem malformed_response_throws:
  assumes "\<forall>m \<in> set before. is_response E m" "int (length before) < limit" "RequestResponse_parse E bad = Inl (e, rest)"
    and "cl_inbox c @ arrived = before @ Some bad # behind"
  shows "RetrieveResponses_ms E limit timeout ((arrived, elapsed) # outside) old c =
    Some (Threw e, old @ map (response E) before, c\<lparr>cl_inbox := behind\<rparr>)"
proof -
  have "receive_waiting E limit (before @ Some bad # behind) n rs = Some (Threw e, rs @ map (response E) before, behind)"
    if "\<forall>m \<in> set before. is_response E m" "n + int (length before) < limit" for n rs
    using that
  proof (induction before arbitrary: n rs)
    case (Cons m before)
    then obtain x r where "m = Some x" "RequestResponse_parse E x = Inr r" "response E m = r"
      by (auto simp: is_response_def response_def)
    then show ?case using Cons.IH[of "n + 1" "rs @ [r]"] Cons.prems by (simp add: Let_def)
  qed (simp add: assms(3))
  from this[OF assms(1)] show ?thesis using assms(2) by (simp add: RetrieveResponses_ms_def assms(4))
qed

lemma malformed_response_throws_witness:
  "RetrieveResponses_ms good_env 2 0 [([Some (response_frames good_env plain 1 5 3 []), Some [[]]], 0)] [] Client_new =
    Some (Threw (BadRequestResponse ''missing version and flags''),
      [\<lparr> rr_id = 5, rr_type = 1, rr_status = 3, rr_message = Some [], rr_vfs = plain \<rparr>], Client_new)"
  using malformed_response_throws[of "[Some (response_frames good_env plain 1 5 3 [])]" good_env 2 "[[]]"
      "BadRequestResponse ''missing version and flags''" "[]" Client_new _ "[]" 0 0 "[]" "[]"]
  by (simp add: Client_new_def RequestResponse_parse_def FillFromMessage_def pop_field_def env_laws)

end
