(* ===== verification/ClusterProps.thy ===== *)
theory ClusterProps
  imports ClientProxyProps WorkerLifecycleProps ClientProps
begin

text \<open>The way of a request and its answer through every part of a cluster.\<close>

text \<open>
  From the proxy on. The proxy puts a client's request on the wire, the broker's
  ROUTER adds the identity of the proxy; the broker gives the request to an available worker with
  both identities as its envelope; that worker, which supports the type and does not have the
  request, hands it to its processor without the envelope; the processor answers with the status and
  the message of the request handler; the worker sends them to the broker under the envelope; the
  broker sends the answer to the proxy, which hands it to the client under the client's identity.
\<close>

lemma cluster_travel:
  fixes n1 n2 n3 n4 n5 n6 :: time_t
  assumes E: "env_ok E" "backend_ok E" "processor_ok E"
    and ids: "client \<noteq> []" "proxy \<noteq> []" "ident \<noteq> []"
    and p: "proxy_reachable E p" and b: "reachable E b"
    and c: "requestTypeContextLookup b t = Some c" "ctx_requests c i = None" "GetNextAvailableWorker c = Some w"
    and wi: "LookupWorkerInfo (workerInfoLookup b) ident = Some w" "workerHeap b w = Some wi" "wi_identity wi = ident"
    and cap: "0 < FreeCapacity wi" and idle: "nothing_pending (wi_supportedRequestTypes wi) b"
    and f: "flags_ok vfs" "\<not> hasAny vfs Asynchronous"
    and wk: "worker_reachable E worker" "t \<in> set (supportedRequestTypes worker)" "requestContexts worker (t, i) = None"
    and h: "process vfs t i body = Some (status, Some result)" "status \<noteq> RS_FatalError"
  shows "\<exists>request p1 b1 job worker1 task processor1 finished worker2 answer b2 returned p2.
    clientClientMessagingReactor E n1 (Some (client_request E [client] vfs t i body)) p = (0, p1) \<and>
      last (cp_sends p1) = (brokerMessagingSocket, request, 0) \<and>
    frontendMessagingReactor E n2 (Some (proxy # request)) b = Some (0, b1) \<and>
      (Backend, ident # job, 0) \<in> set (sends b1) \<and>
    brokerMessagingReactor E n3 (Some job) worker = Some (0, worker1) \<and>
      (requestProcessorMessagingSocket, task, 0) \<in> set (wk_sends worker1) \<and>
    workerMessagingReactor E process (Some task) processor = Some (0, processor1) \<and>
      last (rp_sends processor1) = (Processor, finished, 0) \<and>
    requestProcessorReactor E n4 (Some finished) worker1 = Some (0, worker2) \<and>
      last (wk_sends worker2) = (messagingSocket, answer, 0) \<and>
    backendMessagingReactor E n5 (Some (ident # answer)) b1 = Some (0, b2) \<and>
      last (sends b2) = (Frontend, proxy # returned, 0) \<and>
    clientBrokerMessagingReactor E n6 (Some returned) p1 = (0, p2) \<and>
      last (cp_sends p2) =
        (clientMessagingSocket, answer_frames E client vfs t i (enc_u32 E (RequestStatus_value status) # result), 0)"
proof -
  let ?reply = "enc_u32 E (RequestStatus_value status) # result"
  let ?job = "to_worker E BrokerNewRequest (request_frames E [proxy, client] vfs t i body)"
  let ?task = "job_frames E vfs t i body"
  let ?done = "answer_of_processor E vfs t i status result"
  let ?answer = "finished_frames E [proxy, client] vfs t i status result"
  have zero: "fst (zmsg_send E hist Backend m) = 0" "fst (zmsg_send E hist Processor m) = 0" for hist m
    using E(2,3) by (simp_all add: backend_ok_def processor_ok_def)
  have "ident # ?answer = worker_message E ident WorkerFinished (response_payload E [proxy, client] vfs t i ?reply)"
    by (simp add: finished_frames_def to_worker_def worker_message_def)
  with through_proxy_and_broker[OF E(1,2) ids p b c wi cap idle f, of n1 body n2 n5 ?reply n6]
  obtain request p1 b1 returned b2 p2 where way:
    "clientClientMessagingReactor E n1 (Some (client_request E [client] vfs t i body)) p = (0, p1)"
    "last (cp_sends p1) = (brokerMessagingSocket, request, 0)"
    "frontendMessagingReactor E n2 (Some (proxy # request)) b = Some (0, b1)"
    "(Backend, ident # ?job, 0) \<in> set (sends b1)"
    "backendMessagingReactor E n5 (Some (ident # ?answer)) b1 = Some (0, b2)"
    "last (sends b2) = (Frontend, proxy # returned, 0)"
    "clientBrokerMessagingReactor E n6 (Some returned) p1 = (0, p2)"
    "last (cp_sends p2) = (clientMessagingSocket, answer_frames E client vfs t i ?reply, 0)"
    by (auto simp: to_worker_def simp del: ClusterMessage_value.simps)
  have env: "is_envelope [proxy, client]" "[proxy, client] \<noteq> []" using ids by (simp_all add: is_envelope_def)
  obtain worker1 where w1: "brokerMessagingReactor E n3 (Some ?job) worker = Some (0, worker1)"
    "(requestProcessorMessagingSocket, ?task, 0) \<in> set (wk_sends worker1)"
    "requestContexts worker1 (t, i) = Some (ClientRequestContext_of t i vfs [proxy, client])"
    using request_run[OF E(1) env wk(1,2), of n3 vfs i body] wk(3) zero(2) by (auto simp: Let_def)
  have r1: "worker_reachable E worker1"
    by (rule worker_reachable.callback[OF wk(1), of "WkBrokerReadable n3 (Some ?job)" 0]) (simp add: w1(1))
  obtain processor1 where p1: "workerMessagingReactor E process (Some ?task) processor = Some (0, processor1)"
    "last (rp_sends processor1) = (Processor, ?done, 0)"
    using processor_handles[where process = process, OF E(1) h(1) refl, of processor] zero(2) by auto
  obtain worker2 where w2: "requestProcessorReactor E n4 (Some ?done) worker1 = Some (0, worker2)"
    "last (wk_sends worker2) = (messagingSocket, ?answer, 0)"
    using answer_run[OF E(1) r1, of n4 vfs t i status result] w1(3) zero(1) h(2)
    by (auto simp: Let_def ClientRequestContext_of_def)
  from way w1(1,2) p1 w2 show ?thesis by blast
qed

text \<open>
  C5: The way of a request and its answer, from call to call. An application that sends a request with
  the client library puts a message on the wire to which the proxy's ROUTER adds the identity of the
  client. The proxy passes it on, the broker's ROUTER adds the identity of the proxy; the broker
  gives it to an available worker under both identities. That worker, which supports the type and
  does not have the request, hands it to its processor; the processor answers with the status and
  the message of the request handler; the worker sends them to the broker under the envelope, the
  broker to the proxy, the proxy to the client. The next call that retrieves responses gives the
  application that status and that message under the type, the identifier and the flags of the
  request.
\<close>

theorem client_call_returns_answer:
  fixes n1 n2 n3 n4 n5 n6 :: time_t
  assumes E: "env_ok E" "backend_ok E" "processor_ok E"
    and ids: "client \<noteq> []" "proxy \<noteq> []" "ident \<noteq> []"
    and p: "proxy_reachable E p" and b: "reachable E b"
    and c: "requestTypeContextLookup b t = Some c" "ctx_requests c i = None" "GetNextAvailableWorker c = Some w"
    and wi: "LookupWorkerInfo (workerInfoLookup b) ident = Some w" "workerHeap b w = Some wi" "wi_identity wi = ident"
    and cap: "0 < FreeCapacity wi" and idle: "nothing_pending (wi_supportedRequestTypes wi) b"
    and f: "vfs = LHCVersionFlags LHCVersion_default messageFlags" "flags_ok vfs" "\<not> hasAny vfs Asynchronous"
    and wk: "worker_reachable E worker" "t \<in> set (supportedRequestTypes worker)" "requestContexts worker (t, i) = None"
    and h: "process vfs t i body = Some (status, Some result)" "status \<noteq> RS_FatalError"
    and cl: "cl_inbox cl = []"
  shows "\<exists>cl1 asked request p1 b1 job worker1 task processor1 finished worker2 answer b2 returned p2 got.
    SendRequest_msg E t i messageFlags body cl = (0, None, cl1) \<and> last (cl_sends cl1) = (Backend, asked, 0) \<and>
    clientClientMessagingReactor E n1 (Some (client # asked)) p = (0, p1) \<and>
      last (cp_sends p1) = (brokerMessagingSocket, request, 0) \<and>
    frontendMessagingReactor E n2 (Some (proxy # request)) b = Some (0, b1) \<and>
      (Backend, ident # job, 0) \<in> set (sends b1) \<and>
    brokerMessagingReactor E n3 (Some job) worker = Some (0, worker1) \<and>
      (requestProcessorMessagingSocket, task, 0) \<in> set (wk_sends worker1) \<and>
    workerMessagingReactor E process (Some task) processor = Some (0, processor1) \<and>
      last (rp_sends processor1) = (Processor, finished, 0) \<and>
    requestProcessorReactor E n4 (Some finished) worker1 = Some (0, worker2) \<and>
      last (wk_sends worker2) = (messagingSocket, answer, 0) \<and>
    backendMessagingReactor E n5 (Some (ident # answer)) b1 = Some (0, b2) \<and>
      last (sends b2) = (Frontend, proxy # returned, 0) \<and>
    clientBrokerMessagingReactor E n6 (Some returned) p1 = (0, p2) \<and>
      last (cp_sends p2) = (clientMessagingSocket, client # got, 0) \<and>
    RetrieveResponses_now E 1 [([Some got], 0)] [] cl1 = Some (Retrieved 1,
      [\<lparr> rr_id = i, rr_type = t, rr_status = RequestStatus_value status, rr_message = Some result, rr_vfs = vfs \<rparr>], cl1)"
proof -
  let ?asked = "client_request E [] vfs t i body" and ?got = "response_frames E vfs t i (RequestStatus_value status) result"
  obtain cl1 where cl1: "SendRequest_msg E t i messageFlags body cl = (0, None, cl1)" "last (cl_sends cl1) = (Backend, ?asked, 0)"
    "cl_inbox cl1 = []"
    using E(2) cl SendRequest_run[OF E(1) refl, of t i messageFlags body cl] by (simp add: backend_ok_def f(1))
  have "is_response E (Some ?got)" "response E (Some ?got) =
      \<lparr> rr_id = i, rr_type = t, rr_status = RequestStatus_value status, rr_message = Some result, rr_vfs = vfs \<rparr>"
    using E(1) by (simp_all add: is_response_def response_def response_parse)
  then have rr: "RetrieveResponses_now E 1 [([Some ?got], 0)] [] cl1 = Some (Retrieved 1,
      [\<lparr> rr_id = i, rr_type = t, rr_status = RequestStatus_value status, rr_message = Some result, rr_vfs = vfs \<rparr>], cl1)"
    using cl1(3) receive_waiting_eq[of "[Some ?got]" E 1 0 "[]"]
    by (cases cl1) (simp add: RetrieveResponses_now_def RetrieveResponses_ms_def Let_def del: receive_waiting.simps)
  have m: "client_request E [client] vfs t i body = client # ?asked"
    "answer_frames E client vfs t i (enc_u32 E (RequestStatus_value status) # result) = client # ?got"
    by (simp_all add: client_request_def answer_frames_def response_frames_def)
  note travel = cluster_travel[where process = process and processor = processor and ?n1.0 = n1 and ?n2.0 = n2 and ?n3.0 = n3
      and ?n4.0 = n4 and ?n5.0 = n5 and ?n6.0 = n6, OF E ids p b c wi cap idle f(2,3) wk h, unfolded m]
  from travel cl1(1,2) rr show ?thesis by (elim exE conjE) (intro exI conjI; assumption)
qed

lemma client_call_returns_answer_witness:
  "\<exists>cl1 asked request p1 b1 job worker1 task processor1 finished worker2 answer b2 returned p2 got.
    SendRequest_msg good_env 1 5 MF_None [[2]] Client_new = (0, None, cl1) \<and>
    clientClientMessagingReactor good_env 101 (Some ([7] # asked)) example_proxy = (0, p1) \<and>
    frontendMessagingReactor good_env 102 (Some ([6] # request)) idle_broker = Some (0, b1) \<and>
    brokerMessagingReactor good_env 103 (Some job) idle_worker = Some (0, worker1) \<and>
    workerMessagingReactor good_env (\<lambda>_ _ _ body. Some (RS_Succeeded, Some body)) (Some task) RequestProcessor_new = Some (0, processor1) \<and>
    requestProcessorReactor good_env 104 (Some finished) worker1 = Some (0, worker2) \<and>
    backendMessagingReactor good_env 105 (Some ([7] # answer)) b1 = Some (0, b2) \<and>
    clientBrokerMessagingReactor good_env 106 (Some returned) p1 = (0, p2) \<and>
    RetrieveResponses_now good_env 1 [([Some got], 0)] [] cl1 = Some (Retrieved 1,
      [\<lparr> rr_id = 5, rr_type = 1, rr_status = RequestStatus_value RS_Succeeded, rr_message = Some [[2]], rr_vfs = plain \<rparr>], cl1)"
proof -
  let ?process = "\<lambda>_ _ _ body. Some (RS_Succeeded, Some body)"
  have b: "LookupWorkerInfo (workerInfoLookup idle_broker) [7] = Some 0" "nothing_pending [1] idle_broker"
    by (simp_all add: LookupWorkerInfo_def nothing_pending_def)
  have f: "plain = LHCVersionFlags LHCVersion_default MF_None" by (simp add: plain_def LHCVersion_default_def)
  show ?thesis
    using client_call_returns_answer[where E = good_env and client = "[7]" and proxy = "[6]" and ident = "[7]" and p = example_proxy
        and b = idle_broker and t = 1 and i = 5 and c = idle_context and w = 0 and wi = example_worker and vfs = plain and messageFlags = MF_None
        and worker = idle_worker and process = ?process and body = "[[2]]" and status = RS_Succeeded and result = "[[2]]" and cl = Client_new
        and ?n1.0 = 101 and ?n2.0 = 102 and ?n3.0 = 103 and ?n4.0 = 104 and ?n5.0 = 105 and ?n6.0 = 106 and processor = RequestProcessor_new,
        OF _ _ _ _ _ _ _ idle_reachable _ _ _ b(1) _ _ _ _ f] b(2)
    by (simp add: Client_new_def del: RequestStatus_value.simps) blast
qed

end
