(* ===== verification/Endpoint.thy ===== *)
theory Endpoint
  imports Prelude
begin

text \<open>
  Addresses: \<open>Endpoint\<close> (endpoint.h, .cxx) and \<open>EndpointBuilder\<close> (endpointbuilder.h, .cxx,
  clusterparametersbuilder.h). A C string is the list of its characters before the NUL; a
  \<open>std::string\<close> given as one is cut there. What throws is the left of a sum.
\<close>

section \<open>\<open>Endpoint\<close>\<close>

datatype EndpointType = ET_None | ET_TCP | ET_InterThread | ET_InterProcess

fun EndpointTypePrefix :: "EndpointType \<Rightarrow> string" where
  "EndpointTypePrefix ET_None = ''None://''"
| "EndpointTypePrefix ET_TCP = ''tcp://''"
| "EndpointTypePrefix ET_InterThread = ''inproc://''"
| "EndpointTypePrefix ET_InterProcess = ''ipc://''"

record Endpoint =
  endpoint_path :: string
  endpoint_type :: EndpointType

definition MAX_ENDPOINT_LENGTH :: nat where
  "MAX_ENDPOINT_LENGTH = 512"

definition MAX_ENDPOINT_PATH_LENGTH :: nat where
  "MAX_ENDPOINT_PATH_LENGTH = 504"

definition Endpoint_new :: Endpoint where
  "Endpoint_new = \<lparr> endpoint_path = [], endpoint_type = ET_None \<rparr>"

text \<open>\<open>snprintf\<close> writes at most one character less than its limit, and the NUL.\<close>

definition snprintf :: "nat \<Rightarrow> string \<Rightarrow> string" where
  "snprintf n s = take (n - 1) s"

definition Endpoint_of :: "EndpointType \<Rightarrow> string option \<Rightarrow> string + Endpoint" where
  "Endpoint_of type path =
     (case path of
        None \<Rightarrow> Inr \<lparr> endpoint_path = [], endpoint_type = type \<rparr>
      | Some p \<Rightarrow>
          (if length p > MAX_ENDPOINT_PATH_LENGTH then Inl ''path to long''
           else Inr \<lparr> endpoint_path = snprintf MAX_ENDPOINT_LENGTH (EndpointTypePrefix type @ p), endpoint_type = type \<rparr>))"

text \<open>\<open>strncmp\<close>: the types are not compared.\<close>

definition Endpoint_eq :: "Endpoint \<Rightarrow> Endpoint \<Rightarrow> bool" where
  "Endpoint_eq e1 e2 \<longleftrightarrow> take MAX_ENDPOINT_LENGTH (endpoint_path e1) = take MAX_ENDPOINT_LENGTH (endpoint_path e2)"

section \<open>Numbers with their sign\<close>

definition stream_int :: "int \<Rightarrow> string" where
  "stream_int n = (if n < 0 then CHR ''-'' # decimal (nat (- n)) else decimal (nat n))"

section \<open>\<open>EndpointBuilder\<close>\<close>

record EndpointBuilder =
  eb_endpointType :: EndpointType
  eb_baseAddress :: string
  eb_port :: int
  eb_endpoint :: Endpoint
  eb_hasComponents :: bool
  eb_instance :: int
  eb_process :: int
  eb_thread :: int

fun endpointTypeSuffix :: "EndpointType \<Rightarrow> string" where
  "endpointTypeSuffix ET_InterThread = ''.zitc''"
| "endpointTypeSuffix ET_InterProcess = ''.zipc''"
| "endpointTypeSuffix _ = []"

definition EndpointBuilder_new :: EndpointBuilder where
  "EndpointBuilder_new = \<lparr> eb_endpointType = ET_None, eb_baseAddress = [], eb_port = 0, eb_endpoint = Endpoint_new,
     eb_hasComponents = True, eb_instance = 0, eb_process = 0, eb_thread = 0 \<rparr>"

definition SetBaseAddress :: "string \<Rightarrow> EndpointBuilder \<Rightarrow> EndpointBuilder" where
  "SetBaseAddress a b = b\<lparr>eb_hasComponents := True, eb_baseAddress := a\<rparr>"

definition SetPort :: "int \<Rightarrow> EndpointBuilder \<Rightarrow> EndpointBuilder" where
  "SetPort p b = b\<lparr>eb_hasComponents := True, eb_port := p\<rparr>"

definition SetEndpointType :: "EndpointType \<Rightarrow> EndpointBuilder \<Rightarrow> EndpointBuilder" where
  "SetEndpointType t b = b\<lparr>eb_hasComponents := True, eb_endpointType := t\<rparr>"

definition SetEndpoint :: "Endpoint \<Rightarrow> EndpointBuilder \<Rightarrow> EndpointBuilder" where
  "SetEndpoint e b = b\<lparr>eb_hasComponents := False, eb_endpoint := e\<rparr>"

definition SetInstance :: "int \<Rightarrow> EndpointBuilder \<Rightarrow> EndpointBuilder" where
  "SetInstance i b = b\<lparr>eb_instance := i\<rparr>"

definition SetProcess :: "int \<Rightarrow> EndpointBuilder \<Rightarrow> EndpointBuilder" where
  "SetProcess i b = b\<lparr>eb_process := i\<rparr>"

definition SetThread :: "int \<Rightarrow> EndpointBuilder \<Rightarrow> EndpointBuilder" where
  "SetThread i b = b\<lparr>eb_thread := i\<rparr>"

definition EndpointBuilder_OK :: "EndpointBuilder \<Rightarrow> string + bool" where
  "EndpointBuilder_OK b =
     (if eb_hasComponents b then
        (if eb_endpointType b = ET_TCP \<and> eb_port b \<le> 0 then Inl ''invalid port''
         else if eb_endpointType b = ET_None then Inl ''invalid endpoint type''
         else if eb_baseAddress b = [] then Inl ''invalid endpoint address''
         else Inr True)
      else Inr True)"

definition endpoint_name :: "EndpointType \<Rightarrow> string \<Rightarrow> int \<Rightarrow> int \<Rightarrow> int \<Rightarrow> int \<Rightarrow> string" where
  "endpoint_name type address port i p t =
     address @
     (case type of
        ET_TCP \<Rightarrow> '':'' @ stream_int port
      | ET_None \<Rightarrow> []
      | _ \<Rightarrow>
          (if i \<noteq> 0 \<and> p \<noteq> 0 \<and> t \<noteq> 0 then ''_'' @ stream_int i @ ''_'' @ stream_int p @ ''_'' @ stream_int t else []) @
          endpointTypeSuffix type)"

definition c_string :: "string \<Rightarrow> string" where
  "c_string s = takeWhile (\<lambda>c. c \<noteq> CHR 0x00) s"

definition EndpointBuilder_Build_of :: "EndpointBuilder \<Rightarrow> int \<Rightarrow> int \<Rightarrow> int \<Rightarrow> string + Endpoint" where
  "EndpointBuilder_Build_of b i p t =
     Endpoint_of (eb_endpointType b) (Some (c_string (endpoint_name (eb_endpointType b) (eb_baseAddress b) (eb_port b) i p t)))"

definition EndpointBuilder_Build :: "EndpointBuilder \<Rightarrow> string + Endpoint" where
  "EndpointBuilder_Build b =
     (if eb_hasComponents b then EndpointBuilder_Build_of b (eb_instance b) (eb_process b) (eb_thread b)
      else Inr (eb_endpoint b))"

section \<open>What they do\<close>

lemma decimal_nonempty [simp]: "decimal n \<noteq> []" "[] \<noteq> decimal n"
  by (subst decimal.simps, simp)+

lemma digit_inj: "a < 10 \<Longrightarrow> b < 10 \<Longrightarrow> (char_of (48 + a) :: char) = char_of (48 + b) \<Longrightarrow> a = (b :: nat)"
proof -
  assume "a < 10" "b < 10" "(char_of (48 + a) :: char) = char_of (48 + b)"
  then have "of_char (char_of (48 + a) :: char) = (of_char (char_of (48 + b) :: char) :: nat)" by simp
  then show "a = b" using \<open>a < 10\<close> \<open>b < 10\<close> by simp
qed

lemma decimal_inj: "decimal m = decimal n \<Longrightarrow> m = n"
proof (induction m arbitrary: n rule: decimal.induct)
  case (1 m)
  have l: "(if m < 10 then [] else decimal (m div 10)) = (if n < 10 then [] else decimal (n div 10))"
    "(char_of (48 + m mod 10) :: char) = char_of (48 + n mod 10)"
    using 1(2) by (subst (asm) decimal.simps, subst (asm) (2) decimal.simps, simp split: if_splits)+
  from l(2) have d: "m mod 10 = n mod 10" by (rule digit_inj[rotated 2]) simp_all
  show ?case
  proof (cases "m < 10")
    case True
    then have "n < 10" using l(1) by (auto split: if_splits)
    then show ?thesis using d True by simp
  next
    case False
    then have "\<not> n < 10" "decimal (m div 10) = decimal (n div 10)" using l(1) by (auto split: if_splits)
    then have "m div 10 = n div 10" using 1(1)[OF False] by blast
    then show ?thesis using d by (metis mult_div_mod_eq)
  qed
qed

lemma decimal_digits: "c \<in> set (decimal n) \<Longrightarrow> \<exists>d < 10. c = char_of (48 + d :: nat)"
proof (induction n rule: decimal.induct)
  case (1 n)
  from 1(2) have "c \<in> set (if n < 10 then [] else decimal (n div 10)) \<or> c = char_of (48 + n mod 10)"
    by (subst (asm) decimal.simps) auto
  then show ?case
  proof
    assume "c \<in> set (if n < 10 then [] else decimal (n div 10))"
    then show ?thesis using 1(1) by (auto split: if_splits)
  next
    assume "c = char_of (48 + n mod 10)"
    then show ?thesis by (intro exI[of _ "n mod 10"]) simp
  qed
qed

lemma digit_not: "d < 10 \<Longrightarrow> char_of (48 + d :: nat) \<noteq> CHR ''-'' \<and> char_of (48 + d :: nat) \<noteq> CHR ''_'' \<and> char_of (48 + d :: nat) \<noteq> CHR 0x00"
proof -
  assume d: "d < 10"
  have v: "(of_char (char_of (48 + d) :: char) :: nat) = 48 + d" using d by simp
  have "(char_of (48 + d) :: char) \<noteq> c" if "(of_char c :: nat) < 48 \<or> 57 < (of_char c :: nat)" for c
    using v d that by auto
  then show ?thesis by simp
qed

lemma stream_int_chars: "c \<in> set (stream_int n) \<Longrightarrow> c \<noteq> CHR ''_'' \<and> c \<noteq> CHR 0x00"
  by (auto simp: stream_int_def dest!: decimal_digits split: if_splits; use digit_not in blast)

lemma stream_int_inj: "stream_int m = stream_int n \<Longrightarrow> m = n"
proof -
  have "CHR ''-'' \<notin> set (decimal k)" for k by (metis decimal_digits digit_not)
  then have no: "decimal k \<noteq> CHR ''-'' # xs" "CHR ''-'' # xs \<noteq> decimal k" for k xs by (metis list.set_intros(1))+
  assume "stream_int m = stream_int n"
  then show ?thesis using no by (auto simp: stream_int_def dest!: decimal_inj split: if_splits)
qed

lemma separated:
  assumes "c \<notin> set x" "c \<notin> set y" "x @ c # xs = y @ c # ys"
  shows "x = y \<and> xs = ys"
proof -
  have "takeWhile (\<lambda>d. d \<noteq> c) (x @ c # xs) = x" "takeWhile (\<lambda>d. d \<noteq> c) (y @ c # ys) = y"
    using assms(1,2) by (subst takeWhile_append2; auto)+
  then have "x = y" using assms(3) by metis
  then show ?thesis using assms(3) by simp
qed

end
