(* ===== verification/NotifyPublisher.thy ===== *)
theory NotifyPublisher
  imports Endpoint Handlers Host
begin

text \<open>
  \<open>NotifyPublisher\<close> (notifypublisher.h, .cxx) and \<open>NotifyBroker\<close> (notifybroker.h, .cxx). A publisher
  writes the type of a notification as text, for subscribers subscribe to text. Its socket is made
  and activated by the constructor. The broker only starts and stops CZMQ's proxy actor. A send is a
  call whose code a parameter gives; \<open>zmsg_new\<close> does not return \<open>NULL\<close>.
\<close>

section \<open>Publisher\<close>

datatype publisher_socket = NP_publisher

type_synonym publisher_hosting = "(publisher_socket, unit) host_env"
type_synonym 'a publisher_hosted = "(publisher_socket, unit, 'a) hosted"

record NotifyPublisher =
  np_selfEndpoint :: Endpoint
  np_proxyEndpoint :: Endpoint

definition activatePublisherSocket :: "publisher_hosting \<Rightarrow> NotifyPublisher \<Rightarrow> int publisher_hosted" where
  "activatePublisherSocket H np = do {
     ret \<leftarrow> (if endpoint_type (np_selfEndpoint np) \<noteq> ET_None
       then invoke H (Bind NP_publisher (endpoint_path (np_selfEndpoint np))) else State_Monad.return 0);
     ret1 \<leftarrow> (if endpoint_type (np_proxyEndpoint np) \<noteq> ET_None
       then invoke H (Connect NP_publisher (endpoint_path (np_proxyEndpoint np))) else State_Monad.return 0);
     State_Monad.return (ret + ret1)
   }"

definition deactivatePublisherSocket :: "publisher_hosting \<Rightarrow> NotifyPublisher \<Rightarrow> int publisher_hosted" where
  "deactivatePublisherSocket H np = do {
     ret \<leftarrow> (if endpoint_type (np_selfEndpoint np) \<noteq> ET_None
       then invoke H (UnBind NP_publisher (endpoint_path (np_selfEndpoint np))) else State_Monad.return 0);
     ret1 \<leftarrow> (if endpoint_type (np_proxyEndpoint np) \<noteq> ET_None
       then invoke H (DisConnect NP_publisher (endpoint_path (np_proxyEndpoint np))) else State_Monad.return 0);
     State_Monad.return (ret + ret1)
   }"

text \<open>What the three constructors share; \<open>None\<close> if the socket is null, which throws.\<close>

definition publisher_construct :: "publisher_hosting \<Rightarrow> NotifyPublisher \<Rightarrow> NotifyPublisher option publisher_hosted" where
  "publisher_construct H np = do {
     factory_create H NP_publisher Publisher;
     h \<leftarrow> State_Monad.get;
     if NP_publisher \<notin> present h then State_Monad.return None
     else do {
       _ \<leftarrow> activatePublisherSocket H np;
       State_Monad.return (Some np)
     }
   }"

definition NotifyPublisher_proxy :: "publisher_hosting \<Rightarrow> Endpoint \<Rightarrow> NotifyPublisher option publisher_hosted" where
  "NotifyPublisher_proxy H proxyEndpoint = publisher_construct H \<lparr> np_selfEndpoint = Endpoint_new, np_proxyEndpoint = proxyEndpoint \<rparr>"

definition NotifyPublisher_self :: "publisher_hosting \<Rightarrow> Endpoint \<Rightarrow> NotifyPublisher option publisher_hosted" where
  "NotifyPublisher_self H selfEndpoint = publisher_construct H \<lparr> np_selfEndpoint = selfEndpoint, np_proxyEndpoint = Endpoint_new \<rparr>"

definition NotifyPublisher_both :: "publisher_hosting \<Rightarrow> Endpoint \<Rightarrow> Endpoint \<Rightarrow> NotifyPublisher option publisher_hosted" where
  "NotifyPublisher_both H selfEndpoint proxyEndpoint =
     publisher_construct H \<lparr> np_selfEndpoint = selfEndpoint, np_proxyEndpoint = proxyEndpoint \<rparr>"

definition NotifyPublisher_destroy :: "publisher_hosting \<Rightarrow> NotifyPublisher \<Rightarrow> unit publisher_hosted" where
  "NotifyPublisher_destroy H np = do {
     h \<leftarrow> State_Monad.get;
     if NP_publisher \<in> present h then do {
       _ \<leftarrow> deactivatePublisherSocket H np;
       factory_destroy H NP_publisher
     } else State_Monad.return ()
   }"

section \<open>Publishing\<close>

type_synonym NotificationType = "byte list"

definition Publish :: "publisher_hosting \<Rightarrow> env \<Rightarrow> NotificationType \<Rightarrow> int publisher_hosted" where
  "Publish H E notifyType =
     invoke H (SendOn NP_publisher (snd (append_message_value_as_str_string E (zmsg_new E) notifyType)))"

definition Publish_id :: "publisher_hosting \<Rightarrow> env \<Rightarrow> NotificationType \<Rightarrow> RequestId \<Rightarrow> int publisher_hosted" where
  "Publish_id H E notifyType requestId =
     (let publishMsg = snd (append_message_value_as_str_string E (zmsg_new E) notifyType)
      in invoke H (SendOn NP_publisher (add_u64 E requestId publishMsg)))"

text \<open>The caller's message, which stays with the caller if it is not sent, takes the frames in front.\<close>

definition Publish_msg :: "publisher_hosting \<Rightarrow> env \<Rightarrow> NotificationType \<Rightarrow> zmsg \<Rightarrow> int publisher_hosted" where
  "Publish_msg H E notifyType m =
     invoke H (SendOn NP_publisher (snd (prepend_message_value_as_str_string E m notifyType)))"

definition Publish_id_msg :: "publisher_hosting \<Rightarrow> env \<Rightarrow> NotificationType \<Rightarrow> RequestId \<Rightarrow> zmsg \<Rightarrow> int publisher_hosted" where
  "Publish_id_msg H E notifyType requestId m =
     (let publishMsg = snd (fst (prepend_message_value_uint64 E ZMQFrameHandler_new m requestId))
      in invoke H (SendOn NP_publisher (snd (prepend_message_value_as_str_string E publishMsg notifyType))))"

section \<open>Broker\<close>

text \<open>The actor as CZMQ has it: made, told its two endpoints, destroyed.\<close>

datatype actor_call = zactor_new | proxy_frontend_endpoint string | proxy_backend_endpoint string | zactor_destroy

record NotifyBroker =
  self_frontend_endpoint :: Endpoint
  self_backend_endpoint :: Endpoint
  has_proxy :: bool
  actor_calls :: "actor_call list"

definition NotifyBroker_new :: "Endpoint \<Rightarrow> Endpoint \<Rightarrow> NotifyBroker" where
  "NotifyBroker_new frontend backend = \<lparr> self_frontend_endpoint = frontend, self_backend_endpoint = backend,
     has_proxy = False, actor_calls = [] \<rparr>"

text \<open>\<open>made\<close>: whether \<open>zactor_new\<close> gives an actor. \<open>False\<close> is the exception.\<close>

definition NotifyBroker_Start :: "bool \<Rightarrow> NotifyBroker \<Rightarrow> bool \<times> NotifyBroker" where
  "NotifyBroker_Start made b =
     (if has_proxy b then (True, b)
      else if \<not> made then (False, b\<lparr>actor_calls := actor_calls b @ [zactor_new]\<rparr>)
      else (True, b\<lparr>has_proxy := True, actor_calls := actor_calls b @ [zactor_new,
        proxy_frontend_endpoint (endpoint_path (self_frontend_endpoint b)),
        proxy_backend_endpoint (endpoint_path (self_backend_endpoint b))]\<rparr>))"

definition NotifyBroker_Stop :: "NotifyBroker \<Rightarrow> NotifyBroker" where
  "NotifyBroker_Stop b = (if has_proxy b then b\<lparr>has_proxy := False, actor_calls := actor_calls b @ [zactor_destroy]\<rparr> else b)"

definition NotifyBroker_destroy :: "NotifyBroker \<Rightarrow> NotifyBroker" where
  "NotifyBroker_destroy b = NotifyBroker_Stop b"

end
