(* ===== verification/NotifySubscriber.thy ===== *)
theory NotifySubscriber
  imports NotifyPublisher
begin

text \<open>
  \<open>NotifySubscriber\<close> (notifysubscriber.h, .cxx). One thread runs its reactor: it hands notifications to
  the application's \<open>INotifyHandler\<close>, takes commands from the listener socket, and connects again
  every five minutes. The thread of the application sends the commands on the signaler socket. What
  the handler does is a parameter: a status, or it throws (\<open>None\<close>). Every call on sockets and
  reactor goes to the host.
\<close>

section \<open>State\<close>

datatype NotifySubscriberCommand = NC_None | NC_Start | NC_Stop | NC_Subscribe | NC_UnSubscribe

fun NotifySubscriberCommand_value :: "NotifySubscriberCommand \<Rightarrow> 32 word" where
  "NotifySubscriberCommand_value NC_None = 0"
| "NotifySubscriberCommand_value NC_Start = 1"
| "NotifySubscriberCommand_value NC_Stop = 2"
| "NotifySubscriberCommand_value NC_Subscribe = 3"
| "NotifySubscriberCommand_value NC_UnSubscribe = 4"

datatype NotifySubscriberExitState = NX_None | NX_GracefulStop | NX_Reconnect | NX_StartFailed

datatype subscriber_socket = NS_listener | NS_signaler | NS_subscriber

datatype subscriber_timer = NS_publisherReconnect | NS_dumpStats

type_synonym subscriber_hosting = "(subscriber_socket, subscriber_timer) host_env"
type_synonym 'a subscriber_hosted = "(subscriber_socket, subscriber_timer, 'a) hosted"
type_synonym subscriber_host = "(subscriber_socket, subscriber_timer) host"
type_synonym notify_handler = "NotificationType \<Rightarrow> zmsg \<Rightarrow> RequestStatus option"

record NotifySubscriber =
  ns_selfControllerEndpoint :: endpoint
  ns_publisherEndpoint :: endpoint
  subscriptions :: "NotificationType list"
  reconnectDelay :: Delay
  ns_exitState :: NotifySubscriberExitState
  ns_host :: subscriber_host

type_synonym 'a subscriber = "(NotifySubscriber, 'a) state"

definition on_host :: "'a subscriber_hosted \<Rightarrow> 'a subscriber" where
  "on_host m = State (\<lambda>s. case run_state m (ns_host s) of (a, h) \<Rightarrow> (a, s\<lparr>ns_host := h\<rparr>))"

definition ns_setExitState :: "NotifySubscriberExitState \<Rightarrow> unit subscriber" where
  "ns_setExitState newExitState = State_Monad.update (\<lambda>s. s\<lparr>ns_exitState := newExitState\<rparr>)"

text \<open>
  The exit state has no initial value; it is set before it is read. The first constructor is the second
  without subscriptions. The flag says whether a handler is given; the result is \<open>None\<close> if it throws.
\<close>

definition NotifySubscriber_construct ::
    "subscriber_hosting \<Rightarrow> endpoint \<Rightarrow> endpoint \<Rightarrow> NotificationType list \<Rightarrow> bool \<Rightarrow> subscriber_host \<Rightarrow> NotifySubscriber option" where
  "NotifySubscriber_construct H self publisher subs handler h =
     (let (ok, h) = run_state (do {
            reactor_create H;
            factory_create H NS_listener Pair;
            factory_create H NS_signaler Pair;
            factory_create H NS_subscriber Subscriber;
            h \<leftarrow> State_Monad.get;
            if NS_signaler \<notin> present h then State_Monad.return False
            else do {
              poller_create H NS_signaler;
              h \<leftarrow> State_Monad.get;
              State_Monad.return (has_reactor h \<and> NS_listener \<in> present h \<and> has_poller h \<and> NS_subscriber \<in> present h \<and> handler)
            }
          }) h
      in if ok then Some \<lparr> ns_selfControllerEndpoint = self, ns_publisherEndpoint = publisher, subscriptions = subs,
           reconnectDelay = 60 * 5, ns_exitState = NX_None, ns_host = h \<rparr> else None)"

section \<open>Sockets and callbacks\<close>

definition setupSubscriberCallbacks :: "subscriber_hosting \<Rightarrow> int subscriber" where
  "setupSubscriberCallbacks H = do {
     s \<leftarrow> State_Monad.get;
     ret \<leftarrow> on_host (invoke H (zloop_reader NS_subscriber));
     _ \<leftarrow> on_host (invoke H (zloop_timer NS_publisherReconnect (1000 * reconnectDelay s)));
     _ \<leftarrow> on_host (invoke H (zloop_timer NS_dumpStats 5000));
     State_Monad.return ret
   }"

definition teardownSubscriberCallbacks :: "subscriber_hosting \<Rightarrow> int subscriber" where
  "teardownSubscriberCallbacks H = do {
     _ \<leftarrow> on_host (invoke H (zloop_reader_end NS_subscriber));
     _ \<leftarrow> on_host (invoke H (zloop_timer_end NS_publisherReconnect));
     _ \<leftarrow> on_host (invoke H (zloop_timer_end NS_dumpStats));
     State_Monad.return 0
   }"

fun subscribe_each :: "subscriber_hosting \<Rightarrow> NotificationType list \<Rightarrow> unit subscriber" where
  "subscribe_each H [] = State_Monad.return ()"
| "subscribe_each H (t # ts) = do {
     _ \<leftarrow> (if t \<noteq> [] then on_host (invoke H (Subscribe NS_subscriber (c_str t))) else State_Monad.return 0);
     subscribe_each H ts
   }"

definition activateSubscriberSockets :: "subscriber_hosting \<Rightarrow> int subscriber" where
  "activateSubscriberSockets H = do {
     s \<leftarrow> State_Monad.get;
     ret \<leftarrow> on_host (invoke H (Connect NS_subscriber (ns_publisherEndpoint s)));
     _ \<leftarrow> (if failed ret = 0 then subscribe_each H (subscriptions s) else State_Monad.return ());
     State_Monad.return (failed ret)
   }"

definition deactivateSubscriberSockets :: "subscriber_hosting \<Rightarrow> int subscriber" where
  "deactivateSubscriberSockets H = do {
     s \<leftarrow> State_Monad.get;
     ret \<leftarrow> on_host (invoke H (DisConnect NS_subscriber (ns_publisherEndpoint s)));
     State_Monad.return (failed ret)
   }"

definition ns_activateControllerSockets :: "subscriber_hosting \<Rightarrow> int subscriber" where
  "ns_activateControllerSockets H = do {
     s \<leftarrow> State_Monad.get;
     ret \<leftarrow> on_host (invoke H (Bind NS_listener (ns_selfControllerEndpoint s)));
     ret1 \<leftarrow> on_host (invoke H (Connect NS_signaler (ns_selfControllerEndpoint s)));
     State_Monad.return (failed ret + failed ret1)
   }"

text \<open>Each code overwrites the one before.\<close>

definition ns_deactivateControllerSockets :: "subscriber_hosting \<Rightarrow> int subscriber" where
  "ns_deactivateControllerSockets H = do {
     s \<leftarrow> State_Monad.get;
     _ \<leftarrow> on_host (invoke H (DisConnect NS_signaler (ns_selfControllerEndpoint s)));
     _ \<leftarrow> on_host (invoke H (UnBind NS_listener (ns_selfControllerEndpoint s)));
     _ \<leftarrow> on_host (RefreshSocket H NS_signaler Pair);
     on_host (RefreshSocket H NS_listener Pair)
   }"

definition ns_teardownControllerCallbacks :: "subscriber_hosting \<Rightarrow> int subscriber" where
  "ns_teardownControllerCallbacks H = do {
     _ \<leftarrow> on_host (invoke H (zloop_reader_end NS_listener));
     State_Monad.return 0
   }"

definition ns_setupControllerCallbacks :: "subscriber_hosting \<Rightarrow> int subscriber" where
  "ns_setupControllerCallbacks H = on_host (invoke H (zloop_reader NS_listener))"

section \<open>In the thread of the reactor\<close>

text \<open>The frames of the message up to the first empty one; \<open>None\<close> if one of them does not read, which throws.\<close>

fun apply_each ::
    "subscriber_hosting \<Rightarrow> bool \<Rightarrow> frame list \<Rightarrow> bool \<Rightarrow> bool option subscriber" where
  "apply_each H subscribing [] subscribedOne = State_Monad.return (Some subscribedOne)"
| "apply_each H subscribing (frame # fs) subscribedOne =
     (if frame = [] then State_Monad.return (Some subscribedOne)
      else (case get_frame_value_as_str_string frame of
          None \<Rightarrow> State_Monad.return None
        | Some subscription \<Rightarrow> do {
            _ \<leftarrow> on_host (invoke H (if subscribing then Subscribe NS_subscriber (c_str subscription)
              else UnSubscribe NS_subscriber (c_str subscription)));
            apply_each H subscribing fs True
          }))"

text \<open>The code 2 for a command without subscriptions is overwritten by that of the signal.\<close>

definition handleControllerCommand_msg :: "subscriber_hosting \<Rightarrow> env \<Rightarrow> zmsg \<Rightarrow> outcome subscriber" where
  "handleControllerCommand_msg H E controllerMessage =
     (case zmsg_frames E controllerMessage of
        (x # xs) # fs \<Rightarrow>
          (case get_u32 E (x # xs) of
             None \<Rightarrow> State_Monad.return Thrown
           | Some command \<Rightarrow>
               if command = NotifySubscriberCommand_value NC_Stop then do {
                 ns_setExitState NX_GracefulStop;
                 State_Monad.return (Returns (-1))
               } else if command = NotifySubscriberCommand_value NC_Subscribe \<or>
                   command = NotifySubscriberCommand_value NC_UnSubscribe then do {
                 one \<leftarrow> apply_each H (command = NotifySubscriberCommand_value NC_Subscribe) fs False;
                 if one = None then State_Monad.return Thrown
                 else do {
                   ret \<leftarrow> on_host (invoke H (SignalOn NS_listener 0));
                   State_Monad.return (Returns ret)
                 }
               } else State_Monad.return (Returns 3))
      | _ \<Rightarrow> State_Monad.return (Returns 0))"

definition handleControllerCommand :: "subscriber_hosting \<Rightarrow> env \<Rightarrow> zmsg option \<Rightarrow> outcome subscriber" where
  "handleControllerCommand H E received =
     (case received of
        None \<Rightarrow> State_Monad.return (Returns 0)
      | Some controllerMessage \<Rightarrow> do {
          res \<leftarrow> handleControllerCommand_msg H E controllerMessage;
          State_Monad.return (only_negative res)
        })"

definition handlePublisherNotification :: "subscriber_hosting \<Rightarrow> env \<Rightarrow> notify_handler \<Rightarrow> zmsg option \<Rightarrow> outcome subscriber" where
  "handlePublisherNotification H E handler received =
     (case received of
        None \<Rightarrow> State_Monad.return (Returns 0)
      | Some publisherMessage \<Rightarrow>
          (case zmsg_pop E publisherMessage of
             (Some (x # xs), publisherMessage) \<Rightarrow>
               (case get_frame_value_as_str_string (x # xs) of
                  None \<Rightarrow> State_Monad.return Thrown
                | Some notificationType \<Rightarrow>
                    (case handler notificationType publisherMessage of
                       None \<Rightarrow> State_Monad.return Thrown
                     | Some status \<Rightarrow>
                         if status = RS_InProgress then State_Monad.return (Returns 0)
                         else if status = RS_Succeeded then do {
                           _ \<leftarrow> on_host (invoke H (UnSubscribe NS_subscriber (c_str notificationType)));
                           State_Monad.return (Returns 0)
                         } else State_Monad.return (Returns (if status = RS_FatalError then -1 else 0))))
           | _ \<Rightarrow> State_Monad.return (Returns 1)))"

definition caught :: "outcome \<Rightarrow> int" where
  "caught res = (case res of Returns ret \<Rightarrow> ret | Thrown \<Rightarrow> -1)"

definition publisherNotificationReactor :: "subscriber_hosting \<Rightarrow> env \<Rightarrow> notify_handler \<Rightarrow> zmsg option \<Rightarrow> int subscriber" where
  "publisherNotificationReactor H E handler received = do {
     res \<leftarrow> handlePublisherNotification H E handler received;
     State_Monad.return (caught (only_negative res))
   }"

definition subscriberPrimaryControllerReactor :: "subscriber_hosting \<Rightarrow> env \<Rightarrow> zmsg option \<Rightarrow> int subscriber" where
  "subscriberPrimaryControllerReactor H E received = do {
     res \<leftarrow> handleControllerCommand H E received;
     State_Monad.return (caught res)
   }"

definition publisherReconnectReactor :: "int subscriber" where
  "publisherReconnectReactor = do {
     ns_setExitState NX_Reconnect;
     State_Monad.return (-1)
   }"

text \<open>The counters are not part of the state.\<close>

definition dumpStatsNotifySubscriberReactor :: "int subscriber" where
  "dumpStatsNotifySubscriberReactor = State_Monad.return 0"

datatype subscriber_event =
    NsPublisherReadable "zmsg option"
  | NsControllerReadable "zmsg option"
  | NsReconnectDue
  | NsDumpStatsDue

fun subscriber_step :: "subscriber_hosting \<Rightarrow> env \<Rightarrow> notify_handler \<Rightarrow> subscriber_event \<Rightarrow> int subscriber" where
  "subscriber_step H E handler (NsPublisherReadable m) = publisherNotificationReactor H E handler m"
| "subscriber_step H E handler (NsControllerReadable m) = subscriberPrimaryControllerReactor H E m"
| "subscriber_step H E handler NsReconnectDue = publisherReconnectReactor"
| "subscriber_step H E handler NsDumpStatsDue = dumpStatsNotifySubscriberReactor"

text \<open>\<open>zloop_start\<close>: callbacks until one returns \<open>-1\<close>; the result tells whether one did.\<close>

fun subscriber_loop :: "subscriber_hosting \<Rightarrow> env \<Rightarrow> notify_handler \<Rightarrow> subscriber_event list \<Rightarrow> bool subscriber" where
  "subscriber_loop H E handler [] = State_Monad.return False"
| "subscriber_loop H E handler (e # es) = do {
     ret \<leftarrow> subscriber_step H E handler e;
     if ret = -1 then State_Monad.return True else subscriber_loop H E handler es
   }"

text \<open>One turn of the \<open>do ... while ( true )\<close>: \<open>None\<close> while the reactor runs, then whether it goes on.\<close>

definition subscriber_turn ::
    "subscriber_hosting \<Rightarrow> env \<Rightarrow> notify_handler \<Rightarrow> subscriber_event list \<Rightarrow> bool option subscriber" where
  "subscriber_turn H E handler events = do {
     ns_setExitState NX_None;
     ret \<leftarrow> activateSubscriberSockets H;
     ret1 \<leftarrow> setupSubscriberCallbacks H;
     ended \<leftarrow> (if ret = 0 \<and> ret1 = 0 then subscriber_loop H E handler events
       else do {
         ns_setExitState NX_StartFailed;
         _ \<leftarrow> on_host (invoke H (SleepFor 1000));
         State_Monad.return True
       });
     if ended then do {
       _ \<leftarrow> teardownSubscriberCallbacks H;
       _ \<leftarrow> deactivateSubscriberSockets H;
       s \<leftarrow> State_Monad.get;
       State_Monad.return (Some (ns_exitState s \<noteq> NX_GracefulStop))
     } else State_Monad.return None
   }"

fun NotifySubscriber_StartAsPrimary ::
    "subscriber_hosting \<Rightarrow> env \<Rightarrow> notify_handler \<Rightarrow> subscriber_event list list \<Rightarrow> bool option subscriber" where
  "NotifySubscriber_StartAsPrimary H E handler [] = State_Monad.return None"
| "NotifySubscriber_StartAsPrimary H E handler (turn # turns) = do {
     more \<leftarrow> subscriber_turn H E handler turn;
     if more = Some True then NotifySubscriber_StartAsPrimary H E handler turns else State_Monad.return more
   }"

section \<open>In the thread of the application\<close>

text \<open>A command goes out on the signaler; an answer is awaited and thrown away.\<close>

definition send_and_wait :: "subscriber_hosting \<Rightarrow> zmsg \<Rightarrow> int \<Rightarrow> int subscriber" where
  "send_and_wait H subMsg timeout = do {
     ret \<leftarrow> on_host (invoke H (SendOn NS_signaler subMsg));
     if ret \<noteq> 0 then State_Monad.return 2
     else do {
       answered \<leftarrow> on_host (invoke H (PollOn NS_signaler timeout));
       if answered \<noteq> 0 then do {
         _ \<leftarrow> on_host (invoke H (ReceiveOn NS_signaler));
         State_Monad.return 0
       } else State_Monad.return 3
     }
   }"

definition subscriptions_message :: "env \<Rightarrow> NotifySubscriberCommand \<Rightarrow> NotificationType list \<Rightarrow> zmsg" where
  "subscriptions_message E command subs =
     (let subMsg = zmsg_prepend E (zmsg_new E) [];
          subMsg = fold (\<lambda>t subMsg. snd (prepend_message_value_as_str_string E subMsg t)) (rev subs) subMsg
      in push_u32 E (NotifySubscriberCommand_value command) subMsg)"

definition subOrUnsub ::
    "subscriber_hosting \<Rightarrow> env \<Rightarrow> NotifySubscriberCommand \<Rightarrow> NotificationType list \<Rightarrow> int \<Rightarrow> int subscriber" where
  "subOrUnsub H E command subs timeout = send_and_wait H (subscriptions_message E command subs) timeout"

definition NotifySubscriber_Subscribe :: "subscriber_hosting \<Rightarrow> env \<Rightarrow> NotificationType list \<Rightarrow> int \<Rightarrow> int subscriber" where
  "NotifySubscriber_Subscribe H E subs timeout = subOrUnsub H E NC_Subscribe subs timeout"

text \<open>The command is the same.\<close>

definition NotifySubscriber_UnSubscribe :: "subscriber_hosting \<Rightarrow> env \<Rightarrow> NotificationType list \<Rightarrow> int \<Rightarrow> int subscriber" where
  "NotifySubscriber_UnSubscribe H E subs timeout = subOrUnsub H E NC_Subscribe subs timeout"

definition sendCommand :: "subscriber_hosting \<Rightarrow> env \<Rightarrow> NotifySubscriberCommand \<Rightarrow> int \<Rightarrow> int subscriber" where
  "sendCommand H E command timeout = send_and_wait H (push_u32 E (NotifySubscriberCommand_value command) (zmsg_new E)) timeout"

text \<open>\<open>False\<close>: the constructor of the thread threw, and what is activated stays so.\<close>

definition NotifySubscriber_Start :: "subscriber_hosting \<Rightarrow> bool subscriber" where
  "NotifySubscriber_Start H = do {
     _ \<leftarrow> ns_activateControllerSockets H;
     _ \<leftarrow> ns_setupControllerCallbacks H;
     on_host (new_thread H)
   }"

definition NotifySubscriber_Stop :: "subscriber_hosting \<Rightarrow> env \<Rightarrow> unit subscriber" where
  "NotifySubscriber_Stop H E = do {
     s \<leftarrow> State_Monad.get;
     _ \<leftarrow> (if reactorThread (ns_host s) then do {
         _ \<leftarrow> sendCommand H E NC_Stop 100;
         _ \<leftarrow> on_host (invoke H JoinThread);
         on_host (State_Monad.update (\<lambda>h. h\<lparr>reactorThread := False\<rparr>))
       } else State_Monad.return ());
     _ \<leftarrow> ns_teardownControllerCallbacks H;
     _ \<leftarrow> ns_deactivateControllerSockets H;
     State_Monad.return ()
   }"

text \<open>The poller is not destroyed.\<close>

definition NotifySubscriber_destroy :: "subscriber_hosting \<Rightarrow> env \<Rightarrow> unit subscriber" where
  "NotifySubscriber_destroy H E = do {
     NotifySubscriber_Stop H E;
     on_host (destroy_reactor H);
     on_host (destroy_present H NS_subscriber);
     on_host (destroy_present H NS_listener);
     on_host (destroy_present H NS_signaler)
   }"

lemma run_on_host [simp]:
  "run_state (on_host m) s = (fst (run_state m (ns_host s)), s\<lparr>ns_host := snd (run_state m (ns_host s))\<rparr>)"
  by (simp add: on_host_def case_prod_unfold)

lemma run_setExitState [simp]: "run_state (ns_setExitState x) s = ((), s\<lparr>ns_exitState := x\<rparr>)"
  by (simp add: ns_setExitState_def)

lemmas subscriber_host_defs = setupSubscriberCallbacks_def teardownSubscriberCallbacks_def activateSubscriberSockets_def
  deactivateSubscriberSockets_def ns_activateControllerSockets_def ns_deactivateControllerSockets_def
  ns_teardownControllerCallbacks_def ns_setupControllerCallbacks_def

end
