(* ===== verification/NotifyProps.thy ===== *)
theory NotifyProps
  imports NotifySubscriber BrokerExamples "HOL-Library.Multiset"
begin

text \<open>
  The properties of the notification components: that what is published arrives, what a subscriber is
  subscribed to, what ends it, and what it holds.
\<close>

section \<open>Names that travel as text\<close>

definition plain_text :: "NotificationType \<Rightarrow> bool" where
  "plain_text t \<longleftrightarrow> t \<noteq> [] \<and> (\<forall>b \<in> set t. b \<noteq> 0 \<and> \<not> is_space b)"

lemma plain_text_read: "plain_text t \<Longrightarrow> get_frame_value_as_str_string t = Some t"
  by (cases t) (auto simp: plain_text_def get_frame_value_as_str_string_def takeWhile_eq_all_conv Let_def)

lemma plain_text_c_str: "plain_text t \<Longrightarrow> c_str t = t"
  by (rule c_str_id) (auto simp: plain_text_def)

lemma read_plain:
  assumes "get_frame_value_as_str_string f = Some t"
  shows "t \<noteq> []" "\<forall>b \<in> set t. \<not> is_space b"
  using assms by (auto simp: get_frame_value_as_str_string_def Let_def dest: set_takeWhileD split: if_splits)

lemma takeWhile_all: "length xs \<le> length (takeWhile P xs) \<Longrightarrow> x \<in> set xs \<Longrightarrow> P x"
  by (induction xs) (auto split: if_splits)

lemma read_c_str: "get_frame_value_as_str_string (c_str t) = Some t \<longleftrightarrow> plain_text t"
proof
  assume r: "get_frame_value_as_str_string (c_str t) = Some t"
  have "length (takeWhile (\<lambda>b. \<not> is_space b) (dropWhile is_space (c_str t))) \<le> length (c_str t)"
    by (meson length_dropWhile_le length_takeWhile_le order_trans)
  then have "length t \<le> length (c_str t)"
    using r by (auto simp: get_frame_value_as_str_string_def Let_def split: if_splits)
  then have "\<forall>b \<in> set t. b \<noteq> 0"
    unfolding c_str_def using takeWhile_all by fast
  then show "plain_text t" using read_plain[OF r] by (simp add: plain_text_def)
qed (simp add: plain_text_c_str plain_text_read)

section \<open>Publishing\<close>

text \<open>What becomes of a notification of type \<open>t\<close>, given what the subscriber's handler answers.\<close>

definition handled :: "subscriber_hosting \<Rightarrow> NotificationType \<Rightarrow> RequestStatus option \<Rightarrow> outcome subscriber" where
  "handled H t status = (case status of
     None \<Rightarrow> State_Monad.return Thrown
   | Some RS_Succeeded \<Rightarrow> do {
       _ \<leftarrow> on_host (invoke H (UnSubscribe NS_subscriber t));
       State_Monad.return (Returns 0)
     }
   | Some RS_FatalError \<Rightarrow> State_Monad.return (Returns (-1))
   | Some _ \<Rightarrow> State_Monad.return (Returns 0))"

text \<open>A message arrives as a notification if a subscriber does what its handler says to just that, whatever the handler.\<close>

definition arrives_as :: "env \<Rightarrow> zmsg \<Rightarrow> NotificationType \<Rightarrow> zmsg \<Rightarrow> bool" where
  "arrives_as E m t body \<longleftrightarrow>
     (\<forall>H handler. handlePublisherNotification H E handler (Some m) = handled H t (handler t body))"

lemma notification_arrives:
  assumes E: "env_ok E"
  shows "arrives_as E (c_str t # body) t body \<longleftrightarrow> plain_text t"
proof
  assume p: "plain_text t"
  obtain x xs where x: "t = x # xs" using p by (cases t) (auto simp: plain_text_def)
  have "handlePublisherNotification H E handler (Some (t # body)) = handled H t (handler t body)" for H handler
    using plain_text_read[OF p] plain_text_c_str[OF p]
    by (cases "handler t body"; simp add: handlePublisherNotification_def handled_def env_laws[OF E] x split: RequestStatus.split)
  then show "arrives_as E (c_str t # body) t body"
    by (simp add: arrives_as_def plain_text_c_str[OF p])
next
  assume a: "arrives_as E (c_str t # body) t body"
  let ?H = "\<lambda>_ _. 0" and ?handler = "\<lambda>t' _. Some (if t' = t then RS_FatalError else RS_InProgress)"
  have "handlePublisherNotification ?H E ?handler (Some (c_str t # body)) = State_Monad.return (Returns (-1))"
    using a by (simp add: arrives_as_def handled_def)
  then have "fst (run_state (handlePublisherNotification ?H E ?handler (Some (c_str t # body))) undefined) = Returns (-1)"
    by simp
  then have "get_frame_value_as_str_string (c_str t) = Some t"
    by (auto simp: handlePublisherNotification_def env_laws[OF E] split: list.splits option.splits if_splits)
  then show "plain_text t" by (simp add: read_c_str)
qed

definition sent_last :: "publisher_hosting \<Rightarrow> int publisher_hosted \<Rightarrow> (publisher_socket, unit) host \<Rightarrow> zmsg \<Rightarrow> bool" where
  "sent_last H op h m \<longleftrightarrow> calls (snd (run_state op h)) = calls h @ [SendOn NP_publisher m]"

text \<open>
  C21: What is published arrives. Each of the four ways to publish sends one message, and when
  \<open>handlePublisherNotification\<close> receives it, whatever the handler of the subscriber is, it does
  what the handler answers to the type of the notification with the identifier, if there is one,
  and the frames of the publisher's message: it stays subscribed, unsubscribes from that type,
  ends the subscriber or lets an exception pass. This holds exactly if the type is plain text:
  neither empty nor with a NUL or white space in it.
\<close>

theorem published_is_delivered:
  assumes E: "env_ok E"
  shows "(\<exists>m. sent_last H (Publish H E t) h m \<and> (arrives_as E m t [] \<longleftrightarrow> plain_text t)) \<and>
    (\<exists>m. sent_last H (Publish_id H E t i) h m \<and> (arrives_as E m t [enc_u64 E i] \<longleftrightarrow> plain_text t)) \<and>
    (\<exists>m. sent_last H (Publish_msg H E t body) h m \<and> (arrives_as E m t body \<longleftrightarrow> plain_text t)) \<and>
    (\<exists>m. sent_last H (Publish_id_msg H E t i body) h m \<and> (arrives_as E m t (enc_u64 E i # body) \<longleftrightarrow> plain_text t))"
proof -
  have i: "snd (fst (prepend_message_value_uint64 E ZMQFrameHandler_new m i)) = enc_u64 E i # m" for m
    using pb_ser_Some(2)[OF env_okD(2)[OF E], of i] by (simp add: write_defs ZMQFrameHandler_new_def env_laws[OF E])
  have a: "add_u64 E i m = m @ [enc_u64 E i]" for m
    by (rule add_fresh[OF env_okD(1,2)[OF E]])
  show ?thesis
    using notification_arrives[OF E]
    by (intro conjI; simp add: sent_last_def Publish_def Publish_id_def Publish_msg_def Publish_id_msg_def
        append_message_value_as_str_string_def prepend_message_value_as_str_string_def env_laws[OF E] i a Let_def)
qed

lemma published_is_delivered_witness:
  "\<exists>m. sent_last (\<lambda>_ _. 0) (Publish_id (\<lambda>_ _. 0) good_env [65] 5) new_host m \<and>
    handlePublisherNotification (\<lambda>_ _. 0) good_env
      (\<lambda>t body. Some (if t = [65] \<and> body = [enc_u64 good_env 5] then RS_FatalError else RS_InProgress)) (Some m)
    = State_Monad.return (Returns (-1))"
  using published_is_delivered[of good_env "\<lambda>_ _. 0" "[65]" new_host 5 "[]"]
  by (auto simp: plain_text_def is_space_def arrives_as_def handled_def)

section \<open>Subscriptions\<close>

definition example_subscriber :: NotifySubscriber where
  "example_subscriber = \<lparr> ns_selfControllerEndpoint = ''inproc://subscriber'', ns_publisherEndpoint = ''ipc://publisher'',
     subscriptions = [[65]], reconnectDelay = 300, ns_exitState = NX_None, ns_host = new_host \<rparr>"

lemma plain_A [simp]: "plain_text [65]" "plain_text [66]"
  by (simp_all add: plain_text_def is_space_def)

text \<open>
  ZeroMQ keeps a filter once for every time it is set; unsetting it takes one instance away. A
  socket that is destroyed has none.
\<close>

definition filter_step :: "'s \<Rightarrow> ('s, 't) host_call \<Rightarrow> byte list multiset \<Rightarrow> byte list multiset" where
  "filter_step s c F = (case c of
     Subscribe s' f \<Rightarrow> if s' = s then add_mset f F else F
   | UnSubscribe s' f \<Rightarrow> if s' = s then F - {#f#} else F
   | Destroy s' \<Rightarrow> if s' = s then {#} else F
   | _ \<Rightarrow> F)"

definition filters :: "NotifySubscriber \<Rightarrow> byte list multiset" where
  "filters s = fold (filter_step NS_subscriber) (calls (ns_host s)) {#}"

lemma filters_upd [simp]:
  "filters (s\<lparr>ns_host := (ns_host s)\<lparr>calls := calls (ns_host s) @ [c]\<rparr>\<rparr>) = filter_step NS_subscriber c (filters s)"
  "filters (s\<lparr>ns_exitState := x\<rparr>) = filters s" "filters (s\<lparr>ns_exitState := x, ns_host := h\<rparr>) = filters (s\<lparr>ns_host := h\<rparr>)"
  by (simp_all add: filters_def)

lemma subscribe_each_run:
  assumes "\<forall>t \<in> set ts. plain_text t"
  shows "filters (snd (run_state (subscribe_each H ts) s)) = filters s + mset ts \<and>
    (\<exists>h. snd (run_state (subscribe_each H ts) s) = s\<lparr>ns_host := h\<rparr>)"
  using assms
proof (induction ts arbitrary: s)
  case Nil
  then show ?case by (auto intro: exI[of _ "ns_host s"])
next
  case (Cons t ts)
  let ?s = "s\<lparr>ns_host := (ns_host s)\<lparr>calls := calls (ns_host s) @ [Subscribe NS_subscriber t]\<rparr>\<rparr>"
  have "t \<noteq> []" "c_str t = t" using Cons.prems plain_text_c_str by (auto simp: plain_text_def)
  moreover have "filters ?s = add_mset t (filters s)" by (simp add: filter_step_def)
  ultimately show ?case using Cons.IH[of ?s] Cons.prems by auto
qed

lemma apply_each_run:
  assumes "\<forall>t \<in> set ts. plain_text t"
  shows "fst (run_state (apply_each H True (ts @ [] # fs) one) s) = Some (one \<or> ts \<noteq> []) \<and>
    filters (snd (run_state (apply_each H True (ts @ [] # fs) one) s)) = filters s + mset ts"
  using assms
proof (induction ts arbitrary: s one)
  case (Cons t ts)
  let ?s = "s\<lparr>ns_host := (ns_host s)\<lparr>calls := calls (ns_host s) @ [Subscribe NS_subscriber t]\<rparr>\<rparr>"
  have "t \<noteq> []" "c_str t = t" "get_frame_value_as_str_string t = Some t"
    using Cons.prems plain_text_c_str plain_text_read by (auto simp: plain_text_def)
  moreover have "filters ?s = add_mset t (filters s)" by (simp add: filter_step_def)
  ultimately show ?case using Cons.IH[where s = ?s and one = True] Cons.prems by simp
qed simp

lemma subscriptions_message_frames:
  assumes E: "env_ok E" and ts: "\<forall>t \<in> set ts. plain_text t"
  shows "subscriptions_message E command ts = enc_u32 E (NotifySubscriberCommand_value command) # ts @ [[]]"
proof -
  have "fold (\<lambda>t m. snd (prepend_message_value_as_str_string E m t)) us m = rev us @ m" if "\<forall>t \<in> set us. plain_text t" for us m
    using that by (induction us arbitrary: m)
      (simp_all add: prepend_message_value_as_str_string_def plain_text_c_str env_laws[OF E])
  from this[of "rev ts"] show ?thesis
    using ts by (simp add: subscriptions_message_def env_laws[OF E] add_fresh[OF env_okD(1,2)[OF E]] Let_def)
qed

text \<open>
  C23: Unsubscribing subscribes. What \<open>UnSubscribe\<close> sends first makes the reactor of a subscriber,
  whatever its state, set the filter of every name given once more; none is taken away.
\<close>

theorem unsubscribing_subscribes:
  assumes E: "env_ok E" and ts: "\<forall>t \<in> set ts. plain_text t"
  shows "\<exists>m. take (Suc (length (calls (ns_host s)))) (calls (ns_host (snd (run_state (NotifySubscriber_UnSubscribe H E ts timeout) s))))
        = calls (ns_host s) @ [SendOn NS_signaler m] \<and>
      (\<forall>H' s'. filters (snd (run_state (subscriberPrimaryControllerReactor H' E (Some m)) s')) = filters s' + mset ts)"
proof (intro exI conjI allI)
  let ?m = "subscriptions_message E NC_Subscribe ts"
  show "take (Suc (length (calls (ns_host s)))) (calls (ns_host (snd (run_state (NotifySubscriber_UnSubscribe H E ts timeout) s))))
      = calls (ns_host s) @ [SendOn NS_signaler ?m]"
    by (simp add: NotifySubscriber_UnSubscribe_def subOrUnsub_def send_and_wait_def)
  fix H' s'
  have f: "zmsg_frames E ?m = enc_u32 E 3 # ts @ [[]]" "get_u32 E (enc_u32 E 3) = Some 3"
    using subscriptions_message_frames[OF E ts] by (simp_all add: env_laws[OF E] get_enc[OF env_okD(2)[OF E]])
  obtain x xs where x: "enc_u32 E 3 = x # xs"
    using enc_nonempty(1)[OF env_okD(2)[OF E]] by (metis neq_Nil_conv)
  show "filters (snd (run_state (subscriberPrimaryControllerReactor H' E (Some ?m)) s')) = filters s' + mset ts"
    using f apply_each_run[OF ts, of H' "[]" False s'] unfolding x
    by (simp add: subscriberPrimaryControllerReactor_def handleControllerCommand_def handleControllerCommand_msg_def
        case_prod_unfold filter_step_def)
qed

lemma unsubscribing_subscribes_witness:
  "\<exists>m. \<forall>s'. filters (snd (run_state (subscriberPrimaryControllerReactor (\<lambda>_ _. 0) good_env (Some m)) s')) = filters s' + {#[65], [66]#}"
  using unsubscribing_subscribes[of good_env "[[65], [66]]" example_subscriber "\<lambda>_ _. 0" 100] by (auto simp: plain_text_def is_space_def)

section \<open>A subscriber that runs\<close>

lemma filters_host:
  "filters (s\<lparr>ns_host := (ns_host s)\<lparr>calls := calls (ns_host s) @ cs\<rparr>\<rparr>) = fold (filter_step NS_subscriber) cs (filters s)"
  by (simp add: filters_def)

text \<open>What a turn does before the reactor starts, when the publisher can be reached.\<close>

definition reachable_publisher :: "subscriber_hosting \<Rightarrow> bool" where
  "reachable_publisher H \<longleftrightarrow> (\<forall>cs e. 0 \<le> H cs (Connect NS_subscriber e)) \<and> (\<forall>cs. H cs (zloop_reader NS_subscriber) = 0)"

lemma activate_run:
  assumes "reachable_publisher H" "\<forall>t \<in> set (subscriptions s). plain_text t"
  shows "fst (run_state (activateSubscriberSockets H) s) = 0 \<and>
    filters (snd (run_state (activateSubscriberSockets H) s)) = filters s + mset (subscriptions s) \<and>
    (\<exists>h. snd (run_state (activateSubscriberSockets H) s) = s\<lparr>ns_host := h\<rparr>)"
proof -
  let ?s = "s\<lparr>ns_host := (ns_host s)\<lparr>calls := calls (ns_host s) @ [Connect NS_subscriber (ns_publisherEndpoint s)]\<rparr>\<rparr>"
  have "filters ?s = filters s" by (simp add: filter_step_def)
  moreover have "failed (H (calls (ns_host s)) (Connect NS_subscriber (ns_publisherEndpoint s))) = 0"
    using assms(1) by (simp add: reachable_publisher_def failed_def not_less)
  ultimately show ?thesis
    using subscribe_each_run[OF assms(2), of H ?s] by (auto simp: activateSubscriberSockets_def case_prod_unfold)
qed

lemma setup_run:
  assumes "reachable_publisher H"
  shows "fst (run_state (setupSubscriberCallbacks H) s) = 0 \<and> filters (snd (run_state (setupSubscriberCallbacks H) s)) = filters s \<and>
    (\<exists>h. snd (run_state (setupSubscriberCallbacks H) s) = s\<lparr>ns_host := h\<rparr>)"
  using assms by (simp add: setupSubscriberCallbacks_def reachable_publisher_def filters_def filter_step_def) blast

lemma started_turn:
  assumes "reachable_publisher H" "\<forall>t \<in> set (subscriptions s). plain_text t"
  shows "\<exists>h. run_state (subscriber_turn H E handler events) s = run_state (do {
        ended \<leftarrow> subscriber_loop H E handler events;
        if ended then do {
          _ \<leftarrow> teardownSubscriberCallbacks H;
          _ \<leftarrow> deactivateSubscriberSockets H;
          s \<leftarrow> State_Monad.get;
          State_Monad.return (Some (ns_exitState s \<noteq> NX_GracefulStop))
        } else State_Monad.return None
      }) (s\<lparr>ns_exitState := NX_None, ns_host := h\<rparr>) \<and>
    filters (s\<lparr>ns_exitState := NX_None, ns_host := h\<rparr>) = filters s + mset (subscriptions s)"
proof -
  let ?s = "s\<lparr>ns_exitState := NX_None\<rparr>"
  obtain h where a: "run_state (activateSubscriberSockets H) ?s = (0, ?s\<lparr>ns_host := h\<rparr>)"
      "filters (?s\<lparr>ns_host := h\<rparr>) = filters s + mset (subscriptions s)"
    using activate_run[OF assms(1), of ?s] assms(2) by (auto simp: prod_eq_iff)
  obtain h' where b: "run_state (setupSubscriberCallbacks H) (?s\<lparr>ns_host := h\<rparr>) = (0, ?s\<lparr>ns_host := h'\<rparr>)"
      "filters (?s\<lparr>ns_host := h'\<rparr>) = filters s + mset (subscriptions s)"
    using setup_run[OF assms(1), of "?s\<lparr>ns_host := h\<rparr>"] a(2) by (auto simp: prod_eq_iff)
  show ?thesis using a b by (intro exI[of _ h']) (simp add: subscriber_turn_def)
qed

lemma reconnecting_turn:
  assumes "reachable_publisher H" "\<forall>t \<in> set (subscriptions s). plain_text t"
  shows "\<exists>h. run_state (subscriber_turn H E handler [NsReconnectDue]) s
      = (Some True, s\<lparr>ns_exitState := NX_Reconnect, ns_host := h\<rparr>) \<and>
    filters (s\<lparr>ns_exitState := NX_Reconnect, ns_host := h\<rparr>) = filters s + mset (subscriptions s)"
proof -
  obtain h where t: "run_state (subscriber_turn H E handler [NsReconnectDue]) s = run_state (do {
        ended \<leftarrow> subscriber_loop H E handler [NsReconnectDue];
        if ended then do {
          _ \<leftarrow> teardownSubscriberCallbacks H;
          _ \<leftarrow> deactivateSubscriberSockets H;
          s \<leftarrow> State_Monad.get;
          State_Monad.return (Some (ns_exitState s \<noteq> NX_GracefulStop))
        } else State_Monad.return None
      }) (s\<lparr>ns_exitState := NX_None, ns_host := h\<rparr>)" (is "_ = run_state ?rest ?s")
    and f: "filters (s\<lparr>ns_exitState := NX_None, ns_host := h\<rparr>) = filters s + mset (subscriptions s)"
    using started_turn[OF assms, of E handler "[NsReconnectDue]"] by blast
  have "run_state ?rest ?s = (Some True, s\<lparr>ns_exitState := NX_Reconnect, ns_host := h\<lparr>calls := calls h @
      [zloop_reader_end NS_subscriber, zloop_timer_end NS_publisherReconnect, zloop_timer_end NS_dumpStats, DisConnect NS_subscriber (ns_publisherEndpoint s)]\<rparr>\<rparr>)"
    by (simp add: publisherReconnectReactor_def teardownSubscriberCallbacks_def deactivateSubscriberSockets_def)
  then show ?thesis unfolding t using f by (auto simp: filters_def filter_step_def)
qed

lemma finishing_turn:
  assumes "reachable_publisher H" "\<forall>t \<in> set (subscriptions s). plain_text t" "env_ok E" "plain_text t"
    and "handler t body = Some RS_Succeeded"
  shows "fst (run_state (subscriber_turn H E handler [NsPublisherReadable (Some (t # body))]) s) = None \<and>
    filters (snd (run_state (subscriber_turn H E handler [NsPublisherReadable (Some (t # body))]) s))
      = filters s + mset (subscriptions s) - {#t#}"
proof -
  let ?ev = "[NsPublisherReadable (Some (t # body))]"
  obtain h where r: "run_state (subscriber_turn H E handler ?ev) s = run_state (do {
        ended \<leftarrow> subscriber_loop H E handler ?ev;
        if ended then do {
          _ \<leftarrow> teardownSubscriberCallbacks H;
          _ \<leftarrow> deactivateSubscriberSockets H;
          s \<leftarrow> State_Monad.get;
          State_Monad.return (Some (ns_exitState s \<noteq> NX_GracefulStop))
        } else State_Monad.return None
      }) (s\<lparr>ns_exitState := NX_None, ns_host := h\<rparr>)" (is "_ = run_state ?rest ?s")
    and f: "filters (s\<lparr>ns_exitState := NX_None, ns_host := h\<rparr>) = filters s + mset (subscriptions s)"
    using started_turn[OF assms(1,2), of E handler ?ev] by blast
  obtain x xs where x: "t = x # xs" using assms(4) by (cases t) (auto simp: plain_text_def)
  have "run_state ?rest ?s = (None, s\<lparr>ns_exitState := NX_None, ns_host := h\<lparr>calls := calls h @ [UnSubscribe NS_subscriber t]\<rparr>\<rparr>)"
    using plain_text_read[OF assms(4)] plain_text_c_str[OF assms(4)] assms(5)
    by (simp add: publisherNotificationReactor_def handlePublisherNotification_def env_laws[OF assms(3)] x caught_def only_negative_def)
  then show ?thesis unfolding r using f by (simp add: filters_def filter_step_def)
qed

text \<open>
  C22: A finished subscription lives on. A subscriber that has been connected again \<open>n\<close> times has set
  the filter of each subscription \<open>n + 1\<close> times. A handler that answers a notification with
  \<open>Succeeded\<close>, to be rid of it, takes away one of them.
\<close>

theorem finished_subscription_lives_on:
  assumes "reachable_publisher H" "\<forall>t \<in> set (subscriptions s). plain_text t" "env_ok E" "plain_text t"
    and "handler t body = Some RS_Succeeded"
  shows "filters (snd (run_state (NotifySubscriber_StartAsPrimary H E handler
      (replicate n [NsReconnectDue] @ [[NsPublisherReadable (Some (t # body))]])) s))
    = filters s + repeat_mset (n + 1) (mset (subscriptions s)) - {#t#}"
  using assms(2)
proof (induction n arbitrary: s)
  case 0
  then show ?case using finishing_turn[where handler = handler and body = body, OF assms(1) 0 assms(3,4)] assms(5)
    by (simp add: case_prod_unfold)
next
  case (Suc n)
  obtain h where h: "run_state (subscriber_turn H E handler [NsReconnectDue]) s
      = (Some True, s\<lparr>ns_exitState := NX_Reconnect, ns_host := h\<rparr>)"
      "filters (s\<lparr>ns_exitState := NX_Reconnect, ns_host := h\<rparr>) = filters s + mset (subscriptions s)"
    using reconnecting_turn[OF assms(1) Suc.prems, of E handler] by blast
  show ?case using Suc.IH[of "s\<lparr>ns_exitState := NX_Reconnect, ns_host := h\<rparr>"] Suc.prems h by (simp add: ac_simps)
qed

lemma example_filters: "filters example_subscriber = {#}" "subscriptions example_subscriber = [[65]]"
  by (simp_all add: filters_def example_subscriber_def new_host_def)

lemma finished_subscription_lives_on_witness:
  "filters (snd (run_state (NotifySubscriber_StartAsPrimary (\<lambda>_ _. 0) good_env (\<lambda>_ _. Some RS_Succeeded)
      (replicate 3 [NsReconnectDue] @ [[NsPublisherReadable (Some [[65], [7]])]])) example_subscriber)) = {#[65], [65], [65]#}"
proof -
  have "repeat_mset (3 + 1) {#[65]#} - {#[65 :: 8 word]#} = {#[65], [65], [65]#}" by (simp add: numeral_eq_Suc(1))
  then show ?thesis
    using finished_subscription_lives_on[of "\<lambda>_ _. 0" example_subscriber good_env "[65]" "\<lambda>_ _. Some RS_Succeeded" "[[7]]" 3]
    by (simp only: example_filters) (simp add: reachable_publisher_def del: NotifySubscriber_StartAsPrimary.simps)
qed

section \<open>What stops a subscriber\<close>

definition stops :: "env \<Rightarrow> subscriber_event \<Rightarrow> bool" where
  "stops E e \<longleftrightarrow> (\<exists>m f fs. e = NsControllerReadable (Some m) \<and> zmsg_frames E m = f # fs \<and>
     get_u32 E f = Some (NotifySubscriberCommand_value NC_Stop))"

lemma exitState_host [simp]: "ns_exitState (snd (run_state (on_host m) s)) = ns_exitState s"
  by simp

lemma subscribe_each_exit [simp]: "ns_exitState (snd (run_state (subscribe_each H ts) s)) = ns_exitState s"
  by (induction ts arbitrary: s) (simp_all add: case_prod_unfold)

lemma apply_each_exit [simp]: "ns_exitState (snd (run_state (apply_each H sub fs one) s)) = ns_exitState s"
  by (induction fs arbitrary: s one) (simp_all add: case_prod_unfold split: option.splits)

lemma subscriber_step_exit:
  "ns_exitState (snd (run_state (subscriber_step H E handler e) s)) = NX_GracefulStop \<Longrightarrow>
    ns_exitState s = NX_GracefulStop \<or> stops E e"
  by (cases e) (auto simp: publisherNotificationReactor_def handlePublisherNotification_def subscriberPrimaryControllerReactor_def
    handleControllerCommand_def handleControllerCommand_msg_def publisherReconnectReactor_def dumpStatsNotifySubscriberReactor_def stops_def case_prod_unfold
    split: option.splits list.splits prod.splits if_splits)

lemma subscriber_loop_exit:
  "ns_exitState (snd (run_state (subscriber_loop H E handler es) s)) = NX_GracefulStop \<Longrightarrow>
    ns_exitState s = NX_GracefulStop \<or> (\<exists>e \<in> set es. stops E e)"
proof (induction es arbitrary: s)
  case (Cons e es)
  then show ?case using subscriber_step_exit[of H E handler e s]
    by (auto simp: case_prod_unfold split: if_splits)
qed simp

lemma callbacks_exit [simp]:
  "ns_exitState (snd (run_state (activateSubscriberSockets H) s)) = ns_exitState s"
  "ns_exitState (snd (run_state (setupSubscriberCallbacks H) s)) = ns_exitState s"
  "ns_exitState (snd (run_state (teardownSubscriberCallbacks H) s)) = ns_exitState s"
  "ns_exitState (snd (run_state (deactivateSubscriberSockets H) s)) = ns_exitState s"
  by (simp_all add: subscriber_host_defs case_prod_unfold)

lemma turn_exit:
  assumes "fst (run_state (subscriber_turn H E handler es) s) = Some False"
  shows "\<exists>e \<in> set es. stops E e"
  using assms
  by (force simp: subscriber_turn_def case_prod_unfold dest: subscriber_loop_exit split: if_splits)

text \<open>
  C36: Only a command stops a subscriber. Its thread ends only if one of the messages of its controller
  was the command to stop: no notification ends it, not even one the handler answers with
  \<open>FatalError\<close>, nor one that throws.
\<close>

theorem only_a_command_stops:
  assumes "fst (run_state (NotifySubscriber_StartAsPrimary H E handler turns) s) = Some False"
  shows "\<exists>turn \<in> set turns. \<exists>e \<in> set turn. stops E e"
  using assms
proof (induction turns arbitrary: s)
  case (Cons turn turns)
  then show ?case using turn_exit[of H E handler turn s]
    by (auto simp: case_prod_unfold split: if_splits)
qed simp

lemma stop_command_stops:
  assumes "env_ok E" "reachable_publisher H" "\<forall>t \<in> set (subscriptions s). plain_text t"
  shows "fst (run_state (NotifySubscriber_StartAsPrimary H E handler
    [NsControllerReadable (Some (enc_u32 E (NotifySubscriberCommand_value NC_Stop) # fs)) # es]) s) = Some False"
proof -
  let ?e = "NsControllerReadable (Some (enc_u32 E (NotifySubscriberCommand_value NC_Stop) # fs))"
  obtain x xs where x: "enc_u32 E 2 = x # xs" using enc_nonempty(1)[OF env_okD(2)[OF assms(1)]] by (metis neq_Nil_conv)
  have g: "get_u32 E (x # xs) = Some 2" unfolding x[symmetric] by (rule get_enc(1)[OF env_okD(2)[OF assms(1)]])
  have "fst (run_state (subscriber_turn H E handler (?e # es)) s) = Some False"
    using started_turn[OF assms(2,3), of E handler "?e # es"] g
    by (auto simp: subscriberPrimaryControllerReactor_def handleControllerCommand_def handleControllerCommand_msg_def
        env_laws[OF assms(1)] x caught_def only_negative_def teardownSubscriberCallbacks_def deactivateSubscriberSockets_def)
  then show ?thesis by (simp add: case_prod_unfold)
qed

lemma only_a_command_stops_witness:
  "\<exists>turn \<in> {[NsReconnectDue], [NsControllerReadable (Some [enc_u32 good_env 2])]}. \<exists>e \<in> set turn. stops good_env e"
proof -
  have "fst (run_state (NotifySubscriber_StartAsPrimary (\<lambda>_ _. 0) good_env (\<lambda>_ _. None)
      [[NsControllerReadable (Some [enc_u32 good_env 2])]]) example_subscriber) = Some False"
    using stop_command_stops[of good_env "\<lambda>_ _. 0" example_subscriber "\<lambda>_ _. None" "[]" "[]"]
    by (simp add: reachable_publisher_def example_filters del: NotifySubscriber_StartAsPrimary.simps)
  from only_a_command_stops[OF this] show ?thesis by simp
qed

text \<open>After \<open>FatalError\<close> it connects again, where the code means to stop the handler.\<close>

lemma fatal_error_reconnects:
  assumes "env_ok E" "plain_text t" "handler t body = Some RS_FatalError" "reachable_publisher H"
    "\<forall>t \<in> set (subscriptions s). plain_text t"
  shows "fst (run_state (subscriber_turn H E handler (NsPublisherReadable (Some (t # body)) # es)) s) = Some True"
proof -
  obtain x xs where x: "t = x # xs" using assms(2) by (cases t) (auto simp: plain_text_def)
  show ?thesis
    using started_turn[OF assms(4,5), of E handler "NsPublisherReadable (Some (t # body)) # es"] plain_text_read[OF assms(2)] assms(3)
    by (auto simp: publisherNotificationReactor_def handlePublisherNotification_def env_laws[OF assms(1)] x caught_def only_negative_def
        teardownSubscriberCallbacks_def deactivateSubscriberSockets_def)
qed

text \<open>The destructor destroys the sockets and the reactor, and leaves the poller.\<close>

lemma keeps_poller [simp]:
  "has_poller (snd (run_state (destroy_present H k) h)) = has_poller h"
  "has_poller (snd (run_state (destroy_reactor H) h)) = has_poller h"
  "has_poller (snd (run_state (RefreshSocket H k type) h)) = has_poller h"
  by (simp_all add: host_defs)

lemma commands_keep_poller [simp]:
  "has_poller (ns_host (snd (run_state (ns_teardownControllerCallbacks H) s))) = has_poller (ns_host s)"
  "has_poller (ns_host (snd (run_state (ns_deactivateControllerSockets H) s))) = has_poller (ns_host s)"
  "has_poller (ns_host (snd (run_state (sendCommand H E command timeout) s))) = has_poller (ns_host s)"
  by (simp_all add: ns_teardownControllerCallbacks_def ns_deactivateControllerSockets_def sendCommand_def send_and_wait_def
    case_prod_unfold)

lemma poller_outlives_subscriber:
  "has_poller (ns_host (snd (run_state (NotifySubscriber_destroy H E) s))) = has_poller (ns_host s)"
  by (simp add: NotifySubscriber_destroy_def NotifySubscriber_Stop_def case_prod_unfold)

end
