(* ===== verification/Parameters.thy ===== *)
theory Parameters
  imports Endpoint Cluster
begin

text \<open>
  The parameters of broker, client proxy, client, worker and the notification components, and their
  builders (*parameters.h, *parameters.cxx, *parametersbuilder.h, *parametersbuilder.cxx). A builder
  checks what it was given, by exceptions, and names the endpoints; the left of a sum is an
  exception. The setters of builders only pass on to their endpoint builders, see \<open>Endpoint\<close>.
\<close>

fun then_ok :: "string + 'a \<Rightarrow> ('a \<Rightarrow> string + 'b) \<Rightarrow> string + 'b" where
  "then_ok (Inl e) k = Inl e"
| "then_ok (Inr a) k = k a"

text \<open>\<open>&&\<close> on calls that may throw.\<close>

fun and_ok :: "string + bool \<Rightarrow> string + bool \<Rightarrow> string + bool" where
  "and_ok (Inl e) r = Inl e"
| "and_ok (Inr False) r = Inr False"
| "and_ok (Inr True) r = r"

section \<open>Broker\<close>

record BrokerParameters =
  bp_frontendMessagingEndpoint :: Endpoint
  bp_backendMessagingEndpoint :: Endpoint
  bp_controlEndpoint :: Endpoint
  bp_selfHeartbeatDelay :: Delay
  bp_minimumWorkerHeartbeatDelay :: Delay
  bp_workerPulseDelay :: Delay

definition BrokerParameters_new :: BrokerParameters where
  "BrokerParameters_new = \<lparr> bp_frontendMessagingEndpoint = Endpoint_new, bp_backendMessagingEndpoint = Endpoint_new,
     bp_controlEndpoint = Endpoint_new, bp_selfHeartbeatDelay = 0, bp_minimumWorkerHeartbeatDelay = 0, bp_workerPulseDelay = 0 \<rparr>"

record BrokerParametersBuilder =
  bpb_frontendEndpointBuilder :: EndpointBuilder
  bpb_backendEndpointBuilder :: EndpointBuilder
  bpb_controlEndpointBuilder :: EndpointBuilder
  bpb_selfHeartbeatDelay :: Delay
  bpb_minimumWorkerHeartbeatDelay :: Delay
  bpb_workerPulseDelay :: Delay
  bpb_instance :: int
  bpb_process :: int
  bpb_thread :: int

definition BrokerParametersBuilder_new :: BrokerParametersBuilder where
  "BrokerParametersBuilder_new = \<lparr> bpb_frontendEndpointBuilder = EndpointBuilder_new, bpb_backendEndpointBuilder = EndpointBuilder_new,
     bpb_controlEndpointBuilder = SetEndpointType ET_InterThread EndpointBuilder_new,
     bpb_selfHeartbeatDelay = 0, bpb_minimumWorkerHeartbeatDelay = 0, bpb_workerPulseDelay = 0,
     bpb_instance = 0, bpb_process = 0, bpb_thread = 0 \<rparr>"

definition BrokerParametersBuilder_OK :: "BrokerParametersBuilder \<Rightarrow> string + bool" where
  "BrokerParametersBuilder_OK b =
     (if bpb_selfHeartbeatDelay b \<le> 0 then Inl ''invalid self heartbeat delay''
      else if bpb_minimumWorkerHeartbeatDelay b \<le> 0 then Inl ''invalid min worker heartbeat delay''
      else if bpb_workerPulseDelay b \<le> 0 then Inl ''invalid worker pulse delay''
      else and_ok (EndpointBuilder_OK (bpb_frontendEndpointBuilder b))
          (and_ok (EndpointBuilder_OK (bpb_backendEndpointBuilder b)) (EndpointBuilder_OK (bpb_controlEndpointBuilder b))))"

definition BrokerParametersBuilder_Build :: "BrokerParametersBuilder \<Rightarrow> string + BrokerParameters" where
  "BrokerParametersBuilder_Build b =
     then_ok (BrokerParametersBuilder_OK b) (\<lambda>ok.
     if \<not> ok then Inr BrokerParameters_new else
     let i = bpb_instance b; p = bpb_process b; t = bpb_thread b in
     then_ok (EndpointBuilder_Build_of (bpb_frontendEndpointBuilder b) i p t) (\<lambda>frontend.
     then_ok (EndpointBuilder_Build_of (bpb_backendEndpointBuilder b) i p t) (\<lambda>backend.
     then_ok (EndpointBuilder_Build_of (bpb_controlEndpointBuilder b) i p t) (\<lambda>control.
     Inr (BrokerParameters_new\<lparr>bp_frontendMessagingEndpoint := frontend, bp_backendMessagingEndpoint := backend,
       bp_controlEndpoint := control, bp_selfHeartbeatDelay := bpb_selfHeartbeatDelay b,
       bp_minimumWorkerHeartbeatDelay := bpb_minimumWorkerHeartbeatDelay b, bp_workerPulseDelay := bpb_workerPulseDelay b\<rparr>)))))"

section \<open>Worker\<close>

record WorkerParameters =
  wp_selfMessagingEndpoint :: Endpoint
  wp_brokerMessagingEndpoint :: Endpoint
  wp_selfControllerEndpoint :: Endpoint
  wp_selfInternalEndpoint :: Endpoint
  wp_requestHandlerInternalEndpoint :: Endpoint
  wp_requestHandlerControllerEndpoint :: Endpoint
  wp_selfHeartbeatDelay :: Delay
  wp_initialBrokerHeartbeatDelay :: Delay
  wp_brokerPulseDelay :: Delay

definition WorkerParameters_new :: WorkerParameters where
  "WorkerParameters_new = \<lparr> wp_selfMessagingEndpoint = Endpoint_new, wp_brokerMessagingEndpoint = Endpoint_new,
     wp_selfControllerEndpoint = Endpoint_new, wp_selfInternalEndpoint = Endpoint_new,
     wp_requestHandlerInternalEndpoint = Endpoint_new, wp_requestHandlerControllerEndpoint = Endpoint_new,
     wp_selfHeartbeatDelay = 0, wp_initialBrokerHeartbeatDelay = 0, wp_brokerPulseDelay = 0 \<rparr>"

record WorkerParametersBuilder =
  wpb_selfMessagingEndpointBuilder :: EndpointBuilder
  wpb_brokerMessagingEndpointBuilder :: EndpointBuilder
  wpb_selfControllerEndpointBuilder :: EndpointBuilder
  wpb_selfInternalEndpointBuilder :: EndpointBuilder
  wpb_requestHandlerInternalEndpointBuilder :: EndpointBuilder
  wpb_requestHandlerControllerEndpointBuilder :: EndpointBuilder
  wpb_selfHeartbeatDelay :: Delay
  wpb_initialBrokerHeartbeatDelay :: Delay
  wpb_brokerPulseDelay :: Delay
  wpb_instance :: int
  wpb_process :: int
  wpb_thread :: int

definition WorkerParametersBuilder_new :: WorkerParametersBuilder where
  "WorkerParametersBuilder_new = \<lparr> wpb_selfMessagingEndpointBuilder = EndpointBuilder_new,
     wpb_brokerMessagingEndpointBuilder = EndpointBuilder_new,
     wpb_selfControllerEndpointBuilder = SetEndpointType ET_InterThread EndpointBuilder_new,
     wpb_selfInternalEndpointBuilder = EndpointBuilder_new,
     wpb_requestHandlerInternalEndpointBuilder = EndpointBuilder_new,
     wpb_requestHandlerControllerEndpointBuilder = SetEndpointType ET_InterThread EndpointBuilder_new,
     wpb_selfHeartbeatDelay = 0, wpb_initialBrokerHeartbeatDelay = 0, wpb_brokerPulseDelay = 0,
     wpb_instance = 0, wpb_process = 0, wpb_thread = 0 \<rparr>"

definition WorkerParametersBuilder_OK :: "WorkerParametersBuilder \<Rightarrow> string + bool" where
  "WorkerParametersBuilder_OK b =
     (if wpb_selfHeartbeatDelay b \<le> 0 then Inl ''invalid self heartbeat delay''
      else if wpb_initialBrokerHeartbeatDelay b \<le> 0 then Inl ''invalid initial broker heartbeat delay''
      else if wpb_brokerPulseDelay b \<le> 0 then Inl ''invalid broker pulse delay''
      else and_ok (EndpointBuilder_OK (wpb_selfMessagingEndpointBuilder b))
          (and_ok (EndpointBuilder_OK (wpb_brokerMessagingEndpointBuilder b))
          (and_ok (EndpointBuilder_OK (wpb_selfControllerEndpointBuilder b))
          (and_ok (EndpointBuilder_OK (wpb_selfInternalEndpointBuilder b))
          (and_ok (EndpointBuilder_OK (wpb_requestHandlerInternalEndpointBuilder b))
                  (EndpointBuilder_OK (wpb_requestHandlerControllerEndpointBuilder b)))))))"

definition WorkerParametersBuilder_Build :: "WorkerParametersBuilder \<Rightarrow> string + WorkerParameters" where
  "WorkerParametersBuilder_Build b =
     then_ok (WorkerParametersBuilder_OK b) (\<lambda>ok.
     if \<not> ok then Inr WorkerParameters_new else
     let i = wpb_instance b; p = wpb_process b; t = wpb_thread b in
     then_ok (EndpointBuilder_Build_of (wpb_selfMessagingEndpointBuilder b) i p t) (\<lambda>selfMessaging.
     then_ok (EndpointBuilder_Build (wpb_brokerMessagingEndpointBuilder b)) (\<lambda>brokerMessaging.
     then_ok (EndpointBuilder_Build_of (wpb_selfControllerEndpointBuilder b) i p t) (\<lambda>selfController.
     then_ok (EndpointBuilder_Build_of (wpb_selfInternalEndpointBuilder b) i p t) (\<lambda>selfInternal.
     then_ok (EndpointBuilder_Build_of (wpb_requestHandlerControllerEndpointBuilder b) i p t) (\<lambda>handlerController.
     then_ok (EndpointBuilder_Build_of (wpb_requestHandlerInternalEndpointBuilder b) i p t) (\<lambda>handlerInternal.
     Inr (WorkerParameters_new\<lparr>wp_selfMessagingEndpoint := selfMessaging, wp_brokerMessagingEndpoint := brokerMessaging,
       wp_selfControllerEndpoint := selfController, wp_selfInternalEndpoint := selfInternal,
       wp_requestHandlerInternalEndpoint := handlerInternal, wp_requestHandlerControllerEndpoint := handlerController,
       wp_selfHeartbeatDelay := wpb_selfHeartbeatDelay b,
       wp_initialBrokerHeartbeatDelay := wpb_initialBrokerHeartbeatDelay b,
       wp_brokerPulseDelay := wpb_brokerPulseDelay b\<rparr>))))))))"

section \<open>Client proxy\<close>

record ClientProxyParameters =
  cpp_selfBrokerMessagingEndpoint :: Endpoint
  cpp_brokerMessagingEndpoint :: Endpoint
  cpp_selfControllerEndpoint :: Endpoint
  cpp_selfClientMessagingEndpoint :: Endpoint
  cpp_selfHeartbeatDelay :: Delay
  cpp_initialBrokerHeartbeatDelay :: Delay
  cpp_brokerPulseDelay :: Delay

definition ClientProxyParameters_new :: ClientProxyParameters where
  "ClientProxyParameters_new = \<lparr> cpp_selfBrokerMessagingEndpoint = Endpoint_new, cpp_brokerMessagingEndpoint = Endpoint_new,
     cpp_selfControllerEndpoint = Endpoint_new, cpp_selfClientMessagingEndpoint = Endpoint_new,
     cpp_selfHeartbeatDelay = 0, cpp_initialBrokerHeartbeatDelay = 0, cpp_brokerPulseDelay = 0 \<rparr>"

record ClientProxyParametersBuilder =
  cppb_selfBrokerMessagingEndpointBuilder :: EndpointBuilder
  cppb_brokerEndpointBuilder :: EndpointBuilder
  cppb_selfClientMessagingEndpointBuilder :: EndpointBuilder
  cppb_controlEndpointBuilder :: EndpointBuilder
  cppb_selfHeartbeatDelay :: Delay
  cppb_initialBrokerHeartbeatDelay :: Delay
  cppb_brokerPulseDelay :: Delay
  cppb_instance :: int
  cppb_process :: int
  cppb_thread :: int

definition ClientProxyParametersBuilder_new :: ClientProxyParametersBuilder where
  "ClientProxyParametersBuilder_new = \<lparr> cppb_selfBrokerMessagingEndpointBuilder = EndpointBuilder_new,
     cppb_brokerEndpointBuilder = EndpointBuilder_new, cppb_selfClientMessagingEndpointBuilder = EndpointBuilder_new,
     cppb_controlEndpointBuilder = SetEndpointType ET_InterThread EndpointBuilder_new,
     cppb_selfHeartbeatDelay = 0, cppb_initialBrokerHeartbeatDelay = 0, cppb_brokerPulseDelay = 0,
     cppb_instance = 0, cppb_process = 0, cppb_thread = 0 \<rparr>"

definition ClientProxyParametersBuilder_OK :: "ClientProxyParametersBuilder \<Rightarrow> string + bool" where
  "ClientProxyParametersBuilder_OK b =
     (if cppb_selfHeartbeatDelay b \<le> 0 then Inl ''invalid self heartbeat delay''
      else if cppb_initialBrokerHeartbeatDelay b \<le> 0 then Inl ''invalid initial broker heartbeat delay''
      else if cppb_brokerPulseDelay b \<le> 0 then Inl ''invalid broker pulse delay''
      else and_ok (EndpointBuilder_OK (cppb_selfBrokerMessagingEndpointBuilder b))
          (and_ok (EndpointBuilder_OK (cppb_brokerEndpointBuilder b))
          (and_ok (EndpointBuilder_OK (cppb_selfClientMessagingEndpointBuilder b))
                  (EndpointBuilder_OK (cppb_controlEndpointBuilder b)))))"

definition ClientProxyParametersBuilder_Build :: "ClientProxyParametersBuilder \<Rightarrow> string + ClientProxyParameters" where
  "ClientProxyParametersBuilder_Build b =
     then_ok (ClientProxyParametersBuilder_OK b) (\<lambda>ok.
     if \<not> ok then Inr ClientProxyParameters_new else
     let i = cppb_instance b; p = cppb_process b; t = cppb_thread b in
     then_ok (EndpointBuilder_Build_of (cppb_selfBrokerMessagingEndpointBuilder b) i p t) (\<lambda>selfBroker.
     then_ok (EndpointBuilder_Build (cppb_brokerEndpointBuilder b)) (\<lambda>broker.
     then_ok (EndpointBuilder_Build_of (cppb_controlEndpointBuilder b) i p t) (\<lambda>control.
     then_ok (EndpointBuilder_Build_of (cppb_selfClientMessagingEndpointBuilder b) i p t) (\<lambda>selfClient.
     Inr (ClientProxyParameters_new\<lparr>cpp_selfBrokerMessagingEndpoint := selfBroker, cpp_brokerMessagingEndpoint := broker,
       cpp_selfControllerEndpoint := control, cpp_selfClientMessagingEndpoint := selfClient,
       cpp_selfHeartbeatDelay := cppb_selfHeartbeatDelay b,
       cpp_initialBrokerHeartbeatDelay := cppb_initialBrokerHeartbeatDelay b,
       cpp_brokerPulseDelay := cppb_brokerPulseDelay b\<rparr>))))))"

section \<open>Client\<close>

record ClientParameters =
  clp_clientMessagingEndpoint :: Endpoint
  clp_clientProxyMessagingEndpoint :: Endpoint

definition ClientParameters_new :: ClientParameters where
  "ClientParameters_new = \<lparr> clp_clientMessagingEndpoint = Endpoint_new, clp_clientProxyMessagingEndpoint = Endpoint_new \<rparr>"

record ClientParametersBuilder =
  clpb_clientEndpointBuilder :: EndpointBuilder
  clpb_clientProxyEndpointBuilder :: EndpointBuilder
  clpb_instance :: int
  clpb_process :: int
  clpb_thread :: int

definition ClientParametersBuilder_new :: ClientParametersBuilder where
  "ClientParametersBuilder_new = \<lparr> clpb_clientEndpointBuilder = EndpointBuilder_new,
     clpb_clientProxyEndpointBuilder = EndpointBuilder_new, clpb_instance = 0, clpb_process = 0, clpb_thread = 0 \<rparr>"

definition ClientParametersBuilder_OK :: "ClientParametersBuilder \<Rightarrow> string + bool" where
  "ClientParametersBuilder_OK b =
     and_ok (EndpointBuilder_OK (clpb_clientEndpointBuilder b)) (EndpointBuilder_OK (clpb_clientProxyEndpointBuilder b))"

definition ClientParametersBuilder_Build :: "ClientParametersBuilder \<Rightarrow> string + ClientParameters" where
  "ClientParametersBuilder_Build b =
     then_ok (ClientParametersBuilder_OK b) (\<lambda>ok.
     if \<not> ok then Inr ClientParameters_new else
     then_ok (EndpointBuilder_Build_of (clpb_clientEndpointBuilder b) (clpb_instance b) (clpb_process b) (clpb_thread b)) (\<lambda>self.
     then_ok (EndpointBuilder_Build (clpb_clientProxyEndpointBuilder b)) (\<lambda>clientProxy.
     Inr (ClientParameters_new\<lparr>clp_clientMessagingEndpoint := self, clp_clientProxyMessagingEndpoint := clientProxy\<rparr>))))"

section \<open>Notification broker, publisher, subscriber\<close>

record NotifyBrokerParameters =
  nbp_frontendMessagingEndpoint :: Endpoint
  nbp_backendMessagingEndpoint :: Endpoint

definition NotifyBrokerParameters_new :: NotifyBrokerParameters where
  "NotifyBrokerParameters_new = \<lparr> nbp_frontendMessagingEndpoint = Endpoint_new, nbp_backendMessagingEndpoint = Endpoint_new \<rparr>"

record NotifyBrokerParametersBuilder =
  nbpb_frontendMessagingEndpointBuilder :: EndpointBuilder
  nbpb_backendMessagingEndpointBuilder :: EndpointBuilder
  nbpb_instance :: int
  nbpb_process :: int
  nbpb_thread :: int

definition NotifyBrokerParametersBuilder_OK :: "NotifyBrokerParametersBuilder \<Rightarrow> string + bool" where
  "NotifyBrokerParametersBuilder_OK b =
     and_ok (EndpointBuilder_OK (nbpb_frontendMessagingEndpointBuilder b)) (EndpointBuilder_OK (nbpb_backendMessagingEndpointBuilder b))"

definition NotifyBrokerParametersBuilder_Build :: "NotifyBrokerParametersBuilder \<Rightarrow> string + NotifyBrokerParameters" where
  "NotifyBrokerParametersBuilder_Build b =
     then_ok (NotifyBrokerParametersBuilder_OK b) (\<lambda>ok.
     if \<not> ok then Inr NotifyBrokerParameters_new else
     let i = nbpb_instance b; p = nbpb_process b; t = nbpb_thread b in
     then_ok (EndpointBuilder_Build_of (nbpb_frontendMessagingEndpointBuilder b) i p t) (\<lambda>frontend.
     then_ok (EndpointBuilder_Build_of (nbpb_backendMessagingEndpointBuilder b) i p t) (\<lambda>backend.
     Inr (NotifyBrokerParameters_new\<lparr>nbp_frontendMessagingEndpoint := frontend, nbp_backendMessagingEndpoint := backend\<rparr>))))"

record NotifyPublisherParameters =
  npp_proxyEndpoint :: Endpoint
  npp_selfEndpoint :: Endpoint

definition NotifyPublisherParameters_new :: NotifyPublisherParameters where
  "NotifyPublisherParameters_new = \<lparr> npp_proxyEndpoint = Endpoint_new, npp_selfEndpoint = Endpoint_new \<rparr>"

record NotifyPublisherParametersBuilder =
  nppb_proxyEndpointBuilder :: EndpointBuilder
  nppb_selfEndpointBuilder :: EndpointBuilder
  nppb_instance :: int
  nppb_process :: int
  nppb_thread :: int

text \<open>\<open>||\<close> does not look at its right side once the left is true.\<close>

definition NotifyPublisherParametersBuilder_OK :: "NotifyPublisherParametersBuilder \<Rightarrow> string + bool" where
  "NotifyPublisherParametersBuilder_OK b =
     (let proxySet = endpoint_type (eb_endpoint (nppb_proxyEndpointBuilder b)) \<noteq> ET_None;
          selfSet = eb_endpointType (nppb_selfEndpointBuilder b) \<noteq> ET_None in
      if \<not> proxySet \<and> \<not> selfSet then Inl ''at least one of the proxy or the self endpoints must be set''
      else then_ok (if proxySet then EndpointBuilder_OK (nppb_proxyEndpointBuilder b) else Inr False) (\<lambda>ok.
        if ok then Inr True else if selfSet then EndpointBuilder_OK (nppb_selfEndpointBuilder b) else Inr False))"

definition NotifyPublisherParametersBuilder_Build :: "NotifyPublisherParametersBuilder \<Rightarrow> string + NotifyPublisherParameters" where
  "NotifyPublisherParametersBuilder_Build b =
     then_ok (NotifyPublisherParametersBuilder_OK b) (\<lambda>ok.
     let r = NotifyPublisherParameters_new in
     if \<not> ok then Inr r else
     then_ok (if endpoint_type (eb_endpoint (nppb_proxyEndpointBuilder b)) \<noteq> ET_None
        then then_ok (EndpointBuilder_Build (nppb_proxyEndpointBuilder b)) (\<lambda>e. Inr (r\<lparr>npp_proxyEndpoint := e\<rparr>)) else Inr r) (\<lambda>r.
     if eb_endpointType (nppb_selfEndpointBuilder b) \<noteq> ET_None
     then then_ok (EndpointBuilder_Build_of (nppb_selfEndpointBuilder b) (nppb_instance b) (nppb_process b) (nppb_thread b)) (\<lambda>e.
       Inr (r\<lparr>npp_selfEndpoint := e\<rparr>))
     else Inr r))"

record NotifySubscriberParameters =
  nsp_selfControllerEndpoint :: Endpoint
  nsp_publisherEndpoint :: Endpoint

definition NotifySubscriberParameters_new :: NotifySubscriberParameters where
  "NotifySubscriberParameters_new = \<lparr> nsp_selfControllerEndpoint = Endpoint_new, nsp_publisherEndpoint = Endpoint_new \<rparr>"

record NotifySubscriberParametersBuilder =
  nspb_selfControllerEndpointBuilder :: EndpointBuilder
  nspb_publisherEndpointBuilder :: EndpointBuilder
  nspb_instance :: int
  nspb_process :: int
  nspb_thread :: int

definition NotifySubscriberParametersBuilder_new :: NotifySubscriberParametersBuilder where
  "NotifySubscriberParametersBuilder_new = \<lparr>
     nspb_selfControllerEndpointBuilder = SetEndpointType ET_InterThread EndpointBuilder_new,
     nspb_publisherEndpointBuilder = EndpointBuilder_new, nspb_instance = 0, nspb_process = 0, nspb_thread = 0 \<rparr>"

definition NotifySubscriberParametersBuilder_OK :: "NotifySubscriberParametersBuilder \<Rightarrow> string + bool" where
  "NotifySubscriberParametersBuilder_OK b =
     and_ok (EndpointBuilder_OK (nspb_selfControllerEndpointBuilder b)) (EndpointBuilder_OK (nspb_publisherEndpointBuilder b))"

definition NotifySubscriberParametersBuilder_Build :: "NotifySubscriberParametersBuilder \<Rightarrow> string + NotifySubscriberParameters" where
  "NotifySubscriberParametersBuilder_Build b =
     then_ok (NotifySubscriberParametersBuilder_OK b) (\<lambda>ok.
     if \<not> ok then Inr NotifySubscriberParameters_new else
     then_ok (EndpointBuilder_Build_of (nspb_selfControllerEndpointBuilder b) (nspb_instance b) (nspb_process b) (nspb_thread b)) (\<lambda>self.
     then_ok (EndpointBuilder_Build (nspb_publisherEndpointBuilder b)) (\<lambda>publisher.
     Inr (NotifySubscriberParameters_new\<lparr>nsp_selfControllerEndpoint := self, nsp_publisherEndpoint := publisher\<rparr>))))"

lemma then_ok_Inr: "then_ok r k = Inr b \<longleftrightarrow> (\<exists>a. r = Inr a \<and> k a = Inr b)"
  by (cases r) simp_all

lemma and_ok_True: "and_ok r s = Inr True \<longleftrightarrow> r = Inr True \<and> s = Inr True"
  by (cases "(r, s)" rule: and_ok.cases) auto

text \<open>A check throws or passes.\<close>

lemma EndpointBuilder_OK_passes: "EndpointBuilder_OK b \<noteq> Inr False"
  by (simp add: EndpointBuilder_OK_def)

lemma and_ok_passes: "r \<noteq> Inr False \<Longrightarrow> s \<noteq> Inr False \<Longrightarrow> and_ok r s \<noteq> Inr False"
  by (cases "(r, s)" rule: and_ok.cases) auto

lemma OK_passes:
  "BrokerParametersBuilder_OK bb = Inr ok \<Longrightarrow> ok" "WorkerParametersBuilder_OK wb = Inr ok \<Longrightarrow> ok"
  "ClientProxyParametersBuilder_OK pb = Inr ok \<Longrightarrow> ok" "ClientParametersBuilder_OK cb = Inr ok \<Longrightarrow> ok"
  "NotifyBrokerParametersBuilder_OK nb = Inr ok \<Longrightarrow> ok" "NotifySubscriberParametersBuilder_OK sb = Inr ok \<Longrightarrow> ok"
  by (cases ok; simp add: BrokerParametersBuilder_OK_def WorkerParametersBuilder_OK_def ClientProxyParametersBuilder_OK_def
    ClientParametersBuilder_OK_def NotifyBrokerParametersBuilder_OK_def NotifySubscriberParametersBuilder_OK_def
    EndpointBuilder_OK_passes and_ok_passes split: if_splits)+

end
