(* ===== verification/ParametersProps.thy ===== *)
theory ParametersProps
  imports Parameters
begin

text \<open>The properties of addresses and of the builders of parameters.\<close>

section \<open>Addresses\<close>

definition local_type :: "EndpointType \<Rightarrow> bool" where
  "local_type type \<longleftrightarrow> type = ET_InterThread \<or> type = ET_InterProcess"

definition thread_name :: "int \<times> int \<times> int \<Rightarrow> string" where
  "thread_name k = (case k of (i, p, t) \<Rightarrow> ''_'' @ stream_int i @ ''_'' @ stream_int p @ ''_'' @ stream_int t)"

lemma thread_name_inj:
  assumes "thread_name k @ suffix = thread_name k' @ suffix"
  shows "k = k'"
proof -
  obtain i p t i' p' t' where k: "k = (i, p, t)" "k' = (i', p', t')" by (cases k; cases k')
  have no: "CHR ''_'' \<notin> set (stream_int n)" for n using stream_int_chars by blast
  from assms have "stream_int i @ CHR ''_'' # stream_int p @ CHR ''_'' # stream_int t =
      stream_int i' @ CHR ''_'' # stream_int p' @ CHR ''_'' # stream_int t'"
    by (simp add: thread_name_def k)
  from separated[OF no no this] have i: "stream_int i = stream_int i'"
    and "stream_int p @ CHR ''_'' # stream_int t = stream_int p' @ CHR ''_'' # stream_int t'" by blast+
  from separated[OF no no this(2)] i show ?thesis by (simp add: k stream_int_inj)
qed

lemma c_string_id: "CHR 0x00 \<notin> set s \<Longrightarrow> c_string s = s"
  by (simp add: c_string_def takeWhile_eq_all_conv) metis

definition all_set :: "int \<times> int \<times> int \<Rightarrow> bool" where
  "all_set k \<longleftrightarrow> (case k of (i, p, t) \<Rightarrow> i \<noteq> 0 \<and> p \<noteq> 0 \<and> t \<noteq> 0)"

lemma local_name:
  assumes "local_type type" "CHR 0x00 \<notin> set address"
  shows "c_string (endpoint_name type address port i p t) =
    address @ (if all_set (i, p, t) then thread_name (i, p, t) else []) @ endpointTypeSuffix type"
proof -
  have "endpoint_name type address port i p t =
      address @ (if all_set (i, p, t) then thread_name (i, p, t) else []) @ endpointTypeSuffix type"
    using assms(1) by (auto simp: local_type_def endpoint_name_def all_set_def thread_name_def)
  moreover have "CHR 0x00 \<notin> set (endpointTypeSuffix type)" using assms(1) by (auto simp: local_type_def)
  moreover have "CHR 0x00 \<notin> set (thread_name (i, p, t))" using stream_int_chars by (auto simp: thread_name_def)
  ultimately show ?thesis using assms(2) by (subst c_string_id) auto
qed

lemma local_build:
  assumes "local_type (eb_endpointType b)" "CHR 0x00 \<notin> set (eb_baseAddress b)"
    and "EndpointBuilder_Build_of b i p t = Inr e" "length (endpoint_path e) < 511"
  shows "endpoint_path e = EndpointTypePrefix (eb_endpointType b) @ eb_baseAddress b @
    (if all_set (i, p, t) then thread_name (i, p, t) else []) @ endpointTypeSuffix (eb_endpointType b)"
  using assms(3,4)
  by (auto simp: EndpointBuilder_Build_of_def Endpoint_of_def snprintf_def local_name[OF assms(1,2)] MAX_ENDPOINT_LENGTH_def
      min_def simp del: take_append split: if_splits)

text \<open>
  C37: The endpoints that a builder of type inproc or ipc, with no NUL in its address, names for the
  threads of a program, by the numbers of instance, process and thread. If both are shorter than
  511 characters, they are equal exactly if all three numbers are the same, or if in each of the
  two some number is zero: then the name does not tell threads apart. (A TCP endpoint has none of
  the three numbers in its name.)
\<close>

theorem endpoints_of_threads_differ:
  assumes "local_type (eb_endpointType b)" "CHR 0x00 \<notin> set (eb_baseAddress b)"
    and "EndpointBuilder_Build_of b i p t = Inr e" "length (endpoint_path e) < 511"
    and "EndpointBuilder_Build_of b i' p' t' = Inr e'" "length (endpoint_path e') < 511"
  shows "Endpoint_eq e e' \<longleftrightarrow> (i, p, t) = (i', p', t') \<or> \<not> all_set (i, p, t) \<and> \<not> all_set (i', p', t')"
proof -
  note e = local_build[OF assms(1-4)] local_build[OF assms(1,2,5,6)]
  have "Endpoint_eq e e' \<longleftrightarrow> endpoint_path e = endpoint_path e'"
    using assms(4,6) by (simp add: Endpoint_eq_def MAX_ENDPOINT_LENGTH_def)
  moreover have "thread_name k \<noteq> [] \<and> [] \<noteq> thread_name k" for k by (cases k) (simp add: thread_name_def)
  ultimately show ?thesis
    using thread_name_inj[of "(i, p, t)" "endpointTypeSuffix (eb_endpointType b)" "(i', p', t')"] by (auto simp: e)
qed

definition worker_address :: EndpointBuilder where
  "worker_address = SetBaseAddress ''worker'' (SetEndpointType ET_InterThread EndpointBuilder_new)"

lemma endpoints_of_threads_differ_witness:
  "\<exists>e e'. EndpointBuilder_Build_of worker_address 1 2 3 = Inr e \<and> EndpointBuilder_Build_of worker_address 1 2 4 = Inr e' \<and>
    \<not> Endpoint_eq e e'"
proof -
  have d: "decimal (Suc 0) = ''1''" "decimal 2 = ''2''" "decimal 3 = ''3''" "decimal 4 = ''4''"
    by code_simp+
  have n: "c_string ''worker_1_2_3.zitc'' = ''worker_1_2_3.zitc''" "c_string ''worker_1_2_4.zitc'' = ''worker_1_2_4.zitc''"
    by (simp_all add: c_string_def)
  have a: "eb_endpointType worker_address = ET_InterThread" "eb_baseAddress worker_address = ''worker''"
    by (simp_all add: worker_address_def SetBaseAddress_def SetEndpointType_def)
  have b: "EndpointBuilder_Build_of worker_address 1 2 3 = Inr \<lparr> endpoint_path = ''inproc://worker_1_2_3.zitc'', endpoint_type = ET_InterThread \<rparr>"
    "EndpointBuilder_Build_of worker_address 1 2 4 = Inr \<lparr> endpoint_path = ''inproc://worker_1_2_4.zitc'', endpoint_type = ET_InterThread \<rparr>"
    by (simp_all add: EndpointBuilder_Build_of_def endpoint_name_def a stream_int_def d n Endpoint_of_def snprintf_def
        MAX_ENDPOINT_LENGTH_def MAX_ENDPOINT_PATH_LENGTH_def)
  from endpoints_of_threads_differ[OF _ _ b(1) _ b(2)] b show ?thesis by (simp add: local_type_def a all_set_def)
qed

text \<open>
  An accepted path is kept whole but for one case: of an \<open>inproc\<close> path of 503 or 504 characters,
  which passes the check of its length, the end is cut off.
\<close>

theorem accepted_path_is_cut:
  assumes "Endpoint_of type (Some p) = Inr e"
  shows "endpoint_path e = EndpointTypePrefix type @ p \<longleftrightarrow> type \<noteq> ET_InterThread \<or> length p \<le> 502"
proof -
  have l: "length p \<le> 504" and e: "endpoint_path e = take 511 (EndpointTypePrefix type @ p)"
    using assms by (auto simp: Endpoint_of_def snprintf_def MAX_ENDPOINT_LENGTH_def MAX_ENDPOINT_PATH_LENGTH_def split: if_splits)
  have "take 511 s = s \<longleftrightarrow> length s \<le> 511" for s :: string by (metis length_take min.absorb_iff2 nat_le_linear take_all)
  then show ?thesis unfolding e using l by (cases type) simp_all
qed

section \<open>Builders\<close>

text \<open>
  What a builder of broker parameters accepts: every delay is positive, every endpoint has an address.
  A refused set of parameters is an exception, never parameters.
\<close>

theorem built_broker_parameters:
  assumes "BrokerParametersBuilder_Build b = Inr p"
  shows "0 < bp_selfHeartbeatDelay p \<and> 0 < bp_minimumWorkerHeartbeatDelay p \<and> 0 < bp_workerPulseDelay p"
proof -
  obtain ok where ok: "BrokerParametersBuilder_OK b = Inr ok"
    using assms by (auto simp: BrokerParametersBuilder_Build_def then_ok_Inr)
  have f: "EndpointBuilder_OK x \<noteq> Inr False" for x by (simp add: EndpointBuilder_OK_def)
  have "and_ok r s \<noteq> Inr False" if "r \<noteq> Inr False" "s \<noteq> Inr False" for r s
    using that by (cases "(r, s)" rule: and_ok.cases) auto
  then have "ok" using ok f by (cases ok) (auto simp: BrokerParametersBuilder_OK_def split: if_splits)
  then have d: "0 < bpb_selfHeartbeatDelay b" "0 < bpb_minimumWorkerHeartbeatDelay b" "0 < bpb_workerPulseDelay b"
    using ok by (auto simp: BrokerParametersBuilder_OK_def split: if_splits)
  from assms ok \<open>ok\<close> have "bp_selfHeartbeatDelay p = bpb_selfHeartbeatDelay b"
    "bp_minimumWorkerHeartbeatDelay p = bpb_minimumWorkerHeartbeatDelay b" "bp_workerPulseDelay p = bpb_workerPulseDelay b"
    by (auto simp: BrokerParametersBuilder_Build_def then_ok_Inr Let_def)
  then show ?thesis using d by simp
qed

text \<open>
  A builder of publisher parameters that has a proxy's endpoint does not check the publisher's own:
  it passes, and builds, with any address.
\<close>

theorem publisher_own_endpoint_unchecked:
  assumes "\<not> eb_hasComponents (nppb_proxyEndpointBuilder b)" "endpoint_type (eb_endpoint (nppb_proxyEndpointBuilder b)) \<noteq> ET_None"
  shows "NotifyPublisherParametersBuilder_OK b = Inr True"
  using assms by (simp add: NotifyPublisherParametersBuilder_OK_def EndpointBuilder_OK_def)

end
