(* ===== verification/ParameterSetters.thy ===== *)
theory ParameterSetters
  imports Parameters
begin

text \<open>
  The setters of the parameters and of their builders (the headers of each), with those every builder
  inherits (clusterparametersbuilder.h). They return the object for the next call; here it comes last.
\<close>

section \<open>Broker\<close>

definition bp_SetFrontendMessagingEndpoint :: "Endpoint \<Rightarrow> BrokerParameters \<Rightarrow> BrokerParameters" where
  "bp_SetFrontendMessagingEndpoint x p = p\<lparr>bp_frontendMessagingEndpoint := x\<rparr>"

definition bp_SetBackendMessagingEndpoint :: "Endpoint \<Rightarrow> BrokerParameters \<Rightarrow> BrokerParameters" where
  "bp_SetBackendMessagingEndpoint x p = p\<lparr>bp_backendMessagingEndpoint := x\<rparr>"

definition bp_SetControlEndpoint :: "Endpoint \<Rightarrow> BrokerParameters \<Rightarrow> BrokerParameters" where
  "bp_SetControlEndpoint x p = p\<lparr>bp_controlEndpoint := x\<rparr>"

definition bp_SetSelfHeartbeatDelay :: "Delay \<Rightarrow> BrokerParameters \<Rightarrow> BrokerParameters" where
  "bp_SetSelfHeartbeatDelay x p = p\<lparr>bp_selfHeartbeatDelay := x\<rparr>"

definition bp_SetMinimumWorkerHeartbeatDelay :: "Delay \<Rightarrow> BrokerParameters \<Rightarrow> BrokerParameters" where
  "bp_SetMinimumWorkerHeartbeatDelay x p = p\<lparr>bp_minimumWorkerHeartbeatDelay := x\<rparr>"

definition bp_SetWorkerPulseDelay :: "Delay \<Rightarrow> BrokerParameters \<Rightarrow> BrokerParameters" where
  "bp_SetWorkerPulseDelay x p = p\<lparr>bp_workerPulseDelay := x\<rparr>"

definition bpb_SetFrontendEndpointType :: "EndpointType \<Rightarrow> BrokerParametersBuilder \<Rightarrow> BrokerParametersBuilder" where
  "bpb_SetFrontendEndpointType x p = p\<lparr>bpb_frontendEndpointBuilder := SetEndpointType x (bpb_frontendEndpointBuilder p)\<rparr>"

definition bpb_SetFrontendEndpointBaseAddress :: "string \<Rightarrow> BrokerParametersBuilder \<Rightarrow> BrokerParametersBuilder" where
  "bpb_SetFrontendEndpointBaseAddress x p = p\<lparr>bpb_frontendEndpointBuilder := SetBaseAddress x (bpb_frontendEndpointBuilder p)\<rparr>"

definition bpb_SetFrontendEndpointPort :: "int \<Rightarrow> BrokerParametersBuilder \<Rightarrow> BrokerParametersBuilder" where
  "bpb_SetFrontendEndpointPort x p = p\<lparr>bpb_frontendEndpointBuilder := SetPort x (bpb_frontendEndpointBuilder p)\<rparr>"

definition bpb_SetBackendEndpointType :: "EndpointType \<Rightarrow> BrokerParametersBuilder \<Rightarrow> BrokerParametersBuilder" where
  "bpb_SetBackendEndpointType x p = p\<lparr>bpb_backendEndpointBuilder := SetEndpointType x (bpb_backendEndpointBuilder p)\<rparr>"

definition bpb_SetBackendEndpointBaseAddress :: "string \<Rightarrow> BrokerParametersBuilder \<Rightarrow> BrokerParametersBuilder" where
  "bpb_SetBackendEndpointBaseAddress x p = p\<lparr>bpb_backendEndpointBuilder := SetBaseAddress x (bpb_backendEndpointBuilder p)\<rparr>"

definition bpb_SetBackendEndpointPort :: "int \<Rightarrow> BrokerParametersBuilder \<Rightarrow> BrokerParametersBuilder" where
  "bpb_SetBackendEndpointPort x p = p\<lparr>bpb_backendEndpointBuilder := SetPort x (bpb_backendEndpointBuilder p)\<rparr>"

definition bpb_SetControlEndpointBaseAddress :: "string \<Rightarrow> BrokerParametersBuilder \<Rightarrow> BrokerParametersBuilder" where
  "bpb_SetControlEndpointBaseAddress x p = p\<lparr>bpb_controlEndpointBuilder := SetBaseAddress x (bpb_controlEndpointBuilder p)\<rparr>"

definition bpb_SetSelfHeartbeatDelay :: "Delay \<Rightarrow> BrokerParametersBuilder \<Rightarrow> BrokerParametersBuilder" where
  "bpb_SetSelfHeartbeatDelay x p = p\<lparr>bpb_selfHeartbeatDelay := x\<rparr>"

definition bpb_SetMinimumWorkerHeartbeatDelay :: "Delay \<Rightarrow> BrokerParametersBuilder \<Rightarrow> BrokerParametersBuilder" where
  "bpb_SetMinimumWorkerHeartbeatDelay x p = p\<lparr>bpb_minimumWorkerHeartbeatDelay := x\<rparr>"

definition bpb_SetWorkerPulseDelay :: "Delay \<Rightarrow> BrokerParametersBuilder \<Rightarrow> BrokerParametersBuilder" where
  "bpb_SetWorkerPulseDelay x p = p\<lparr>bpb_workerPulseDelay := x\<rparr>"

definition bpb_SetInstance :: "int \<Rightarrow> BrokerParametersBuilder \<Rightarrow> BrokerParametersBuilder" where
  "bpb_SetInstance x p = p\<lparr>bpb_instance := x\<rparr>"

definition bpb_SetProcess :: "int \<Rightarrow> BrokerParametersBuilder \<Rightarrow> BrokerParametersBuilder" where
  "bpb_SetProcess x p = p\<lparr>bpb_process := x\<rparr>"

definition bpb_SetThread :: "int \<Rightarrow> BrokerParametersBuilder \<Rightarrow> BrokerParametersBuilder" where
  "bpb_SetThread x p = p\<lparr>bpb_thread := x\<rparr>"

section \<open>Worker\<close>

definition wp_SetSelfMessagingEndpoint :: "Endpoint \<Rightarrow> WorkerParameters \<Rightarrow> WorkerParameters" where
  "wp_SetSelfMessagingEndpoint x p = p\<lparr>wp_selfMessagingEndpoint := x\<rparr>"

definition wp_SetBrokerMessagingEndpoint :: "Endpoint \<Rightarrow> WorkerParameters \<Rightarrow> WorkerParameters" where
  "wp_SetBrokerMessagingEndpoint x p = p\<lparr>wp_brokerMessagingEndpoint := x\<rparr>"

definition wp_SetSelfControllerEndpoint :: "Endpoint \<Rightarrow> WorkerParameters \<Rightarrow> WorkerParameters" where
  "wp_SetSelfControllerEndpoint x p = p\<lparr>wp_selfControllerEndpoint := x\<rparr>"

definition wp_SetSelfInternalEndpoint :: "Endpoint \<Rightarrow> WorkerParameters \<Rightarrow> WorkerParameters" where
  "wp_SetSelfInternalEndpoint x p = p\<lparr>wp_selfInternalEndpoint := x\<rparr>"

definition wp_SetRequestHandlerInternalEndpoint :: "Endpoint \<Rightarrow> WorkerParameters \<Rightarrow> WorkerParameters" where
  "wp_SetRequestHandlerInternalEndpoint x p = p\<lparr>wp_requestHandlerInternalEndpoint := x\<rparr>"

definition wp_SetRequestHandlerControllerEndpoint :: "Endpoint \<Rightarrow> WorkerParameters \<Rightarrow> WorkerParameters" where
  "wp_SetRequestHandlerControllerEndpoint x p = p\<lparr>wp_requestHandlerControllerEndpoint := x\<rparr>"

definition wp_SetSelfHeartbeatDelay :: "Delay \<Rightarrow> WorkerParameters \<Rightarrow> WorkerParameters" where
  "wp_SetSelfHeartbeatDelay x p = p\<lparr>wp_selfHeartbeatDelay := x\<rparr>"

definition wp_SetInitialBrokerHeartbeatDelay :: "Delay \<Rightarrow> WorkerParameters \<Rightarrow> WorkerParameters" where
  "wp_SetInitialBrokerHeartbeatDelay x p = p\<lparr>wp_initialBrokerHeartbeatDelay := x\<rparr>"

definition wp_SetBrokerPulseDelay :: "Delay \<Rightarrow> WorkerParameters \<Rightarrow> WorkerParameters" where
  "wp_SetBrokerPulseDelay x p = p\<lparr>wp_brokerPulseDelay := x\<rparr>"

definition wpb_SetSelfMessagingEndpointPort :: "int \<Rightarrow> WorkerParametersBuilder \<Rightarrow> WorkerParametersBuilder" where
  "wpb_SetSelfMessagingEndpointPort x p = p\<lparr>wpb_selfMessagingEndpointBuilder := SetPort x (wpb_selfMessagingEndpointBuilder p)\<rparr>"

definition wpb_SetSelfMessagingEndpointBaseAddress :: "string \<Rightarrow> WorkerParametersBuilder \<Rightarrow> WorkerParametersBuilder" where
  "wpb_SetSelfMessagingEndpointBaseAddress x p = p\<lparr>wpb_selfMessagingEndpointBuilder := SetBaseAddress x (wpb_selfMessagingEndpointBuilder p)\<rparr>"

definition wpb_SetSelfMessagingEndpointType :: "EndpointType \<Rightarrow> WorkerParametersBuilder \<Rightarrow> WorkerParametersBuilder" where
  "wpb_SetSelfMessagingEndpointType x p = p\<lparr>wpb_selfMessagingEndpointBuilder := SetEndpointType x (wpb_selfMessagingEndpointBuilder p)\<rparr>"

definition wpb_SetBrokerMessagingEndpoint :: "Endpoint \<Rightarrow> WorkerParametersBuilder \<Rightarrow> WorkerParametersBuilder" where
  "wpb_SetBrokerMessagingEndpoint x p = p\<lparr>wpb_brokerMessagingEndpointBuilder := SetEndpoint x (wpb_brokerMessagingEndpointBuilder p)\<rparr>"

definition wpb_SetSelfControllerEndpointBaseAddress :: "string \<Rightarrow> WorkerParametersBuilder \<Rightarrow> WorkerParametersBuilder" where
  "wpb_SetSelfControllerEndpointBaseAddress x p = p\<lparr>wpb_selfControllerEndpointBuilder := SetBaseAddress x (wpb_selfControllerEndpointBuilder p)\<rparr>"

definition wpb_SetSelfInternalEndpointPort :: "int \<Rightarrow> WorkerParametersBuilder \<Rightarrow> WorkerParametersBuilder" where
  "wpb_SetSelfInternalEndpointPort x p = p\<lparr>wpb_selfInternalEndpointBuilder := SetPort x (wpb_selfInternalEndpointBuilder p)\<rparr>"

definition wpb_SetSelfInternalEndpointBaseAddress :: "string \<Rightarrow> WorkerParametersBuilder \<Rightarrow> WorkerParametersBuilder" where
  "wpb_SetSelfInternalEndpointBaseAddress x p = p\<lparr>wpb_selfInternalEndpointBuilder := SetBaseAddress x (wpb_selfInternalEndpointBuilder p)\<rparr>"

definition wpb_SetSelfInternalEndpointType :: "EndpointType \<Rightarrow> WorkerParametersBuilder \<Rightarrow> WorkerParametersBuilder" where
  "wpb_SetSelfInternalEndpointType x p = p\<lparr>wpb_selfInternalEndpointBuilder := SetEndpointType x (wpb_selfInternalEndpointBuilder p)\<rparr>"

definition wpb_SetRequestHandlerControllerEndpointBaseAddress :: "string \<Rightarrow> WorkerParametersBuilder \<Rightarrow> WorkerParametersBuilder" where
  "wpb_SetRequestHandlerControllerEndpointBaseAddress x p = p\<lparr>wpb_requestHandlerControllerEndpointBuilder := SetBaseAddress x (wpb_requestHandlerControllerEndpointBuilder p)\<rparr>"

definition wpb_SetRequestHandlerInternalEndpointPort :: "int \<Rightarrow> WorkerParametersBuilder \<Rightarrow> WorkerParametersBuilder" where
  "wpb_SetRequestHandlerInternalEndpointPort x p = p\<lparr>wpb_requestHandlerInternalEndpointBuilder := SetPort x (wpb_requestHandlerInternalEndpointBuilder p)\<rparr>"

definition wpb_SetRequestHandlerInternalEndpointBaseAddress :: "string \<Rightarrow> WorkerParametersBuilder \<Rightarrow> WorkerParametersBuilder" where
  "wpb_SetRequestHandlerInternalEndpointBaseAddress x p = p\<lparr>wpb_requestHandlerInternalEndpointBuilder := SetBaseAddress x (wpb_requestHandlerInternalEndpointBuilder p)\<rparr>"

definition wpb_SetRequestHandlerInternalEndpointType :: "EndpointType \<Rightarrow> WorkerParametersBuilder \<Rightarrow> WorkerParametersBuilder" where
  "wpb_SetRequestHandlerInternalEndpointType x p = p\<lparr>wpb_requestHandlerInternalEndpointBuilder := SetEndpointType x (wpb_requestHandlerInternalEndpointBuilder p)\<rparr>"

definition wpb_SetSelfHeartbeatDelay :: "Delay \<Rightarrow> WorkerParametersBuilder \<Rightarrow> WorkerParametersBuilder" where
  "wpb_SetSelfHeartbeatDelay x p = p\<lparr>wpb_selfHeartbeatDelay := x\<rparr>"

definition wpb_SetInitialBrokerHeartbeatDelay :: "Delay \<Rightarrow> WorkerParametersBuilder \<Rightarrow> WorkerParametersBuilder" where
  "wpb_SetInitialBrokerHeartbeatDelay x p = p\<lparr>wpb_initialBrokerHeartbeatDelay := x\<rparr>"

definition wpb_SetBrokerPulseDelay :: "Delay \<Rightarrow> WorkerParametersBuilder \<Rightarrow> WorkerParametersBuilder" where
  "wpb_SetBrokerPulseDelay x p = p\<lparr>wpb_brokerPulseDelay := x\<rparr>"

definition wpb_SetInstance :: "int \<Rightarrow> WorkerParametersBuilder \<Rightarrow> WorkerParametersBuilder" where
  "wpb_SetInstance x p = p\<lparr>wpb_instance := x\<rparr>"

definition wpb_SetProcess :: "int \<Rightarrow> WorkerParametersBuilder \<Rightarrow> WorkerParametersBuilder" where
  "wpb_SetProcess x p = p\<lparr>wpb_process := x\<rparr>"

definition wpb_SetThread :: "int \<Rightarrow> WorkerParametersBuilder \<Rightarrow> WorkerParametersBuilder" where
  "wpb_SetThread x p = p\<lparr>wpb_thread := x\<rparr>"

section \<open>Client proxy\<close>

definition cpp_SetSelfBrokerMessagingEndpoint :: "Endpoint \<Rightarrow> ClientProxyParameters \<Rightarrow> ClientProxyParameters" where
  "cpp_SetSelfBrokerMessagingEndpoint x p = p\<lparr>cpp_selfBrokerMessagingEndpoint := x\<rparr>"

definition cpp_SetBrokerMessagingEndpoint :: "Endpoint \<Rightarrow> ClientProxyParameters \<Rightarrow> ClientProxyParameters" where
  "cpp_SetBrokerMessagingEndpoint x p = p\<lparr>cpp_brokerMessagingEndpoint := x\<rparr>"

definition cpp_SetSelfControllerEndpoint :: "Endpoint \<Rightarrow> ClientProxyParameters \<Rightarrow> ClientProxyParameters" where
  "cpp_SetSelfControllerEndpoint x p = p\<lparr>cpp_selfControllerEndpoint := x\<rparr>"

definition cpp_SetSelfClientMessagingEndpoint :: "Endpoint \<Rightarrow> ClientProxyParameters \<Rightarrow> ClientProxyParameters" where
  "cpp_SetSelfClientMessagingEndpoint x p = p\<lparr>cpp_selfClientMessagingEndpoint := x\<rparr>"

definition cpp_SetSelfHeartbeatDelay :: "Delay \<Rightarrow> ClientProxyParameters \<Rightarrow> ClientProxyParameters" where
  "cpp_SetSelfHeartbeatDelay x p = p\<lparr>cpp_selfHeartbeatDelay := x\<rparr>"

definition cpp_SetInitialBrokerHeartbeatDelay :: "Delay \<Rightarrow> ClientProxyParameters \<Rightarrow> ClientProxyParameters" where
  "cpp_SetInitialBrokerHeartbeatDelay x p = p\<lparr>cpp_initialBrokerHeartbeatDelay := x\<rparr>"

definition cpp_SetBrokerPulseDelay :: "Delay \<Rightarrow> ClientProxyParameters \<Rightarrow> ClientProxyParameters" where
  "cpp_SetBrokerPulseDelay x p = p\<lparr>cpp_brokerPulseDelay := x\<rparr>"

definition cppb_SetSelfBrokerMessagingEndpointType :: "EndpointType \<Rightarrow> ClientProxyParametersBuilder \<Rightarrow> ClientProxyParametersBuilder" where
  "cppb_SetSelfBrokerMessagingEndpointType x p = p\<lparr>cppb_selfBrokerMessagingEndpointBuilder := SetEndpointType x (cppb_selfBrokerMessagingEndpointBuilder p)\<rparr>"

definition cppb_SetSelfBrokerMessagingEndpointBaseAddress :: "string \<Rightarrow> ClientProxyParametersBuilder \<Rightarrow> ClientProxyParametersBuilder" where
  "cppb_SetSelfBrokerMessagingEndpointBaseAddress x p = p\<lparr>cppb_selfBrokerMessagingEndpointBuilder := SetBaseAddress x (cppb_selfBrokerMessagingEndpointBuilder p)\<rparr>"

definition cppb_SetSelfBrokerMessagingEndpointPort :: "int \<Rightarrow> ClientProxyParametersBuilder \<Rightarrow> ClientProxyParametersBuilder" where
  "cppb_SetSelfBrokerMessagingEndpointPort x p = p\<lparr>cppb_selfBrokerMessagingEndpointBuilder := SetPort x (cppb_selfBrokerMessagingEndpointBuilder p)\<rparr>"

definition cppb_SetBrokerEndpoint :: "Endpoint \<Rightarrow> ClientProxyParametersBuilder \<Rightarrow> ClientProxyParametersBuilder" where
  "cppb_SetBrokerEndpoint x p = p\<lparr>cppb_brokerEndpointBuilder := SetEndpoint x (cppb_brokerEndpointBuilder p)\<rparr>"

definition cppb_SetSelfClientMessagingEndpointType :: "EndpointType \<Rightarrow> ClientProxyParametersBuilder \<Rightarrow> ClientProxyParametersBuilder" where
  "cppb_SetSelfClientMessagingEndpointType x p = p\<lparr>cppb_selfClientMessagingEndpointBuilder := SetEndpointType x (cppb_selfClientMessagingEndpointBuilder p)\<rparr>"

definition cppb_SetSelfClientMessagingEndpointBaseAddress :: "string \<Rightarrow> ClientProxyParametersBuilder \<Rightarrow> ClientProxyParametersBuilder" where
  "cppb_SetSelfClientMessagingEndpointBaseAddress x p = p\<lparr>cppb_selfClientMessagingEndpointBuilder := SetBaseAddress x (cppb_selfClientMessagingEndpointBuilder p)\<rparr>"

definition cppb_SetSelfClientMessagingEndpointPort :: "int \<Rightarrow> ClientProxyParametersBuilder \<Rightarrow> ClientProxyParametersBuilder" where
  "cppb_SetSelfClientMessagingEndpointPort x p = p\<lparr>cppb_selfClientMessagingEndpointBuilder := SetPort x (cppb_selfClientMessagingEndpointBuilder p)\<rparr>"

definition cppb_SetControlEndpointBaseAddress :: "string \<Rightarrow> ClientProxyParametersBuilder \<Rightarrow> ClientProxyParametersBuilder" where
  "cppb_SetControlEndpointBaseAddress x p = p\<lparr>cppb_controlEndpointBuilder := SetBaseAddress x (cppb_controlEndpointBuilder p)\<rparr>"

definition cppb_SetSelfHeartbeatDelay :: "Delay \<Rightarrow> ClientProxyParametersBuilder \<Rightarrow> ClientProxyParametersBuilder" where
  "cppb_SetSelfHeartbeatDelay x p = p\<lparr>cppb_selfHeartbeatDelay := x\<rparr>"

definition cppb_SetInitialBrokerHeartbeatDelay :: "Delay \<Rightarrow> ClientProxyParametersBuilder \<Rightarrow> ClientProxyParametersBuilder" where
  "cppb_SetInitialBrokerHeartbeatDelay x p = p\<lparr>cppb_initialBrokerHeartbeatDelay := x\<rparr>"

definition cppb_SetBrokerPulseDelay :: "Delay \<Rightarrow> ClientProxyParametersBuilder \<Rightarrow> ClientProxyParametersBuilder" where
  "cppb_SetBrokerPulseDelay x p = p\<lparr>cppb_brokerPulseDelay := x\<rparr>"

definition cppb_SetInstance :: "int \<Rightarrow> ClientProxyParametersBuilder \<Rightarrow> ClientProxyParametersBuilder" where
  "cppb_SetInstance x p = p\<lparr>cppb_instance := x\<rparr>"

definition cppb_SetProcess :: "int \<Rightarrow> ClientProxyParametersBuilder \<Rightarrow> ClientProxyParametersBuilder" where
  "cppb_SetProcess x p = p\<lparr>cppb_process := x\<rparr>"

definition cppb_SetThread :: "int \<Rightarrow> ClientProxyParametersBuilder \<Rightarrow> ClientProxyParametersBuilder" where
  "cppb_SetThread x p = p\<lparr>cppb_thread := x\<rparr>"

section \<open>Client\<close>

definition clp_SetClientMessagingEndpoint :: "Endpoint \<Rightarrow> ClientParameters \<Rightarrow> ClientParameters" where
  "clp_SetClientMessagingEndpoint x p = p\<lparr>clp_clientMessagingEndpoint := x\<rparr>"

definition clp_SetClientProxyMessagingEndpoint :: "Endpoint \<Rightarrow> ClientParameters \<Rightarrow> ClientParameters" where
  "clp_SetClientProxyMessagingEndpoint x p = p\<lparr>clp_clientProxyMessagingEndpoint := x\<rparr>"

definition clpb_SetClientEndpointType :: "EndpointType \<Rightarrow> ClientParametersBuilder \<Rightarrow> ClientParametersBuilder" where
  "clpb_SetClientEndpointType x p = p\<lparr>clpb_clientEndpointBuilder := SetEndpointType x (clpb_clientEndpointBuilder p)\<rparr>"

definition clpb_SetClientEndpointBaseAddress :: "string \<Rightarrow> ClientParametersBuilder \<Rightarrow> ClientParametersBuilder" where
  "clpb_SetClientEndpointBaseAddress x p = p\<lparr>clpb_clientEndpointBuilder := SetBaseAddress x (clpb_clientEndpointBuilder p)\<rparr>"

definition clpb_SetClientEndpointPort :: "int \<Rightarrow> ClientParametersBuilder \<Rightarrow> ClientParametersBuilder" where
  "clpb_SetClientEndpointPort x p = p\<lparr>clpb_clientEndpointBuilder := SetPort x (clpb_clientEndpointBuilder p)\<rparr>"

definition clpb_SetClientProxyEndpoint :: "Endpoint \<Rightarrow> ClientParametersBuilder \<Rightarrow> ClientParametersBuilder" where
  "clpb_SetClientProxyEndpoint x p = p\<lparr>clpb_clientProxyEndpointBuilder := SetEndpoint x (clpb_clientProxyEndpointBuilder p)\<rparr>"

definition clpb_SetInstance :: "int \<Rightarrow> ClientParametersBuilder \<Rightarrow> ClientParametersBuilder" where
  "clpb_SetInstance x p = p\<lparr>clpb_instance := x\<rparr>"

definition clpb_SetProcess :: "int \<Rightarrow> ClientParametersBuilder \<Rightarrow> ClientParametersBuilder" where
  "clpb_SetProcess x p = p\<lparr>clpb_process := x\<rparr>"

definition clpb_SetThread :: "int \<Rightarrow> ClientParametersBuilder \<Rightarrow> ClientParametersBuilder" where
  "clpb_SetThread x p = p\<lparr>clpb_thread := x\<rparr>"

section \<open>Notification broker\<close>

definition nbp_SetFrontendMessagingEndpoint :: "Endpoint \<Rightarrow> NotifyBrokerParameters \<Rightarrow> NotifyBrokerParameters" where
  "nbp_SetFrontendMessagingEndpoint x p = p\<lparr>nbp_frontendMessagingEndpoint := x\<rparr>"

definition nbp_SetBackendMessagingEndpoint :: "Endpoint \<Rightarrow> NotifyBrokerParameters \<Rightarrow> NotifyBrokerParameters" where
  "nbp_SetBackendMessagingEndpoint x p = p\<lparr>nbp_backendMessagingEndpoint := x\<rparr>"

definition nbpb_SetFrontendEndpointType :: "EndpointType \<Rightarrow> NotifyBrokerParametersBuilder \<Rightarrow> NotifyBrokerParametersBuilder" where
  "nbpb_SetFrontendEndpointType x p = p\<lparr>nbpb_frontendMessagingEndpointBuilder := SetEndpointType x (nbpb_frontendMessagingEndpointBuilder p)\<rparr>"

definition nbpb_SetFrontendEndpointBaseAddress :: "string \<Rightarrow> NotifyBrokerParametersBuilder \<Rightarrow> NotifyBrokerParametersBuilder" where
  "nbpb_SetFrontendEndpointBaseAddress x p = p\<lparr>nbpb_frontendMessagingEndpointBuilder := SetBaseAddress x (nbpb_frontendMessagingEndpointBuilder p)\<rparr>"

definition nbpb_SetFrontendEndpointPort :: "int \<Rightarrow> NotifyBrokerParametersBuilder \<Rightarrow> NotifyBrokerParametersBuilder" where
  "nbpb_SetFrontendEndpointPort x p = p\<lparr>nbpb_frontendMessagingEndpointBuilder := SetPort x (nbpb_frontendMessagingEndpointBuilder p)\<rparr>"

definition nbpb_SetBackendEndpointType :: "EndpointType \<Rightarrow> NotifyBrokerParametersBuilder \<Rightarrow> NotifyBrokerParametersBuilder" where
  "nbpb_SetBackendEndpointType x p = p\<lparr>nbpb_backendMessagingEndpointBuilder := SetEndpointType x (nbpb_backendMessagingEndpointBuilder p)\<rparr>"

definition nbpb_SetBackendEndpointBaseAddress :: "string \<Rightarrow> NotifyBrokerParametersBuilder \<Rightarrow> NotifyBrokerParametersBuilder" where
  "nbpb_SetBackendEndpointBaseAddress x p = p\<lparr>nbpb_backendMessagingEndpointBuilder := SetBaseAddress x (nbpb_backendMessagingEndpointBuilder p)\<rparr>"

definition nbpb_SetBackendEndpointPort :: "int \<Rightarrow> NotifyBrokerParametersBuilder \<Rightarrow> NotifyBrokerParametersBuilder" where
  "nbpb_SetBackendEndpointPort x p = p\<lparr>nbpb_backendMessagingEndpointBuilder := SetPort x (nbpb_backendMessagingEndpointBuilder p)\<rparr>"

definition nbpb_SetInstance :: "int \<Rightarrow> NotifyBrokerParametersBuilder \<Rightarrow> NotifyBrokerParametersBuilder" where
  "nbpb_SetInstance x p = p\<lparr>nbpb_instance := x\<rparr>"

definition nbpb_SetProcess :: "int \<Rightarrow> NotifyBrokerParametersBuilder \<Rightarrow> NotifyBrokerParametersBuilder" where
  "nbpb_SetProcess x p = p\<lparr>nbpb_process := x\<rparr>"

definition nbpb_SetThread :: "int \<Rightarrow> NotifyBrokerParametersBuilder \<Rightarrow> NotifyBrokerParametersBuilder" where
  "nbpb_SetThread x p = p\<lparr>nbpb_thread := x\<rparr>"

section \<open>Notification publisher\<close>

definition npp_SetProxyEndpoint :: "Endpoint \<Rightarrow> NotifyPublisherParameters \<Rightarrow> NotifyPublisherParameters" where
  "npp_SetProxyEndpoint x p = p\<lparr>npp_proxyEndpoint := x\<rparr>"

definition npp_SetSelfEndpoint :: "Endpoint \<Rightarrow> NotifyPublisherParameters \<Rightarrow> NotifyPublisherParameters" where
  "npp_SetSelfEndpoint x p = p\<lparr>npp_selfEndpoint := x\<rparr>"

definition nppb_SetProxyEndpoint :: "Endpoint \<Rightarrow> NotifyPublisherParametersBuilder \<Rightarrow> NotifyPublisherParametersBuilder" where
  "nppb_SetProxyEndpoint x p = p\<lparr>nppb_proxyEndpointBuilder := SetEndpoint x (nppb_proxyEndpointBuilder p)\<rparr>"

definition nppb_SetSelfEndpointType :: "EndpointType \<Rightarrow> NotifyPublisherParametersBuilder \<Rightarrow> NotifyPublisherParametersBuilder" where
  "nppb_SetSelfEndpointType x p = p\<lparr>nppb_selfEndpointBuilder := SetEndpointType x (nppb_selfEndpointBuilder p)\<rparr>"

definition nppb_SetSelfEndpointPort :: "int \<Rightarrow> NotifyPublisherParametersBuilder \<Rightarrow> NotifyPublisherParametersBuilder" where
  "nppb_SetSelfEndpointPort x p = p\<lparr>nppb_selfEndpointBuilder := SetPort x (nppb_selfEndpointBuilder p)\<rparr>"

definition nppb_SetSelfEndpointBaseAddress :: "string \<Rightarrow> NotifyPublisherParametersBuilder \<Rightarrow> NotifyPublisherParametersBuilder" where
  "nppb_SetSelfEndpointBaseAddress x p = p\<lparr>nppb_selfEndpointBuilder := SetBaseAddress x (nppb_selfEndpointBuilder p)\<rparr>"

definition nppb_SetInstance :: "int \<Rightarrow> NotifyPublisherParametersBuilder \<Rightarrow> NotifyPublisherParametersBuilder" where
  "nppb_SetInstance x p = p\<lparr>nppb_instance := x\<rparr>"

definition nppb_SetProcess :: "int \<Rightarrow> NotifyPublisherParametersBuilder \<Rightarrow> NotifyPublisherParametersBuilder" where
  "nppb_SetProcess x p = p\<lparr>nppb_process := x\<rparr>"

definition nppb_SetThread :: "int \<Rightarrow> NotifyPublisherParametersBuilder \<Rightarrow> NotifyPublisherParametersBuilder" where
  "nppb_SetThread x p = p\<lparr>nppb_thread := x\<rparr>"

section \<open>Notification subscriber\<close>

definition nsp_SetSelfControllerEndpoint :: "Endpoint \<Rightarrow> NotifySubscriberParameters \<Rightarrow> NotifySubscriberParameters" where
  "nsp_SetSelfControllerEndpoint x p = p\<lparr>nsp_selfControllerEndpoint := x\<rparr>"

definition nsp_SetPublisherEndpoint :: "Endpoint \<Rightarrow> NotifySubscriberParameters \<Rightarrow> NotifySubscriberParameters" where
  "nsp_SetPublisherEndpoint x p = p\<lparr>nsp_publisherEndpoint := x\<rparr>"

definition nspb_SetSelfControllerEndpointBaseAddress :: "string \<Rightarrow> NotifySubscriberParametersBuilder \<Rightarrow> NotifySubscriberParametersBuilder" where
  "nspb_SetSelfControllerEndpointBaseAddress x p = p\<lparr>nspb_selfControllerEndpointBuilder := SetBaseAddress x (nspb_selfControllerEndpointBuilder p)\<rparr>"

definition nspb_SetPublisherEndpoint :: "Endpoint \<Rightarrow> NotifySubscriberParametersBuilder \<Rightarrow> NotifySubscriberParametersBuilder" where
  "nspb_SetPublisherEndpoint x p = p\<lparr>nspb_publisherEndpointBuilder := SetEndpoint x (nspb_publisherEndpointBuilder p)\<rparr>"

definition nspb_SetInstance :: "int \<Rightarrow> NotifySubscriberParametersBuilder \<Rightarrow> NotifySubscriberParametersBuilder" where
  "nspb_SetInstance x p = p\<lparr>nspb_instance := x\<rparr>"

definition nspb_SetProcess :: "int \<Rightarrow> NotifySubscriberParametersBuilder \<Rightarrow> NotifySubscriberParametersBuilder" where
  "nspb_SetProcess x p = p\<lparr>nspb_process := x\<rparr>"

definition nspb_SetThread :: "int \<Rightarrow> NotifySubscriberParametersBuilder \<Rightarrow> NotifySubscriberParametersBuilder" where
  "nspb_SetThread x p = p\<lparr>nspb_thread := x\<rparr>"

lemmas setter_defs = bp_SetFrontendMessagingEndpoint_def bp_SetBackendMessagingEndpoint_def
  bp_SetControlEndpoint_def bp_SetSelfHeartbeatDelay_def bp_SetMinimumWorkerHeartbeatDelay_def
  bp_SetWorkerPulseDelay_def bpb_SetFrontendEndpointType_def bpb_SetFrontendEndpointBaseAddress_def
  bpb_SetFrontendEndpointPort_def bpb_SetBackendEndpointType_def bpb_SetBackendEndpointBaseAddress_def
  bpb_SetBackendEndpointPort_def bpb_SetControlEndpointBaseAddress_def bpb_SetSelfHeartbeatDelay_def
  bpb_SetMinimumWorkerHeartbeatDelay_def bpb_SetWorkerPulseDelay_def bpb_SetInstance_def bpb_SetProcess_def
  bpb_SetThread_def wp_SetSelfMessagingEndpoint_def wp_SetBrokerMessagingEndpoint_def wp_SetSelfControllerEndpoint_def
  wp_SetSelfInternalEndpoint_def wp_SetRequestHandlerInternalEndpoint_def wp_SetRequestHandlerControllerEndpoint_def
  wp_SetSelfHeartbeatDelay_def wp_SetInitialBrokerHeartbeatDelay_def wp_SetBrokerPulseDelay_def
  wpb_SetSelfMessagingEndpointPort_def wpb_SetSelfMessagingEndpointBaseAddress_def
  wpb_SetSelfMessagingEndpointType_def wpb_SetBrokerMessagingEndpoint_def wpb_SetSelfControllerEndpointBaseAddress_def
  wpb_SetSelfInternalEndpointPort_def wpb_SetSelfInternalEndpointBaseAddress_def wpb_SetSelfInternalEndpointType_def
  wpb_SetRequestHandlerControllerEndpointBaseAddress_def wpb_SetRequestHandlerInternalEndpointPort_def
  wpb_SetRequestHandlerInternalEndpointBaseAddress_def wpb_SetRequestHandlerInternalEndpointType_def
  wpb_SetSelfHeartbeatDelay_def wpb_SetInitialBrokerHeartbeatDelay_def wpb_SetBrokerPulseDelay_def wpb_SetInstance_def
  wpb_SetProcess_def wpb_SetThread_def cpp_SetSelfBrokerMessagingEndpoint_def cpp_SetBrokerMessagingEndpoint_def
  cpp_SetSelfControllerEndpoint_def cpp_SetSelfClientMessagingEndpoint_def cpp_SetSelfHeartbeatDelay_def
  cpp_SetInitialBrokerHeartbeatDelay_def cpp_SetBrokerPulseDelay_def cppb_SetSelfBrokerMessagingEndpointType_def
  cppb_SetSelfBrokerMessagingEndpointBaseAddress_def cppb_SetSelfBrokerMessagingEndpointPort_def
  cppb_SetBrokerEndpoint_def cppb_SetSelfClientMessagingEndpointType_def
  cppb_SetSelfClientMessagingEndpointBaseAddress_def cppb_SetSelfClientMessagingEndpointPort_def
  cppb_SetControlEndpointBaseAddress_def cppb_SetSelfHeartbeatDelay_def cppb_SetInitialBrokerHeartbeatDelay_def
  cppb_SetBrokerPulseDelay_def cppb_SetInstance_def cppb_SetProcess_def cppb_SetThread_def
  clp_SetClientMessagingEndpoint_def clp_SetClientProxyMessagingEndpoint_def clpb_SetClientEndpointType_def
  clpb_SetClientEndpointBaseAddress_def clpb_SetClientEndpointPort_def clpb_SetClientProxyEndpoint_def
  clpb_SetInstance_def clpb_SetProcess_def clpb_SetThread_def nbp_SetFrontendMessagingEndpoint_def
  nbp_SetBackendMessagingEndpoint_def nbpb_SetFrontendEndpointType_def nbpb_SetFrontendEndpointBaseAddress_def
  nbpb_SetFrontendEndpointPort_def nbpb_SetBackendEndpointType_def nbpb_SetBackendEndpointBaseAddress_def
  nbpb_SetBackendEndpointPort_def nbpb_SetInstance_def nbpb_SetProcess_def nbpb_SetThread_def npp_SetProxyEndpoint_def
  npp_SetSelfEndpoint_def nppb_SetProxyEndpoint_def nppb_SetSelfEndpointType_def nppb_SetSelfEndpointPort_def
  nppb_SetSelfEndpointBaseAddress_def nppb_SetInstance_def nppb_SetProcess_def nppb_SetThread_def
  nsp_SetSelfControllerEndpoint_def nsp_SetPublisherEndpoint_def nspb_SetSelfControllerEndpointBaseAddress_def
  nspb_SetPublisherEndpoint_def nspb_SetInstance_def nspb_SetProcess_def nspb_SetThread_def
  SetPort_def SetBaseAddress_def SetEndpointType_def SetEndpoint_def

end
