(* ===== verification/Factories.thy ===== *)
theory Factories
  imports ParameterSetters BrokerLifecycle ClientProxyLifecycle WorkerLifecycle Client NotifySubscriber
begin

text \<open>
  The default factories (i*factory.cxx): each makes a component from its parameters. A component is
  the record of its endpoints and its state at the end of the constructor's initialisers; that the
  sockets can be made is the concern of the \<open>_construct\<close> of each. The other end of a socket factory,
  \<open>ZMQSocketFactory\<close>, hands every call on to CZMQ.
\<close>

section \<open>Requests\<close>

definition BrokerFactory_Create :: "BrokerParameters \<Rightarrow> BrokerEndpoints \<times> Broker" where
  "BrokerFactory_Create p =
     (\<lparr> selfFrontendMessagingEndpoint = endpoint_path (bp_frontendMessagingEndpoint p),
        selfBackendMessagingEndpoint = endpoint_path (bp_backendMessagingEndpoint p),
        selfControllerEndpoint = endpoint_path (bp_controlEndpoint p) \<rparr>,
      Broker_new (bp_selfHeartbeatDelay p) (bp_minimumWorkerHeartbeatDelay p) (bp_workerPulseDelay p))"

definition ClientProxyFactory_Create :: "ClientProxyParameters \<Rightarrow> ClientProxyEndpoints \<times> ClientProxy" where
  "ClientProxyFactory_Create p =
     (\<lparr> cp_selfClientMessagingEndpoint = endpoint_path (cpp_selfClientMessagingEndpoint p),
        cp_selfBrokerMessagingEndpoint = endpoint_path (cpp_selfBrokerMessagingEndpoint p),
        cp_brokerMessagingEndpoint = endpoint_path (cpp_brokerMessagingEndpoint p),
        cp_selfControllerEndpoint = endpoint_path (cpp_selfControllerEndpoint p) \<rparr>,
      ClientProxy_new (cpp_selfHeartbeatDelay p) (cpp_initialBrokerHeartbeatDelay p) (cpp_brokerPulseDelay p))"

text \<open>The parameter \<open>selfInternalEndpoint\<close> goes nowhere. The types are those of the request handler.\<close>

definition WorkerFactory_Create :: "WorkerParameters \<Rightarrow> RequestType list \<Rightarrow> WorkerEndpoints \<times> Worker" where
  "WorkerFactory_Create p types =
     (\<lparr> wk_selfMessagingEndpoint = endpoint_path (wp_selfMessagingEndpoint p),
        wk_brokerMessagingEndpoint = endpoint_path (wp_brokerMessagingEndpoint p),
        wk_selfControllerEndpoint = endpoint_path (wp_selfControllerEndpoint p),
        wk_processorEndpoints =
          \<lparr> rp_selfMessagingEndpoint = endpoint_path (wp_requestHandlerInternalEndpoint p),
            rp_selfControllerEndpoint = endpoint_path (wp_requestHandlerControllerEndpoint p) \<rparr> \<rparr>,
      Worker_new (wp_selfHeartbeatDelay p) (wp_initialBrokerHeartbeatDelay p) (wp_brokerPulseDelay p) types)"

definition ClientFactory_Create :: "ClientParameters \<Rightarrow> ClientEndpoints \<times> Client" where
  "ClientFactory_Create p =
     (\<lparr> clientMessagingEndpoint = endpoint_path (clp_clientMessagingEndpoint p),
        clientProxyMessagingEndpoint = endpoint_path (clp_clientProxyMessagingEndpoint p) \<rparr>, Client_new)"

section \<open>Notifications\<close>

definition NotifyBrokerFactory_Create :: "NotifyBrokerParameters \<Rightarrow> NotifyBroker" where
  "NotifyBrokerFactory_Create p = NotifyBroker_new (nbp_frontendMessagingEndpoint p) (nbp_backendMessagingEndpoint p)"

definition NotifyPublisherFactory_Create ::
    "publisher_hosting \<Rightarrow> NotifyPublisherParameters \<Rightarrow> NotifyPublisher option publisher_hosted" where
  "NotifyPublisherFactory_Create H p =
     (if endpoint_type (npp_proxyEndpoint p) \<noteq> ET_None then
        if endpoint_type (npp_selfEndpoint p) \<noteq> ET_None
        then NotifyPublisher_both H (npp_selfEndpoint p) (npp_proxyEndpoint p)
        else NotifyPublisher_proxy H (npp_proxyEndpoint p)
      else NotifyPublisher_self H (npp_selfEndpoint p))"

text \<open>The first \<open>Create\<close> is that without subscriptions.\<close>

definition NotifySubscriberFactory_Create ::
    "subscriber_hosting \<Rightarrow> NotifySubscriberParameters \<Rightarrow> NotificationType list \<Rightarrow> bool \<Rightarrow> subscriber_host \<Rightarrow> NotifySubscriber option" where
  "NotifySubscriberFactory_Create H p subs handler h =
     NotifySubscriber_construct H (endpoint_path (nsp_selfControllerEndpoint p)) (endpoint_path (nsp_publisherEndpoint p)) subs handler h"

section \<open>Builders that are given an endpoint\<close>

lemma Build_SetEndpoint [simp]: "EndpointBuilder_Build (SetEndpoint e b) = Inr e"
  by (simp add: EndpointBuilder_Build_def SetEndpoint_def)

text \<open>What is set arrives in the parameters.\<close>

lemma built_with_endpoint:
  "WorkerParametersBuilder_Build (wpb_SetBrokerMessagingEndpoint e wb) = Inr wp \<Longrightarrow> wp_brokerMessagingEndpoint wp = e"
  "ClientProxyParametersBuilder_Build (cppb_SetBrokerEndpoint e pb) = Inr pp \<Longrightarrow> cpp_brokerMessagingEndpoint pp = e"
  "ClientParametersBuilder_Build (clpb_SetClientProxyEndpoint e cb) = Inr cp \<Longrightarrow> clp_clientProxyMessagingEndpoint cp = e"
  "NotifySubscriberParametersBuilder_Build (nspb_SetPublisherEndpoint e sb) = Inr sp \<Longrightarrow> nsp_publisherEndpoint sp = e"
  by (auto simp: WorkerParametersBuilder_Build_def ClientProxyParametersBuilder_Build_def ClientParametersBuilder_Build_def
    NotifySubscriberParametersBuilder_Build_def then_ok_Inr Let_def wpb_SetBrokerMessagingEndpoint_def cppb_SetBrokerEndpoint_def
    clpb_SetClientProxyEndpoint_def nspb_SetPublisherEndpoint_def WorkerParameters_new_def ClientProxyParameters_new_def
    ClientParameters_new_def NotifySubscriberParameters_new_def dest: OK_passes split: if_splits)

end
