(* ===== verification/FactoriesProps.thy ===== *)
theory FactoriesProps
  imports Factories
begin

text \<open>
  Components made from built parameters find each other: what one is told to connect to is what the
  other binds.
\<close>

section \<open>Requests\<close>

definition example_broker :: BrokerParametersBuilder where
  "example_broker = (bpb_SetFrontendEndpointType ET_InterProcess \<circ> bpb_SetFrontendEndpointBaseAddress ''front'' \<circ>
     bpb_SetBackendEndpointType ET_InterProcess \<circ> bpb_SetBackendEndpointBaseAddress ''back'' \<circ>
     bpb_SetControlEndpointBaseAddress ''broker'' \<circ> bpb_SetSelfHeartbeatDelay 10 \<circ> bpb_SetMinimumWorkerHeartbeatDelay 5 \<circ>
     bpb_SetWorkerPulseDelay 5) BrokerParametersBuilder_new"

definition example_worker :: WorkerParametersBuilder where
  "example_worker = (wpb_SetSelfMessagingEndpointType ET_InterProcess \<circ> wpb_SetSelfMessagingEndpointBaseAddress ''worker'' \<circ>
     wpb_SetSelfControllerEndpointBaseAddress ''worker_control'' \<circ> wpb_SetSelfInternalEndpointType ET_InterThread \<circ>
     wpb_SetSelfInternalEndpointBaseAddress ''worker_internal'' \<circ> wpb_SetRequestHandlerInternalEndpointType ET_InterThread \<circ>
     wpb_SetRequestHandlerInternalEndpointBaseAddress ''handler'' \<circ> wpb_SetRequestHandlerControllerEndpointBaseAddress ''handler_control'' \<circ>
     wpb_SetSelfHeartbeatDelay 10 \<circ> wpb_SetInitialBrokerHeartbeatDelay 10 \<circ> wpb_SetBrokerPulseDelay 5) WorkerParametersBuilder_new"

definition example_proxy :: ClientProxyParametersBuilder where
  "example_proxy = (cppb_SetSelfBrokerMessagingEndpointType ET_InterProcess \<circ> cppb_SetSelfBrokerMessagingEndpointBaseAddress ''proxy'' \<circ>
     cppb_SetSelfClientMessagingEndpointType ET_InterThread \<circ> cppb_SetSelfClientMessagingEndpointBaseAddress ''clients'' \<circ>
     cppb_SetControlEndpointBaseAddress ''proxy_control'' \<circ> cppb_SetSelfHeartbeatDelay 10 \<circ>
     cppb_SetInitialBrokerHeartbeatDelay 10 \<circ> cppb_SetBrokerPulseDelay 5) ClientProxyParametersBuilder_new"

definition example_client :: ClientParametersBuilder where
  "example_client = (clpb_SetClientEndpointType ET_InterThread \<circ> clpb_SetClientEndpointBaseAddress ''client'') ClientParametersBuilder_new"

lemma example_broker_builds: "\<exists>p. BrokerParametersBuilder_Build example_broker = Inr p"
  by (simp add: example_broker_def setter_defs BrokerParametersBuilder_new_def EndpointBuilder_new_def BrokerParametersBuilder_Build_def
    BrokerParametersBuilder_OK_def EndpointBuilder_OK_def EndpointBuilder_Build_of_def endpoint_name_def c_string_def Endpoint_of_def
    MAX_ENDPOINT_PATH_LENGTH_def)

lemma example_worker_builds: "\<exists>p. WorkerParametersBuilder_Build (wpb_SetBrokerMessagingEndpoint e example_worker) = Inr p"
  by (simp add: example_worker_def setter_defs WorkerParametersBuilder_new_def EndpointBuilder_new_def WorkerParametersBuilder_Build_def
    WorkerParametersBuilder_OK_def EndpointBuilder_OK_def EndpointBuilder_Build_def EndpointBuilder_Build_of_def endpoint_name_def
    c_string_def Endpoint_of_def MAX_ENDPOINT_PATH_LENGTH_def)

lemma example_proxy_builds: "\<exists>p. ClientProxyParametersBuilder_Build (cppb_SetBrokerEndpoint e example_proxy) = Inr p"
  by (simp add: example_proxy_def setter_defs ClientProxyParametersBuilder_new_def EndpointBuilder_new_def ClientProxyParametersBuilder_Build_def
    ClientProxyParametersBuilder_OK_def EndpointBuilder_OK_def EndpointBuilder_Build_def EndpointBuilder_Build_of_def endpoint_name_def
    c_string_def Endpoint_of_def MAX_ENDPOINT_PATH_LENGTH_def)

lemma example_client_builds: "\<exists>p. ClientParametersBuilder_Build (clpb_SetClientProxyEndpoint e example_client) = Inr p"
  by (simp add: example_client_def setter_defs ClientParametersBuilder_new_def EndpointBuilder_new_def ClientParametersBuilder_Build_def
    ClientParametersBuilder_OK_def EndpointBuilder_OK_def EndpointBuilder_Build_def EndpointBuilder_Build_of_def endpoint_name_def
    c_string_def Endpoint_of_def MAX_ENDPOINT_PATH_LENGTH_def)

text \<open>
  C40: A cluster that is configured as the builders intend meets: a worker built with the backend
  endpoint of the broker's parameters connects to the endpoint that the broker, made from those
  parameters, binds its backend to; a client proxy built with the frontend endpoint connects to where
  the frontend is bound; and a client built with the proxy's client endpoint connects to where the
  proxy binds its clients' socket.
\<close>

theorem configured_cluster_meets:
  assumes "BrokerParametersBuilder_Build bb = Inr bp"
    and w: "WorkerParametersBuilder_Build (wpb_SetBrokerMessagingEndpoint (bp_backendMessagingEndpoint bp) wb) = Inr wp"
    and p: "ClientProxyParametersBuilder_Build (cppb_SetBrokerEndpoint (bp_frontendMessagingEndpoint bp) pb) = Inr pp"
    and c: "ClientParametersBuilder_Build (clpb_SetClientProxyEndpoint (cpp_selfClientMessagingEndpoint pp) cb) = Inr cp"
  shows "(backendMessagingSocket, endpoint_path (bp_backendMessagingEndpoint bp))
        \<in> bound (asked_for (snd (run_state (activateMessagingSockets HB (fst (BrokerFactory_Create bp))) hb))) \<and>
      (WK_messaging, endpoint_path (bp_backendMessagingEndpoint bp))
        \<in> connected (asked_for (snd (run_state (wk_activateMessagingSockets HW (fst (WorkerFactory_Create wp types))) hw))) \<and>
      (frontendMessagingSocket, endpoint_path (bp_frontendMessagingEndpoint bp))
        \<in> bound (asked_for (snd (run_state (activateMessagingSockets HB (fst (BrokerFactory_Create bp))) hb))) \<and>
      (CP_broker, endpoint_path (bp_frontendMessagingEndpoint bp))
        \<in> connected (asked_for (snd (run_state (activateBrokerMessagingSockets HP (fst (ClientProxyFactory_Create pp))) hp))) \<and>
      (CP_client, endpoint_path (cpp_selfClientMessagingEndpoint pp))
        \<in> bound (asked_for (snd (run_state (activateClientMessagingSockets HP (fst (ClientProxyFactory_Create pp))) hp))) \<and>
      (CL_messaging, endpoint_path (cpp_selfClientMessagingEndpoint pp))
        \<in> connected (asked_for (snd (run_state (Client_Activate HC (fst (ClientFactory_Create cp))) hc)))"
  using built_with_endpoint(1)[OF w] built_with_endpoint(2)[OF p] built_with_endpoint(3)[OF c]
  by (simp add: activateMessagingSockets_def wk_activateMessagingSockets_def activateBrokerMessagingSockets_def
    activateClientMessagingSockets_def Client_Activate_def BrokerFactory_Create_def WorkerFactory_Create_def
    ClientProxyFactory_Create_def ClientFactory_Create_def)

lemma configured_cluster_meets_witness:
  "\<exists>bp wp e. BrokerParametersBuilder_Build example_broker = Inr bp \<and>
    (backendMessagingSocket, e) \<in> bound (asked_for (snd (run_state (activateMessagingSockets (\<lambda>_ _. 0) (fst (BrokerFactory_Create bp))) new_host))) \<and>
    (WK_messaging, e) \<in> connected (asked_for (snd (run_state (wk_activateMessagingSockets (\<lambda>_ _. 0) (fst (WorkerFactory_Create wp [1]))) new_host)))"
proof -
  obtain bp where b: "BrokerParametersBuilder_Build example_broker = Inr bp" using example_broker_builds by blast
  obtain wp where w: "WorkerParametersBuilder_Build (wpb_SetBrokerMessagingEndpoint (bp_backendMessagingEndpoint bp) example_worker) = Inr wp"
    using example_worker_builds by blast
  obtain pp where p: "ClientProxyParametersBuilder_Build (cppb_SetBrokerEndpoint (bp_frontendMessagingEndpoint bp) example_proxy) = Inr pp"
    using example_proxy_builds by blast
  obtain cp where c: "ClientParametersBuilder_Build (clpb_SetClientProxyEndpoint (cpp_selfClientMessagingEndpoint pp) example_client) = Inr cp"
    using example_client_builds by blast
  show ?thesis using configured_cluster_meets[OF b w p c] b by blast
qed

section \<open>Notifications\<close>

lemma subscribe_each_calls: "set (calls (ns_host s)) \<subseteq> set (calls (ns_host (snd (run_state (subscribe_each H ts) s))))"
proof (induction ts arbitrary: s)
  case (Cons t ts)
  let ?s = "s\<lparr>ns_host := (ns_host s)\<lparr>calls := calls (ns_host s) @ [Subscribe NS_subscriber (c_str t)]\<rparr>\<rparr>"
  show ?case using Cons.IH[of ?s] Cons.IH[of s] by simp
qed simp

text \<open>
  The same for notifications: the broker's frontend is where a subscriber connects to, its backend
  where a publisher does.
\<close>

lemma configured_notifications_meet:
  assumes n: "NotifyBrokerParametersBuilder_Build nb = Inr np" "endpoint_type (nbp_backendMessagingEndpoint np) \<noteq> ET_None"
    and p: "NotifyPublisherParametersBuilder_Build (nppb_SetProxyEndpoint (nbp_backendMessagingEndpoint np) pb) = Inr pp"
    and s: "NotifySubscriberParametersBuilder_Build (nspb_SetPublisherEndpoint (nbp_frontendMessagingEndpoint np) sb) = Inr sp"
    and made: "fst (run_state (NotifyPublisherFactory_Create HP pp) hp) = Some publisher"
      "NotifySubscriberFactory_Create HS sp subs handler hs = Some subscriber"
  shows "(\<exists>e. proxy_backend_endpoint e \<in> set (actor_calls (snd (NotifyBroker_Start True (NotifyBrokerFactory_Create np)))) \<and>
        (NP_publisher, e) \<in> connected (asked_for (snd (run_state (NotifyPublisherFactory_Create HP pp) hp)))) \<and>
    (\<exists>e. proxy_frontend_endpoint e \<in> set (actor_calls (snd (NotifyBroker_Start True (NotifyBrokerFactory_Create np)))) \<and>
        Connect NS_subscriber e \<in> set (calls (ns_host (snd (run_state (activateSubscriberSockets HS) subscriber)))))"
proof
  have e: "npp_proxyEndpoint pp = nbp_backendMessagingEndpoint np"
    using p n(2) by (auto simp: NotifyPublisherParametersBuilder_Build_def NotifyPublisherParametersBuilder_OK_def then_ok_Inr Let_def
        nppb_SetProxyEndpoint_def SetEndpoint_def EndpointBuilder_OK_def EndpointBuilder_Build_def split: if_splits)
  show "\<exists>e. proxy_backend_endpoint e \<in> set (actor_calls (snd (NotifyBroker_Start True (NotifyBrokerFactory_Create np)))) \<and>
      (NP_publisher, e) \<in> connected (asked_for (snd (run_state (NotifyPublisherFactory_Create HP pp) hp)))"
    using made(1) n(2) unfolding e[symmetric]
    by (auto simp: NotifyBroker_Start_def NotifyBrokerFactory_Create_def NotifyBroker_new_def NotifyPublisherFactory_Create_def e
        NotifyPublisher_both_def NotifyPublisher_proxy_def publisher_construct_def activatePublisherSocket_def host_defs Let_def
        Endpoint_new_def split: if_splits)
  have se: "ns_publisherEndpoint subscriber = endpoint_path (nbp_frontendMessagingEndpoint np)"
    using made(2) built_with_endpoint(4)[OF s]
    by (auto simp: NotifySubscriberFactory_Create_def NotifySubscriber_construct_def Let_def split: prod.splits if_splits)
  show "\<exists>e. proxy_frontend_endpoint e \<in> set (actor_calls (snd (NotifyBroker_Start True (NotifyBrokerFactory_Create np)))) \<and>
      Connect NS_subscriber e \<in> set (calls (ns_host (snd (run_state (activateSubscriberSockets HS) subscriber))))"
    using subscribe_each_calls[of _ HS]
    by (force simp: NotifyBroker_Start_def NotifyBrokerFactory_Create_def NotifyBroker_new_def activateSubscriberSockets_def se case_prod_unfold)
qed

end
