(* ===== verification/MessageStats.thy ===== *)
theory MessageStats
  imports Prelude
begin

text \<open>
  \<open>MessageStats\<close> (lhcluster_stats/messagestats.h, messagestats.cxx): the counters that the reactors
  write to the log every five seconds. An enumeration of counters and the list of their names are
  made from one list of choices, each with \<open>MAX\<close> at its end. The handlers only ever increment a
  counter, and nothing but the log reads one, so they are not part of the components' states.
\<close>

section \<open>Enumerations\<close>

text \<open>A choice is its name; its value is its place.\<close>

definition StatNames :: "string list \<Rightarrow> string list" where
  "StatNames choices = choices @ [''MAX'']"

definition StatMaxVal :: "string list \<Rightarrow> nat" where
  "StatMaxVal choices = length choices"

definition brokerStatNames :: "string list" where
  "brokerStatNames = [''FailedClientReceives'', ''FailedWorkerReceives'', ''WorkerHeartbeatsSent'',
     ''WorkerHeartbeatsSentFailed'', ''WorkerHeartbeatsReceived'', ''ClientHeartbeatsSent'',
     ''ClientHeartbeatsSentFailed'', ''ClientHeartbeatsReceived'', ''RequestsReceived'',
     ''ClientDuplicateRequests'', ''RequestsSent'', ''RequestsSentFailed'', ''SyncResponsesSent'',
     ''SyncResponsesSentFailed'', ''SyncRequestsCompleted'', ''AsyncRequestsCompleted'', ''WorkerDeaths'',
     ''WorkerReadies'', ''RequestsFailedDueToWorkerDeath'', ''ResponsesFromUnknownWorkers'',
     ''ResponsesForUnknownReqTypes'', ''ClientRedirectsReceived'', ''WorkerRedirectsSent'',
     ''WorkerRedirectsSentFailed'', ''WorkerReceiptsReceived'', ''WorkerReceiptsSent'',
     ''WorkerReceiptsSentFailed'', ''RequestTypesAdded'', ''MalformedBackendMessages'',
     ''MalformedFrontendMessages'', ''UnknownWorkerMessages'', ''MalformedWorkerReadies'',
     ''MalformedWorkerResponses'', ''MalformedClientRequests'']"

definition workerStatNames :: "string list" where
  "workerStatNames = [''FailedProcessorSends'', ''FailedProcessorReceives'', ''FailedBrokerReceives'',
     ''BrokerHeartbeatsSent'', ''BrokerHeartbeatsSentFailed'', ''BrokerHeartbeatsReceived'',
     ''RequestsReceived'', ''AsyncRequestsReceived'', ''SyncRequestsReceived'', ''RequestsCompletedSent'',
     ''RequestsCompletedSentFailed'', ''AsyncRequestsCompleted'', ''SyncRequestsCompleted'', ''BrokerDeaths'',
     ''ReadiesSent'', ''ReadiesSentFailed'', ''RedirectsReceived'', ''ReceiptsSent'', ''ReceiptsSentFailed'',
     ''MalformedProcessorResponse'', ''MalformedBrokerMessages'', ''MissingRequestTypeContext'',
     ''MissingRequestContext'', ''CompletedRequestsNotInProgress'']"

definition clientProxyStatNames :: "string list" where
  "clientProxyStatNames = [''FailedClientReceives'', ''FailedBrokerReceives'', ''BrokerHeartbeatsSent'',
     ''BrokerHeartbeatsSentFailed'', ''BrokerHeartbeatsReceived'', ''RequestsSent'', ''RequestsSentFailed'',
     ''MalformedClientRequests'', ''MalformedBrokerMessages'', ''ResponsesReceived'', ''ResponsesSent'',
     ''ResponsesSentFailed'', ''BrokerDeaths'', ''ReceiptsReceived'', ''BufferedResends'']"

definition requestTypeStatNames :: "string list" where
  "requestTypeStatNames = [''RequestsReceivedFor'', ''RequestsCompleted'', ''RequestsFailed'',
     ''WorkersRegistered'', ''WorkersDied'']"

definition notifySubscriberStatNames :: "string list" where
  "notifySubscriberStatNames = [''FailedPublisherReceives'', ''NotificationsReceived'',
     ''NotificationsProcessed'', ''NotificationsFailed'', ''FailedSendSubsriptions'',
     ''FailedControllerReceives'', ''MalformedCommandMessages'', ''UnknownControllerCommand'']"

section \<open>Counters\<close>

type_synonym MessageStats = "64 word list"

definition MessageStats_new :: "string list \<Rightarrow> MessageStats" where
  "MessageStats_new choices = replicate (StatMaxVal choices) 0"

definition Increment :: "nat \<Rightarrow> MessageStats \<Rightarrow> MessageStats" where
  "Increment stat stats = stats[stat := stats ! stat + 1]"

definition ClearStats :: "MessageStats \<Rightarrow> MessageStats" where
  "ClearStats stats = replicate (length stats) 0"

text \<open>The loops from \<open>stat\<close> to \<open>eStat\<close>, the enumeration's \<open>MAX\<close>.\<close>

function same_from :: "nat \<Rightarrow> nat \<Rightarrow> MessageStats \<Rightarrow> MessageStats \<Rightarrow> bool" where
  "same_from stat eStat stats rstats =
     (if stat \<ge> eStat then True
      else if stats ! stat \<noteq> rstats ! stat then False
      else same_from (stat + 1) eStat stats rstats)"
  by auto

termination
  by (relation "measure (\<lambda>(stat, eStat, _). eStat - stat)") auto

declare same_from.simps [simp del]

definition MessageStats_eq :: "string list \<Rightarrow> MessageStats \<Rightarrow> MessageStats \<Rightarrow> bool" where
  "MessageStats_eq choices stats rstats = same_from 0 (StatMaxVal choices) stats rstats"

definition GetDifferences :: "string list \<Rightarrow> MessageStats \<Rightarrow> MessageStats \<Rightarrow> nat \<rightharpoonup> 64 word \<times> 64 word" where
  "GetDifferences choices stats rstats =
     fold (\<lambda>stat differences. if stats ! stat \<noteq> rstats ! stat
       then differences(stat \<mapsto> (stats ! stat, rstats ! stat)) else differences) [0..<StatMaxVal choices] Map.empty"

section \<open>What the log gets\<close>

definition GetDelimitedStatNames :: "string list \<Rightarrow> string" where
  "GetDelimitedStatNames choices = (case StatNames choices of
     [] \<Rightarrow> []
   | name # names \<Rightarrow> fold (\<lambda>name oss. oss @ ''|'' @ name) names name)"

definition GetDelimitedStatValues :: "string list \<Rightarrow> MessageStats \<Rightarrow> string" where
  "GetDelimitedStatValues choices stats =
     fold (\<lambda>i oss. oss @ ''|'' @ decimal (unat (stats ! i))) [1..<StatMaxVal choices] (decimal (unat (stats ! 0)))"

section \<open>Properties\<close>

lemma same_from_eq: "same_from stat eStat stats rstats \<longleftrightarrow> (\<forall>i. stat \<le> i \<longrightarrow> i < eStat \<longrightarrow> stats ! i = rstats ! i)"
proof (induction stat eStat stats rstats rule: same_from.induct)
  case (1 stat eStat stats rstats)
  show ?case
  proof (cases "stat < eStat \<and> stats ! stat = rstats ! stat")
    case True
    then have "stat \<le> i \<and> i < eStat \<and> stats ! i \<noteq> rstats ! i \<longleftrightarrow> stat + 1 \<le> i \<and> i < eStat \<and> stats ! i \<noteq> rstats ! i" for i
      by (cases "i = stat") auto
    then show ?thesis using 1 True by (subst same_from.simps) auto
  next
    case False
    then show ?thesis by (subst same_from.simps) auto
  qed
qed

lemma GetDifferences_eq:
  "GetDifferences choices stats rstats i =
    (if i < StatMaxVal choices \<and> stats ! i \<noteq> rstats ! i then Some (stats ! i, rstats ! i) else None)"
proof -
  have "fold (\<lambda>stat differences. if stats ! stat \<noteq> rstats ! stat
      then differences(stat \<mapsto> (stats ! stat, rstats ! stat)) else differences) [0..<n] Map.empty i =
    (if i < n \<and> stats ! i \<noteq> rstats ! i then Some (stats ! i, rstats ! i) else None)" for n
    by (induction n) auto
  then show ?thesis by (simp add: GetDifferences_def)
qed

text \<open>Statistics are equal exactly if there are no differences.\<close>

lemma equal_without_differences:
  "MessageStats_eq choices stats rstats \<longleftrightarrow> GetDifferences choices stats rstats = Map.empty"
  by (auto simp: MessageStats_eq_def same_from_eq fun_eq_iff GetDifferences_eq)

text \<open>A counter wraps after \<open>2 ^ 64\<close> events, and counts nothing else.\<close>

lemma Increment_counts:
  assumes "stat < length stats"
  shows "((Increment stat ^^ n) stats) ! stat = stats ! stat + of_nat n"
    "i \<noteq> stat \<Longrightarrow> ((Increment stat ^^ n) stats) ! i = stats ! i"
proof -
  have "length ((Increment stat ^^ n) stats) = length stats" for n
    by (induction n) (simp_all add: Increment_def)
  then show "((Increment stat ^^ n) stats) ! stat = stats ! stat + of_nat n"
    "i \<noteq> stat \<Longrightarrow> ((Increment stat ^^ n) stats) ! i = stats ! i"
    using assms by (induction n) (simp_all add: Increment_def)
qed

text \<open>A line of the log read back: its columns.\<close>

fun columns :: "string \<Rightarrow> string list" where
  "columns [] = [[]]"
| "columns (c # cs) = (if c = CHR ''|'' then [] # columns cs
     else (case columns cs of [] \<Rightarrow> [[c]] | w # ws \<Rightarrow> (c # w) # ws))"

lemma columns_not_Nil [simp]: "columns s \<noteq> []"
  by (induction s) (auto split: list.splits)

lemma columns_word [simp]: "CHR ''|'' \<notin> set w \<Longrightarrow> columns w = [w]"
  by (induction w) auto

lemma columns_append: "CHR ''|'' \<notin> set w \<Longrightarrow> columns (s @ ''|'' @ w) = columns s @ [w]"
  by (induction s) (auto split: list.splits)

lemma columns_fold:
  "\<forall>x \<in> set xs. CHR ''|'' \<notin> set (f x) \<Longrightarrow> columns (fold (\<lambda>x oss. oss @ ''|'' @ f x) xs s) = columns s @ map f xs"
proof (induction xs arbitrary: s)
  case (Cons x xs)
  then show ?case using columns_append[of "f x" s] by simp
qed simp

lemma decimal_no_bar [simp]: "CHR ''|'' \<notin> set (decimal n)"
proof (induction n rule: decimal.induct)
  case (1 n)
  have "char_of (48 + n mod 10) \<noteq> CHR ''|''"
  proof
    assume "char_of (48 + n mod 10) = CHR ''|''"
    then have "of_char (char_of (48 + n mod 10) :: char) = (124 :: nat)" by simp
    then show False by (simp add: take_bit_eq_mod)
  qed
  with 1 show ?case by (subst decimal.simps) auto
qed

text \<open>
  The header of the statistics has a column more than the lines below it: \<open>MAX\<close> is among the names,
  but there is no such counter.
\<close>

lemma header_has_one_column_more:
  assumes "\<forall>name \<in> set choices. CHR ''|'' \<notin> set name" "choices \<noteq> []" "length stats = StatMaxVal choices"
  shows "columns (GetDelimitedStatNames choices) = choices @ [''MAX'']"
    and "columns (GetDelimitedStatValues choices stats) = map (\<lambda>n. decimal (unat n)) stats"
proof -
  obtain c cs where c: "choices = c # cs" using assms(2) by (cases choices) auto
  show "columns (GetDelimitedStatNames choices) = choices @ [''MAX'']"
    using columns_fold[of "cs @ [''MAX'']" "\<lambda>x. x" c] assms(1) by (simp add: c GetDelimitedStatNames_def StatNames_def)
  have "[0..<StatMaxVal choices] = 0 # [1..<StatMaxVal choices]"
    using upt_conv_Cons[of 0 "StatMaxVal choices"] c by (simp add: StatMaxVal_def del: upt_Suc)
  then have "map (\<lambda>n. decimal (unat n)) stats = map (\<lambda>i. decimal (unat (stats ! i))) (0 # [1..<StatMaxVal choices])"
    using assms(3) by (metis (no_types, lifting) map_nth map_map o_def list.map_cong)
  then show "columns (GetDelimitedStatValues choices stats) = map (\<lambda>n. decimal (unat n)) stats"
    unfolding GetDelimitedStatValues_def by (subst columns_fold) simp_all
qed

end
