(* ===== verification/PyMessage.thy ===== *)
theory PyMessage
  imports Client NotifyPublisher RequestProcessor
begin

text \<open>
  The core of the Python bindings, under src/libpylhclusterext: \<open>PyZMQMessage\<close> (pyzmqaddin.h), which
  Python code holds in place of a CZMQ message and which owns it or only looks at it, and the calls
  that take a message from Python or give it one: sending a request (pyclient.cxx), publishing
  (pynotifypublisher.cxx), the body of a response (pyrequestresponse.cxx) and the request handler in
  Python (pyworker.cxx).

  Who frees a message is what matters here, so messages have addresses: \<open>PyHost\<close> is the store of the
  live ones. Using or freeing a message that is not live, or a null one, is undefined (\<open>None\<close>); a C++
  exception, which Python sees as one of its own, is the left value of a sum.
\<close>

section \<open>Messages with addresses\<close>

type_synonym mptr = nat

record PyHost =
  messages :: "mptr \<Rightarrow> zmsg option"
  next_message :: mptr

definition alloc_message :: "zmsg \<Rightarrow> PyHost \<Rightarrow> mptr \<times> PyHost" where
  "alloc_message m h = (next_message h, h\<lparr>messages := (messages h)(next_message h \<mapsto> m), next_message := Suc (next_message h)\<rparr>)"

definition modify_message :: "mptr \<Rightarrow> (zmsg \<Rightarrow> zmsg) \<Rightarrow> PyHost \<Rightarrow> PyHost option" where
  "modify_message p f h = map_option (\<lambda>m. h\<lparr>messages := (messages h)(p \<mapsto> f m)\<rparr>) (messages h p)"

definition free_message :: "mptr \<Rightarrow> PyHost \<Rightarrow> PyHost" where
  "free_message p h = h\<lparr>messages := (messages h)(p := None)\<rparr>"

interpretation msgs: object_store messages modify_message alloc_message free_message next_message
  by unfold_locales (auto simp: modify_message_def alloc_message_def free_message_def)

text \<open>\<open>zmsg_destroy\<close> on a pointer that is not null, \<open>zmsg_dup\<close>, which gives null for null.\<close>

definition destroy_message :: "mptr \<Rightarrow> PyHost \<Rightarrow> PyHost option" where
  "destroy_message p h = do { _ \<leftarrow> messages h p; Some (free_message p h) }"

definition dup_message :: "env \<Rightarrow> mptr option \<Rightarrow> PyHost \<Rightarrow> (mptr option \<times> PyHost) option" where
  "dup_message E lp h =
     (case lp of
        None \<Rightarrow> Some (None, h)
      | Some p \<Rightarrow> do {
          m \<leftarrow> messages h p;
          let (q, h) = alloc_message (zmsg_dup E m) h;
          Some (Some q, h)
        })"

section \<open>PyZMQMessage\<close>

record PyZMQMessage =
  zmqMessage :: "mptr option"
  owning :: bool

definition PyZMQMessage_destroy :: "PyZMQMessage \<Rightarrow> PyHost \<Rightarrow> PyHost option" where
  "PyZMQMessage_destroy py h =
     (case zmqMessage py of
        Some p \<Rightarrow> (if owning py then destroy_message p h else Some h)
      | None \<Rightarrow> Some h)"

definition PyZMQMessage_new :: "env \<Rightarrow> PyHost \<Rightarrow> PyZMQMessage \<times> PyHost" where
  "PyZMQMessage_new E h = (let (p, h) = alloc_message (zmsg_new E) h in (\<lparr> zmqMessage = Some p, owning = True \<rparr>, h))"

text \<open>The constructor that takes the caller's message, and nulls the caller's pointer.\<close>

definition PyZMQMessage_take :: "mptr option \<Rightarrow> (string + PyZMQMessage) \<times> mptr option" where
  "PyZMQMessage_take lp =
     (if lp = None then (Inl ''zmqMessage is not valid'', None)
      else (Inr \<lparr> zmqMessage = lp, owning = True \<rparr>, None))"

definition PyZMQMessage_of :: "env \<Rightarrow> mptr option \<Rightarrow> bool \<Rightarrow> PyHost \<Rightarrow> ((string + PyZMQMessage) \<times> PyHost) option" where
  "PyZMQMessage_of E lp copyMessage h = do {
     (lq, h) \<leftarrow> (if copyMessage then dup_message E lp h else Some (lp, h));
     if lq = None then Some (Inl ''zmqMessage is not valid'', h)
     else Some (Inr \<lparr> zmqMessage = lq, owning = copyMessage \<rparr>, h)
   }"

definition PyZMQMessage_view :: "env \<Rightarrow> mptr option \<Rightarrow> PyHost \<Rightarrow> ((string + PyZMQMessage) \<times> PyHost) option" where
  "PyZMQMessage_view E lp h = PyZMQMessage_of E lp False h"

definition PyZMQMessage_copy :: "env \<Rightarrow> PyZMQMessage \<Rightarrow> PyHost \<Rightarrow> (PyZMQMessage \<times> PyHost) option" where
  "PyZMQMessage_copy E other h = do {
     (lp, h) \<leftarrow> (if owning other then dup_message E (zmqMessage other) h else Some (zmqMessage other, h));
     Some (\<lparr> zmqMessage = lp, owning = owning other \<rparr>, h)
   }"

text \<open>The new object and what is left of the one it is moved from.\<close>

definition PyZMQMessage_move :: "PyZMQMessage \<Rightarrow> PyZMQMessage \<times> PyZMQMessage" where
  "PyZMQMessage_move other = (\<lparr> zmqMessage = zmqMessage other, owning = owning other \<rparr>, \<lparr> zmqMessage = None, owning = False \<rparr>)"

definition PyZMQMessage_swap :: "PyZMQMessage \<Rightarrow> PyZMQMessage \<Rightarrow> PyZMQMessage \<times> PyZMQMessage" where
  "PyZMQMessage_swap a b =
     (a\<lparr>zmqMessage := zmqMessage b, owning := owning b\<rparr>, b\<lparr>zmqMessage := zmqMessage a, owning := owning a\<rparr>)"

text \<open>Assignment: the argument is a copy, which leaves with the old message.\<close>

definition PyZMQMessage_assign :: "env \<Rightarrow> PyZMQMessage \<Rightarrow> PyZMQMessage \<Rightarrow> PyHost \<Rightarrow> (PyZMQMessage \<times> PyHost) option" where
  "PyZMQMessage_assign E this other h = do {
     (arg, h) \<leftarrow> PyZMQMessage_copy E other h;
     let (this, arg) = PyZMQMessage_swap this arg;
     h \<leftarrow> PyZMQMessage_destroy arg h;
     Some (this, h)
   }"

definition Duplicate :: "env \<Rightarrow> PyZMQMessage \<Rightarrow> PyHost \<Rightarrow> ((string + PyZMQMessage) \<times> PyHost) option" where
  "Duplicate E py h = PyZMQMessage_of E (zmqMessage py) True h"

definition Relinquish :: "PyZMQMessage \<Rightarrow> PyZMQMessage" where
  "Relinquish py = py\<lparr>owning := False\<rparr>"

definition load_message :: "PyZMQMessage \<Rightarrow> PyHost \<Rightarrow> zmsg option" where
  "load_message py h = do { p \<leftarrow> zmqMessage py; messages h p }"

definition update_message :: "PyZMQMessage \<Rightarrow> (zmsg \<Rightarrow> zmsg) \<Rightarrow> PyHost \<Rightarrow> PyHost option" where
  "update_message py f h = do { p \<leftarrow> zmqMessage py; modify_message p f h }"

definition TotalNumberOfFrames :: "env \<Rightarrow> PyZMQMessage \<Rightarrow> PyHost \<Rightarrow> nat option" where
  "TotalNumberOfFrames E py h = map_option (zmsg_size E) (load_message py h)"

section \<open>Bytes in and out\<close>

text \<open>
  What Python may pass: \<open>None\<close>, an object with a buffer, one whose buffer cannot be had as contiguous
  bytes, any other object.
\<close>

datatype py_object = PyNone | PyBuffer "byte list" | PyUnreadable | PyOther

definition AppendBytes :: "env \<Rightarrow> PyZMQMessage \<Rightarrow> py_object \<Rightarrow> PyHost \<Rightarrow> ((string + unit) \<times> PyHost) option" where
  "AppendBytes E py obj h =
     (case obj of
        PyNone \<Rightarrow> do { h \<leftarrow> update_message py (\<lambda>m. zmsg_append E m []) h; Some (Inr (), h) }
      | PyBuffer bytes \<Rightarrow> do { h \<leftarrow> update_message py (\<lambda>m. zmsg_append E m bytes) h; Some (Inr (), h) }
      | PyUnreadable \<Rightarrow> Some (Inl ''AppendBytes failed to read object bytes'', h)
      | PyOther \<Rightarrow> Some (Inl ''AppendBytes expects an object supporting buffer protocol or None'', h))"

definition PrependBytes :: "env \<Rightarrow> PyZMQMessage \<Rightarrow> py_object \<Rightarrow> PyHost \<Rightarrow> ((string + unit) \<times> PyHost) option" where
  "PrependBytes E py obj h =
     (case obj of
        PyNone \<Rightarrow> do { h \<leftarrow> update_message py (\<lambda>m. zmsg_prepend E m []) h; Some (Inr (), h) }
      | PyBuffer bytes \<Rightarrow> do { h \<leftarrow> update_message py (\<lambda>m. zmsg_prepend E m bytes) h; Some (Inr (), h) }
      | PyUnreadable \<Rightarrow> Some (Inl ''PrependBytes failed to read object bytes'', h)
      | PyOther \<Rightarrow> Some (Inl ''PrependBytes expects an object supporting buffer protocol or None'', h))"

text \<open>The bytes that leave the message, in an object of their own; \<open>None\<close> as a value is Python's.\<close>

definition PopBytesAtBack :: "env \<Rightarrow> PyZMQMessage \<Rightarrow> PyHost \<Rightarrow> (byte list option \<times> PyHost) option" where
  "PopBytesAtBack E py h = do {
     m \<leftarrow> load_message py h;
     if zmsg_frames E m = [] then Some (None, h)
     else do {
       h \<leftarrow> update_message py (\<lambda>m. zmsg_remove E m (length (zmsg_frames E m) - 1)) h;
       Some (Some (last (zmsg_frames E m)), h)
     }
   }"

definition PopBytesAtFront :: "env \<Rightarrow> PyZMQMessage \<Rightarrow> PyHost \<Rightarrow> (byte list option \<times> PyHost) option" where
  "PopBytesAtFront E py h = do {
     m \<leftarrow> load_message py h;
     h \<leftarrow> update_message py (\<lambda>m. snd (zmsg_pop E m)) h;
     Some (fst (zmsg_pop E m), h)
   }"

text \<open>A view of the bytes of a frame. For an empty one \<open>PyBytes_FromString\<close> is given a null pointer.\<close>

definition view_frame :: "frame \<Rightarrow> byte list option" where
  "view_frame f = (if f = [] then None else Some f)"

definition BytesAtBack :: "env \<Rightarrow> PyZMQMessage \<Rightarrow> PyHost \<Rightarrow> byte list option option" where
  "BytesAtBack E py h = do {
     m \<leftarrow> load_message py h;
     if zmsg_frames E m = [] then Some None
     else map_option Some (view_frame (last (zmsg_frames E m)))
   }"

definition BytesAtFront :: "env \<Rightarrow> PyZMQMessage \<Rightarrow> PyHost \<Rightarrow> byte list option option" where
  "BytesAtFront E py h = do {
     m \<leftarrow> load_message py h;
     case zmsg_frames E m of [] \<Rightarrow> Some None | f # _ \<Rightarrow> map_option Some (view_frame f)
   }"

section \<open>Messages given away\<close>

text \<open>
  What is sent: a copy if the object owns its message, else the message itself. A send leaves the
  caller with the message or with none; what is left of a copy is destroyed.
\<close>

definition message_to_send :: "env \<Rightarrow> PyZMQMessage \<Rightarrow> PyHost \<Rightarrow> (mptr option \<times> PyHost) option" where
  "message_to_send E py h = (if owning py then dup_message E (zmqMessage py) h else Some (zmqMessage py, h))"

definition after_send :: "PyZMQMessage \<Rightarrow> int \<Rightarrow> mptr \<Rightarrow> zmsg option \<Rightarrow> PyHost \<Rightarrow> PyHost option" where
  "after_send py ret p left h =
     (case left of
        None \<Rightarrow> destroy_message p h
      | Some m \<Rightarrow> do {
          h \<leftarrow> modify_message p (\<lambda>_. m) h;
          if ret \<noteq> 0 \<and> owning py then destroy_message p h else Some h
        })"

definition sendRequestWithMessageBody ::
    "env \<Rightarrow> RequestType \<Rightarrow> RequestId \<Rightarrow> MessageFlags \<Rightarrow> PyZMQMessage \<Rightarrow> PyHost \<times> Client \<Rightarrow> (int \<times> PyHost \<times> Client) option" where
  "sendRequestWithMessageBody E requestType requestId messageFlags py s = do {
     (lp, h) \<leftarrow> message_to_send E py (fst s);
     p \<leftarrow> lp;
     m \<leftarrow> messages h p;
     let (ret, left, client) = SendRequest_msg E requestType requestId messageFlags m (snd s);
     h \<leftarrow> after_send py ret p left h;
     Some (ret, h, client)
   }"

definition sendAsynchronousRequestWithMessageBody ::
    "env \<Rightarrow> RequestType \<Rightarrow> RequestId \<Rightarrow> PyZMQMessage \<Rightarrow> PyHost \<times> Client \<Rightarrow> (int \<times> PyHost \<times> Client) option" where
  "sendAsynchronousRequestWithMessageBody E requestType requestId py s =
     sendRequestWithMessageBody E requestType requestId Asynchronous py s"

definition sendSynchronousRequestWithMessageBody ::
    "env \<Rightarrow> RequestType \<Rightarrow> RequestId \<Rightarrow> PyZMQMessage \<Rightarrow> PyHost \<times> Client \<Rightarrow> (int \<times> PyHost \<times> Client) option" where
  "sendSynchronousRequestWithMessageBody E requestType requestId py s =
     sendRequestWithMessageBody E requestType requestId MF_None py s"

type_synonym publisher_state = "(publisher_socket, unit) host"

text \<open>What the publisher leaves of a message that it could not send has the frames it put in front.\<close>

definition publishTypeMessage ::
    "publisher_hosting \<Rightarrow> env \<Rightarrow> NotificationType \<Rightarrow> PyZMQMessage \<Rightarrow> PyHost \<times> publisher_state \<Rightarrow>
     (int \<times> PyHost \<times> publisher_state) option" where
  "publishTypeMessage H E notifyType py s = do {
     (lp, h) \<leftarrow> message_to_send E py (fst s);
     p \<leftarrow> lp;
     m \<leftarrow> messages h p;
     let (ret, publisher) = run_state (Publish_msg H E notifyType m) (snd s);
     h \<leftarrow> after_send py ret p (if ret = 0 then None else Some (snd (prepend_message_value_as_str_string E m notifyType))) h;
     Some (ret, h, publisher)
   }"

definition publishTypeIdMessage ::
    "publisher_hosting \<Rightarrow> env \<Rightarrow> NotificationType \<Rightarrow> RequestId \<Rightarrow> PyZMQMessage \<Rightarrow> PyHost \<times> publisher_state \<Rightarrow>
     (int \<times> PyHost \<times> publisher_state) option" where
  "publishTypeIdMessage H E notifyType requestId py s = do {
     (lp, h) \<leftarrow> message_to_send E py (fst s);
     p \<leftarrow> lp;
     m \<leftarrow> messages h p;
     let (ret, publisher) = run_state (Publish_id_msg H E notifyType requestId m) (snd s);
     h \<leftarrow> after_send py ret p
       (if ret = 0 then None
        else Some (snd (prepend_message_value_as_str_string E
          (snd (fst (prepend_message_value_uint64 E ZMQFrameHandler_new m requestId))) notifyType))) h;
     Some (ret, h, publisher)
   }"

section \<open>Messages shown to Python\<close>

text \<open>The body of a response, which the response keeps and destroys.\<close>

definition getMessageBody :: "env \<Rightarrow> mptr option \<Rightarrow> PyHost \<Rightarrow> ((string + PyZMQMessage) \<times> PyHost) option" where
  "getMessageBody E body h = PyZMQMessage_of E body False h"

record PyProcessorResult =
  pr_status :: RequestStatus
  pr_message :: PyZMQMessage

definition PyProcessorResult_new :: "env \<Rightarrow> PyHost \<Rightarrow> PyProcessorResult \<times> PyHost" where
  "PyProcessorResult_new E h =
     (let (py, h) = PyZMQMessage_new E h in (\<lparr> pr_status = RS_None, pr_message = py \<rparr>, h))"

definition SetStatus :: "RequestStatus \<Rightarrow> PyProcessorResult \<Rightarrow> PyProcessorResult" where
  "SetStatus status r = r\<lparr>pr_status := status\<rparr>"

text \<open>
  \<open>PyProcess\<close> of the handler that the Python program has is a parameter: it gets a view of the request,
  and returns a result or raises.
\<close>

type_synonym py_request_handler =
  "LHCVersionFlags \<Rightarrow> RequestType \<Rightarrow> RequestId \<Rightarrow> PyZMQMessage \<Rightarrow> PyHost \<Rightarrow> ((string + PyProcessorResult) \<times> PyHost) option"

definition PyIRequestHandlerWrapper_Process ::
    "env \<Rightarrow> py_request_handler \<Rightarrow> LHCVersionFlags \<Rightarrow> RequestType \<Rightarrow> RequestId \<Rightarrow> mptr option \<Rightarrow> PyHost \<Rightarrow>
     ((string + RequestStatus \<times> mptr option) \<times> PyHost) option" where
  "PyIRequestHandlerWrapper_Process E pyProcess vfs requestType requestId message h = do {
     (view, h) \<leftarrow> PyZMQMessage_view E message h;
     case view of
       Inl e \<Rightarrow> Some (Inl e, h)
     | Inr pyZMQMessage \<Rightarrow> do {
         (pyRet, h) \<leftarrow> pyProcess vfs requestType requestId pyZMQMessage h;
         case pyRet of
           Inl e \<Rightarrow> Some (Inl e, h)
         | Inr r \<Rightarrow> do {
             (second, h) \<leftarrow> (if owning (pr_message r) then dup_message E (zmqMessage (pr_message r)) h
                            else Some (zmqMessage (pr_message r), h));
             h \<leftarrow> PyZMQMessage_destroy (pr_message r) h;
             Some (Inr (pr_status r, second), h)
           }
       }
   }"

text \<open>The handler of notifications is shown the message in the same way.\<close>

type_synonym py_notify_handler = "NotificationType \<Rightarrow> PyZMQMessage \<Rightarrow> PyHost \<Rightarrow> ((string + RequestStatus) \<times> PyHost) option"

definition PyINotifyHandlerWrapper_Process ::
    "env \<Rightarrow> py_notify_handler \<Rightarrow> NotificationType \<Rightarrow> mptr option \<Rightarrow> PyHost \<Rightarrow> ((string + RequestStatus) \<times> PyHost) option" where
  "PyINotifyHandlerWrapper_Process E pyProcess notificationType notificationMsg h = do {
     (view, h) \<leftarrow> PyZMQMessage_view E notificationMsg h;
     case view of
       Inl e \<Rightarrow> Some (Inl e, h)
     | Inr pyNotificationMsg \<Rightarrow> pyProcess notificationType pyNotificationMsg h
   }"

text \<open>The names that Python has for the states of a request, as they are bound.\<close>

definition RequestStatus_names :: "(string \<times> RequestStatus) list" where
  "RequestStatus_names =
     [(''None'', RS_None), (''New'', RS_New), (''InProgress'', RS_InProgress), (''Succeeded'', RS_Succeeded),
      (''Failed'', RS_Failed), (''FatalError'', RS_FatalError), (''Rejected'', RS_Rejected),
      (''WorkerDeath'', RS_Rejected), (''Redirected'', RS_Rejected)]"

end
