(* ===== verification/PyMessageProps.thy ===== *)
theory PyMessageProps
  imports PyMessage
begin

text \<open>
  Who owns the messages that Python programs handle: nothing is freed twice and nothing is left over as
  long as every object owns its message; a message that is only looked at must not be sent.
\<close>

section \<open>Stores of messages\<close>

definition fresh_ok :: "PyHost \<Rightarrow> bool" where
  "fresh_ok h \<longleftrightarrow> (\<forall>p. next_message h \<le> p \<longrightarrow> messages h p = None)"

lemma fresh_okD: "fresh_ok h \<Longrightarrow> messages h (next_message h) = None"
  by (simp add: fresh_ok_def)

lemma live_not_fresh: "fresh_ok h \<Longrightarrow> messages h p = Some m \<Longrightarrow> p < next_message h"
  by (rule ccontr) (auto simp: fresh_ok_def not_less)

lemma fresh_ok_alloc [simp]: "fresh_ok h \<Longrightarrow> fresh_ok (snd (alloc_message m h))"
  by (auto simp: fresh_ok_def alloc_message_def)

lemma fresh_ok_free [simp]: "fresh_ok h \<Longrightarrow> fresh_ok (free_message p h)"
  by (auto simp: fresh_ok_def free_message_def)

lemma fresh_ok_modify: "fresh_ok h \<Longrightarrow> modify_message p f h = Some h' \<Longrightarrow> fresh_ok h'"
  by (auto simp: fresh_ok_def modify_message_def)

lemma modify_next: "modify_message p f h = Some h' \<Longrightarrow> next_message h' = next_message h"
  by (auto simp: modify_message_def)

text \<open>The objects with the messages \<open>ps\<close>, all of them owned, are all there is.\<close>

definition owner :: "mptr \<Rightarrow> PyZMQMessage" where
  "owner p = \<lparr> zmqMessage = Some p, owning = True \<rparr>"

lemma owner_simps [simp]: "zmqMessage (owner p) = Some p" "owning (owner p)"
  by (simp_all add: owner_def)

definition owned_by :: "mptr list \<Rightarrow> PyHost \<Rightarrow> bool" where
  "owned_by ps h \<longleftrightarrow> distinct ps \<and> dom (messages h) = set ps \<and> fresh_ok h"

lemma owned_byD: "owned_by ps h \<Longrightarrow> p \<in> set ps \<Longrightarrow> \<exists>m. messages h p = Some m"
  unfolding owned_by_def by blast

lemma owned_by_alloc: "owned_by ps h \<Longrightarrow> alloc_message m h = (p, h') \<Longrightarrow> owned_by (ps @ [p]) h'"
proof -
  assume o: "owned_by ps h" and a: "alloc_message m h = (p, h')"
  then have "fresh_ok h'" using fresh_ok_alloc[of h m] by (simp add: owned_by_def)
  moreover have "p \<notin> set ps" using o msgs.alloc_get[OF a] fresh_okD[of h] domIff[of p "messages h"] by (simp add: owned_by_def)
  moreover have "dom (messages h') = insert p (dom (messages h))" using msgs.alloc_get[OF a] by simp
  ultimately show "owned_by (ps @ [p]) h'" using o by (simp add: owned_by_def)
qed

lemma owned_by_modify: "owned_by ps h \<Longrightarrow> modify_message p f h = Some h' \<Longrightarrow> owned_by ps h'"
proof -
  assume o: "owned_by ps h" and a: "modify_message p f h = Some h'"
  obtain x where x: "messages h p = Some x" "messages h' = (messages h)(p \<mapsto> f x)" using msgs.modify_SomeD[OF a] by blast
  then have "dom (messages h') = dom (messages h)" by auto
  then show "owned_by ps h'" using o fresh_ok_modify[OF _ a] by (simp add: owned_by_def)
qed

lemma owned_by_free: "owned_by (ps @ p # qs) h \<Longrightarrow> owned_by (ps @ qs) (free_message p h)"
  unfolding owned_by_def by (auto simp: msgs.free_get)

lemma owned_by_nth: "n < length ps \<Longrightarrow> owned_by ps h \<Longrightarrow> \<exists>m. messages h (ps ! n) = Some m"
  by (rule owned_byD) auto

section \<open>Single operations\<close>

lemma destroy_live: "messages h p = Some m \<Longrightarrow> destroy_message p h = Some (free_message p h)"
  by (simp add: destroy_message_def)

lemma modify_live_message: "messages h p = Some m \<Longrightarrow> \<exists>h'. modify_message p f h = Some h'"
  using msgs.modify_live[of h p m f] by blast

lemma dup_live:
  "czmq_ok E \<Longrightarrow> messages h p = Some m \<Longrightarrow>
    dup_message E (Some p) h = Some (Some (next_message h), snd (alloc_message m h))"
  by (simp add: dup_message_def alloc_message_def czmq_laws Let_def)

lemma Duplicate_owner:
  "czmq_ok E \<Longrightarrow> messages h p = Some m \<Longrightarrow>
    Duplicate E (owner p) h = Some (Inr (owner (next_message h)), snd (alloc_message m h))"
  by (simp add: Duplicate_def PyZMQMessage_of_def dup_live owner_def)

text \<open>An operation on the bytes changes the frames of its own message, at most.\<close>

lemma AppendBytes_runs:
  "messages h p = Some m \<Longrightarrow> runs_to (AppendBytes E (owner p) obj h) (\<lambda>(_, h'). h' = h \<or> (\<exists>f. modify_message p f h = Some h'))"
  by (cases obj) (auto simp: AppendBytes_def update_message_def modify_message_def)

lemma PrependBytes_runs:
  "messages h p = Some m \<Longrightarrow> runs_to (PrependBytes E (owner p) obj h) (\<lambda>(_, h'). h' = h \<or> (\<exists>f. modify_message p f h = Some h'))"
  by (cases obj) (auto simp: PrependBytes_def update_message_def modify_message_def)

lemma PopBytesAtBack_runs:
  "messages h p = Some m \<Longrightarrow> runs_to (PopBytesAtBack E (owner p) h) (\<lambda>(_, h'). h' = h \<or> (\<exists>f. modify_message p f h = Some h'))"
  by (auto simp: PopBytesAtBack_def load_message_def update_message_def modify_message_def)

lemma PopBytesAtFront_runs:
  "messages h p = Some m \<Longrightarrow> runs_to (PopBytesAtFront E (owner p) h) (\<lambda>(_, h'). h' = h \<or> (\<exists>f. modify_message p f h = Some h'))"
  by (auto simp: PopBytesAtFront_def load_message_def update_message_def modify_message_def)

text \<open>A send frees what it is given exactly if it succeeds.\<close>

lemma SendRequest_msg_left:
  assumes "send_ok E" "SendRequest_msg E t i mfs m c = (ret, left, c')"
  shows "left = None \<longleftrightarrow> ret = 0"
proof -
  let ?x = "with_header E t i mfs m"
  have "snd (zmsg_send E (cl_sends c) Backend ?x) = (if fst (zmsg_send E (cl_sends c) Backend ?x) = 0 then None else Some ?x)"
    using assms(1) by (simp add: send_ok_def)
  then show ?thesis using assms(2) by (auto simp: SendRequest_msg_def Send_def split: prod.splits if_splits)
qed

text \<open>Sending an owned message leaves the messages as they are, whether the send succeeds or not.\<close>

lemma send_owned:
  assumes "czmq_ok E" "send_ok E" and m: "messages h p = Some m" and f: "fresh_ok h"
  shows "runs_to (sendRequestWithMessageBody E t i mfs (owner p) (h, c))
    (\<lambda>(ret, h', c'). messages h' = messages h \<and> fresh_ok h' \<and> (ret, c') = (let (ret, _, c') = SendRequest_msg E t i mfs m c in (ret, c')))"
proof -
  obtain ret left c' where s: "SendRequest_msg E t i mfs m c = (ret, left, c')" by (cases "SendRequest_msg E t i mfs m c")
  have l: "left = None \<longleftrightarrow> ret = 0" by (rule SendRequest_msg_left[OF assms(2) s])
  have n: "(messages h)(next_message h := None) = messages h" using fresh_okD[OF f] by auto
  have fr: "\<And>x. fresh_ok (h\<lparr>messages := (messages h)(next_message h := x), next_message := Suc (next_message h)\<rparr>)"
    using f by (auto simp: fresh_ok_def)
  show ?thesis
    using l n f unfolding sendRequestWithMessageBody_def
    by (cases left) (auto simp: message_to_send_def dup_live[OF assms(1) m] alloc_message_def s after_send_def
        destroy_message_def free_message_def modify_message_def fresh_ok_def)
qed

section \<open>Whole programs\<close>

text \<open>
  What a Python program does with messages of its own; an index that names no object, or an exception,
  changes nothing.
\<close>

datatype py_call =
    Make
  | DuplicateOf nat
  | Append nat py_object
  | Prepend nat py_object
  | PopBack nat
  | PopFront nat
  | SendIt nat RequestType RequestId MessageFlags
  | Delete nat

record PyProgram =
  py_objects :: "PyZMQMessage list"
  py_host :: PyHost
  py_client :: Client

definition PyProgram_new :: "Client \<Rightarrow> PyProgram" where
  "PyProgram_new c = \<lparr> py_objects = [], py_host = \<lparr> messages = Map.empty, next_message = 0 \<rparr>, py_client = c \<rparr>"

fun target :: "py_call \<Rightarrow> nat option" where
  "target Make = None"
| "target (DuplicateOf n) = Some n"
| "target (Append n _) = Some n"
| "target (Prepend n _) = Some n"
| "target (PopBack n) = Some n"
| "target (PopFront n) = Some n"
| "target (SendIt n _ _ _) = Some n"
| "target (Delete n) = Some n"

fun on_object :: "env \<Rightarrow> py_call \<Rightarrow> PyZMQMessage \<Rightarrow> PyProgram \<Rightarrow> PyProgram option" where
  "on_object E Make py s = Some s"
| "on_object E (DuplicateOf n) py s = do {
     (r, h) \<leftarrow> Duplicate E py (py_host s);
     Some (s\<lparr>py_objects := py_objects s @ (case r of Inl _ \<Rightarrow> [] | Inr made \<Rightarrow> [made]), py_host := h\<rparr>)
   }"
| "on_object E (Append n obj) py s = do { (_, h) \<leftarrow> AppendBytes E py obj (py_host s); Some (s\<lparr>py_host := h\<rparr>) }"
| "on_object E (Prepend n obj) py s = do { (_, h) \<leftarrow> PrependBytes E py obj (py_host s); Some (s\<lparr>py_host := h\<rparr>) }"
| "on_object E (PopBack n) py s = do { (_, h) \<leftarrow> PopBytesAtBack E py (py_host s); Some (s\<lparr>py_host := h\<rparr>) }"
| "on_object E (PopFront n) py s = do { (_, h) \<leftarrow> PopBytesAtFront E py (py_host s); Some (s\<lparr>py_host := h\<rparr>) }"
| "on_object E (SendIt n t i mfs) py s = do {
     (_, h, c) \<leftarrow> sendRequestWithMessageBody E t i mfs py (py_host s, py_client s);
     Some (s\<lparr>py_host := h, py_client := c\<rparr>)
   }"
| "on_object E (Delete n) py s = do {
     h \<leftarrow> PyZMQMessage_destroy py (py_host s);
     Some (s\<lparr>py_objects := take n (py_objects s) @ drop (Suc n) (py_objects s), py_host := h\<rparr>)
   }"

definition py_step :: "env \<Rightarrow> py_call \<Rightarrow> PyProgram \<Rightarrow> PyProgram option" where
  "py_step E call s =
     (case target call of
        None \<Rightarrow> (let (made, h) = PyZMQMessage_new E (py_host s) in Some (s\<lparr>py_objects := py_objects s @ [made], py_host := h\<rparr>))
      | Some n \<Rightarrow> (if n < length (py_objects s) then on_object E call (py_objects s ! n) s else Some s))"

fun py_run :: "env \<Rightarrow> py_call list \<Rightarrow> PyProgram \<Rightarrow> PyProgram option" where
  "py_run E [] s = Some s"
| "py_run E (call # rest) s = do { s \<leftarrow> py_step E call s; py_run E rest s }"

text \<open>At exit Python destroys the objects that are left.\<close>

fun destroy_all :: "PyZMQMessage list \<Rightarrow> PyHost \<Rightarrow> PyHost option" where
  "destroy_all [] h = Some h"
| "destroy_all (py # rest) h = do { h \<leftarrow> PyZMQMessage_destroy py h; destroy_all rest h }"

definition owns_all :: "PyProgram \<Rightarrow> bool" where
  "owns_all s \<longleftrightarrow> (\<exists>ps. py_objects s = map owner ps \<and> owned_by ps (py_host s))"

lemma owns_all_bytes:
  assumes "py_objects s = map owner ps" "owned_by ps (py_host s)" "h' = py_host s \<or> (\<exists>f. modify_message p f (py_host s) = Some h')"
  shows "owns_all (s\<lparr>py_host := h'\<rparr>)"
  using assms owned_by_modify[of ps "py_host s" p _ h'] by (auto simp: owns_all_def)

lemma on_object_owns:
  assumes E: "czmq_ok E" "send_ok E" and s: "py_objects s = map owner ps" "owned_by ps (py_host s)" and n: "n < length ps"
    and t: "target call = Some n"
  shows "runs_to (on_object E call (owner (ps ! n)) s) owns_all"
proof -
  obtain m where m: "messages (py_host s) (ps ! n) = Some m" using owned_by_nth[OF n s(2)] by blast
  have all: "owns_all s" using s by (auto simp: owns_all_def)
  note bytes = owns_all_bytes[OF s, where p = "ps ! n"]
  show ?thesis
  proof (cases call)
    case (DuplicateOf k)
    obtain q h where a: "alloc_message m (py_host s) = (q, h)" by (cases "alloc_message m (py_host s)")
    then have q: "q = next_message (py_host s)" by (simp add: alloc_message_def)
    have "owned_by (ps @ [q]) h" by (rule owned_by_alloc[OF s(2) a])
    then have "owns_all (s\<lparr>py_objects := py_objects s @ [owner q], py_host := h\<rparr>)"
      unfolding owns_all_def using s(1) by (intro exI[of _ "ps @ [q]"]) simp
    then show ?thesis using a q by (simp add: DuplicateOf Duplicate_owner[OF E(1) m])
  next
    case (SendIt k t' i mfs)
    have f: "fresh_ok (py_host s)" using s(2) by (simp add: owned_by_def)
    show ?thesis using send_owned[OF E m f, of t' i mfs "py_client s"] s
      by (auto simp: SendIt owns_all_def owned_by_def elim!: runs_to_weaken)
  next
    case (Delete k)
    then have k: "k = n" using t by simp
    have "owned_by (take n ps @ drop (Suc n) ps) (free_message (ps ! n) (py_host s))"
      using owned_by_free[of "take n ps" "ps ! n" "drop (Suc n) ps"] s(2) id_take_nth_drop[OF n] by simp
    then show ?thesis using s(1)
      by (auto simp: Delete k PyZMQMessage_destroy_def destroy_live[OF m] owns_all_def take_map drop_map
          intro!: exI[of _ "take n ps @ drop (Suc n) ps"])
  next
    case (Append k obj)
    show ?thesis using AppendBytes_runs[OF m, of E obj] by (auto simp: Append all elim!: runs_to_weaken intro!: bytes)
  next
    case (Prepend k obj)
    show ?thesis using PrependBytes_runs[OF m, of E obj] by (auto simp: Prepend all elim!: runs_to_weaken intro!: bytes)
  next
    case (PopBack k)
    show ?thesis using PopBytesAtBack_runs[OF m, of E] by (auto simp: PopBack all elim!: runs_to_weaken intro!: bytes)
  next
    case (PopFront k)
    show ?thesis using PopBytesAtFront_runs[OF m, of E] by (auto simp: PopFront all elim!: runs_to_weaken intro!: bytes)
  qed (use t in simp)
qed

lemma py_step_owns:
  assumes E: "czmq_ok E" "send_ok E" and s: "owns_all s"
  shows "runs_to (py_step E call s) owns_all"
proof -
  obtain ps where ps: "py_objects s = map owner ps" "owned_by ps (py_host s)" using s by (auto simp: owns_all_def)
  show ?thesis
  proof (cases "target call")
    case None
    obtain p h where a: "alloc_message (zmsg_new E) (py_host s) = (p, h)" by (cases "alloc_message (zmsg_new E) (py_host s)")
    have "owns_all (s\<lparr>py_objects := py_objects s @ [owner p], py_host := h\<rparr>)"
      using owned_by_alloc[OF ps(2) a] ps(1) unfolding owns_all_def by (intro exI[of _ "ps @ [p]"]) simp
    then show ?thesis by (simp add: py_step_def None PyZMQMessage_new_def a owner_def)
  next
    case (Some n)
    then show ?thesis using on_object_owns[OF E ps _ Some] ps(1) s by (cases "n < length ps") (simp_all add: py_step_def)
  qed
qed

lemma py_run_owns:
  "czmq_ok E \<Longrightarrow> send_ok E \<Longrightarrow> owns_all s \<Longrightarrow> runs_to (py_run E prog s) owns_all"
proof (induction prog arbitrary: s)
  case (Cons call prog)
  show ?case using py_step_owns[OF Cons.prems, of call] Cons.IH[OF Cons.prems(1,2)] by (auto elim!: runs_to_weaken)
qed simp

lemma destroy_all_owned: "owned_by ps h \<Longrightarrow> runs_to (destroy_all (map owner ps) h) (\<lambda>h'. messages h' = Map.empty)"
proof (induction ps arbitrary: h)
  case Nil
  then show ?case by (auto simp: owned_by_def)
next
  case (Cons p ps)
  obtain m where "messages h p = Some m" using owned_byD[OF Cons.prems, of p] by auto
  then show ?case using Cons.IH[of "free_message p h"] owned_by_free[of "[]" p ps h] Cons.prems
    by (simp add: PyZMQMessage_destroy_def destroy_live)
qed

text \<open>
  C38: A Python program that makes, copies, fills, empties, sends and deletes messages of its own, in any
  order and whatever sends fail, never uses or frees a message that is gone, and when it ends no
  message is left over.
\<close>

theorem python_messages_balance:
  assumes "czmq_ok E" "send_ok E"
  shows "runs_to (do { s \<leftarrow> py_run E prog (PyProgram_new c); destroy_all (py_objects s) (py_host s) })
    (\<lambda>h. messages h = Map.empty)"
proof -
  have "owns_all (PyProgram_new c)"
    by (auto simp: owns_all_def PyProgram_new_def owned_by_def fresh_ok_def)
  then have "runs_to (py_run E prog (PyProgram_new c)) owns_all" by (rule py_run_owns[OF assms])
  then show ?thesis unfolding runs_to_bind
    by (rule runs_to_weaken) (use destroy_all_owned in \<open>auto simp: owns_all_def\<close>)
qed

lemma python_messages_balance_witness:
  "runs_to (do { s \<leftarrow> py_run (ref_env (\<lambda>h m. h = [])) [Make, Append 0 (PyBuffer [1]), SendIt 0 1 5 MF_None, DuplicateOf 0, PopFront 0,
       SendIt 1 1 6 MF_None, Delete 0, Append 7 PyNone] (PyProgram_new Client_new);
     destroy_all (py_objects s) (py_host s) }) (\<lambda>h. messages h = Map.empty)"
  by (rule python_messages_balance) simp_all

section \<open>Views\<close>

text \<open>
  C39: After a request is sent with a message from Python, whoever else holds the message can destroy it
  exactly if the Python object owned its own: the body of a response, which is only looked at, is gone
  when the response destroys it.
\<close>

theorem sent_view_is_freed_twice:
  assumes E: "czmq_ok E" "send_ok E" and f: "fresh_ok h" and p: "zmqMessage py = Some p" "messages h p = Some m"
    and sent: "fst (SendRequest_msg E t i mfs m c) = 0"
  shows "runs_to (sendRequestWithMessageBody E t i mfs py (h, c)) (\<lambda>(ret, h', _). destroy_message p h' = None \<longleftrightarrow> \<not> owning py)"
proof (cases "owning py")
  case True
  then have "py = owner p" using p(1) by (cases py) (simp add: owner_def)
  then show ?thesis using send_owned[OF E p(2) f, of t i mfs c] p(2)
    by (auto simp: destroy_message_def elim!: runs_to_weaken)
next
  case False
  obtain left c' where s: "SendRequest_msg E t i mfs m c = (0, left, c')"
    using sent by (cases "SendRequest_msg E t i mfs m c") simp
  have "left = None" using SendRequest_msg_left[OF E(2) s] by simp
  then show ?thesis using False p s
    by (simp add: sendRequestWithMessageBody_def message_to_send_def after_send_def destroy_message_def free_message_def)
qed

lemma sent_view_is_freed_twice_witness:
  "\<exists>py h. getMessageBody (ref_env (\<lambda>_ _. False)) (Some 0) \<lparr> messages = [0 \<mapsto> [[7]]], next_message = 1 \<rparr> = Some (Inr py, h) \<and>
     runs_to (sendRequestWithMessageBody (ref_env (\<lambda>_ _. False)) 1 5 MF_None py (h, Client_new)) (\<lambda>(ret, h', _). destroy_message 0 h' = None)"
proof (intro exI conjI)
  let ?E = "ref_env (\<lambda>_ _. False)" and ?h = "\<lparr> messages = [0 \<mapsto> [[7]]], next_message = 1 \<rparr>" and ?py = "\<lparr> zmqMessage = Some 0, owning = False \<rparr>"
  show "getMessageBody ?E (Some 0) ?h = Some (Inr ?py, ?h)" by (simp add: getMessageBody_def PyZMQMessage_of_def)
  have "fst (SendRequest_msg ?E 1 5 MF_None [[7]] Client_new) = 0"
    by (simp add: SendRequest_msg_def Send_def ref_env_def split: prod.splits)
  then show "runs_to (sendRequestWithMessageBody ?E 1 5 MF_None ?py (?h, Client_new)) (\<lambda>(ret, h', _). destroy_message 0 h' = None)"
    using sent_view_is_freed_twice[of ?E ?h ?py 0 "[[7]]" 1 5 MF_None Client_new] by (simp add: fresh_ok_def)
qed

text \<open>An empty frame, which \<open>AppendBytes\<close> adds for \<open>None\<close>, can be taken off the message but not looked at.\<close>

lemma empty_frame_has_no_view:
  assumes "czmq_ok E" "zmqMessage py = Some p" "messages h p = Some []"
  shows "runs_to (AppendBytes E py PyNone h) (\<lambda>(r, h'). r = Inr () \<and> BytesAtFront E py h' = None \<and> BytesAtBack E py h' = None \<and>
    runs_to (PopBytesAtFront E py h') (\<lambda>(bytes, _). bytes = Some []))"
  using assms by (simp add: AppendBytes_def BytesAtFront_def BytesAtBack_def PopBytesAtFront_def load_message_def update_message_def
      modify_message_def czmq_laws view_frame_def)

text \<open>
  What a handler in Python returns reaches the processor as a message of its own: a copy if the result
  still owns its message, which the result then destroys, or the message itself if it was relinquished.
\<close>

lemma handler_result_is_handed_over:
  assumes E: "czmq_ok E" and r: "pyProcess vfs t i \<lparr> zmqMessage = Some q, owning = False \<rparr> h = Some (Inr r, h1)"
    and p: "zmqMessage (pr_message r) = Some p" "messages h1 p = Some m" and f: "fresh_ok h1"
  shows "runs_to (PyIRequestHandlerWrapper_Process E pyProcess vfs t i (Some q) h)
    (\<lambda>(x, h'). \<exists>p'. x = Inr (pr_status r, Some p') \<and> messages h' = (messages h1)(p := None, p' \<mapsto> m))"
proof -
  have n: "p \<noteq> next_message h1" using live_not_fresh[OF f p(2)] by simp
  show ?thesis
  proof (cases "owning (pr_message r)")
    case True
    then show ?thesis using n p by (simp add: PyIRequestHandlerWrapper_Process_def PyZMQMessage_view_def PyZMQMessage_of_def r
          dup_live[OF E p(2)] PyZMQMessage_destroy_def destroy_message_def free_message_def alloc_message_def fun_upd_twist)
  next
    case False
    then show ?thesis using p by (simp add: PyIRequestHandlerWrapper_Process_def PyZMQMessage_view_def PyZMQMessage_of_def r
          PyZMQMessage_destroy_def fun_upd_idem)
  qed
qed

text \<open>The name that Python has for a dead worker is bound to another state.\<close>

lemma worker_death_reads_as_rejected:
  "map_of RequestStatus_names ''WorkerDeath'' = map_of RequestStatus_names ''Rejected'' \<and> RS_WorkerDeath \<notin> snd ` set RequestStatus_names"
  by (simp add: RequestStatus_names_def)

end
