(* ===== verification/Spec2Isabelle.thy ===== *)
theory Spec2Isabelle
  imports BrokerClientProps BrokerSystemProps BrokerWorkerProps BrokerDeathProps BrokerQueueProps
    BrokerDrain BrokerLifecycleProps WireProps ClientProxyProps
    WorkerProps WorkerLifecycleProps ClusterProps NotifyProps ParametersProps
    FactoriesProps MessageStats PyMessageProps
begin

text \<open>
  \<^bold>\<open>lhcluster: a verification development.\<close>

  lhcluster distributes requests from clients to workers through a broker. A client sends a
  request of a numbered type through its proxy to the broker's frontend socket; the broker
  forwards it to a worker that announced the type and has capacity, on its backend socket, or
  queues it; the worker's answer travels back along the envelope of the request. Heartbeats in
  both directions tell who is alive; requests of dead workers are retried, reported or dropped
  according to their flags. Everything happens in one thread per component, in callbacks that a
  CZMQ reactor (\<open>zloop\<close>) runs one after another.

  \<^bold>\<open>How the code is modelled.\<close> A handler is a function \<open>env \<Rightarrow> arguments \<Rightarrow> state \<Rightarrow> (code \<times> state) option\<close>;
  \<open>None\<close> means that the C++ code has undefined behaviour there (a freed object, a null or end
  pointer) or never returns. \<open>env\<close> holds the code that is not in the repository as functions:
  CZMQ messages, the result of each send, the generated protobuf classes. The theorems assume of
  it only \<open>env_ok\<close>: messages are lists of frames, a failed send keeps the message, the ROUTER
  frontend does not fail, what protobuf writes it reads back (a string only if it is 7-bit text,
  which is sure to be UTF-8; no theorem needs it). Sends on the backend may fail at
  any time unless a theorem says \<open>backend_ok\<close>. Time and received messages are arguments of the
  callbacks. Integers have their C++ widths as words where they can wrap.

  \<^bold>\<open>Theories, bottom up\<close> (sources under src/liblhcluster/):
  \<^item> Prelude: total correctness of option-valued computations, association lists.
  \<^item> Cluster: cluster.h. External: the code outside the repository and \<open>ref_env\<close>, a concrete
    instance for witnesses. FrameHandler: zmqframehandler.cxx. Messages: utils.cxx.
    WireProps: round trips, the version order, delays. Handlers: parsing a header, outcomes of a
    handler, \<open>env_ok\<close>.
  \<^item> RequestState: requeststate.cxx. WorkerInfo: workerinfo.cxx, workerinfolookup.cxx.
    RequestTypeContext: brokerrequesttypecontext.cxx, with the interface \<open>fifo_queue\<close> that its
    queue of pending requests is an instance of.
  \<^item> BrokerState, BrokerForward, BrokerClient, BrokerWorker, BrokerLoop: broker.cxx, in the order of
    its layers: the objects and pointers, moving one request, the frontend handlers, the backend
    handlers, the reactor callbacks and the main loop.
  \<^item> BrokerSpec: closed forms of the operations that move a request. BrokerInv: the invariant
    \<open>broker_inv\<close> that relates queues, request states, workers and contexts, and what each kind of
    update does to it. BrokerSafe, BrokerDispatch, BrokerDeath, BrokerSweep, BrokerFinished: every
    handler completes and keeps the invariant; the \<open>while\<close> loops end because capacity is finite.
  \<^item> BrokerSystem: the broker as an instance of the interface \<open>safe_machine\<close>, and the states it
    reaches. BrokerRequests, BrokerBackend: from frames on the wire to the handlers.
    BrokerExamples: small reachable states for the witnesses.
  \<^item> BrokerSystemProps, BrokerClientProps, BrokerWorkerProps, BrokerDeathProps: the properties of the
    whole broker, of its frontend, of its backend, and of the death of workers. BrokerQueueProps:
    a queue of pending requests refines a plain list. BrokerDrain: a new worker empties queues.
  \<^item> Host: sockets made by the factory, the reactor, the thread. Every call is recorded and answered
    by a parameter. \<open>asked_for\<close> is what the calls asked for and did not ask to release, whatever they
    answered; \<open>granted\<close> goes by the answers and is what is bound, connected, registered. The results
    of a release that the code ignores matter: a socket that is not destroyed keeps its address.
    A thread that cannot be made is the exception of \<open>std::thread\<close>, so a \<open>Start\<close> that gives \<open>False\<close>
    has thrown. BrokerLifecycle, BrokerLifecycleProps: construction, start, stop and destruction of
    the broker.
  \<^item> ClientRequestBuffer: clientrequestbuffer.cxx. ClientProxy: the handlers and callbacks of
    clientproxy.cxx; they dereference nothing that may be gone, so they are total functions
    \<open>outcome \<times> ClientProxy\<close>. ClientProxyLifecycle: its start and stop, and \<open>StartAsPrimary\<close>, whose turns
    end when the reactor does. ClientProxyProps: its properties, and a request and its answer on
    their way through proxy and broker.
  \<^item> WorkerContexts: workerrequesttypecontext.cxx, clientrequestcontext.cxx. Worker: the handlers and
    callbacks of worker.cxx. RequestProcessor: requestprocessor.cxx, with the request handler
    \<open>Process\<close> as a parameter. WorkerLifecycle: start and stop of a worker and its \<open>StartAsPrimary\<close>, one
    turn per broker; the processor's thread runs inside the turn and is placed before its join.
  \<^item> WorkerInv: the invariant \<open>worker_wf\<close> of the worker's tables and its proof for every callback,
    an instance of \<open>safe_machine\<close> too. WorkerRequests: closed forms of what worker and processor do
    with a message. WorkerTally: the history of sends read as requests given, answered, and answers
    lost in a failed send; the states a worker reaches over all its turns. WorkerProps, WorkerLifecycleProps: its properties.
  \<^item> SafeMachine: the interface \<open>safe_machine\<close>: a step function that, from states that satisfy an
    invariant and for trusted events, returns and keeps it; its client is a loop over events.
  \<^item> RequestResponse: requestresponse.cxx. Client: client.cxx; what arrives while a call waits is an
    argument. ClientProps: sending and collecting. ClusterProps: a request and its answer through
    all components, from the call that sends it to the call that returns its answer.
  \<^item> Endpoint: endpoint.cxx, endpointbuilder.cxx. Parameters: the parameters of each component and
    their builders; an exception is the left value of a sum. ParametersProps: their properties.
    ParameterSetters: the setters. Factories, FactoriesProps: the components made from parameters,
    and that they meet.
  \<^item> NotifyPublisher: notifypublisher.cxx, notifybroker.cxx. NotifySubscriber: notifysubscriber.cxx, in
    the monad of its state; the sockets it calls are Host's. NotifyProps: publishing, the filters a
    subscriber leaves on its socket (counted as ZeroMQ counts them), what stops it.
  \<^item> MessageStats: the counters of lhcluster_stats/messagestats.h and the lines of the log. The timer
    that writes them is a callback of each reactor; the counters are no part of the states.
  \<^item> PyMessage, under src/libpylhclusterext: the messages that Python programs hold, own, send and are
    shown, in a store of addresses. PyMessageProps: when nothing is freed twice or left over.

  \<^bold>\<open>What the broker trusts.\<close> \<open>trusted_event\<close> states it: clients do not combine \<open>AllowRedirect\<close> with
  \<open>RetryOnDeath\<close>, workers announce each type once and finish only requests they were given.
  Without these the code does have undefined behaviour: the findings of the manifest say where.

  \<^bold>\<open>Bounds.\<close> No fuel is used: loops that may not end are \<open>partial_function\<close>s and are shown to end. The
  reactor loop and the reconnections of proxy and worker run on a finite list of events: what happens outside.

  \<^bold>\<open>Not modelled.\<close> Logging and the counters in the components (output only), the socket factory and
  sender/receiver (thin wrappers over CZMQ, whose results are parameters), the forwarding classes of
  the public headers, the textual forms of numbers in the frame handler (nothing uses them). Of the
  Python bindings: the cursor and the total size of a message, the guards of the interpreter lock, the
  export declarations, and the wrappers of builders and factories, which only forward.
\<close>

end
